(* ===== verification/Prelude.thy ===== *)
theory Prelude
  imports Main "HOL-Library.Multiset" "HOL-Library.Char_ord" "HOL-Library.List_Lexorder"
    "HOL-Library.Sublist"
begin

section \<open>Shared vocabulary of the development\<close>

text \<open>
  What every component of the toolkit shares: Go errors as values, sequencing of fallible
  operations, the \<open>seen\<close>-map loop that the code uses wherever it drops duplicates, and the
  sorting routine behind \<open>sort.Slice\<close>, \<open>sort.Strings\<close> and \<open>slices.Sort\<close>.  A Go string is a
  \<open>string\<close>, that is a list of bytes; with the imported orders its \<open><\<close> is Go's bytewise
  lexicographic comparison.
\<close>

named_theorems result_simps \<open>rewriting of fallible computations\<close>
named_theorems seen_simps \<open>facts about the duplicate-dropping loops\<close>

subsection \<open>Errors and results\<close>

text \<open>
  \<open>Errorf\<close> is an error created by the code, with its message; \<open>Wrap\<close> one that wraps another
  (\<open>%w\<close> and \<open>%v\<close> alike); \<open>Joined\<close> is \<open>errors.Join\<close>; \<open>Panic\<close> is a run-time panic, for example the
  dereference of a nil pointer.
\<close>

datatype error =
    Errorf string
  | Wrap string error
  | Joined "error list"
  | Panic string

type_synonym 'a result = "error + 'a"

definition bindR :: "'a result \<Rightarrow> ('a \<Rightarrow> 'b result) \<Rightarrow> 'b result" where
  "bindR r f = (case r of Inl e \<Rightarrow> Inl e | Inr x \<Rightarrow> f x)"

text \<open>A returned error is wrapped with a message; a panic unwinds past the caller as it is.\<close>

definition wrapR :: "string \<Rightarrow> 'a result \<Rightarrow> 'a result" where
  "wrapR msg r =
     (case r of Inr x \<Rightarrow> Inr x | Inl (Panic p) \<Rightarrow> Inl (Panic p) | Inl e \<Rightarrow> Inl (Wrap msg e))"

text \<open>A loop that collects the results of a fallible operation and stops at the first error.\<close>

fun mapR :: "('a \<Rightarrow> 'b result) \<Rightarrow> 'a list \<Rightarrow> 'b list result" where
  "mapR f [] = Inr []"
| "mapR f (x # xs) = bindR (f x) (\<lambda>y. bindR (mapR f xs) (\<lambda>ys. Inr (y # ys)))"

text \<open>A loop that threads a state through fallible steps and stops at the first error.\<close>

fun foldR :: "('s \<Rightarrow> 'a \<Rightarrow> 's result) \<Rightarrow> 's \<Rightarrow> 'a list \<Rightarrow> 's result" where
  "foldR f s [] = Inr s"
| "foldR f s (x # xs) = bindR (f s x) (\<lambda>s'. foldR f s' xs)"

lemma bindR_Inr [simp, result_simps]: "bindR (Inr x) f = f x"
  by (simp add: bindR_def)

lemma bindR_Inl [simp, result_simps]: "bindR (Inl e) f = Inl e"
  by (simp add: bindR_def)

lemma bindR_eq_Inr [result_simps]: "bindR r f = Inr y \<longleftrightarrow> (\<exists>x. r = Inr x \<and> f x = Inr y)"
  by (cases r) auto

lemma bindR_eq_Inl [result_simps]:
  "bindR r f = Inl e \<longleftrightarrow> r = Inl e \<or> (\<exists>x. r = Inr x \<and> f x = Inl e)"
  by (cases r) auto

lemma bindR_assoc: "bindR (bindR r f) g = bindR r (\<lambda>x. bindR (f x) g)"
  by (cases r) auto

lemma wrapR_Inr [simp, result_simps]: "wrapR m (Inr x) = Inr x"
  by (simp add: wrapR_def)

lemma wrapR_Inl [simp, result_simps]:
  "wrapR m (Inl (Panic p)) = Inl (Panic p)"
  "wrapR m (Inl (Errorf e)) = Inl (Wrap m (Errorf e))"
  "wrapR m (Inl (Wrap n e')) = Inl (Wrap m (Wrap n e'))"
  "wrapR m (Inl (Joined es)) = Inl (Wrap m (Joined es))"
  by (simp_all add: wrapR_def)

lemma wrapR_eq_Inr [simp, result_simps]: "wrapR m r = Inr y \<longleftrightarrow> r = Inr y"
  by (auto simp: wrapR_def split: sum.splits error.splits)

lemma isl_wrapR [simp, result_simps]: "isl (wrapR m r) \<longleftrightarrow> isl r"
  by (auto simp: wrapR_def split: sum.splits error.splits)

lemma mapR_Inr_total: "(\<And>x. x \<in> set xs \<Longrightarrow> f x = Inr (g x)) \<Longrightarrow> mapR f xs = Inr (map g xs)"
  by (induction xs) auto

lemma mapR_Inr_iff: "mapR f xs = Inr ys \<longleftrightarrow> list_all2 (\<lambda>x y. f x = Inr y) xs ys"
proof (induction xs arbitrary: ys)
  case Nil
  then show ?case by auto
next
  case (Cons x xs)
  then show ?case by (cases ys) (auto simp: bindR_eq_Inr)
qed

lemma mapR_Inl: "x \<in> set xs \<Longrightarrow> f x = Inl e \<Longrightarrow> \<exists>e'. mapR f xs = Inl e'"
proof (induction xs)
  case (Cons a xs)
  then show ?case by (cases "f a") (auto simp: bindR_eq_Inl)
qed simp

lemma foldR_append: "foldR f s (xs @ ys) = bindR (foldR f s xs) (\<lambda>s'. foldR f s' ys)"
  by (induction xs arbitrary: s) (auto simp: bindR_assoc)

lemma foldR_invariant:
  assumes "foldR f s xs = Inr t" and "P s"
    and "\<And>s x s'. x \<in> set xs \<Longrightarrow> P s \<Longrightarrow> f s x = Inr s' \<Longrightarrow> P s'"
  shows "P t"
  using assms by (induction xs arbitrary: s) (auto simp: bindR_eq_Inr)

subsection \<open>The duplicate-dropping loop\<close>

text \<open>
  The loop
  \<^verbatim>\<open>
    seen := make(map[K]bool)
    for _, e := range xs {
        id := key(e)
        if seen[id] { continue }
        seen[id] = true
        out = append(out, e)
    }
  \<close>
  started with a map \<open>seen\<close> (an absent key reads as \<open>false\<close>).
\<close>

fun seen_loop :: "('a \<Rightarrow> 'k) \<Rightarrow> ('k \<Rightarrow> bool) \<Rightarrow> 'a list \<Rightarrow> 'a list" where
  "seen_loop key seen [] = []"
| "seen_loop key seen (x # xs) =
     (if seen (key x) then seen_loop key seen xs
      else x # seen_loop key (seen(key x := True)) xs)"

abbreviation unique_by :: "('a \<Rightarrow> 'k) \<Rightarrow> 'a list \<Rightarrow> 'a list" where
  "unique_by key \<equiv> seen_loop key (\<lambda>_. False)"

lemma key_set_seen_loop [seen_simps]:
  "key ` set (seen_loop key seen xs) = {k \<in> key ` set xs. \<not> seen k}"
  by (induction xs arbitrary: seen) auto

lemma set_seen_loop_subset: "set (seen_loop key seen xs) \<subseteq> set xs"
  by (induction xs arbitrary: seen) (auto split: if_splits)

lemma distinct_seen_loop [seen_simps]: "distinct (map key (seen_loop key seen xs))"
proof (induction xs arbitrary: seen)
  case (Cons x xs)
  have "key x \<notin> key ` set (seen_loop key (seen(key x := True)) xs)"
    by (simp add: key_set_seen_loop)
  with Cons show ?case by simp
qed simp

lemma seen_loop_fresh:
  "distinct (map key xs) \<Longrightarrow> (\<And>x. x \<in> set xs \<Longrightarrow> \<not> seen (key x)) \<Longrightarrow> seen_loop key seen xs = xs"
proof (induction xs arbitrary: seen)
  case (Cons x xs)
  have "\<not> (seen(key x := True)) (key y)" if "y \<in> set xs" for y
    using that Cons.prems by (auto simp: image_iff)
  then have "seen_loop key (seen(key x := True)) xs = xs"
    using Cons.prems(1) by (intro Cons.IH) auto
  then show ?case using Cons.prems(2) by simp
qed simp

lemma unique_by_idem [seen_simps]: "unique_by key (unique_by key xs) = unique_by key xs"
  by (rule seen_loop_fresh) (simp_all add: distinct_seen_loop)

lemma unique_by_nonempty: "unique_by key xs = [] \<longleftrightarrow> xs = []"
  by (cases xs) auto

lemma set_unique_id [seen_simps]: "set (unique_by id xs) = set xs"
  using key_set_seen_loop [of id "\<lambda>_. False" xs] by simp

lemma distinct_unique_id [seen_simps]: "distinct (unique_by id xs)"
  using distinct_seen_loop [of id "\<lambda>_. False" xs] by simp

text \<open>The loop keeps, for every key, the first element that has it.\<close>

lemma seen_loop_first:
  assumes "x \<in> set (seen_loop key seen xs)"
  shows "find (\<lambda>y. key y = key x) xs = Some x"
  using assms
proof (induction xs arbitrary: seen)
  case (Cons a xs)
  show ?case
  proof (cases "x = a \<and> \<not> seen (key a)")
    case True
    then show ?thesis by simp
  next
    case False
    then have mem: "x \<in> set (seen_loop key (seen(key a := True)) xs)"
    proof (cases "seen (key a)")
      case True
      then have "seen(key a := True) = seen" by (intro ext) simp
      with True Cons.prems show ?thesis by simp
    next
      case False
      with Cons.prems \<open>\<not> (x = a \<and> \<not> seen (key a))\<close> show ?thesis by auto
    qed
    then have "key x \<in> key ` set (seen_loop key (seen(key a := True)) xs)" by simp
    then have "key a \<noteq> key x" by (auto simp: key_set_seen_loop)
    with Cons.IH [OF mem] show ?thesis by simp
  qed
qed simp

lemma subseq_seen_loop: "subseq (seen_loop key seen xs) xs"
  by (induction xs arbitrary: seen) auto

subsection \<open>Sorting\<close>

text \<open>
  \<open>sort.Slice\<close>: the insertion sort that Go runs on up to twelve elements (each element is moved
  left past the sorted prefix while it is less), here on slices of any length.  On longer
  slices Go may order elements that compare equal differently; no statement of this development
  depends on that order unless the keys are distinct.
\<close>

fun insert_last :: "('a \<Rightarrow> 'a \<Rightarrow> bool) \<Rightarrow> 'a \<Rightarrow> 'a list \<Rightarrow> 'a list" where
  "insert_last lt x [] = [x]"
| "insert_last lt x (y # ys) = (if lt x y then y # insert_last lt x ys else x # y # ys)"

definition sort_Slice :: "('a \<Rightarrow> 'a \<Rightarrow> bool) \<Rightarrow> 'a list \<Rightarrow> 'a list" where
  "sort_Slice lt xs = rev (foldl (\<lambda>acc x. insert_last lt x acc) [] xs)"

abbreviation sort_Strings :: "string list \<Rightarrow> string list" where
  "sort_Strings \<equiv> sort_Slice (<)"

lemma mset_insert_last: "mset (insert_last lt x ys) = add_mset x (mset ys)"
  by (induction ys) auto

lemma mset_foldl_insert_last:
  "mset (foldl (\<lambda>acc x. insert_last lt x acc) acc xs) = mset acc + mset xs"
  by (induction xs arbitrary: acc) (auto simp: mset_insert_last)

lemma mset_sort_Slice [simp]: "mset (sort_Slice lt xs) = mset xs"
  by (simp add: sort_Slice_def mset_foldl_insert_last)

lemma set_sort_Slice [simp]: "set (sort_Slice lt xs) = set xs"
  by (metis mset_sort_Slice set_mset_mset)

lemma length_sort_Slice [simp]: "length (sort_Slice lt xs) = length xs"
  by (metis mset_sort_Slice size_mset)

lemma distinct_sort_Slice [simp]: "distinct (sort_Slice lt xs) \<longleftrightarrow> distinct xs"
  by (metis mset_sort_Slice mset_eq_imp_distinct_iff)

lemma sorted_insert_last:
  fixes k :: "'a \<Rightarrow> 'b::linorder"
  assumes "sorted (rev (map k ys))"
  shows "sorted (rev (map k (insert_last (\<lambda>a b. k a < k b) x ys)))"
  using assms
proof (induction ys)
  case (Cons y ys)
  have "set (insert_last (\<lambda>a b. k a < k b) x ys) = insert x (set ys)"
    by (metis mset_insert_last set_mset_add_mset_insert set_mset_mset)
  with Cons show ?case by (auto simp: sorted_append)
qed simp

lemma sorted_sort_Slice_key:
  fixes k :: "'a \<Rightarrow> 'b::linorder"
  shows "sorted (map k (sort_Slice (\<lambda>a b. k a < k b) xs))"
proof -
  have "sorted (rev (map k (foldl (\<lambda>acc x. insert_last (\<lambda>a b. k a < k b) x acc) acc xs)))"
    if "sorted (rev (map k acc))" for acc
    using that by (induction xs arbitrary: acc) (auto simp: sorted_insert_last)
  then show ?thesis by (simp add: sort_Slice_def rev_map)
qed

lemma sorted_sort_Strings: "sorted (sort_Strings xs)"
  using sorted_sort_Slice_key [of id xs] by simp

text \<open>On a key that tells the elements apart the result is determined.\<close>

lemma sort_Slice_unique:
  fixes k :: "'a \<Rightarrow> 'b::linorder"
  assumes "mset ys = mset xs" and "sorted (map k ys)" and "inj_on k (set xs)"
  shows "sort_Slice (\<lambda>a b. k a < k b) xs = ys"
proof -
  let ?zs = "sort_Slice (\<lambda>a b. k a < k b) xs"
  have "mset (map k ?zs) = mset (map k ys)"
    using assms(1) by simp
  then have eq: "map k ?zs = map k ys"
    using assms(2) sorted_sort_Slice_key [of k xs]
    by (metis properties_for_sort)
  have "set ys = set xs" using assms(1) by (metis set_mset_mset)
  then have "inj_on k (set ?zs \<union> set ys)" using assms(3) by simp
  then show ?thesis using eq by (metis inj_on_map_eq_map)
qed

lemma sort_Strings_sort: "sort_Strings xs = sort xs"
  using sort_Slice_unique [of "sort xs" xs id] by simp

lemma sort_Strings_cong: "mset xs = mset ys \<Longrightarrow> sort_Strings xs = sort_Strings ys"
  by (simp add: sort_Strings_sort properties_for_sort)

subsection \<open>Pointwise relations of lists\<close>

lemma list_all2_setR: "list_all2 P xs ys \<Longrightarrow> y \<in> set ys \<Longrightarrow> \<exists>x \<in> set xs. P x y"
  by (induction rule: list_all2_induct) auto

lemma list_all2_setL: "list_all2 P xs ys \<Longrightarrow> x \<in> set xs \<Longrightarrow> \<exists>y \<in> set ys. P x y"
  by (induction rule: list_all2_induct) auto

end
