(* ===== verification/Go_Strings.thy ===== *)
theory Go_Strings
  imports Prelude
begin

section \<open>The Go string library\<close>

text \<open>
  The functions of Go's packages \<open>strings\<close> and \<open>strconv\<close> that the toolkit calls, on byte lists.
  Separators and cutsets in the code are never empty.
\<close>

subsection \<open>Prefixes, suffixes, searching\<close>

definition HasPrefix :: "string \<Rightarrow> string \<Rightarrow> bool" where
  "HasPrefix s p \<longleftrightarrow> take (length p) s = p"

definition HasSuffix :: "string \<Rightarrow> string \<Rightarrow> bool" where
  "HasSuffix s p \<longleftrightarrow> HasPrefix (rev s) (rev p)"

definition TrimPrefix :: "string \<Rightarrow> string \<Rightarrow> string" where
  "TrimPrefix s p = (if HasPrefix s p then drop (length p) s else s)"

definition TrimSuffix :: "string \<Rightarrow> string \<Rightarrow> string" where
  "TrimSuffix s p = (if HasSuffix s p then take (length s - length p) s else s)"

fun Index :: "string \<Rightarrow> string \<Rightarrow> nat option" where
  "Index [] sep = (if sep = [] then Some 0 else None)"
| "Index (c # cs) sep =
     (if HasPrefix (c # cs) sep then Some 0 else map_option Suc (Index cs sep))"

definition Contains :: "string \<Rightarrow> string \<Rightarrow> bool" where
  "Contains s sep \<longleftrightarrow> Index s sep \<noteq> None"

text \<open>\<open>strings.IndexAny\<close> with a set of ASCII characters.\<close>

definition IndexAny :: "string \<Rightarrow> string \<Rightarrow> nat option" where
  "IndexAny s chars =
     (let n = length (takeWhile (\<lambda>c. c \<notin> set chars) s) in if n < length s then Some n else None)"

text \<open>\<open>strings.Count\<close> of a single-character separator.\<close>

definition CountChar :: "string \<Rightarrow> char \<Rightarrow> nat" where
  "CountChar s c = count_list s c"

subsection \<open>Splitting and joining\<close>

text \<open>\<open>strings.Split\<close>; the empty separator, which the code never passes, splits into bytes.\<close>

function Split :: "string \<Rightarrow> string \<Rightarrow> string list" where
  "Split s sep =
     (if sep = [] then map (\<lambda>c. [c]) s
      else case Index s sep of
             None \<Rightarrow> [s]
           | Some i \<Rightarrow> take i s # Split (drop (i + length sep) s) sep)"
  by pat_completeness auto

lemma Index_bound: "Index s sep = Some i \<Longrightarrow> i + length sep \<le> length s"
proof (induction s arbitrary: i)
  case Nil
  then show ?case by (simp split: if_splits)
next
  case (Cons c cs)
  show ?case
  proof (cases "HasPrefix (c # cs) sep")
    case True
    then have "length (take (length sep) (c # cs)) = length sep"
      by (simp add: HasPrefix_def)
    then have "length sep \<le> length (c # cs)"
      by (metis length_take min.cobounded1)
    with True Cons.prems show ?thesis by auto
  next
    case False
    with Cons show ?thesis by auto
  qed
qed

termination Split
proof (relation "measure (\<lambda>(s, sep). length s)")
  fix s sep :: string and i
  assume "sep \<noteq> []" "Index s sep = Some i"
  then have "i + length sep \<le> length s" "0 < length sep" by (auto dest: Index_bound)
  then show "((drop (i + length sep) s, sep), (s, sep)) \<in> measure (\<lambda>(s, sep). length s)"
    by (cases sep) auto
qed simp

declare Split.simps [simp del]

text \<open>\<open>strings.SplitN\<close> with a positive limit.\<close>

fun SplitN :: "string \<Rightarrow> string \<Rightarrow> nat \<Rightarrow> string list" where
  "SplitN s sep 0 = []"
| "SplitN s sep (Suc 0) = [s]"
| "SplitN s sep (Suc (Suc n)) =
     (case Index s sep of
        None \<Rightarrow> [s]
      | Some i \<Rightarrow> take i s # SplitN (drop (i + length sep) s) sep (Suc n))"

abbreviation SplitN2 :: "string \<Rightarrow> string \<Rightarrow> string list" where
  "SplitN2 s sep \<equiv> SplitN s sep (Suc (Suc 0))"

fun StrJoin :: "string list \<Rightarrow> string \<Rightarrow> string" where
  "StrJoin [] sep = []"
| "StrJoin [s] sep = s"
| "StrJoin (s # t # ss) sep = s @ sep @ StrJoin (t # ss) sep"

subsection \<open>Trimming\<close>

text \<open>
  The UTF-8 encodings of the characters for which \<open>unicode.IsSpace\<close> holds, that
  \<open>strings.TrimSpace\<close> removes at both ends.
\<close>

definition utf8_spaces :: "string list" where
  "utf8_spaces =
     [[CHR 0x09], [CHR 0x0A], [CHR 0x0B], [CHR 0x0C], [CHR 0x0D], [CHR 0x20],
      [CHR 0xC2, CHR 0x85], [CHR 0xC2, CHR 0xA0], [CHR 0xE1, CHR 0x9A, CHR 0x80],
      [CHR 0xE2, CHR 0x80, CHR 0x80], [CHR 0xE2, CHR 0x80, CHR 0x81],
      [CHR 0xE2, CHR 0x80, CHR 0x82], [CHR 0xE2, CHR 0x80, CHR 0x83],
      [CHR 0xE2, CHR 0x80, CHR 0x84], [CHR 0xE2, CHR 0x80, CHR 0x85],
      [CHR 0xE2, CHR 0x80, CHR 0x86], [CHR 0xE2, CHR 0x80, CHR 0x87],
      [CHR 0xE2, CHR 0x80, CHR 0x88], [CHR 0xE2, CHR 0x80, CHR 0x89],
      [CHR 0xE2, CHR 0x80, CHR 0x8A], [CHR 0xE2, CHR 0x80, CHR 0xA8],
      [CHR 0xE2, CHR 0x80, CHR 0xA9], [CHR 0xE2, CHR 0x80, CHR 0xAF],
      [CHR 0xE2, CHR 0x81, CHR 0x9F], [CHR 0xE3, CHR 0x80, CHR 0x80]]"

function strip_prefixes :: "string list \<Rightarrow> string \<Rightarrow> string" where
  "strip_prefixes ps s =
     (case find (\<lambda>p. p \<noteq> [] \<and> HasPrefix s p) ps of
        None \<Rightarrow> s
      | Some p \<Rightarrow> strip_prefixes ps (drop (length p) s))"
  by pat_completeness auto
termination strip_prefixes
proof (relation "measure (\<lambda>(ps, s). length s)")
  fix ps :: "string list" and s p :: string
  assume "find (\<lambda>p. p \<noteq> [] \<and> HasPrefix s p) ps = Some p"
  then have "p \<noteq> []" "take (length p) s = p"
    by (auto simp: find_Some_iff HasPrefix_def)
  then have "s \<noteq> []" by auto
  with \<open>p \<noteq> []\<close> show "((ps, drop (length p) s), (ps, s)) \<in> measure (\<lambda>(ps, s). length s)"
    by simp
qed simp

declare strip_prefixes.simps [simp del]

definition TrimSpace :: "string \<Rightarrow> string" where
  "TrimSpace s =
     rev (strip_prefixes (map rev utf8_spaces) (rev (strip_prefixes utf8_spaces s)))"

text \<open>\<open>strings.TrimLeft\<close> and \<open>strings.Trim\<close> with an ASCII cutset.\<close>

definition TrimLeft :: "string \<Rightarrow> string \<Rightarrow> string" where
  "TrimLeft s cutset = dropWhile (\<lambda>c. c \<in> set cutset) s"

definition TrimRight :: "string \<Rightarrow> string \<Rightarrow> string" where
  "TrimRight s cutset = rev (dropWhile (\<lambda>c. c \<in> set cutset) (rev s))"

definition Trim :: "string \<Rightarrow> string \<Rightarrow> string" where
  "Trim s cutset = TrimRight (TrimLeft s cutset) cutset"

subsection \<open>Numbers and booleans\<close>

definition is_digit :: "char \<Rightarrow> bool" where
  "is_digit c \<longleftrightarrow> CHR ''0'' \<le> c \<and> c \<le> CHR ''9''"

definition digit_val :: "char \<Rightarrow> nat" where
  "digit_val c = of_char c - 48"

text \<open>\<open>strconv.ParseUint(s, 10, bits)\<close>: digits only, and a range check.\<close>

definition digits_val :: "string \<Rightarrow> nat" where
  "digits_val s = foldl (\<lambda>n c. 10 * n + digit_val c) 0 s"

definition ParseUint :: "string \<Rightarrow> nat \<Rightarrow> nat result" where
  "ParseUint s bits =
     (if s = [] \<or> \<not> list_all is_digit s then Inl (Errorf (''invalid syntax: '' @ s))
      else if digits_val s < 2 ^ bits then Inr (digits_val s)
      else Inl (Errorf (''value out of range: '' @ s)))"

text \<open>\<open>strconv.ParseBool\<close>.\<close>

definition ParseBool :: "string \<Rightarrow> bool result" where
  "ParseBool s =
     (if s \<in> set [''1'', ''t'', ''T'', ''TRUE'', ''true'', ''True''] then Inr True
      else if s \<in> set [''0'', ''f'', ''F'', ''FALSE'', ''false'', ''False''] then Inr False
      else Inl (Errorf (''invalid syntax: '' @ s)))"

subsection \<open>Lemmas\<close>

lemma HasPrefix_append: "HasPrefix s p \<longleftrightarrow> (\<exists>t. s = p @ t)"
  by (metis HasPrefix_def append_eq_conv_conj append_take_drop_id)

lemma HasPrefix_simps [simp]:
  "HasPrefix s []" "HasPrefix (p @ s) p" "HasPrefix [] p \<longleftrightarrow> p = []"
  "HasPrefix (c # s) (d # p) \<longleftrightarrow> c = d \<and> HasPrefix s p"
  by (auto simp: HasPrefix_append)

lemma HasSuffix_append: "HasSuffix s p \<longleftrightarrow> (\<exists>t. s = t @ p)"
  unfolding HasSuffix_def HasPrefix_append by (metis rev_append rev_rev_ident)

lemma TrimPrefix_append [simp]: "TrimPrefix (p @ s) p = s"
  by (simp add: TrimPrefix_def)

lemma TrimPrefix_inverse: "HasPrefix s p \<Longrightarrow> p @ TrimPrefix s p = s"
  by (auto simp: HasPrefix_append)

lemma TrimSuffix_append [simp]: "TrimSuffix (s @ p) p = s"
  by (simp add: TrimSuffix_def HasSuffix_append)

lemma length_TrimSuffix_less: "HasSuffix s p \<Longrightarrow> p \<noteq> [] \<Longrightarrow> length (TrimSuffix s p) < length s"
  by (auto simp: HasSuffix_append)

lemma HasPrefix_single: "HasPrefix s [c] \<longleftrightarrow> s \<noteq> [] \<and> hd s = c"
  by (cases s) auto

text \<open>Searching for and splitting at a single character.\<close>

lemma Index_char:
  "Index s [c] = (if c \<in> set s then Some (length (takeWhile (\<lambda>x. x \<noteq> c) s)) else None)"
  by (induction s) auto

lemma Contains_char [simp]: "Contains s [c] \<longleftrightarrow> c \<in> set s"
  by (simp add: Contains_def Index_char)

lemma Split_char_notin: "c \<notin> set s \<Longrightarrow> Split s [c] = [s]"
  by (subst Split.simps) (simp add: Index_char)

lemma takeWhile_append_sep: "c \<notin> set s \<Longrightarrow> takeWhile (\<lambda>x. x \<noteq> c) (s @ c # t) = s"
  by (induction s) auto

lemma Split_char_append: "c \<notin> set s \<Longrightarrow> Split (s @ c # t) [c] = s # Split t [c]"
  by (subst Split.simps) (simp add: Index_char takeWhile_append_sep)

lemma SplitN2_char_notin: "c \<notin> set s \<Longrightarrow> SplitN2 s [c] = [s]"
  by (simp add: Index_char)

lemma SplitN2_char_append: "c \<notin> set s \<Longrightarrow> SplitN2 (s @ c # t) [c] = [s, t]"
  by (simp add: Index_char takeWhile_append_sep)

lemma Split_char_induct [case_names notin append]:
  assumes "\<And>s. c \<notin> set s \<Longrightarrow> P s"
    and "\<And>s t. c \<notin> set s \<Longrightarrow> P t \<Longrightarrow> P (s @ c # t)"
  shows "P s"
proof (induction s rule: length_induct)
  case (1 s)
  show ?case
  proof (cases "c \<in> set s")
    case False
    then show ?thesis by (rule assms(1))
  next
    case True
    then obtain a b where ab: "s = a @ c # b" "c \<notin> set a"
      by (metis split_list_first)
    then have "P b" using 1 by simp
    with ab show ?thesis by (simp add: assms(2))
  qed
qed

lemma Split_char_nonempty [simp]: "Split s [c] \<noteq> []"
  by (subst Split.simps) (auto split: option.split)

lemma Split_char_no_sep: "t \<in> set (Split s [c]) \<Longrightarrow> c \<notin> set t"
  by (induction s rule: Split_char_induct [where c = c])
     (auto simp: Split_char_notin Split_char_append)

lemma StrJoin_Cons: "ss \<noteq> [] \<Longrightarrow> StrJoin (s # ss) sep = s @ sep @ StrJoin ss sep"
  by (cases ss) auto

lemma StrJoin_Split_char: "StrJoin (Split s [c]) [c] = s"
  by (induction s rule: Split_char_induct [where c = c])
     (auto simp: Split_char_notin Split_char_append StrJoin_Cons)

lemma Split_StrJoin_char:
  "ss \<noteq> [] \<Longrightarrow> (\<forall>s \<in> set ss. c \<notin> set s) \<Longrightarrow> Split (StrJoin ss [c]) [c] = ss"
proof (induction ss)
  case (Cons s ss)
  then show ?case
    by (cases "ss = []") (auto simp: Split_char_notin Split_char_append StrJoin_Cons)
qed simp

lemma Split_char_subset: "x \<in> set t \<Longrightarrow> t \<in> set (Split s [c]) \<Longrightarrow> x \<in> set s"
  by (induction s rule: Split_char_induct [where c = c])
     (auto simp: Split_char_notin Split_char_append)

text \<open>Trimming: the result is a part of the string, and no space is left at its ends.\<close>

lemma strip_prefixes_suffix: "\<exists>u. s = u @ strip_prefixes ps s"
proof (induction ps s rule: strip_prefixes.induct)
  case (1 ps s)
  show ?case
  proof (cases "find (\<lambda>p. p \<noteq> [] \<and> HasPrefix s p) ps")
    case None
    then show ?thesis by (subst strip_prefixes.simps) simp
  next
    case (Some p)
    then have "HasPrefix s p" by (auto simp: find_Some_iff)
    then obtain t where t: "s = p @ t" by (auto simp: HasPrefix_append)
    from "1.IH" [OF Some] obtain u where "drop (length p) s = u @ strip_prefixes ps (drop (length p) s)" ..
    with Some t show ?thesis by (subst strip_prefixes.simps) (metis append.assoc append_eq_conv_conj option.simps(5))
  qed
qed

lemma strip_prefixes_id: "(\<And>p. p \<in> set ps \<Longrightarrow> p \<noteq> [] \<Longrightarrow> \<not> HasPrefix s p) \<Longrightarrow> strip_prefixes ps s = s"
  by (subst strip_prefixes.simps) (auto simp: find_None_iff split: option.split dest: find_Some_iff [THEN iffD1])

lemma strip_prefixes_done: "p \<in> set ps \<Longrightarrow> p \<noteq> [] \<Longrightarrow> \<not> HasPrefix (strip_prefixes ps s) p"
proof (induction ps s rule: strip_prefixes.induct)
  case (1 ps s)
  show ?case
  proof (cases "find (\<lambda>p. p \<noteq> [] \<and> HasPrefix s p) ps")
    case None
    then have "strip_prefixes ps s = s" by (subst strip_prefixes.simps) simp
    with None "1.prems" show ?thesis by (auto simp: find_None_iff)
  next
    case (Some q)
    with "1.IH" [OF Some] "1.prems" show ?thesis by (subst strip_prefixes.simps) simp
  qed
qed

lemma set_TrimSpace_subset: "set (TrimSpace s) \<subseteq> set s"
proof -
  obtain u where "s = u @ strip_prefixes utf8_spaces s" using strip_prefixes_suffix by blast
  then have a: "set (strip_prefixes utf8_spaces s) \<subseteq> set s" by (metis set_append Un_upper2)
  let ?r = "rev (strip_prefixes utf8_spaces s)"
  obtain v where "?r = v @ strip_prefixes (map rev utf8_spaces) ?r" using strip_prefixes_suffix by blast
  then have "set (strip_prefixes (map rev utf8_spaces) ?r) \<subseteq> set ?r" by (metis set_append Un_upper2)
  with a show ?thesis by (auto simp: TrimSpace_def)
qed

lemma TrimLeft_no_cut: "s \<noteq> [] \<Longrightarrow> hd s \<notin> set cs \<Longrightarrow> TrimLeft s cs = s"
  by (cases s) (auto simp: TrimLeft_def)

lemma TrimRight_no_cut: "s \<noteq> [] \<Longrightarrow> last s \<notin> set cs \<Longrightarrow> TrimRight s cs = s"
  by (cases s rule: rev_cases) (auto simp: TrimRight_def)

lemma strip_prefixes_keeps:
  "c \<in> set s \<Longrightarrow> (\<forall>p \<in> set ps. c \<notin> set p) \<Longrightarrow> c \<in> set (strip_prefixes ps s)"
proof (induction ps s rule: strip_prefixes.induct)
  case (1 ps s)
  show ?case
  proof (cases "find (\<lambda>p. p \<noteq> [] \<and> HasPrefix s p) ps")
    case None
    then have "strip_prefixes ps s = s" by (subst strip_prefixes.simps) simp
    with "1.prems" show ?thesis by simp
  next
    case (Some p)
    then have "HasPrefix s p" "p \<in> set ps" by (auto simp: find_Some_iff)
    then obtain t where "s = p @ t" by (auto simp: HasPrefix_append)
    with "1.prems" \<open>p \<in> set ps\<close> have "c \<in> set (drop (length p) s)" by auto
    from "1.IH" [OF Some this "1.prems"(2)] Some show ?thesis
      by (subst strip_prefixes.simps) simp
  qed
qed

text \<open>A string with a byte that occurs in no space is not blank.\<close>

definition nonspace_byte :: "char \<Rightarrow> bool" where
  "nonspace_byte c \<longleftrightarrow> list_all (\<lambda>p. c \<notin> set p) utf8_spaces"

lemma TrimSpace_nonblank: "c \<in> set s \<Longrightarrow> nonspace_byte c \<Longrightarrow> TrimSpace s \<noteq> []"
proof -
  assume c: "c \<in> set s" "nonspace_byte c"
  then have sp: "\<forall>p \<in> set utf8_spaces. c \<notin> set p" "\<forall>p \<in> set (map rev utf8_spaces). c \<notin> set p"
    by (auto simp: nonspace_byte_def list_all_iff)
  from c(1) sp(1) have "c \<in> set (strip_prefixes utf8_spaces s)" by (rule strip_prefixes_keeps)
  then have "c \<in> set (rev (strip_prefixes utf8_spaces s))" by simp
  from strip_prefixes_keeps [OF this sp(2)] show ?thesis by (auto simp: TrimSpace_def)
qed

text \<open>Blank strings, and strings with no space at either end.\<close>

lemma TrimSpace_Nil [simp]: "TrimSpace [] = []"
  by (simp add: TrimSpace_def strip_prefixes_id)

lemma IndexAny_append:
  assumes "\<forall>x \<in> set s. x \<notin> set cs" and "c \<in> set cs"
  shows "IndexAny (s @ c # t) cs = Some (length s)"
proof -
  have "takeWhile (\<lambda>x. x \<notin> set cs) (s @ c # t) = s"
    using assms by (simp add: takeWhile_append)
  then show ?thesis by (simp add: IndexAny_def)
qed

lemma IndexAny_None: "\<forall>x \<in> set s. x \<notin> set cs \<Longrightarrow> IndexAny s cs = None"
proof -
  assume "\<forall>x \<in> set s. x \<notin> set cs"
  then have "takeWhile (\<lambda>x. x \<notin> set cs) s = s" by (simp only: takeWhile_eq_all_conv)
  then show ?thesis by (simp only: IndexAny_def Let_def less_irrefl if_False)
qed

subsection \<open>Lines\<close>

text \<open>
  The lines a \<open>bufio.Scanner\<close> returns: without the newline and one carriage return before it; a
  last line without newline counts unless it is empty.  The scanner gives up at a line that fills its
  buffer of 64 KiB, and the lines from there on are lost.
\<close>

definition MaxScanTokenSize :: int where
  "MaxScanTokenSize = 64 * 1024"

definition drop_cr :: "string \<Rightarrow> string" where
  "drop_cr l = TrimSuffix l [CHR 0x0D]"

definition scan_lines :: "string \<Rightarrow> string list" where
  "scan_lines s =
     (let ls = Split s [CHR 0x0A] in
      map drop_cr (takeWhile (\<lambda>l. int (length l) < MaxScanTokenSize)
                     (if last ls = [] then butlast ls else ls)))"

lemma scan_lines_StrJoin:
  assumes "ls \<noteq> []" and "\<And>l. l \<in> set ls \<Longrightarrow> CHR 0x0A \<notin> set l" and "last ls \<noteq> []"
    and "\<And>l. l \<in> set ls \<Longrightarrow> int (length l) < MaxScanTokenSize"
    and "\<And>l. l \<in> set ls \<Longrightarrow> drop_cr l = l"
  shows "scan_lines (StrJoin ls [CHR 0x0A]) = ls"
proof -
  have "Split (StrJoin ls [CHR 0x0A]) [CHR 0x0A] = ls"
    using assms(1,2) by (intro Split_StrJoin_char) auto
  moreover have "takeWhile (\<lambda>l. int (length l) < MaxScanTokenSize) ls = ls"
    using assms(4) by (simp only: takeWhile_eq_all_conv) blast
  moreover have "map drop_cr ls = ls" using assms(5) by (simp add: map_idI)
  ultimately show ?thesis using assms(3) by (simp only: scan_lines_def Let_def if_False)
qed

subsection \<open>Strings without space at their ends\<close>

lemma TrimSpace_id:
  assumes "\<And>p. p \<in> set utf8_spaces \<Longrightarrow> \<not> HasPrefix s p"
    and "\<And>p. p \<in> set utf8_spaces \<Longrightarrow> \<not> HasSuffix s p"
  shows "TrimSpace s = s"
proof -
  have "strip_prefixes utf8_spaces s = s" using assms(1) by (intro strip_prefixes_id) auto
  moreover have "strip_prefixes (map rev utf8_spaces) (rev s) = rev s"
    using assms(2) by (intro strip_prefixes_id) (auto simp: HasSuffix_def)
  ultimately show ?thesis by (simp add: TrimSpace_def)
qed

lemma nonempty_space: "p \<in> set utf8_spaces \<Longrightarrow> p \<noteq> []"
  by (auto simp: utf8_spaces_def)

lemma TrimSpace_no_suffix:
  assumes "TrimSpace s = s" and "p \<in> set utf8_spaces"
  shows "\<not> HasSuffix s p"
proof -
  have "rev p \<in> set (map rev utf8_spaces)" "rev p \<noteq> []"
    using assms(2) by (auto simp: nonempty_space)
  from strip_prefixes_done [OF this] assms(1) show ?thesis
    unfolding TrimSpace_def HasSuffix_def by (metis rev_rev_ident)
qed

lemma TrimSpace_no_prefix:
  assumes "TrimSpace s = s" and "p \<in> set utf8_spaces"
  shows "\<not> HasPrefix s p"
proof
  assume pre: "HasPrefix s p"
  let ?t = "strip_prefixes utf8_spaces s"
  obtain u where u: "s = u @ ?t" using strip_prefixes_suffix by blast
  have "u \<noteq> []"
  proof
    assume "u = []"
    with u have "?t = s" by simp
    with strip_prefixes_done [OF assms(2) nonempty_space [OF assms(2)], of s] pre show False by simp
  qed
  then have "length ?t < length s" using arg_cong [OF u, of length] by (cases u) simp_all
  moreover have "length (TrimSpace s) \<le> length ?t"
  proof -
    obtain v where "rev ?t = v @ strip_prefixes (map rev utf8_spaces) (rev ?t)"
      using strip_prefixes_suffix by blast
    from arg_cong [OF this, of length] show ?thesis by (simp add: TrimSpace_def)
  qed
  ultimately show False using assms(1) by simp
qed

lemma TrimSpace_idem [simp]: "TrimSpace (TrimSpace s) = TrimSpace s"
proof (rule TrimSpace_id)
  fix p
  assume p: "p \<in> set utf8_spaces"
  let ?t = "strip_prefixes utf8_spaces s"
  obtain v where v: "rev ?t = v @ strip_prefixes (map rev utf8_spaces) (rev ?t)"
    using strip_prefixes_suffix by blast
  then have "?t = TrimSpace s @ rev v" by (metis TrimSpace_def rev_append rev_rev_ident)
  moreover have "\<not> HasPrefix ?t p" using p nonempty_space [OF p] by (rule strip_prefixes_done)
  ultimately show "\<not> HasPrefix (TrimSpace s) p" by (auto simp: HasPrefix_append)
  have "\<not> HasPrefix (strip_prefixes (map rev utf8_spaces) (rev ?t)) (rev p)"
    using p nonempty_space [OF p] by (intro strip_prefixes_done) auto
  then show "\<not> HasSuffix (TrimSpace s) p" by (simp add: TrimSpace_def HasSuffix_def)
qed

lemma strip_prefixes_blank: "strip_prefixes utf8_spaces (CHR '' '' # s) = strip_prefixes utf8_spaces s"
  by (subst strip_prefixes.simps) (simp add: utf8_spaces_def)

lemma TrimSpace_blank [simp]: "TrimSpace (CHR '' '' # s) = TrimSpace s"
  by (simp add: TrimSpace_def strip_prefixes_blank)

text \<open>A suffix of a concatenation is a suffix of the second part or reaches into the first.\<close>

lemma HasSuffix_append_cases:
  assumes "HasSuffix (a @ b) p"
  obtains (inside) "HasSuffix b p" | (across) u where "u \<noteq> []" "p = u @ b" "HasSuffix a u"
proof -
  from assms obtain t where "a @ b = t @ p" by (auto simp: HasSuffix_append)
  then obtain us where us: "a @ us = t \<and> b = us @ p \<or> a = t @ us \<and> p = us @ b"
    by (auto simp: append_eq_append_conv2)
  show thesis
  proof (cases "HasSuffix b p")
    case True
    then show thesis by (rule inside)
  next
    case False
    with us have "a = t @ us" "p = us @ b" by (auto simp: HasSuffix_append)
    with False show thesis by (intro across [of us]) (auto simp: HasSuffix_append)
  qed
qed

end
