(* ===== verification/Go_Json.thy ===== *)
theory Go_Json
  imports Go_Strings
begin

section \<open>The JSON encoding of \<open>encoding/json\<close>\<close>

text \<open>
  What the code uses of \<open>json.Marshal\<close>: strings with Go's HTML-safe escapes, integers, string
  slices and structures whose fields are tagged \<open>omitempty\<close>.  The transformers use the encoding as
  the identity of an entity, so the main result is that a string (and so an entity) can be read
  back from its encoding: two ASCII strings with the same encoding are equal.
\<close>

subsection \<open>Decimal numbers\<close>

definition decimal_digit :: "nat \<Rightarrow> char" where
  "decimal_digit n = ''0123456789'' ! n"

fun nat_decimal :: "nat \<Rightarrow> string" where
  "nat_decimal n =
     (if n < 10 then [decimal_digit n] else nat_decimal (n div 10) @ [decimal_digit (n mod 10)])"

declare nat_decimal.simps [simp del]

definition int_decimal :: "int \<Rightarrow> string" where
  "int_decimal i = (if i < 0 then CHR ''-'' # nat_decimal (nat (- i)) else nat_decimal (nat i))"

subsection \<open>Strings\<close>

definition byte_in :: "char \<Rightarrow> nat \<Rightarrow> nat \<Rightarrow> bool" where
  "byte_in c lo hi \<longleftrightarrow> lo \<le> of_char c \<and> (of_char c :: nat) \<le> hi"

text \<open>
  The length of the UTF-8 sequence at the start of a string, 0 if there is no valid one
  (\<open>utf8.DecodeRuneInString\<close> returns \<open>RuneError\<close> with size 1 then).
\<close>

fun utf8_size :: "string \<Rightarrow> nat" where
  "utf8_size [] = 0"
| "utf8_size (a # s) =
     (let cont = (\<lambda>i. i < length s \<and> byte_in (s ! i) 0x80 0xBF);
          second = (\<lambda>lo hi. 0 < length s \<and> byte_in (s ! 0) lo hi)
      in if byte_in a 0 0x7F then 1
         else if byte_in a 0xC2 0xDF then (if cont 0 then 2 else 0)
         else if byte_in a 0xE0 0xE0 then (if second 0xA0 0xBF \<and> cont 1 then 3 else 0)
         else if byte_in a 0xED 0xED then (if second 0x80 0x9F \<and> cont 1 then 3 else 0)
         else if byte_in a 0xE1 0xEF then (if cont 0 \<and> cont 1 then 3 else 0)
         else if byte_in a 0xF0 0xF0 then (if second 0x90 0xBF \<and> cont 1 \<and> cont 2 then 4 else 0)
         else if byte_in a 0xF1 0xF3 then (if cont 0 \<and> cont 1 \<and> cont 2 then 4 else 0)
         else if byte_in a 0xF4 0xF4 then (if second 0x80 0x8F \<and> cont 1 \<and> cont 2 then 4 else 0)
         else 0)"

declare utf8_size.simps(2) [simp del]

definition hex_digit :: "nat \<Rightarrow> char" where
  "hex_digit n = ''0123456789abcdef'' ! n"

text \<open>The encoding of one ASCII byte.\<close>

definition json_short :: "char \<Rightarrow> char option" where
  "json_short = map_of
     [(CHR 0x5C, CHR 0x5C), (CHR 0x22, CHR 0x22), (CHR 0x08, CHR ''b''), (CHR 0x0C, CHR ''f''),
      (CHR 0x0A, CHR ''n''), (CHR 0x0D, CHR ''r''), (CHR 0x09, CHR ''t'')]"

definition json_byte :: "char \<Rightarrow> string" where
  "json_byte c =
     (case json_short c of
        Some x \<Rightarrow> [CHR 0x5C, x]
      | None \<Rightarrow>
          if byte_in c 0 0x1F \<or> c = CHR 0x3C \<or> c = CHR 0x3E \<or> c = CHR 0x26
          then CHR 0x5C # ''u00'' @ [hex_digit (of_char c div 16), hex_digit (of_char c mod 16)]
          else [c])"

text \<open>The encoding of the first rune of a string, and the number of further bytes it takes up.\<close>

definition json_rune :: "string \<Rightarrow> string \<times> nat" where
  "json_rune s =
     (if byte_in (hd s) 0 0x7F then (json_byte (hd s), 0)
      else let n = utf8_size s in
           if n = 0 then (CHR 0x5C # ''ufffd'', 0)
           else if take n s = [CHR 0xE2, CHR 0x80, CHR 0xA8] then (CHR 0x5C # ''u2028'', n - 1)
           else if take n s = [CHR 0xE2, CHR 0x80, CHR 0xA9] then (CHR 0x5C # ''u2029'', n - 1)
           else (take n s, n - 1))"

fun json_escape :: "string \<Rightarrow> string" where
  "json_escape [] = []"
| "json_escape (c # t) =
     fst (json_rune (c # t)) @ json_escape (drop (snd (json_rune (c # t))) t)"

definition json_string :: "string \<Rightarrow> string" where
  "json_string s = CHR 0x22 # json_escape s @ [CHR 0x22]"

definition json_strings :: "string list \<Rightarrow> string" where
  "json_strings ss = CHR ''['' # StrJoin (map json_string ss) '','' @ '']''"

subsection \<open>Structures\<close>

text \<open>
  A structure is the list of its fields in the order of the declaration: the tag and the encoded
  value, or \<open>None\<close> for a field that \<open>omitempty\<close> leaves out.
\<close>

definition json_field :: "string \<Rightarrow> string \<Rightarrow> string" where
  "json_field tag v = CHR 0x22 # tag @ CHR 0x22 # CHR '':'' # v"

fun json_fields :: "(string \<times> string option) list \<Rightarrow> string list" where
  "json_fields [] = []"
| "json_fields ((tag, None) # fs) = json_fields fs"
| "json_fields ((tag, Some v) # fs) = json_field tag v # json_fields fs"

definition json_object :: "(string \<times> string option) list \<Rightarrow> string" where
  "json_object fs = CHR ''{'' # StrJoin (json_fields fs) '','' @ ''}''"

definition omit_string :: "string \<Rightarrow> string option" where
  "omit_string s = (if s = [] then None else Some (json_string s))"

definition omit_strings :: "string list \<Rightarrow> string option" where
  "omit_strings ss = (if ss = [] then None else Some (json_strings ss))"

definition omit_int :: "int \<Rightarrow> string option" where
  "omit_int i = (if i = 0 then None else Some (int_decimal i))"

subsection \<open>Reading an encoding back\<close>

definition ascii :: "string \<Rightarrow> bool" where
  "ascii s \<longleftrightarrow> (\<forall>c \<in> set s. byte_in c 0 0x7F)"

lemma ascii_simps [simp]: "ascii []" "ascii (c # s) \<longleftrightarrow> byte_in c 0 0x7F \<and> ascii s"
  by (auto simp: ascii_def)

lemma json_escape_ascii_Cons:
  "byte_in c 0 0x7F \<Longrightarrow> json_escape (c # s) = json_byte c @ json_escape s"
  by (simp add: json_rune_def)

lemma hex_digit_inj: "a < 16 \<Longrightarrow> b < 16 \<Longrightarrow> hex_digit a = hex_digit b \<longleftrightarrow> a = b"
  unfolding hex_digit_def by (subst nth_eq_iff_index_eq) auto

lemma hex_pair_inj:
  assumes "hex_digit (of_char c div 16) = hex_digit (of_char d div 16)"
    and "hex_digit (of_char c mod 16) = hex_digit (of_char d mod 16)"
  shows "c = d"
proof -
  have bound: "(of_char x :: nat) div 16 < 16" for x :: char
    using of_char_of [of "of_char x"] by (simp add: less_mult_imp_div_less)
  have "(of_char c :: nat) div 16 = of_char d div 16" "(of_char c :: nat) mod 16 = of_char d mod 16"
    using assms bound by (auto simp: hex_digit_inj)
  then have "(of_char c :: nat) = of_char d"
    by (metis mult_div_mod_eq)
  then show ?thesis by simp
qed

lemma json_short_None: "json_short c = None \<Longrightarrow> c \<noteq> CHR 0x5C \<and> c \<noteq> CHR 0x22"
  by (auto simp: json_short_def)

lemma map_of_inj:
  "distinct (map snd xs) \<Longrightarrow> map_of xs c = Some x \<Longrightarrow> map_of xs d = Some x \<Longrightarrow> c = d"
  by (induction xs) (force split: if_splits dest: map_of_SomeD)+

lemma json_short_inj: "json_short c = Some x \<Longrightarrow> json_short d = Some x \<Longrightarrow> c = d"
  unfolding json_short_def by (erule map_of_inj [rotated]) (assumption, simp)

lemma json_short_u: "json_short c \<noteq> Some CHR ''u''"
  unfolding json_short_def by (auto dest!: map_of_SomeD)

lemma json_byte_prefix_free: "json_byte c @ r = json_byte d @ r' \<Longrightarrow> c = d \<and> r = r'"
  unfolding json_byte_def
  using json_short_None [of c] json_short_None [of d] json_short_inj [of c _ d]
    json_short_u [of c] json_short_u [of d]
  by (cases "json_short c"; cases "json_short d") (auto split: if_splits dest: hex_pair_inj)

lemma json_byte_hd: "hd (json_byte c @ r) \<noteq> CHR 0x22"
  unfolding json_byte_def using json_short_None [of c] by (cases "json_short c") auto

lemma json_escape_end:
  assumes "ascii s" "ascii t" "json_escape s @ CHR 0x22 # r = json_escape t @ CHR 0x22 # r'"
  shows "s = t \<and> r = r'"
  using assms
proof (induction s arbitrary: t)
  case Nil
  then show ?case
    using json_byte_hd
    by (cases t) (auto simp: json_escape_ascii_Cons simp del: json_escape.simps(2), metis list.sel(1))
next
  case (Cons c s)
  show ?case
  proof (cases t)
    case Nil
    with Cons.prems show ?thesis
      using json_byte_hd [of c "json_escape s @ CHR 0x22 # r"]
      by (simp add: json_escape_ascii_Cons del: json_escape.simps(2))
  next
    case (Cons d u)
    with Cons.prems have "json_byte c @ json_escape s @ CHR 0x22 # r = json_byte d @ json_escape u @ CHR 0x22 # r'"
      by (simp add: json_escape_ascii_Cons del: json_escape.simps(2))
    then have "c = d" "json_escape s @ CHR 0x22 # r = json_escape u @ CHR 0x22 # r'"
      using json_byte_prefix_free by blast+
    with Cons.IH [of u] Cons.prems Cons show ?thesis by simp
  qed
qed

lemma json_string_end:
  "ascii s \<Longrightarrow> ascii t \<Longrightarrow> json_string s @ r = json_string t @ r' \<longleftrightarrow> s = t \<and> r = r'"
  using json_escape_end [of s t r r'] by (auto simp: json_string_def)

lemma json_string_inj: "ascii s \<Longrightarrow> ascii t \<Longrightarrow> json_string s = json_string t \<longleftrightarrow> s = t"
  using json_string_end [of s t "[]" "[]"] by simp

lemma of_decimal_digit: "n < 10 \<Longrightarrow> is_digit (decimal_digit n) \<and> digit_val (decimal_digit n) = n"
  unfolding decimal_digit_def is_digit_def digit_val_def
  by (auto simp: less_Suc_eq numeral_eq_Suc)

lemma digits_nat_decimal: "\<forall>c \<in> set (nat_decimal n). is_digit c"
proof (induction n rule: nat_decimal.induct)
  case (1 n)
  then show ?case by (subst nat_decimal.simps) (auto simp: of_decimal_digit)
qed

lemma digits_val_nat_decimal: "digits_val (nat_decimal n) = n"
proof (induction n rule: nat_decimal.induct)
  case (1 n)
  then show ?case
    by (subst nat_decimal.simps) (auto simp: digits_val_def of_decimal_digit)
qed

lemma int_decimal_inj: "int_decimal i = int_decimal j \<longleftrightarrow> i = j"
proof
  assume eq: "int_decimal i = int_decimal j"
  have nodash: "nat_decimal n \<noteq> CHR ''-'' # s" for n s
    using digits_nat_decimal [of n] by (auto simp: is_digit_def)
  from eq nodash show "i = j"
    using digits_val_nat_decimal
    by (auto simp: int_decimal_def split: if_splits) (metis eq_nat_nat_iff neg_0_le_iff_le less_imp_le not_le neg_equal_iff_equal nat_eq_iff)+
qed simp

text \<open>
  A set of encodings is delimited if the end of a value can be told from what may follow it in an
  array or an object.
\<close>

definition sep_start :: "string \<Rightarrow> bool" where
  "sep_start r \<longleftrightarrow> r = [] \<or> hd r = CHR '','' \<or> hd r = CHR ''}'' \<or> hd r = CHR '']''"

definition delimited :: "string set \<Rightarrow> bool" where
  "delimited V \<longleftrightarrow> (\<forall>v \<in> V. \<forall>v' \<in> V. \<forall>r r'. sep_start r \<longrightarrow> sep_start r' \<longrightarrow> v @ r = v' @ r' \<longrightarrow> v = v')"

lemma delimitedD:
  "delimited V \<Longrightarrow> v \<in> V \<Longrightarrow> v' \<in> V \<Longrightarrow> sep_start r \<Longrightarrow> sep_start r' \<Longrightarrow> v @ r = v' @ r' \<Longrightarrow> v = v' \<and> r = r'"
  unfolding delimited_def by blast

lemma delimited_strings: "delimited (json_string ` Collect ascii)"
  by (auto simp: delimited_def json_string_end)

lemma delimited_no_sep:
  assumes "\<And>v c. v \<in> V \<Longrightarrow> c \<in> set v \<Longrightarrow> c \<notin> {CHR '','', CHR ''}'', CHR '']''}"
  shows "delimited V"
proof -
  let ?P = "\<lambda>c. c \<notin> {CHR '','', CHR ''}'', CHR '']''}"
  have "takeWhile ?P (v @ r) = v" if "v \<in> V" "sep_start r" for v r
    using that assms by (cases r) (auto simp: sep_start_def takeWhile_append)
  then show ?thesis unfolding delimited_def by metis
qed

lemma delimited_ints: "delimited (int_decimal ` UNIV)"
proof (rule delimited_no_sep)
  fix v c assume "v \<in> range int_decimal" "c \<in> set v"
  then have "is_digit c \<or> c = CHR ''-''"
    using digits_nat_decimal by (auto simp: int_decimal_def split: if_splits)
  then show "c \<notin> {CHR '','', CHR ''}'', CHR '']''}"
    by (auto simp: is_digit_def)
qed

text \<open>What follows the first element of an array or the first field of an object.\<close>

definition json_rest :: "string list \<Rightarrow> string \<Rightarrow> string" where
  "json_rest vs e = concat (map ((#) CHR '','') vs) @ e"

lemma json_rest_simps [simp]:
  "json_rest [] e = e" "json_rest (v # vs) e = CHR '','' # v @ json_rest vs e"
  by (simp_all add: json_rest_def)

lemma StrJoin_json_rest: "StrJoin (v # vs) '','' @ e = v @ json_rest vs e"
  by (induction vs arbitrary: v) (simp_all)

lemma sep_start_json_rest [simp]: "sep_start e \<Longrightarrow> sep_start (json_rest vs e)"
  by (cases vs) (auto simp: sep_start_def)

lemma json_rest_strings:
  assumes "list_all ascii ss" "list_all ascii ts"
    and "json_rest (map json_string ss) (CHR '']'' # r) = json_rest (map json_string ts) (CHR '']'' # r')"
  shows "ss = ts \<and> r = r'"
  using assms
proof (induction ss arbitrary: ts)
  case Nil
  then show ?case by (cases ts) auto
next
  case (Cons s ss)
  then show ?case by (cases ts) (auto simp: json_string_end)
qed

lemma json_strings_end:
  assumes "list_all ascii ss" "list_all ascii ts" "json_strings ss @ r = json_strings ts @ r'"
  shows "ss = ts \<and> r = r'"
proof -
  have q: "json_string s @ x \<noteq> CHR '']'' # y" for s x y
    by (simp add: json_string_def)
  have flat: "json_strings (s # ss) @ r = CHR ''['' # json_string s @ json_rest (map json_string ss) (CHR '']'' # r)"
    for s ss r
    using StrJoin_json_rest [of "json_string s" "map json_string ss" "CHR '']'' # r"]
    by (simp add: json_strings_def)
  show ?thesis
  proof (cases ss; cases ts)
    fix s ss' t ts' assume c: "ss = s # ss'" "ts = t # ts'"
    with assms show ?thesis
      using json_rest_strings [of ss' ts' r r'] by (simp add: flat json_string_end)
  qed (use assms q in \<open>auto simp: flat\<close>, auto simp: json_strings_def dest: sym)
qed

lemma delimited_string_lists: "delimited (json_strings ` {ss. list_all ascii ss})"
  unfolding delimited_def using json_strings_end by blast

lemma json_fields_hd:
  "json_fields fs = [] \<or> (\<exists>t v rest. json_fields fs = json_field t v # rest \<and> t \<in> fst ` set fs)"
  by (induction fs rule: json_fields.induct) auto

lemma json_field_end:
  "CHR 0x22 \<notin> set t \<Longrightarrow> CHR 0x22 \<notin> set t' \<Longrightarrow> json_field t v @ r = json_field t' v' @ r' \<Longrightarrow> t = t' \<and> v @ r = v' @ r'"
  using takeWhile_append_sep [of "CHR 0x22" t "CHR '':'' # v @ r"]
    takeWhile_append_sep [of "CHR 0x22" t' "CHR '':'' # v' @ r'"]
  by (auto simp: json_field_def)

lemma json_rest_absent:
  assumes "t \<notin> fst ` set fs" "\<forall>u \<in> insert t (fst ` set fs). CHR 0x22 \<notin> set u"
  shows "CHR '','' # json_field t v @ r \<noteq> json_rest (json_fields fs) ''}''"
proof
  assume eq: "CHR '','' # json_field t v @ r = json_rest (json_fields fs) ''}''"
  then obtain u w rest where "json_fields fs = json_field u w # rest" "u \<in> fst ` set fs"
    using json_fields_hd [of fs] by auto
  with eq assms json_field_end [of t u v r w "json_rest rest ''}''"] show False by auto
qed

lemma json_rest_fields:
  assumes "\<And>t. delimited (V t)"
    and "map fst fs = map fst gs" "distinct (map fst fs)" "\<forall>t \<in> fst ` set fs. CHR 0x22 \<notin> set t"
    and "\<forall>(t, w) \<in> set fs \<union> set gs. \<forall>v. w = Some v \<longrightarrow> v \<in> V t"
    and "json_rest (json_fields fs) ''}'' = json_rest (json_fields gs) ''}''"
  shows "fs = gs"
  using assms(2-)
proof (induction fs gs rule: list_induct2')
  case (4 f fs g gs)
  obtain t w where f: "f = (t, w)" by force
  from 4 f obtain w' where g: "g = (t, w')" by (cases g) auto
  have tags: "fst ` set fs = fst ` set gs"
    using 4(2) by (metis list.inject list.set_map list.simps(9))
  have sep: "sep_start (json_rest (json_fields hs) ''}'')" for hs
    by (simp add: sep_start_def [of "''}''"])
  show ?case
  proof (cases w; cases w')
    fix v v' assume "w = Some v" "w' = Some v'"
    with 4 f g have "json_field t v @ json_rest (json_fields fs) ''}'' = json_field t v' @ json_rest (json_fields gs) ''}''"
      and "v \<in> V t" "v' \<in> V t" and nq: "CHR 0x22 \<notin> set t" by auto
    then have "v = v' \<and> json_rest (json_fields fs) ''}'' = json_rest (json_fields gs) ''}''"
      using delimitedD [OF assms(1) _ _ sep sep] json_field_end [OF nq nq] by blast
    with 4 f g show ?thesis using \<open>w = Some v\<close> \<open>w' = Some v'\<close> by auto
  next
    fix v assume "w = Some v" "w' = None"
    with 4 f g tags json_rest_absent [of t gs v "json_rest (json_fields fs) ''}''"] show ?thesis by auto
  next
    fix v assume "w = None" "w' = Some v"
    with 4 f g tags json_rest_absent [of t fs v "json_rest (json_fields gs) ''}''"] show ?thesis
      by (auto dest: sym)
  qed (use 4 f g in auto)
qed auto

theorem json_object_inj:
  assumes "\<And>t. delimited (V t)"
    and "map fst fs = map fst gs" "distinct (map fst fs)" "\<forall>t \<in> fst ` set fs. CHR 0x22 \<notin> set t"
    and "\<forall>(t, w) \<in> set fs \<union> set gs. \<forall>v. w = Some v \<longrightarrow> v \<in> V t"
    and "json_object fs = json_object gs"
  shows "fs = gs"
proof -
  have shape: "json_rest (json_fields hs) ''}'' =
      (if json_fields hs = [] then ''}'' else CHR '','' # tl (json_object hs))" for hs
    by (cases "json_fields hs") (auto simp: json_object_def StrJoin_json_rest [symmetric])
  have empty: "json_fields hs = [] \<longleftrightarrow> json_object hs = ''{}''" for hs
    using json_fields_hd [of hs]
    using StrJoin_json_rest [of _ _ "[]"] by (auto simp: json_object_def json_field_def)
  have "json_rest (json_fields fs) ''}'' = json_rest (json_fields gs) ''}''"
    using assms(6) by (simp add: shape empty)
  with json_rest_fields [OF assms(1-5)] show ?thesis by blast
qed

lemma omit_string_inj: "ascii s \<Longrightarrow> ascii t \<Longrightarrow> omit_string s = omit_string t \<longleftrightarrow> s = t"
  by (auto simp: omit_string_def json_string_inj)

lemma omit_int_inj: "omit_int i = omit_int j \<longleftrightarrow> i = j"
  by (auto simp: omit_int_def int_decimal_inj)

lemma omit_strings_inj:
  "list_all ascii ss \<Longrightarrow> list_all ascii ts \<Longrightarrow> omit_strings ss = omit_strings ts \<longleftrightarrow> ss = ts"
  using json_strings_end [of ss ts "[]" "[]"] by (auto simp: omit_strings_def)

end
