(* ===== verification/CDI_Types.thy ===== *)
theory CDI_Types
  imports Go_Json "HOL-Library.Word"
begin

section \<open>The container device interface specification\<close>

text \<open>
  The structures of \<open>specs-go\<close> of the container device interface, which the toolkit generates and
  transforms, \<open>ContainerEdits.Append\<close> of its \<open>cdi\<close> package, and the identities that
  \<open>pkg/nvcdi/transform/edits.go\<close> gives to entities.  Slices of pointers are lists of options
  (\<open>None\<close> is a nil pointer); a nil slice and an empty one are the same list.
\<close>

record DeviceNode =
  dn_Path :: string
  dn_HostPath :: string
  dn_Type :: string
  dn_Major :: int
  dn_Minor :: int
  dn_FileMode :: "32 word option"
  dn_Permissions :: string
  dn_UID :: "32 word option"
  dn_GID :: "32 word option"

record NetDevice =
  nd_HostInterfaceName :: string
  nd_Name :: string

record Mount =
  m_HostPath :: string
  m_ContainerPath :: string
  m_Options :: "string list"
  m_Type :: string

record Hook =
  h_HookName :: string
  h_Path :: string
  h_Args :: "string list"
  h_Env :: "string list"
  h_Timeout :: "int option"

record IntelRdt =
  rdt_ClosID :: string
  rdt_L3CacheSchema :: string
  rdt_MemBwSchema :: string
  rdt_Schemata :: "string list"
  rdt_EnableMonitoring :: bool

record ContainerEdits =
  Env :: "string list"
  DeviceNodes :: "DeviceNode option list"
  NetDevices :: "NetDevice option list"
  Hooks :: "Hook option list"
  Mounts :: "Mount option list"
  Intel_Rdt :: "IntelRdt option"
  AdditionalGIDs :: "32 word list"

record Device =
  dev_Name :: string
  dev_Annotations :: "(string \<times> string) list"
  dev_Edits :: ContainerEdits

record CDISpec =
  cdi_Version :: string
  cdi_Kind :: string
  cdi_Annotations :: "(string \<times> string) list"
  cdi_Devices :: "Device list"
  cdi_Edits :: ContainerEdits

definition empty_edits :: ContainerEdits where
  "empty_edits = \<lparr>Env = [], DeviceNodes = [], NetDevices = [], Hooks = [], Mounts = [],
                  Intel_Rdt = None, AdditionalGIDs = []\<rparr>"

text \<open>\<open>Append\<close> of non-nil edits to non-nil edits.\<close>

definition edits_Append :: "ContainerEdits \<Rightarrow> ContainerEdits \<Rightarrow> ContainerEdits" where
  "edits_Append e x =
     \<lparr>Env = Env e @ Env x, DeviceNodes = DeviceNodes e @ DeviceNodes x,
      NetDevices = NetDevices e @ NetDevices x, Hooks = Hooks e @ Hooks x,
      Mounts = Mounts e @ Mounts x,
      Intel_Rdt = (case Intel_Rdt x of None \<Rightarrow> Intel_Rdt e | Some r \<Rightarrow> Some r),
      AdditionalGIDs = AdditionalGIDs e @ AdditionalGIDs x\<rparr>"

subsection \<open>Identities of entities\<close>

definition omit_word :: "32 word option \<Rightarrow> string option" where
  "omit_word w = map_option (\<lambda>x. int_decimal (uint x)) w"

definition deviceNode_fields :: "DeviceNode \<Rightarrow> (string \<times> string option) list" where
  "deviceNode_fields d =
     [(''path'', Some (json_string (dn_Path d))), (''hostPath'', omit_string (dn_HostPath d)),
      (''type'', omit_string (dn_Type d)), (''major'', omit_int (dn_Major d)),
      (''minor'', omit_int (dn_Minor d)), (''fileMode'', omit_word (dn_FileMode d)),
      (''permissions'', omit_string (dn_Permissions d)), (''uid'', omit_word (dn_UID d)),
      (''gid'', omit_word (dn_GID d))]"

definition deviceNode_id :: "DeviceNode \<Rightarrow> string" where
  "deviceNode_id d = json_object (deviceNode_fields d)"

definition mount_fields :: "Mount \<Rightarrow> (string \<times> string option) list" where
  "mount_fields m =
     [(''hostPath'', Some (json_string (m_HostPath m))),
      (''containerPath'', Some (json_string (m_ContainerPath m))),
      (''options'', omit_strings (m_Options m)), (''type'', omit_string (m_Type m))]"

definition mount_id :: "Mount \<Rightarrow> string" where
  "mount_id m = json_object (mount_fields m)"

definition hook_fields :: "Hook \<Rightarrow> (string \<times> string option) list" where
  "hook_fields h =
     [(''hookName'', Some (json_string (h_HookName h))), (''path'', Some (json_string (h_Path h))),
      (''args'', omit_strings (h_Args h)), (''env'', omit_strings (h_Env h)),
      (''timeout'', map_option int_decimal (h_Timeout h))]"

definition hook_id :: "Hook \<Rightarrow> string" where
  "hook_id h = json_object (hook_fields h)"

subsection \<open>Entities are determined by their identities\<close>

definition deviceNode_ascii :: "DeviceNode \<Rightarrow> bool" where
  "deviceNode_ascii d \<longleftrightarrow>
     ascii (dn_Path d) \<and> ascii (dn_HostPath d) \<and> ascii (dn_Type d) \<and> ascii (dn_Permissions d)"

definition mount_ascii :: "Mount \<Rightarrow> bool" where
  "mount_ascii m \<longleftrightarrow>
     ascii (m_HostPath m) \<and> ascii (m_ContainerPath m) \<and> list_all ascii (m_Options m) \<and> ascii (m_Type m)"

definition hook_ascii :: "Hook \<Rightarrow> bool" where
  "hook_ascii h \<longleftrightarrow>
     ascii (h_HookName h) \<and> ascii (h_Path h) \<and> list_all ascii (h_Args h) \<and> list_all ascii (h_Env h)"

definition field_values :: "string \<Rightarrow> string set" where
  "field_values t =
     (if t \<in> {''options'', ''args'', ''env''} then json_strings ` {ss. list_all ascii ss}
      else if t \<in> {''major'', ''minor'', ''fileMode'', ''uid'', ''gid'', ''timeout''} then range int_decimal
      else json_string ` Collect ascii)"

lemma delimited_field_values: "delimited (field_values t)"
  by (simp add: field_values_def delimited_strings delimited_ints delimited_string_lists)

lemma omit_word_inj: "omit_word v = omit_word w \<longleftrightarrow> v = w"
  by (cases v; cases w) (simp_all add: omit_word_def int_decimal_inj word_uint_eq_iff)

lemma omit_values:
  "ascii s \<Longrightarrow> omit_string s = Some v \<Longrightarrow> v \<in> json_string ` Collect ascii"
  "list_all ascii ss \<Longrightarrow> omit_strings ss = Some v \<Longrightarrow> v \<in> json_strings ` {ss. list_all ascii ss}"
  "omit_int i = Some v \<Longrightarrow> v \<in> range int_decimal"
  "omit_word w = Some v \<Longrightarrow> v \<in> range int_decimal"
  "map_option int_decimal t = Some v \<Longrightarrow> v \<in> range int_decimal"
  by (auto simp: omit_string_def omit_strings_def omit_int_def omit_word_def split: if_splits)

lemmas fields_inj = json_object_inj [of field_values, OF delimited_field_values]

lemma deviceNode_id_inj:
  assumes "deviceNode_ascii d" "deviceNode_ascii e" "deviceNode_id d = deviceNode_id e"
  shows "d = e"
proof -
  have "deviceNode_fields d = deviceNode_fields e"
    using assms
    by (intro fields_inj)
      (auto simp: deviceNode_id_def deviceNode_fields_def deviceNode_ascii_def field_values_def
        dest: omit_values)
  with assms show ?thesis
    by (intro DeviceNode.equality)
      (auto simp: deviceNode_fields_def deviceNode_ascii_def omit_string_inj omit_int_inj
        omit_word_inj json_string_inj)
qed

lemma mount_id_inj:
  assumes "mount_ascii m" "mount_ascii n" "mount_id m = mount_id n"
  shows "m = n"
proof -
  have "mount_fields m = mount_fields n"
    using assms
    by (intro fields_inj)
      (auto simp: mount_id_def mount_fields_def mount_ascii_def field_values_def dest: omit_values)
  with assms show ?thesis
    by (intro Mount.equality)
      (auto simp: mount_fields_def mount_ascii_def omit_string_inj omit_strings_inj json_string_inj)
qed

lemma hook_id_inj:
  assumes "hook_ascii h" "hook_ascii g" "hook_id h = hook_id g"
  shows "h = g"
proof -
  have "hook_fields h = hook_fields g"
    using assms
    by (intro fields_inj)
      (auto simp: hook_id_def hook_fields_def hook_ascii_def field_values_def dest: omit_values)
  moreover have "map_option int_decimal t = map_option int_decimal u \<longleftrightarrow> t = u" for t u
    by (cases t; cases u) (auto simp: int_decimal_inj)
  ultimately show ?thesis using assms
    by (intro Hook.equality)
      (auto simp: hook_fields_def hook_ascii_def omit_strings_inj json_string_inj)
qed

end
