(* ===== verification/CDI_Parser.thy ===== *)
theory CDI_Parser
  imports Go_Strings
begin

section \<open>CDI device names\<close>

text \<open>
  The package \<open>pkg/parser\<close> of the container-device-interface module, as vendored with the toolkit:
  qualified device names \<open><vendor>/<class>=<name>\<close>.  A name check slices \<open>name[1 : len(name)-1]\<close>; for
  a vendor or class of one letter that slice is out of range and the program panics, which the
  model shows as a \<open>Panic\<close>.
\<close>

definition IsLetter :: "char \<Rightarrow> bool" where
  "IsLetter c \<longleftrightarrow> (CHR ''A'' \<le> c \<and> c \<le> CHR ''Z'') \<or> (CHR ''a'' \<le> c \<and> c \<le> CHR ''z'')"

definition IsAlphaNumeric :: "char \<Rightarrow> bool" where
  "IsAlphaNumeric c \<longleftrightarrow> IsLetter c \<or> is_digit c"

definition validateVendorOrClassName :: "string \<Rightarrow> unit result" where
  "validateVendorOrClassName name =
     (if name = [] then Inl (Errorf ''empty name'')
      else if \<not> IsLetter (hd name) then Inl (Errorf (name @ '', should start with letter''))
      else if length name = 1 then Inl (Panic ''slice bounds out of range [1:0]'')
      else if \<not> list_all (\<lambda>c. IsAlphaNumeric c \<or> c \<in> set ''_-.'') (butlast (tl name))
           then Inl (Errorf (''invalid character in name '' @ name))
      else if \<not> IsAlphaNumeric (last name)
           then Inl (Errorf (name @ '', should end with a letter or digit''))
      else Inr ())"

definition ValidateVendorName :: "string \<Rightarrow> unit result" where
  "ValidateVendorName v =
     (case validateVendorOrClassName v of
        Inl (Panic p) \<Rightarrow> Inl (Panic p) | Inl e \<Rightarrow> Inl (Wrap ''invalid vendor. '' e) | Inr u \<Rightarrow> Inr u)"

definition ValidateClassName :: "string \<Rightarrow> unit result" where
  "ValidateClassName v =
     (case validateVendorOrClassName v of
        Inl (Panic p) \<Rightarrow> Inl (Panic p) | Inl e \<Rightarrow> Inl (Wrap ''invalid class. '' e) | Inr u \<Rightarrow> Inr u)"

definition ValidateDeviceName :: "string \<Rightarrow> unit result" where
  "ValidateDeviceName name =
     (if name = [] then Inl (Errorf ''invalid (empty) device name'')
      else if \<not> IsAlphaNumeric (hd name)
           then Inl (Errorf (''invalid class '' @ name @ '', should start with a letter or digit''))
      else if length name = 1 then Inr ()
      else if \<not> list_all (\<lambda>c. IsAlphaNumeric c \<or> c \<in> set ''_-.:'') (butlast (tl name))
           then Inl (Errorf (''invalid character in device name '' @ name))
      else if \<not> IsAlphaNumeric (last name)
           then Inl (Errorf (''invalid name '' @ name @ '', should end with a letter or digit''))
      else Inr ())"

definition ParseQualifier :: "string \<Rightarrow> string \<times> string" where
  "ParseQualifier kind =
     (case SplitN2 kind ''/'' of
        [a, b] \<Rightarrow> if a = [] \<or> b = [] then ([], kind) else (a, b)
      | _ \<Rightarrow> ([], kind))"

definition ParseDevice :: "string \<Rightarrow> string \<times> string \<times> string" where
  "ParseDevice device =
     (if device = [] \<or> hd device = CHR ''/'' then ([], [], device)
      else case SplitN2 device ''='' of
        [q, name] \<Rightarrow>
          if q = [] \<or> name = [] then ([], [], device)
          else (case ParseQualifier q of (vendor, cls) \<Rightarrow>
                  if vendor = [] then ([], [], device) else (vendor, cls, name))
      | _ \<Rightarrow> ([], [], device))"

definition ParseQualifiedName :: "string \<Rightarrow> (string \<times> string \<times> string) result" where
  "ParseQualifiedName device =
     (case ParseDevice device of (vendor, cls, name) \<Rightarrow>
        if vendor = [] then Inl (Errorf (''unqualified device '' @ device @ '', missing vendor''))
        else if cls = [] then Inl (Errorf (''unqualified device '' @ device @ '', missing class''))
        else if name = [] then Inl (Errorf (''unqualified device '' @ device @ '', missing device name''))
        else bindR (ValidateVendorName vendor) (\<lambda>_.
             bindR (ValidateClassName cls) (\<lambda>_.
             bindR (ValidateDeviceName name) (\<lambda>_. Inr (vendor, cls, name)))))"

text \<open>\<open>IsQualifiedName\<close> answers yes or no, unless the parser panics.\<close>

definition IsQualifiedName :: "string \<Rightarrow> bool result" where
  "IsQualifiedName device =
     (case ParseQualifiedName device of
        Inr _ \<Rightarrow> Inr True
      | Inl (Panic p) \<Rightarrow> Inl (Panic p)
      | Inl e \<Rightarrow> Inr False)"

subsection \<open>Lemmas\<close>

lemma no_qualifier: "CHR ''='' \<notin> set d \<Longrightarrow> IsQualifiedName d = Inr False"
  by (simp add: IsQualifiedName_def ParseQualifiedName_def ParseDevice_def SplitN2_char_notin Index_char)

lemma vendor_class_valid_chars:
  "validateVendorOrClassName v = Inr u \<Longrightarrow> c \<in> set v \<Longrightarrow> IsAlphaNumeric c \<or> c \<in> set ''_-.''"
proof -
  assume a: "validateVendorOrClassName v = Inr u" "c \<in> set v"
  then have v: "v \<noteq> []" "tl v \<noteq> []" "IsLetter (hd v)" "IsAlphaNumeric (last v)"
    "list_all (\<lambda>c. IsAlphaNumeric c \<or> c \<in> set ''_-.'') (butlast (tl v))"
    by (cases v; auto simp: validateVendorOrClassName_def split: if_splits)+
  then have "v = hd v # butlast (tl v) @ [last v]" by (metis append_butlast_last_id hd_Cons_tl last_tl)
  then have "c = hd v \<or> c \<in> set (butlast (tl v)) \<or> c = last v"
    using a(2) by (metis Un_iff list.set(1) list.set(2) insert_iff set_append empty_iff)
  then show ?thesis using v by (auto simp: list_all_iff IsAlphaNumeric_def)
qed

lemma ValidateVendorName_Inr [simp]:
  "ValidateVendorName v = Inr u \<longleftrightarrow> validateVendorOrClassName v = Inr u"
  "ValidateClassName v = Inr u \<longleftrightarrow> validateVendorOrClassName v = Inr u"
  by (auto simp: ValidateVendorName_def ValidateClassName_def split: sum.split error.split)

lemma validateVendorOrClassName_nonempty: "validateVendorOrClassName [] \<noteq> Inr u"
  by (simp add: validateVendorOrClassName_def)

text \<open>A name built from a valid vendor, class and device name is qualified, and parses back.\<close>

lemma sep_not_in_vendor:
  assumes "validateVendorOrClassName v = Inr u"
  shows "CHR ''/'' \<notin> set v" "CHR ''='' \<notin> set v"
proof -
  have "\<not> IsAlphaNumeric (CHR ''/'')" "\<not> IsAlphaNumeric (CHR ''='')" by code_simp+
  then show "CHR ''/'' \<notin> set v" "CHR ''='' \<notin> set v"
    using vendor_class_valid_chars [OF assms, of "CHR ''/''"] vendor_class_valid_chars [OF assms, of "CHR ''=''"]
    by auto
qed

lemma ParseQualifiedName_QualifiedName:
  assumes "validateVendorOrClassName v = Inr ()" "validateVendorOrClassName c = Inr ()"
    and "ValidateDeviceName n = Inr ()"
  shows "ParseQualifiedName (v @ ''/'' @ c @ ''='' @ n) = Inr (v, c, n)"
proof -
  have ne: "v \<noteq> []" "c \<noteq> []" "n \<noteq> []"
    using assms by (auto simp: validateVendorOrClassName_def ValidateDeviceName_def)
  have "hd v \<noteq> CHR ''/''" using sep_not_in_vendor(1) [OF assms(1)] ne(1) by (metis hd_in_set)
  moreover have "SplitN2 ((v @ ''/'' @ c) @ CHR ''='' # n) ''='' = [v @ ''/'' @ c, n]"
    using sep_not_in_vendor [OF assms(1)] sep_not_in_vendor [OF assms(2)]
    by (intro SplitN2_char_append) auto
  moreover have "SplitN2 (v @ CHR ''/'' # c) ''/'' = [v, c]"
    using sep_not_in_vendor [OF assms(1)] by (intro SplitN2_char_append) auto
  ultimately have "ParseDevice (v @ ''/'' @ c @ ''='' @ n) = (v, c, n)"
    using ne unfolding ParseDevice_def ParseQualifier_def by simp
  then show ?thesis
    using assms ne by (simp add: ParseQualifiedName_def ValidateVendorName_def ValidateClassName_def)
qed

end
