(* ===== verification/Go_Path.thy ===== *)
theory Go_Path
  imports Go_Strings
begin

section \<open>The Go path library\<close>

text \<open>
  The functions of Go's package \<open>path/filepath\<close> (on Unix) that the toolkit calls.  \<open>Clean\<close> works
  on the slash-separated components: it drops empty and \<open>.\<close> components and lets \<open>..\<close> remove the
  component before it, as the source's byte loop does.
\<close>

abbreviation slash :: char where "slash \<equiv> CHR ''/''"

definition path_rooted :: "string \<Rightarrow> bool" where
  "path_rooted p \<longleftrightarrow> HasPrefix p ''/''"

text \<open>One component is read with the reversed list of the components written so far.\<close>

definition clean_step :: "bool \<Rightarrow> string list \<Rightarrow> string \<Rightarrow> string list" where
  "clean_step rooted out c =
     (if c = [] \<or> c = ''.'' then out
      else if c = ''..'' then
        (case out of
           [] \<Rightarrow> if rooted then [] else [''..'']
         | d # ds \<Rightarrow> if d = ''..'' then ''..'' # out else ds)
      else c # out)"

definition clean_parts :: "bool \<Rightarrow> string list \<Rightarrow> string list" where
  "clean_parts rooted cs = rev (foldl (clean_step rooted) [] cs)"

definition Clean :: "string \<Rightarrow> string" where
  "Clean p =
     (if p = [] then ''.''
      else let parts = clean_parts (path_rooted p) (Split p ''/'')
           in if path_rooted p then slash # StrJoin parts ''/''
              else if parts = [] then ''.'' else StrJoin parts ''/'')"

text \<open>\<open>filepath.Join\<close>: leading empty elements are dropped, the rest is joined and cleaned.\<close>

definition FJoin :: "string list \<Rightarrow> string" where
  "FJoin elems =
     (let es = dropWhile (\<lambda>e. e = []) elems in if es = [] then [] else Clean (StrJoin es ''/''))"

text \<open>\<open>filepath.Split\<close>: the part up to and including the last slash, and the rest.\<close>

definition FSplit :: "string \<Rightarrow> string \<times> string" where
  "FSplit p =
     (rev (dropWhile (\<lambda>c. c \<noteq> slash) (rev p)), rev (takeWhile (\<lambda>c. c \<noteq> slash) (rev p)))"

definition Base :: "string \<Rightarrow> string" where
  "Base p =
     (if p = [] then ''.''
      else let b = snd (FSplit (TrimRight p ''/'')) in if b = [] then ''/'' else b)"

definition Dir :: "string \<Rightarrow> string" where
  "Dir p = Clean (fst (FSplit p))"

text \<open>\<open>filepath.Ext\<close>: from the last dot after the last slash, or empty.\<close>

definition Ext :: "string \<Rightarrow> string" where
  "Ext p =
     (let f = snd (FSplit p); t = takeWhile (\<lambda>c. c \<noteq> CHR ''.'') (rev f)
      in if length t < length f then CHR ''.'' # rev t else [])"

definition IsAbs :: "string \<Rightarrow> bool" where
  "IsAbs p \<longleftrightarrow> HasPrefix p ''/''"

subsection \<open>Cleaned components\<close>

text \<open>
  The components \<open>Clean\<close> writes: proper names, and (in a relative path only) a run of \<open>..\<close> in
  front; the list is reversed, so the run is at its end.
\<close>

definition name_part :: "string \<Rightarrow> bool" where
  "name_part c \<longleftrightarrow> c \<noteq> [] \<and> c \<noteq> ''.'' \<and> c \<noteq> ''..'' \<and> slash \<notin> set c"

definition clean_out :: "bool \<Rightarrow> string list \<Rightarrow> bool" where
  "clean_out rooted out \<longleftrightarrow>
     (\<exists>ns n. out = ns @ replicate n ''..'' \<and> list_all name_part ns \<and> (rooted \<longrightarrow> n = 0))"

lemma clean_outI:
  "list_all name_part ns \<Longrightarrow> (rooted \<Longrightarrow> n = 0) \<Longrightarrow> clean_out rooted (ns @ replicate n ''..'')"
  unfolding clean_out_def by blast

lemma clean_step_out:
  assumes "clean_out rooted out" and "slash \<notin> set c"
  shows "clean_out rooted (clean_step rooted out c)"
proof -
  obtain ns n where out: "out = ns @ replicate n ''..''" "list_all name_part ns" "rooted \<longrightarrow> n = 0"
    using assms(1) by (auto simp: clean_out_def)
  consider "c = [] \<or> c = ''.''" | "c = ''..''" "ns = []" | d ds where "c = ''..''" "ns = d # ds"
    | "name_part c"
    using assms(2) by (cases ns) (auto simp: name_part_def)
  then show ?thesis
  proof cases
    case 1
    then show ?thesis using assms(1) by (simp add: clean_step_def)
  next
    case 2
    then have "clean_step rooted out c = [] @ replicate (if rooted then 0 else Suc n) ''..''"
      using out by (cases n) (auto simp: clean_step_def)
    also have "clean_out rooted \<dots>" by (rule clean_outI) auto
    finally show ?thesis .
  next
    case 3
    then have "clean_step rooted out c = ds @ replicate n ''..''" and "list_all name_part ds"
      using out by (auto simp: clean_step_def name_part_def)
    then show ?thesis using out(3) by (auto intro: clean_outI)
  next
    case 4
    then have "clean_step rooted out c = (c # ns) @ replicate n ''..''"
      using out by (auto simp: clean_step_def name_part_def)
    also have "clean_out rooted \<dots>" using out 4 by (intro clean_outI) auto
    finally show ?thesis .
  qed
qed

lemma foldl_clean_out:
  assumes "clean_out rooted out" and "\<forall>c \<in> set cs. slash \<notin> set c"
  shows "clean_out rooted (foldl (clean_step rooted) out cs)"
  using assms by (induction cs arbitrary: out) (auto simp: clean_step_out)

lemma clean_out_Nil [simp]: "clean_out rooted []"
  using clean_outI [of "[]" rooted 0] by simp

lemma clean_parts_out:
  "\<forall>c \<in> set cs. slash \<notin> set c \<Longrightarrow> clean_out rooted (rev (clean_parts rooted cs))"
  by (simp add: clean_parts_def foldl_clean_out)

text \<open>Reading cleaned components again changes nothing.\<close>

lemma foldl_clean_names:
  "list_all name_part ns \<Longrightarrow> foldl (clean_step rooted) out (rev ns) = ns @ out"
  by (induction ns) (auto simp: clean_step_def name_part_def)

lemma foldl_clean_dots: "foldl (clean_step False) (replicate m ''..'') (replicate n ''..'') = replicate (n + m) ''..''"
proof (induction n arbitrary: m)
  case (Suc n)
  have "clean_step False (replicate m ''..'') ''..'' = replicate (Suc m) ''..''"
    by (cases m) (simp_all add: clean_step_def)
  then show ?case using Suc [of "Suc m"] by simp
qed simp

lemma clean_parts_idem:
  assumes "clean_out rooted (rev cs)"
  shows "clean_parts rooted cs = cs"
proof -
  obtain ns n where cs: "rev cs = ns @ replicate n ''..''" "list_all name_part ns" "rooted \<longrightarrow> n = 0"
    using assms by (auto simp: clean_out_def)
  then have cs': "cs = replicate n ''..'' @ rev ns"
    by (metis rev_append rev_replicate rev_rev_ident)
  have "foldl (clean_step rooted) [] (replicate n ''..'') = replicate n ''..''"
    using cs(3) foldl_clean_dots [of 0 n] by (cases rooted) auto
  then have "foldl (clean_step rooted) [] cs = ns @ replicate n ''..''"
    using foldl_clean_names [OF cs(2)] by (simp add: cs')
  then show ?thesis by (simp add: clean_parts_def flip: cs(1))
qed

lemma clean_out_no_slash: "clean_out rooted out \<Longrightarrow> c \<in> set out \<Longrightarrow> slash \<notin> set c \<and> c \<noteq> []"
proof -
  assume "clean_out rooted out" "c \<in> set out"
  then obtain ns n where "out = ns @ replicate n ''..''" "list_all name_part ns"
    unfolding clean_out_def by blast
  with \<open>c \<in> set out\<close> have "name_part c \<or> c = ''..''"
    by (auto simp: list_all_iff)
  then show ?thesis by (auto simp: name_part_def)
qed

subsection \<open>Cleaning twice\<close>

lemma Split_slash_parts: "\<forall>c \<in> set (Split p ''/''). slash \<notin> set c"
  using Split_char_no_sep by blast

lemma Split_rooted: "Split (slash # p) ''/'' = [] # Split p ''/''"
  using Split_char_append [of slash "[]" p] by simp

lemma clean_parts_Nil_head [simp]: "clean_parts rooted ([] # cs) = clean_parts rooted cs"
  by (simp add: clean_parts_def clean_step_def)

lemma clean_parts_Split_StrJoin:
  assumes "clean_out rooted (rev parts)"
  shows "clean_parts rooted (Split (StrJoin parts ''/'') ''/'') = parts"
proof (cases "parts = []")
  case True
  then show ?thesis by (simp add: Split_char_notin clean_parts_def clean_step_def)
next
  case False
  then have "Split (StrJoin parts ''/'') ''/'' = parts"
    using assms clean_out_no_slash by (intro Split_StrJoin_char) auto
  then show ?thesis using assms by (simp add: clean_parts_idem)
qed

lemma StrJoin_head:
  "cs \<noteq> [] \<Longrightarrow> (\<forall>c \<in> set cs. c \<noteq> [] \<and> slash \<notin> set c) \<Longrightarrow>
   StrJoin cs ''/'' \<noteq> [] \<and> hd (StrJoin cs ''/'') \<noteq> slash"
proof (cases cs)
  case (Cons a list)
  assume "\<forall>c \<in> set cs. c \<noteq> [] \<and> slash \<notin> set c"
  with Cons obtain x xs where "a = x # xs" "x \<noteq> slash" by (cases a) auto
  with Cons show ?thesis by (cases list) auto
qed simp

lemma Clean_abs_eq:
  "path_rooted p \<Longrightarrow> Clean p = slash # StrJoin (clean_parts True (Split p ''/'')) ''/''"
  by (auto simp: Clean_def Let_def path_rooted_def)

lemma Clean_rel_eq:
  "p \<noteq> [] \<Longrightarrow> \<not> path_rooted p \<Longrightarrow>
   Clean p = (let parts = clean_parts False (Split p ''/'')
              in if parts = [] then ''.'' else StrJoin parts ''/'')"
  by (auto simp: Clean_def Let_def)

lemma path_rooted_Cons [simp]: "path_rooted (c # p) \<longleftrightarrow> c = slash"
  by (auto simp: path_rooted_def)

text \<open>
  A cleaned path is rooted, with cleaned components; or it is the dot; or it is relative, with
  cleaned components and no leading slash.
\<close>

lemma Clean_cases:
  obtains (abs) parts where "path_rooted p" "Clean p = slash # StrJoin parts ''/''"
      "clean_out True (rev parts)"
  | (dot) "\<not> path_rooted p" "Clean p = ''.''"
  | (rel) parts where "\<not> path_rooted p" "Clean p = StrJoin parts ''/''" "parts \<noteq> []"
      "clean_out False (rev parts)"
proof -
  let ?ps = "\<lambda>r. clean_parts r (Split p ''/'')"
  have out: "clean_out r (rev (?ps r))" for r
    by (rule clean_parts_out [OF Split_slash_parts])
  consider "p = []" | "path_rooted p" | "p \<noteq> []" "\<not> path_rooted p" by blast
  then show thesis
  proof cases
    case 1
    then show thesis by (intro dot) (auto simp: Clean_def path_rooted_def)
  next
    case 2
    then show thesis using abs [OF _ Clean_abs_eq out] by blast
  next
    case 3
    then show thesis
      using dot rel [OF _ _ _ out] Clean_rel_eq [of p] by (cases "?ps False = []") auto
  qed
qed

lemma clean_out_sl: "clean_out r (rev parts) \<Longrightarrow> \<forall>c \<in> set parts. c \<noteq> [] \<and> slash \<notin> set c"
  using clean_out_no_slash by fastforce

text \<open>\<open>filepath.Clean\<close> is idempotent: a cleaned path is its own normal form.\<close>

lemma Clean_idem: "Clean (Clean p) = Clean p"
proof (cases rule: Clean_cases [of p])
  case (abs parts)
  then show ?thesis
    by (simp only: Clean_abs_eq [of "slash # _"] path_rooted_Cons Split_rooted
        clean_parts_Nil_head clean_parts_Split_StrJoin)
next
  case dot
  have "Clean ''.'' = ''.''" by code_simp
  with dot show ?thesis by simp
next
  case (rel parts)
  then have "StrJoin parts ''/'' \<noteq> []" "\<not> path_rooted (StrJoin parts ''/'')"
    using StrJoin_head [OF _ clean_out_sl] by (auto simp: path_rooted_def HasPrefix_single)
  then have "Clean (StrJoin parts ''/'') = StrJoin parts ''/''"
    using rel(3,4) by (subst Clean_rel_eq) (simp_all add: clean_parts_Split_StrJoin)
  with rel show ?thesis by simp
qed

lemma Clean_rooted: "path_rooted p \<Longrightarrow> path_rooted (Clean p)"
  by (simp add: Clean_abs_eq)

lemma Clean_nonempty [simp]: "Clean p \<noteq> []"
  by (cases rule: Clean_cases [of p]) (auto dest!: StrJoin_head [OF _ clean_out_sl])

subsection \<open>Base names and directories\<close>

lemma FSplit_append: "slash \<notin> set f \<Longrightarrow> FSplit (d @ slash # f) = (d @ ''/'', f)"
proof -
  assume "slash \<notin> set f"
  then have "takeWhile (\<lambda>c. c \<noteq> slash) (rev f @ slash # rev d) = rev f"
    and "dropWhile (\<lambda>c. c \<noteq> slash) (rev f @ slash # rev d) = slash # rev d"
    by (induction f rule: rev_induct) auto
  then show ?thesis by (simp add: FSplit_def)
qed

lemma FSplit_no_slash: "slash \<notin> set f \<Longrightarrow> FSplit f = ([], f)"
proof -
  assume "slash \<notin> set f"
  then have "\<forall>x \<in> set (rev f). x \<noteq> slash" by auto
  then have "takeWhile (\<lambda>c. c \<noteq> slash) (rev f) = rev f" "dropWhile (\<lambda>c. c \<noteq> slash) (rev f) = []"
    by (simp_all only: takeWhile_eq_all_conv dropWhile_eq_Nil_conv)
  then show ?thesis by (simp only: FSplit_def rev_rev_ident rev.simps)
qed

lemma FSplit_join: "fst (FSplit p) @ snd (FSplit p) = p"
  by (simp add: FSplit_def flip: rev_append)

lemma snd_FSplit_no_slash: "slash \<notin> set (snd (FSplit p))"
  by (auto simp: FSplit_def dest: set_takeWhileD)

lemma Base_file:
  assumes "f \<noteq> []" and "slash \<notin> set f"
  shows "Base (d @ slash # f) = f"
proof -
  have "last (d @ slash # f) = last f" using assms(1) by simp
  then have "last (d @ slash # f) \<notin> set ''/''" using assms last_in_set [of f]
    by (metis list.set(1) list.set(2) singletonD)
  then have "TrimRight (d @ slash # f) ''/'' = d @ slash # f" by (intro TrimRight_no_cut) auto
  then show ?thesis using assms by (simp add: Base_def FSplit_append)
qed

subsection \<open>Absolute paths as lists of names\<close>

definition path_of :: "string list \<Rightarrow> string" where
  "path_of ps = slash # StrJoin ps ''/''"

definition parts_of :: "string \<Rightarrow> string list" where
  "parts_of p = filter (\<lambda>c. c \<noteq> []) (Split p ''/'')"

lemma Split_append_sep: "Split (s @ c # t) [c] = Split s [c] @ Split t [c]"
proof (induction s rule: Split_char_induct [where c = c])
  case (notin s)
  then show ?case by (simp add: Split_char_append Split_char_notin)
next
  case (append s u)
  then show ?case by (simp add: Split_char_append)
qed

lemma parts_of_append [simp]: "parts_of (s @ slash # t) = parts_of s @ parts_of t"
  by (simp add: parts_of_def Split_append_sep)

lemma parts_of_Nil [simp]: "parts_of [] = []"
  by (simp add: parts_of_def Split_char_notin)

lemma parts_of_slash [simp]: "parts_of (slash # t) = parts_of t"
  using parts_of_append [of "[]" t] by simp

lemma parts_of_StrJoin: "list_all name_part ps \<Longrightarrow> parts_of (StrJoin ps ''/'') = ps"
proof (induction ps rule: induct_list012)
  case (2 x)
  then show ?case by (simp add: parts_of_def Split_char_notin name_part_def)
next
  case (3 x y zs)
  then show ?case
    by (simp add: parts_of_def Split_char_append name_part_def)
qed simp

lemma parts_of_path_of: "list_all name_part ps \<Longrightarrow> parts_of (path_of ps) = ps"
  by (simp add: path_of_def parts_of_StrJoin)

lemma foldl_clean_nonempty: "foldl (clean_step r) out (filter (\<lambda>c. c \<noteq> []) cs) = foldl (clean_step r) out cs"
  by (induction cs arbitrary: out) (auto simp: clean_step_def)

lemma Clean_parts_of: "path_rooted p \<Longrightarrow> list_all name_part (parts_of p) \<Longrightarrow> Clean p = path_of (parts_of p)"
  using clean_parts_idem [of True "parts_of p"] clean_outI [of "rev (parts_of p)" True]
  by (auto simp: Clean_abs_eq path_of_def clean_parts_def parts_of_def foldl_clean_nonempty clean_out_def)

lemma path_rooted_path_of [simp]: "path_rooted (path_of ps)"
  by (simp add: path_of_def)

lemma FJoin_path_of:
  assumes "list_all name_part ps" "list_all name_part (parts_of q)"
  shows "FJoin [path_of ps, q] = path_of (ps @ parts_of q)"
proof -
  have "FJoin [path_of ps, q] = Clean (path_of ps @ slash # q)"
    by (simp add: FJoin_def path_of_def Let_def)
  also have "\<dots> = path_of (parts_of (path_of ps @ slash # q))"
    using assms by (intro Clean_parts_of) (auto simp: parts_of_StrJoin path_of_def)
  finally show ?thesis using assms by (simp add: parts_of_path_of)
qed

lemma path_of_append:
  "list_all name_part rest \<Longrightarrow> \<exists>q. path_of (ps @ rest) = path_of ps @ q \<and> parts_of q = rest"
proof (cases "ps = [] \<or> rest = []")
  case True
  assume "list_all name_part rest"
  with True show ?thesis by (cases "ps = []") (auto simp: path_of_def parts_of_StrJoin)
next
  case False
  assume rest: "list_all name_part rest"
  have "StrJoin (ps @ rest) ''/'' = StrJoin ps ''/'' @ slash # StrJoin rest ''/''"
    using False
  proof (induction ps)
    case (Cons p ps)
    then show ?case by (cases "ps = []") (auto simp: StrJoin_Cons)
  qed simp
  with rest show ?thesis
    by (intro exI [of _ "slash # StrJoin rest ''/''"]) (simp add: path_of_def parts_of_StrJoin)
qed

end
