(* ===== verification/Transform.thy ===== *)
theory Transform
  imports CDI_Types CDI_Parser Go_Path "HOL-Library.Product_Lexorder"
begin

section \<open>Transformers of CDI specifications\<close>

text \<open>
  The package \<open>pkg/nvcdi/transform\<close>: deduplication (\<open>deduplicate.go\<close>), removal by identity
  (\<open>remove.go\<close>), simplification (\<open>simplify.go\<close>), sorting (\<open>sorter.go\<close>), composition (\<open>merge.go\<close>)
  and the merged device (\<open>merged-device.go\<close>).  A transformer changes the specification it is given
  a pointer to; here it returns the changed specification, or the error or panic.  (On a nil
  specification every transformer returns at once; the argument here is the value pointed to.)

  The loops of the three deduplications and of the three removals differ only in the identity of
  an entity, so the laws they rest on are stated once, in the locale \<open>entity\<close>, and interpreted on
  device nodes, hooks, mounts and environment variables.
\<close>

type_synonym transformer = "CDISpec \<Rightarrow> CDISpec result"

subsection \<open>Edits\<close>

definition edits_IsEmpty :: "ContainerEdits \<Rightarrow> bool" where
  "edits_IsEmpty e \<longleftrightarrow> DeviceNodes e = [] \<and> Env e = [] \<and> Hooks e = [] \<and> Mounts e = []"

definition nil_deref :: error where
  "nil_deref = Panic ''invalid memory address or nil pointer dereference''"

definition deref :: "'a option \<Rightarrow> 'a result" where
  "deref p = (case p of None \<Rightarrow> Inl nil_deref | Some x \<Rightarrow> Inr x)"

definition getDeviceNodeIDs :: "ContainerEdits \<Rightarrow> string list result" where
  "getDeviceNodeIDs e = mapR (\<lambda>p. bindR (deref p) (\<lambda>d. Inr (deviceNode_id d))) (DeviceNodes e)"

definition getEnvIDs :: "ContainerEdits \<Rightarrow> string list result" where
  "getEnvIDs e = Inr (Env e)"

definition getHookIDs :: "ContainerEdits \<Rightarrow> string list result" where
  "getHookIDs e = mapR (\<lambda>p. bindR (deref p) (\<lambda>d. Inr (hook_id d))) (Hooks e)"

definition getMountIDs :: "ContainerEdits \<Rightarrow> string list result" where
  "getMountIDs e = mapR (\<lambda>p. bindR (deref p) (\<lambda>d. Inr (mount_id d))) (Mounts e)"

text \<open>
  The code collects the identities as the keys of a map, and so returns them in an unspecified
  order; the only use of the list is \<open>newRemover\<close>, which makes it a map again.
\<close>

definition getEntityIds :: "ContainerEdits \<Rightarrow> string list result" where
  "getEntityIds e =
     bindR (getDeviceNodeIDs e) (\<lambda>ds.
     bindR (getEnvIDs e) (\<lambda>es.
     bindR (getHookIDs e) (\<lambda>hs.
     bindR (getMountIDs e) (\<lambda>ms.
       Inr (unique_by id (ds @ es @ hs @ ms))))))"

subsection \<open>Deduplication\<close>

fun dedupe_loop :: "('a \<Rightarrow> string) \<Rightarrow> (string \<Rightarrow> bool) \<Rightarrow> 'a option list \<Rightarrow> 'a option list" where
  "dedupe_loop eid seen [] = []"
| "dedupe_loop eid seen (None # es) = dedupe_loop eid seen es"
| "dedupe_loop eid seen (Some e # es) =
     (if seen (eid e) then dedupe_loop eid seen es
      else Some e # dedupe_loop eid (seen(eid e := True)) es)"

definition deduplicateDeviceNodes :: "DeviceNode option list \<Rightarrow> DeviceNode option list" where
  "deduplicateDeviceNodes es = dedupe_loop deviceNode_id (\<lambda>_. False) es"

definition deduplicateEnvs :: "string list \<Rightarrow> string list" where
  "deduplicateEnvs es = unique_by id es"

definition deduplicateHooks :: "Hook option list \<Rightarrow> Hook option list" where
  "deduplicateHooks es = dedupe_loop hook_id (\<lambda>_. False) es"

definition deduplicateMounts :: "Mount option list \<Rightarrow> Mount option list" where
  "deduplicateMounts es = dedupe_loop mount_id (\<lambda>_. False) es"

definition deduplicateAdditionalGIDs :: "32 word list \<Rightarrow> 32 word list" where
  "deduplicateAdditionalGIDs es = sort_Slice (<) (unique_by id es)"

definition dedupe_transformEdits :: "ContainerEdits \<Rightarrow> ContainerEdits" where
  "dedupe_transformEdits e =
     e\<lparr>AdditionalGIDs := deduplicateAdditionalGIDs (AdditionalGIDs e),
       DeviceNodes := deduplicateDeviceNodes (DeviceNodes e),
       Env := deduplicateEnvs (Env e),
       Hooks := deduplicateHooks (Hooks e),
       Mounts := deduplicateMounts (Mounts e)\<rparr>"

definition map_device_edits :: "(ContainerEdits \<Rightarrow> ContainerEdits) \<Rightarrow> Device \<Rightarrow> Device" where
  "map_device_edits f d = d\<lparr>dev_Edits := f (dev_Edits d)\<rparr>"

definition dedupe_Transform :: transformer where
  "dedupe_Transform spec =
     Inr (spec\<lparr>cdi_Edits := dedupe_transformEdits (cdi_Edits spec),
               cdi_Devices := map (map_device_edits dedupe_transformEdits) (cdi_Devices spec)\<rparr>)"

subsection \<open>Removal\<close>

type_synonym remover = "string \<Rightarrow> bool"

definition newRemover :: "string list \<Rightarrow> remover" where
  "newRemover ids = (\<lambda>x. x \<in> set ids)"

fun remove_loop :: "('a \<Rightarrow> string) \<Rightarrow> remover \<Rightarrow> 'a option list \<Rightarrow> 'a option list result" where
  "remove_loop eid r [] = Inr []"
| "remove_loop eid r (p # ps) =
     bindR (deref p) (\<lambda>e.
     bindR (remove_loop eid r ps) (\<lambda>qs.
       Inr (if r (eid e) then qs else Some e # qs)))"

definition remove_transformEdits :: "remover \<Rightarrow> ContainerEdits \<Rightarrow> ContainerEdits result" where
  "remove_transformEdits r e =
     bindR (remove_loop deviceNode_id r (DeviceNodes e)) (\<lambda>ds.
     bindR (remove_loop hook_id r (Hooks e)) (\<lambda>hs.
     bindR (remove_loop mount_id r (Mounts e)) (\<lambda>ms.
       Inr (e\<lparr>DeviceNodes := ds, Env := filter (\<lambda>v. \<not> r v) (Env e), Hooks := hs, Mounts := ms\<rparr>))))"

text \<open>
  The loop over the devices edits a copy of each device and drops it, so only its errors matter.
\<close>

definition remove_Transform :: "remover \<Rightarrow> transformer" where
  "remove_Transform r spec =
     bindR (mapR (\<lambda>d. wrapR (''failed to remove edits from device '' @ dev_Name d)
                        (remove_transformEdits r (dev_Edits d))) (cdi_Devices spec)) (\<lambda>_.
     bindR (remove_transformEdits r (cdi_Edits spec)) (\<lambda>e.
       Inr (spec\<lparr>cdi_Edits := e\<rparr>)))"

subsection \<open>Simplification\<close>

definition spec_of_edits :: "ContainerEdits \<Rightarrow> CDISpec" where
  "spec_of_edits e =
     \<lparr>cdi_Version = [], cdi_Kind = [], cdi_Annotations = [], cdi_Devices = [], cdi_Edits = e\<rparr>"

definition simplify_device :: "remover \<Rightarrow> Device \<Rightarrow> Device result" where
  "simplify_device toRemove device =
     bindR (wrapR ''failed to transform device edits''
              (remove_Transform toRemove (spec_of_edits (dev_Edits device)))) (\<lambda>deviceAsSpec.
       Inr (if edits_IsEmpty (cdi_Edits deviceAsSpec) then device
            else device\<lparr>dev_Edits := cdi_Edits deviceAsSpec\<rparr>))"

definition simplify_Transform :: transformer where
  "simplify_Transform spec0 =
     bindR (dedupe_Transform spec0) (\<lambda>spec.
     bindR (getEntityIds (cdi_Edits spec)) (\<lambda>ids.
     bindR (mapR (simplify_device (newRemover ids)) (cdi_Devices spec)) (\<lambda>updated.
       Inr (spec\<lparr>cdi_Devices := updated\<rparr>))))"

subsection \<open>Sorting\<close>

definition path_less :: "string \<Rightarrow> string \<Rightarrow> bool" where
  "path_less p q =
     (let ip = CountChar (Clean p) slash; jp = CountChar (Clean q) slash
      in if ip = jp then p < q else ip < jp)"

text \<open>
  \<open>sort.Slice\<close> with a comparison that follows pointers: with two or more elements every element is
  compared, so a nil element is dereferenced.
\<close>

definition sort_pointers :: "('a \<Rightarrow> 'a \<Rightarrow> bool) \<Rightarrow> 'a option list \<Rightarrow> 'a option list result" where
  "sort_pointers lt es =
     (if length es \<ge> 2 \<and> None \<in> set es then Inl nil_deref
      else Inr (sort_Slice (\<lambda>p q. lt (the p) (the q)) es))"

definition sortDeviceNodes :: "DeviceNode option list \<Rightarrow> DeviceNode option list result" where
  "sortDeviceNodes es = sort_pointers (\<lambda>d e. path_less (dn_Path d) (dn_Path e)) es"

definition sortMounts :: "Mount option list \<Rightarrow> Mount option list result" where
  "sortMounts es = sort_pointers (\<lambda>m n. path_less (m_ContainerPath m) (m_ContainerPath n)) es"

definition sorter_transformEdits :: "ContainerEdits \<Rightarrow> ContainerEdits result" where
  "sorter_transformEdits e =
     bindR (sortDeviceNodes (DeviceNodes e)) (\<lambda>ds.
     bindR (sortMounts (Mounts e)) (\<lambda>ms.
       Inr (e\<lparr>DeviceNodes := ds, Mounts := ms\<rparr>)))"

definition sortDevices :: "Device list \<Rightarrow> Device list" where
  "sortDevices ds = sort_Slice (\<lambda>d e. dev_Name d < dev_Name e) ds"

definition sorter_device :: "Device \<Rightarrow> Device result" where
  "sorter_device d = bindR (sorter_transformEdits (dev_Edits d)) (\<lambda>x. Inr (d\<lparr>dev_Edits := x\<rparr>))"

definition sorter_Transform :: transformer where
  "sorter_Transform spec =
     bindR (sorter_transformEdits (cdi_Edits spec)) (\<lambda>e.
     bindR (mapR sorter_device (cdi_Devices spec)) (\<lambda>ds.
       Inr (spec\<lparr>cdi_Edits := e, cdi_Devices := sortDevices ds\<rparr>)))"

subsection \<open>Composition and the merged device\<close>

definition Merge :: "transformer list \<Rightarrow> transformer" where
  "Merge ts spec = foldR (\<lambda>s t. t s) spec ts"

definition NewSimplifier :: transformer where
  "NewSimplifier = Merge [dedupe_Transform, simplify_Transform, sorter_Transform]"

record mergedDevice =
  md_name :: string
  md_skipIfExists :: bool

type_synonym MergedDeviceOption = "mergedDevice \<Rightarrow> mergedDevice"

definition WithName :: "string \<Rightarrow> MergedDeviceOption" where
  "WithName name m = m\<lparr>md_name := name\<rparr>"

definition WithSkipIfExists :: "bool \<Rightarrow> MergedDeviceOption" where
  "WithSkipIfExists skip m = m\<lparr>md_skipIfExists := skip\<rparr>"

definition allDeviceName :: string where
  "allDeviceName = ''all''"

definition NewMergedDevice :: "MergedDeviceOption list \<Rightarrow> mergedDevice result" where
  "NewMergedDevice opts =
     (let m = foldl (\<lambda>m opt. opt m) \<lparr>md_name = [], md_skipIfExists = False\<rparr> opts;
          m = (if md_name m = [] then m\<lparr>md_name := allDeviceName\<rparr> else m)
      in case ValidateDeviceName (md_name m) of
           Inl e \<Rightarrow> Inl (Wrap (''invalid device name '' @ md_name m) e)
         | Inr _ \<Rightarrow> Inr m)"

definition mergeDeviceSpecs :: "Device list \<Rightarrow> string \<Rightarrow> Device option" where
  "mergeDeviceSpecs ds name =
     (if \<exists>d \<in> set ds. dev_Name d = name then None
      else Some \<lparr>dev_Name = name, dev_Annotations = [],
                 dev_Edits = foldl edits_Append empty_edits (map dev_Edits ds)\<rparr>)"

definition mergedDevice_Transform :: "mergedDevice \<Rightarrow> transformer" where
  "mergedDevice_Transform m spec =
     (case mergeDeviceSpecs (cdi_Devices spec) (md_name m) of
        None \<Rightarrow> if md_skipIfExists m then Inr spec
                else Inl (Errorf (''device '' @ md_name m @ '' already exists''))
      | Some d \<Rightarrow>
          wrapR (''failed to simplify spec after merging device '' @ md_name m)
            (NewSimplifier (spec\<lparr>cdi_Devices := cdi_Devices spec @ [d]\<rparr>)))"

subsection \<open>Entities of edits\<close>

text \<open>
  The abstract view of edits: the set of entities they apply to a container.  The identity of an
  entity is what \<open>id()\<close> returns for it; identities of all kinds share one name space.
\<close>

datatype entity = NodeE DeviceNode | EnvE string | HookE Hook | MountE Mount

fun entity_id :: "entity \<Rightarrow> string" where
  "entity_id (NodeE d) = deviceNode_id d"
| "entity_id (EnvE v) = v"
| "entity_id (HookE h) = hook_id h"
| "entity_id (MountE m) = mount_id m"

fun entity_valid :: "entity \<Rightarrow> bool" where
  "entity_valid (NodeE d) = deviceNode_ascii d"
| "entity_valid (EnvE v) = (\<not> HasPrefix v ''{'')"
| "entity_valid (HookE h) = hook_ascii h"
| "entity_valid (MountE m) = mount_ascii m"

definition somes :: "'a option list \<Rightarrow> 'a list" where
  "somes ps = map the (filter (\<lambda>p. p \<noteq> None) ps)"

definition entities :: "ContainerEdits \<Rightarrow> entity set" where
  "entities e = NodeE ` set (somes (DeviceNodes e)) \<union> EnvE ` set (Env e)
                \<union> HookE ` set (somes (Hooks e)) \<union> MountE ` set (somes (Mounts e))"

definition edits_valid :: "ContainerEdits \<Rightarrow> bool" where
  "edits_valid e \<longleftrightarrow> (\<forall>x \<in> entities e. entity_valid x)"

definition no_nil :: "ContainerEdits \<Rightarrow> bool" where
  "no_nil e \<longleftrightarrow> None \<notin> set (DeviceNodes e) \<and> None \<notin> set (Hooks e) \<and> None \<notin> set (Mounts e)"

lemma somes_simps [simp]:
  "somes [] = []" "somes (None # ps) = somes ps" "somes (Some x # ps) = x # somes ps"
  by (simp_all add: somes_def)

lemma somes_map_Some [simp]: "somes (map Some xs) = xs"
  by (induction xs) auto

lemma set_somes: "x \<in> set (somes ps) \<longleftrightarrow> Some x \<in> set ps"
  by (force simp: somes_def)

lemma map_Some_somes: "None \<notin> set ps \<Longrightarrow> map Some (somes ps) = ps"
proof (induction ps)
  case (Cons p ps)
  then show ?case by (cases p) auto
qed simp

lemma somes_append: "somes (ps @ qs) = somes ps @ somes qs"
  by (simp add: somes_def)

lemma dedupe_loop_seen: "dedupe_loop eid seen ps = map Some (seen_loop eid seen (somes ps))"
  by (induction eid seen ps rule: dedupe_loop.induct) (auto simp: fun_upd_def)

lemma remove_loop_filter:
  "None \<notin> set ps \<Longrightarrow> remove_loop eid r ps = Inr (map Some (filter (\<lambda>x. \<not> r (eid x)) (somes ps)))"
proof (induction ps)
  case (Cons p ps)
  then show ?case by (cases p) (auto simp: deref_def)
qed simp

lemma remove_loop_nil: "None \<in> set ps \<Longrightarrow> remove_loop eid r ps = Inl nil_deref"
proof (induction ps)
  case (Cons p ps)
  then show ?case by (cases p) (auto simp: deref_def)
qed simp

text \<open>The contract between a kind of entity and the loops over it.\<close>

locale entity_kind =
  fixes eid :: "'a \<Rightarrow> string" and valid :: "'a \<Rightarrow> bool"
  assumes eid_inj: "valid x \<Longrightarrow> valid y \<Longrightarrow> eid x = eid y \<Longrightarrow> x = y"
begin

lemma set_unique: "\<forall>x \<in> set xs. valid x \<Longrightarrow> set (unique_by eid xs) = set xs"
proof
  assume v: "\<forall>x \<in> set xs. valid x"
  show "set (unique_by eid xs) \<subseteq> set xs" by (rule set_seen_loop_subset)
  show "set xs \<subseteq> set (unique_by eid xs)"
  proof
    fix x assume x: "x \<in> set xs"
    then have "eid x \<in> eid ` set (unique_by eid xs)" by (simp add: key_set_seen_loop)
    then obtain y where "y \<in> set (unique_by eid xs)" "eid x = eid y" by auto
    with x v show "x \<in> set (unique_by eid xs)"
      using eid_inj set_seen_loop_subset [of eid _ xs] by blast
  qed
qed

lemma set_dedupe:
  "\<forall>x \<in> set (somes ps). valid x \<Longrightarrow> set (somes (dedupe_loop eid (\<lambda>_. False) ps)) = set (somes ps)"
  by (simp add: dedupe_loop_seen set_unique)

lemma dedupe_idem:
  "dedupe_loop eid (\<lambda>_. False) (dedupe_loop eid (\<lambda>_. False) ps) = dedupe_loop eid (\<lambda>_. False) ps"
  by (simp add: dedupe_loop_seen unique_by_idem)

lemma dedupe_distinct: "distinct (dedupe_loop eid (\<lambda>_. False) ps)"
  using distinct_seen_loop [of eid "\<lambda>_. False" "somes ps"]
  by (simp add: dedupe_loop_seen distinct_map)

lemma dedupe_no_nil: "None \<notin> set (dedupe_loop eid seen ps)"
  by (auto simp: dedupe_loop_seen)

end

interpretation nodes: entity_kind deviceNode_id deviceNode_ascii
  by unfold_locales (rule deviceNode_id_inj)

interpretation hooks: entity_kind hook_id hook_ascii
  by unfold_locales (rule hook_id_inj)

interpretation mounts: entity_kind mount_id mount_ascii
  by unfold_locales (rule mount_id_inj)

lemmas dedupe_defs = deduplicateDeviceNodes_def deduplicateEnvs_def deduplicateHooks_def
  deduplicateMounts_def deduplicateAdditionalGIDs_def dedupe_transformEdits_def

subsection \<open>Deduplication keeps the entities and is idempotent\<close>

lemma entity_id_hd:
  "\<exists>r. deviceNode_id d = ''{'' @ json_field ''path'' (json_string (dn_Path d)) @ r"
  "\<exists>r. mount_id m = ''{'' @ json_field ''hostPath'' (json_string (m_HostPath m)) @ r"
  "\<exists>r. hook_id h = ''{'' @ json_field ''hookName'' (json_string (h_HookName h)) @ r"
  by (simp_all add: deviceNode_id_def deviceNode_fields_def mount_id_def mount_fields_def hook_id_def
      hook_fields_def json_object_def StrJoin_json_rest)

lemma entity_id_inj:
  assumes "entity_valid x" "entity_valid y" "entity_id x = entity_id y"
  shows "x = y"
proof -
  note hd = entity_id_hd [unfolded json_field_def]
  have "deviceNode_id d \<noteq> mount_id m" "deviceNode_id d \<noteq> hook_id h" "mount_id m \<noteq> hook_id h" for d m h
    using hd(1) [of d] hd(2) [of m] hd(3) [of h] by auto
  moreover have "HasPrefix (deviceNode_id d) ''{''" "HasPrefix (mount_id m) ''{''" "HasPrefix (hook_id h) ''{''" for d m h
    using hd(1) [of d] hd(2) [of m] hd(3) [of h] by auto
  ultimately show ?thesis
    using assms by (cases x; cases y) (auto simp: deviceNode_id_inj mount_id_inj hook_id_inj dest: sym)
qed

lemma edits_validD:
  assumes "edits_valid e"
  shows "\<forall>d \<in> set (somes (DeviceNodes e)). deviceNode_ascii d" "\<forall>h \<in> set (somes (Hooks e)). hook_ascii h"
    "\<forall>m \<in> set (somes (Mounts e)). mount_ascii m"
  using assms by (simp_all add: edits_valid_def entities_def ball_Un)

lemma entities_dedupe: "edits_valid e \<Longrightarrow> entities (dedupe_transformEdits e) = entities e"
  using nodes.set_dedupe hooks.set_dedupe mounts.set_dedupe edits_validD [of e]
  by (simp add: entities_def dedupe_defs set_unique_id)

lemma edits_valid_dedupe: "edits_valid e \<Longrightarrow> edits_valid (dedupe_transformEdits e)"
  by (simp add: edits_valid_def entities_dedupe)

lemma no_nil_dedupe: "no_nil (dedupe_transformEdits e)"
  by (simp add: no_nil_def dedupe_defs dedupe_loop_seen image_iff)

lemma GIDs_idem:
  "deduplicateAdditionalGIDs (deduplicateAdditionalGIDs gs) = deduplicateAdditionalGIDs gs"
proof -
  have "distinct (deduplicateAdditionalGIDs gs)"
    using distinct_unique_id by (simp add: deduplicateAdditionalGIDs_def)
  then have "unique_by id (deduplicateAdditionalGIDs gs) = deduplicateAdditionalGIDs gs"
    by (simp add: seen_loop_fresh)
  moreover have "sorted (deduplicateAdditionalGIDs gs)"
    using sorted_sort_Slice_key [of "\<lambda>x. x" "unique_by id gs"]
    by (simp add: deduplicateAdditionalGIDs_def)
  then have "sort_Slice (<) (deduplicateAdditionalGIDs gs) = deduplicateAdditionalGIDs gs"
    using sort_Slice_unique [of "deduplicateAdditionalGIDs gs" "deduplicateAdditionalGIDs gs" "\<lambda>x. x"]
    by simp
  ultimately show ?thesis by (simp add: deduplicateAdditionalGIDs_def)
qed

lemma dedupe_transformEdits_idem: "dedupe_transformEdits (dedupe_transformEdits e) = dedupe_transformEdits e"
  using GIDs_idem nodes.dedupe_idem hooks.dedupe_idem mounts.dedupe_idem
  by (simp add: dedupe_defs unique_by_idem)

subsection \<open>Removal, sorting and simplification on edits without nil pointers\<close>

lemma remove_transformEdits_no_nil:
  assumes "no_nil e"
  obtains e' where "remove_transformEdits r e = Inr e'" "no_nil e'"
    "entities e' = {x \<in> entities e. \<not> r (entity_id x)}"
    "NetDevices e' = NetDevices e" "Intel_Rdt e' = Intel_Rdt e" "AdditionalGIDs e' = AdditionalGIDs e"
proof -
  define e' where "e' = e\<lparr>DeviceNodes := map Some (filter (\<lambda>x. \<not> r (deviceNode_id x)) (somes (DeviceNodes e))),
    Env := filter (\<lambda>v. \<not> r v) (Env e),
    Hooks := map Some (filter (\<lambda>x. \<not> r (hook_id x)) (somes (Hooks e))),
    Mounts := map Some (filter (\<lambda>x. \<not> r (mount_id x)) (somes (Mounts e)))\<rparr>"
  have "remove_transformEdits r e = Inr e'"
    using assms by (simp add: remove_transformEdits_def remove_loop_filter no_nil_def e'_def)
  moreover have "no_nil e'" by (auto simp: no_nil_def e'_def)
  moreover have "entities e' = {x \<in> entities e. \<not> r (entity_id x)}"
    by (auto simp: entities_def e'_def)
  ultimately show thesis using that by (simp add: e'_def)
qed

lemma mapR_ids: "None \<notin> set ps \<Longrightarrow> mapR (\<lambda>p. bindR (deref p) (\<lambda>d. Inr (f d))) ps = Inr (map f (somes ps))"
proof (induction ps)
  case (Cons p ps)
  then show ?case by (cases p) (auto simp: deref_def)
qed simp

lemma getEntityIds_no_nil:
  assumes "no_nil e"
  obtains ids where "getEntityIds e = Inr ids" "set ids = entity_id ` entities e"
proof -
  let ?ids = "map deviceNode_id (somes (DeviceNodes e)) @ Env e @ map hook_id (somes (Hooks e))
              @ map mount_id (somes (Mounts e))"
  have "getEntityIds e = Inr (unique_by id ?ids)"
    using assms by (simp add: getEntityIds_def getDeviceNodeIDs_def getEnvIDs_def getHookIDs_def
        getMountIDs_def mapR_ids no_nil_def)
  moreover have "set ?ids = entity_id ` entities e"
    by (simp add: entities_def image_Un image_image Un_assoc)
  ultimately show thesis using that by (metis set_unique_id)
qed

lemma entities_empty: "no_nil e \<Longrightarrow> edits_IsEmpty e \<longleftrightarrow> entities e = {}"
  using map_Some_somes [of "DeviceNodes e"] map_Some_somes [of "Hooks e"] map_Some_somes [of "Mounts e"]
  by (auto simp: edits_IsEmpty_def entities_def no_nil_def)

lemma sort_pointers_no_nil:
  assumes "None \<notin> set es"
  obtains es' where "sort_pointers lt es = Inr es'" "mset es' = mset es" "set es' = set es"
  using assms that by (metis mset_sort_Slice set_mset_mset sort_pointers_def)

lemma entities_cong:
  assumes "set (DeviceNodes e) = set (DeviceNodes f)" "Env e = Env f" "set (Hooks e) = set (Hooks f)"
    "set (Mounts e) = set (Mounts f)"
  shows "entities e = entities f" "no_nil e = no_nil f"
  using assms by (auto simp: entities_def no_nil_def image_iff set_somes)

lemma sorter_transformEdits_no_nil:
  assumes "no_nil e"
  obtains e' where "sorter_transformEdits e = Inr e'" "no_nil e'" "entities e' = entities e"
    "NetDevices e' = NetDevices e" "Intel_Rdt e' = Intel_Rdt e" "AdditionalGIDs e' = AdditionalGIDs e"
proof -
  obtain ds where ds: "sortDeviceNodes (DeviceNodes e) = Inr ds" "set ds = set (DeviceNodes e)"
    using assms unfolding no_nil_def sortDeviceNodes_def by (metis sort_pointers_no_nil)
  obtain ms where ms: "sortMounts (Mounts e) = Inr ms" "set ms = set (Mounts e)"
    using assms unfolding no_nil_def sortMounts_def by (metis sort_pointers_no_nil)
  have "sorter_transformEdits e = Inr (e\<lparr>DeviceNodes := ds, Mounts := ms\<rparr>)"
    by (simp add: sorter_transformEdits_def ds ms)
  then show thesis
    using that entities_cong [of "e\<lparr>DeviceNodes := ds, Mounts := ms\<rparr>" e] assms ds ms by simp
qed

definition keeps_rest :: "Device \<Rightarrow> Device \<Rightarrow> bool" where
  "keeps_rest d d' \<longleftrightarrow>
     dev_Name d' = dev_Name d \<and> dev_Annotations d' = dev_Annotations d \<and> no_nil (dev_Edits d') \<and>
     NetDevices (dev_Edits d') = NetDevices (dev_Edits d) \<and>
     Intel_Rdt (dev_Edits d') = Intel_Rdt (dev_Edits d) \<and>
     AdditionalGIDs (dev_Edits d') = AdditionalGIDs (dev_Edits d)"

definition without :: "string list \<Rightarrow> entity set \<Rightarrow> entity set" where
  "without ids es =
     (let s = {x \<in> es. entity_id x \<notin> set ids} in if s = {} then es else s)"

lemma simplify_device_no_nil:
  assumes "no_nil (dev_Edits d)"
  shows "\<exists>d'. simplify_device (newRemover ids) d = Inr d' \<and> keeps_rest d d' \<and>
    entities (dev_Edits d') = without ids (entities (dev_Edits d))"
proof -
  obtain e where e: "remove_transformEdits (newRemover ids) (dev_Edits d) = Inr e" "no_nil e"
    "entities e = {x \<in> entities (dev_Edits d). \<not> newRemover ids (entity_id x)}"
    "NetDevices e = NetDevices (dev_Edits d)" "Intel_Rdt e = Intel_Rdt (dev_Edits d)"
    "AdditionalGIDs e = AdditionalGIDs (dev_Edits d)"
    using remove_transformEdits_no_nil [OF assms, where r = "newRemover ids"] by blast
  define d' where "d' = (if edits_IsEmpty e then d else d\<lparr>dev_Edits := e\<rparr>)"
  have "simplify_device (newRemover ids) d = Inr d'"
    by (simp add: simplify_device_def remove_Transform_def spec_of_edits_def e(1) d'_def)
  moreover have "keeps_rest d d'" using e assms by (simp add: keeps_rest_def d'_def)
  moreover have "entities (dev_Edits d') = without ids (entities (dev_Edits d))"
    using entities_empty [OF e(2)] e(3) by (auto simp: d'_def without_def newRemover_def Let_def)
  ultimately show ?thesis by blast
qed

lemma sorter_device_no_nil:
  assumes "no_nil (dev_Edits d)"
  shows "\<exists>d'. sorter_device d = Inr d' \<and> keeps_rest d d' \<and>
    entities (dev_Edits d') = entities (dev_Edits d)"
proof -
  obtain e where "sorter_transformEdits (dev_Edits d) = Inr e" "no_nil e"
    "entities e = entities (dev_Edits d)" "NetDevices e = NetDevices (dev_Edits d)"
    "Intel_Rdt e = Intel_Rdt (dev_Edits d)" "AdditionalGIDs e = AdditionalGIDs (dev_Edits d)"
    using sorter_transformEdits_no_nil [OF assms] by blast
  then show ?thesis by (simp add: sorter_device_def keeps_rest_def)
qed

lemma mapR_choice:
  assumes "\<And>x. x \<in> set xs \<Longrightarrow> \<exists>y. f x = Inr y \<and> P x y"
  obtains ys where "mapR f xs = Inr ys" "list_all2 P xs ys"
proof -
  have "\<exists>ys. mapR f xs = Inr ys \<and> list_all2 P xs ys"
    using assms
  proof (induction xs)
    case (Cons x xs)
    then obtain y ys where "f x = Inr y" "P x y" "mapR f xs = Inr ys" "list_all2 P xs ys" by force
    then show ?case by auto
  qed simp
  then show thesis using that by blast
qed

lemma sortDevices_simps [simp]: "mset (sortDevices ds) = mset ds" "set (sortDevices ds) = set ds"
  by (simp_all add: sortDevices_def)

lemma sorted_sortDevices: "sorted (map dev_Name (sortDevices ds))"
  unfolding sortDevices_def by (rule sorted_sort_Slice_key)

text \<open>
  What the composed simplifier does to any specification: it succeeds, deduplicates the common
  edits, and removes from every device the entities whose identities are those of common ones,
  unless nothing would be left.
\<close>

definition simplified_from :: "string list \<Rightarrow> Device \<Rightarrow> Device \<Rightarrow> bool" where
  "simplified_from ids d d' \<longleftrightarrow>
     keeps_rest (map_device_edits dedupe_transformEdits d) d' \<and>
     entities (dev_Edits d') = without ids (entities (dedupe_transformEdits (dev_Edits d)))"

lemma NewSimplifier_outcome:
  obtains spec' ids ds where "NewSimplifier spec = Inr spec'"
    "set ids = entity_id ` entities (dedupe_transformEdits (cdi_Edits spec))"
    "entities (cdi_Edits spec') = entities (dedupe_transformEdits (cdi_Edits spec))"
    "cdi_Devices spec' = sortDevices ds" "list_all2 (simplified_from ids) (cdi_Devices spec) ds"
    "cdi_Kind spec' = cdi_Kind spec" "cdi_Version spec' = cdi_Version spec"
proof -
  let ?dd = "map_device_edits dedupe_transformEdits"
  let ?c = "dedupe_transformEdits (cdi_Edits spec)"
  have idem: "dedupe_transformEdits \<circ> dedupe_transformEdits = dedupe_transformEdits" "?dd \<circ> ?dd = ?dd"
    by (auto simp: map_device_edits_def dedupe_transformEdits_idem)
  obtain ids where ids: "getEntityIds ?c = Inr ids" "set ids = entity_id ` entities ?c"
    using getEntityIds_no_nil [OF no_nil_dedupe] by blast
  have nn: "no_nil (dev_Edits d)" if "d \<in> set (map ?dd (cdi_Devices spec))" for d
    using that by (auto simp: map_device_edits_def no_nil_dedupe)
  obtain ds where ds: "mapR (simplify_device (newRemover ids)) (map ?dd (cdi_Devices spec)) = Inr ds"
    "list_all2 (\<lambda>d d'. keeps_rest d d' \<and> entities (dev_Edits d') = without ids (entities (dev_Edits d)))
       (map ?dd (cdi_Devices spec)) ds"
    using mapR_choice [of "map ?dd (cdi_Devices spec)" "simplify_device (newRemover ids)",
        OF simplify_device_no_nil [OF nn]] by blast
  have nn': "no_nil (dev_Edits d)" if "d \<in> set ds" for d
    using ds(2) that by (auto simp: list_all2_conv_all_nth in_set_conv_nth keeps_rest_def)
  obtain ds' where ds': "mapR sorter_device ds = Inr ds'"
    "list_all2 (\<lambda>d d'. keeps_rest d d' \<and> entities (dev_Edits d') = entities (dev_Edits d)) ds ds'"
    using mapR_choice [of ds sorter_device, OF sorter_device_no_nil [OF nn']] by blast
  obtain c where c: "sorter_transformEdits ?c = Inr c" "entities c = entities ?c"
    using sorter_transformEdits_no_nil [OF no_nil_dedupe] by blast
  have "NewSimplifier spec = Inr (spec\<lparr>cdi_Edits := c, cdi_Devices := sortDevices ds'\<rparr>)"
    by (simp add: NewSimplifier_def Merge_def dedupe_Transform_def simplify_Transform_def
        sorter_Transform_def dedupe_transformEdits_idem idem ids ds ds' c)
  moreover have "list_all2 (simplified_from ids) (cdi_Devices spec) ds'"
    using ds(2) ds'(2)
    by (auto simp: list_all2_conv_all_nth simplified_from_def keeps_rest_def map_device_edits_def)
  ultimately show thesis using that ids c by simp
qed

lemma without_valid:
  assumes "\<forall>x \<in> es. entity_valid x" "\<forall>x \<in> c. entity_valid x" "set ids = entity_id ` c"
  shows "without ids es = (if es \<subseteq> c then es else es - c)"
proof -
  have "entity_id x \<in> set ids \<longleftrightarrow> x \<in> c" if "x \<in> es" for x
    using assms that entity_id_inj [of x] by (auto simp: image_iff)
  then have "{x \<in> es. entity_id x \<notin> set ids} = es - c" by auto
  then show ?thesis by (auto simp: without_def Let_def)
qed

lemma simplified_from_valid:
  assumes "simplified_from ids d d'" "set ids = entity_id ` entities c"
    and "edits_valid (dev_Edits d)" "edits_valid c"
  shows "dev_Name d' = dev_Name d \<and>
    entities (dev_Edits d') = (if entities (dev_Edits d) \<subseteq> entities c then entities (dev_Edits d)
      else entities (dev_Edits d) - entities c)"
  using assms without_valid [of "entities (dev_Edits d)" "entities c" ids]
  by (simp add: simplified_from_def keeps_rest_def map_device_edits_def edits_valid_def entities_dedupe)

definition spec_valid :: "CDISpec \<Rightarrow> bool" where
  "spec_valid spec \<longleftrightarrow> edits_valid (cdi_Edits spec) \<and> (\<forall>d \<in> set (cdi_Devices spec). edits_valid (dev_Edits d))"

lemma simplified_pointwise:
  assumes "spec_valid spec" and "NewSimplifier spec = Inr spec'"
  obtains ds where "entities (cdi_Edits spec') = entities (cdi_Edits spec)"
    "cdi_Devices spec' = sortDevices ds"
    "list_all2 (\<lambda>d d'. dev_Name d' = dev_Name d \<and>
       entities (dev_Edits d') =
         (if entities (dev_Edits d) \<subseteq> entities (cdi_Edits spec) then entities (dev_Edits d)
          else entities (dev_Edits d) - entities (cdi_Edits spec)) \<and>
       entities (cdi_Edits spec') \<union> entities (dev_Edits d') =
         entities (cdi_Edits spec) \<union> entities (dev_Edits d)) (cdi_Devices spec) ds"
proof -
  from assms(1) have vc: "edits_valid (cdi_Edits spec)"
    and vd: "\<And>d. d \<in> set (cdi_Devices spec) \<Longrightarrow> edits_valid (dev_Edits d)"
    by (auto simp: spec_valid_def)
  obtain ids ds where ids: "set ids = entity_id ` entities (cdi_Edits spec)"
    and c: "entities (cdi_Edits spec') = entities (cdi_Edits spec)"
    and s: "cdi_Devices spec' = sortDevices ds"
    and ds: "list_all2 (simplified_from ids) (cdi_Devices spec) ds"
    using NewSimplifier_outcome [of spec] assms(2) entities_dedupe [OF vc] by (metis sum.inject(2))
  have "list_all2 (\<lambda>d d'. dev_Name d' = dev_Name d \<and>
         entities (dev_Edits d') =
           (if entities (dev_Edits d) \<subseteq> entities (cdi_Edits spec) then entities (dev_Edits d)
            else entities (dev_Edits d) - entities (cdi_Edits spec)) \<and>
         entities (cdi_Edits spec') \<union> entities (dev_Edits d') =
           entities (cdi_Edits spec) \<union> entities (dev_Edits d)) (cdi_Devices spec) ds"
    by (rule list.rel_mono_strong [OF ds]) (drule simplified_from_valid [OF _ ids vd vc], auto simp: c)
  with c s show thesis by (rule that)
qed

lemma list_all2_names:
  "list_all2 (\<lambda>d d'. dev_Name d' = dev_Name d \<and> P d d') xs ys \<Longrightarrow> map dev_Name ys = map dev_Name xs"
  by (induction rule: list_all2_induct) auto

lemma simplified_devices:
  assumes "spec_valid spec" and "NewSimplifier spec = Inr spec'"
  shows "mset (map dev_Name (cdi_Devices spec')) = mset (map dev_Name (cdi_Devices spec))"
    and "\<forall>x \<in> set (cdi_Devices spec). \<exists>d \<in> set (cdi_Devices spec'). dev_Name d = dev_Name x \<and>
      entities (cdi_Edits spec') \<union> entities (dev_Edits d) = entities (cdi_Edits spec) \<union> entities (dev_Edits x)"
proof -
  obtain ds where s: "cdi_Devices spec' = sortDevices ds"
    and ds: "list_all2 (\<lambda>d d'. dev_Name d' = dev_Name d \<and>
       entities (dev_Edits d') =
         (if entities (dev_Edits d) \<subseteq> entities (cdi_Edits spec) then entities (dev_Edits d)
          else entities (dev_Edits d) - entities (cdi_Edits spec)) \<and>
       entities (cdi_Edits spec') \<union> entities (dev_Edits d') =
         entities (cdi_Edits spec) \<union> entities (dev_Edits d)) (cdi_Devices spec) ds"
    by (rule simplified_pointwise [OF assms])
  show "mset (map dev_Name (cdi_Devices spec')) = mset (map dev_Name (cdi_Devices spec))"
    using list_all2_names [OF ds] s by (metis mset_map sortDevices_simps(1))
  show "\<forall>x \<in> set (cdi_Devices spec). \<exists>d \<in> set (cdi_Devices spec'). dev_Name d = dev_Name x \<and>
      entities (cdi_Edits spec') \<union> entities (dev_Edits d) = entities (cdi_Edits spec) \<union> entities (dev_Edits x)"
    using list_all2_setL [OF ds] s by fastforce
qed

subsection \<open>Properties of the transformers\<close>

text \<open>
  The simplifier never fails: whatever the specification, nil pointers included, deduplication,
  simplification and sorting return a specification; no nil pointer is followed on the way.
\<close>

lemma simplifier_total: "\<exists>spec'. NewSimplifier spec = Inr spec'"
  by (rule NewSimplifier_outcome [of spec]) (rule exI)

text \<open>
  (C4) Simplifying a specification does not change what a container gets.  The common edits keep
  their entities; every device is still there, under its name, without the entities that are common
  (all of them, if there are no others), so that the entities of the device and the common ones
  together are the same as before; the devices are sorted by name.
\<close>

theorem simplifier_preserves_effect:
  assumes "spec_valid spec" and "NewSimplifier spec = Inr spec'"
  shows "entities (cdi_Edits spec') = entities (cdi_Edits spec) \<and>
    sorted (map dev_Name (cdi_Devices spec')) \<and>
    (\<exists>ds. mset ds = mset (cdi_Devices spec') \<and>
       list_all2 (\<lambda>d d'. dev_Name d' = dev_Name d \<and>
         entities (dev_Edits d') =
           (if entities (dev_Edits d) \<subseteq> entities (cdi_Edits spec) then entities (dev_Edits d)
            else entities (dev_Edits d) - entities (cdi_Edits spec)) \<and>
         entities (cdi_Edits spec') \<union> entities (dev_Edits d') =
           entities (cdi_Edits spec) \<union> entities (dev_Edits d)) (cdi_Devices spec) ds)"
  by (rule simplified_pointwise [OF assms])
    (auto simp: sorted_sortDevices intro!: exI)

text \<open>
  An example: two GPUs that share a control node, which is a common edit too, and a nil pointer.
\<close>

definition example_node :: "string \<Rightarrow> DeviceNode option" where
  "example_node p = Some \<lparr>dn_Path = p, dn_HostPath = [], dn_Type = ''c'', dn_Major = 195, dn_Minor = 0,
     dn_FileMode = None, dn_Permissions = [], dn_UID = None, dn_GID = None\<rparr>"

definition example_device :: "string \<Rightarrow> string list \<Rightarrow> Device" where
  "example_device name nodes = \<lparr>dev_Name = name, dev_Annotations = [],
     dev_Edits = empty_edits\<lparr>DeviceNodes := map example_node nodes\<rparr>\<rparr>"

definition example_spec :: "Device list \<Rightarrow> CDISpec" where
  "example_spec ds = \<lparr>cdi_Version = ''0.5.0'', cdi_Kind = ''nvidia.com/gpu'', cdi_Annotations = [],
     cdi_Devices = ds,
     cdi_Edits = empty_edits\<lparr>DeviceNodes := [example_node ''/dev/nvidiactl''], Env := [''A=b'']\<rparr>\<rparr>"

definition example_gpus :: CDISpec where
  "example_gpus = example_spec
     [example_device ''1'' [''/dev/nvidiactl'', ''/dev/nvidia1'', ''/dev/nvidia1''],
      example_device ''0'' [''/dev/nvidiactl'', ''/dev/nvidia0'']]"

definition example_simplified :: CDISpec where
  "example_simplified = example_spec
     [example_device ''0'' [''/dev/nvidia0''], example_device ''1'' [''/dev/nvidia1'']]"

lemma example_gpus_valid: "spec_valid example_gpus"
  by code_simp

lemma example_gpus_simplified: "NewSimplifier example_gpus = Inr example_simplified"
  by code_simp

theorem simplifier_preserves_effect_witness:
  "spec_valid example_gpus \<and> NewSimplifier example_gpus = Inr example_simplified \<and>
   entities (cdi_Edits example_simplified) = entities (cdi_Edits example_gpus) \<and>
   sorted (map dev_Name (cdi_Devices example_simplified))"
  using simplifier_preserves_effect [OF example_gpus_valid example_gpus_simplified]
    example_gpus_valid example_gpus_simplified by simp

definition all_edits :: "CDISpec \<Rightarrow> ContainerEdits list" where
  "all_edits spec = cdi_Edits spec # map dev_Edits (cdi_Devices spec)"

definition deduplicated :: "ContainerEdits \<Rightarrow> ContainerEdits \<Rightarrow> bool" where
  "deduplicated e e' \<longleftrightarrow>
     entities e' = entities e \<and> no_nil e' \<and>
     distinct (DeviceNodes e') \<and> subseq (DeviceNodes e') (DeviceNodes e) \<and>
     distinct (Env e') \<and> subseq (Env e') (Env e) \<and>
     distinct (Hooks e') \<and> subseq (Hooks e') (Hooks e) \<and>
     distinct (Mounts e') \<and> subseq (Mounts e') (Mounts e) \<and>
     distinct (AdditionalGIDs e') \<and> sorted (AdditionalGIDs e') \<and>
     set (AdditionalGIDs e') = set (AdditionalGIDs e) \<and>
     NetDevices e' = NetDevices e \<and> Intel_Rdt e' = Intel_Rdt e"

lemma subseq_somes: "subseq (map Some (somes ps)) ps"
proof (induction ps)
  case (Cons p ps)
  then show ?case by (cases p) auto
qed simp

lemma subseq_dedupe_loop: "subseq (dedupe_loop eid seen ps) ps"
  unfolding dedupe_loop_seen
  by (meson subseq_map subseq_order.trans subseq_seen_loop subseq_somes)

lemma deduplicated_dedupe: "edits_valid e \<Longrightarrow> deduplicated e (dedupe_transformEdits e)"
  using sorted_sort_Slice_key [of "\<lambda>x. x" "unique_by id (AdditionalGIDs e)"] no_nil_dedupe [of e]
    nodes.dedupe_distinct hooks.dedupe_distinct mounts.dedupe_distinct
    distinct_unique_id [of "Env e"] distinct_unique_id [of "AdditionalGIDs e"]
    subseq_seen_loop [of id _ "Env e"]
  unfolding deduplicated_def
  by (simp add: entities_dedupe) (simp add: dedupe_defs subseq_dedupe_loop set_unique_id)

text \<open>
  (C16) Deduplication is exact and idempotent.  In the common edits and in every device each entity
  that was there is there once, in the order of the first occurrences, nothing else is, nil
  pointers are gone and the additional group ids are sorted; doing it again changes nothing.
\<close>

theorem dedupe_correct:
  assumes "spec_valid spec"
  shows "\<exists>spec'. dedupe_Transform spec = Inr spec' \<and>
    list_all2 deduplicated (all_edits spec) (all_edits spec') \<and>
    map dev_Name (cdi_Devices spec') = map dev_Name (cdi_Devices spec) \<and>
    dedupe_Transform spec' = Inr spec'"
  using assms
  by (auto simp: dedupe_Transform_def all_edits_def spec_valid_def list.rel_map
      map_device_edits_def deduplicated_dedupe dedupe_transformEdits_idem intro!: list.rel_refl_strong)

theorem dedupe_correct_witness:
  "spec_valid example_gpus \<and> (\<exists>spec'. dedupe_Transform example_gpus = Inr spec' \<and>
     list_all2 deduplicated (all_edits example_gpus) (all_edits spec') \<and> dedupe_Transform spec' = Inr spec')"
  using dedupe_correct [OF example_gpus_valid] example_gpus_valid by blast

subsection \<open>Sorting puts parents before children\<close>

definition path_key :: "string \<Rightarrow> nat \<times> string" where
  "path_key p = (CountChar (Clean p) slash, p)"

lemma path_less_key: "path_less p q \<longleftrightarrow> path_key p < path_key q"
  by (auto simp: path_less_def path_key_def Let_def)

lemma sorted_sort_pointers:
  assumes "sort_pointers (\<lambda>a b. path_less (f a) (f b)) es = Inr es'"
  shows "mset es' = mset es" "sorted (map (\<lambda>p. path_key (f (the p))) es')"
    "length es' \<ge> 2 \<Longrightarrow> None \<notin> set es'"
  using assms sorted_sort_Slice_key [of "\<lambda>p. path_key (f (the p))" es]
  by (auto simp: sort_pointers_def path_less_key split: if_splits)

definition inside :: "string \<Rightarrow> string \<Rightarrow> bool" where
  "inside p q \<longleftrightarrow> (\<exists>r. Clean p = Clean q @ slash # r)"

lemma inside_key: "inside p q \<Longrightarrow> path_key q < path_key p"
  by (auto simp: inside_def path_key_def CountChar_def)

lemma sorted_parents_first:
  assumes "sort_pointers (\<lambda>a b. path_less (f a) (f b)) es = Inr es'" "i < j" "j < length es'"
  shows "\<exists>x y. es' ! i = Some x \<and> es' ! j = Some y \<and> \<not> inside (f x) (f y)"
proof -
  note s = sorted_sort_pointers [OF assms(1)]
  have "None \<notin> set es'" using s(3) assms by force
  then obtain x y where xy: "es' ! i = Some x" "es' ! j = Some y"
    using assms by (metis nth_mem not_None_eq order.strict_trans)
  moreover have "path_key (f x) \<le> path_key (f y)"
    using s(2) assms xy sorted_nth_mono [of "map (\<lambda>p. path_key (f (the p))) es'" i j] by simp
  ultimately show ?thesis using inside_key [of "f x" "f y"] by force
qed

definition parents_first :: "ContainerEdits \<Rightarrow> bool" where
  "parents_first e \<longleftrightarrow>
     (\<forall>j < length (Mounts e). \<forall>i < j. \<exists>x y. Mounts e ! i = Some x \<and> Mounts e ! j = Some y \<and>
        \<not> inside (m_ContainerPath x) (m_ContainerPath y)) \<and>
     (\<forall>j < length (DeviceNodes e). \<forall>i < j. \<exists>x y. DeviceNodes e ! i = Some x \<and> DeviceNodes e ! j = Some y \<and>
        \<not> inside (dn_Path x) (dn_Path y))"

lemma sorter_transformEdits_parents_first:
  assumes "sorter_transformEdits e = Inr e'"
  shows "parents_first e' \<and> mset (Mounts e') = mset (Mounts e) \<and> mset (DeviceNodes e') = mset (DeviceNodes e)"
proof -
  from assms obtain ds ms where "sortDeviceNodes (DeviceNodes e) = Inr ds" "sortMounts (Mounts e) = Inr ms"
    "e' = e\<lparr>DeviceNodes := ds, Mounts := ms\<rparr>"
    by (auto simp: sorter_transformEdits_def bindR_eq_Inr)
  then show ?thesis
    unfolding sortDeviceNodes_def sortMounts_def parents_first_def
    using sorted_parents_first [of m_ContainerPath "Mounts e" ms]
      sorted_parents_first [of dn_Path "DeviceNodes e" ds]
    by (simp add: sorted_sort_pointers(1))
qed

text \<open>
  After sorting, no mount and no device node comes before one that it lies inside of: the
  container path of an earlier entry is never below that of a later one, so a mount of a directory
  does not hide the mounts inside it.  Nothing is added or lost, and the devices are in the order
  of their names.
\<close>

lemma sorter_parents_first:
  assumes "sorter_Transform spec = Inr spec'"
  shows "list_all parents_first (all_edits spec') \<and> sorted (map dev_Name (cdi_Devices spec')) \<and>
    mset (Mounts (cdi_Edits spec')) = mset (Mounts (cdi_Edits spec)) \<and>
    (\<exists>ds. mset ds = mset (cdi_Devices spec') \<and>
       list_all2 (\<lambda>d d'. dev_Name d' = dev_Name d \<and> mset (Mounts (dev_Edits d')) = mset (Mounts (dev_Edits d)) \<and>
         mset (DeviceNodes (dev_Edits d')) = mset (DeviceNodes (dev_Edits d))) (cdi_Devices spec) ds)"
proof -
  from assms obtain e ds where e: "sorter_transformEdits (cdi_Edits spec) = Inr e"
    and ds: "list_all2 (\<lambda>d d'. sorter_device d = Inr d') (cdi_Devices spec) ds"
    and spec': "spec' = spec\<lparr>cdi_Edits := e, cdi_Devices := sortDevices ds\<rparr>"
    by (auto simp: sorter_Transform_def bindR_eq_Inr mapR_Inr_iff)
  have dev: "parents_first (dev_Edits d') \<and> dev_Name d' = dev_Name d \<and>
      mset (Mounts (dev_Edits d')) = mset (Mounts (dev_Edits d)) \<and>
      mset (DeviceNodes (dev_Edits d')) = mset (DeviceNodes (dev_Edits d))" if "sorter_device d = Inr d'" for d d'
    using that sorter_transformEdits_parents_first by (auto simp: sorter_device_def bindR_eq_Inr)
  have "\<forall>d' \<in> set ds. parents_first (dev_Edits d')"
    using list_all2_setR [OF ds] dev by fast
  moreover have "list_all2 (\<lambda>d d'. dev_Name d' = dev_Name d \<and>
      mset (Mounts (dev_Edits d')) = mset (Mounts (dev_Edits d)) \<and>
      mset (DeviceNodes (dev_Edits d')) = mset (DeviceNodes (dev_Edits d))) (cdi_Devices spec) ds"
    using ds by (rule list.rel_mono_strong) (simp add: dev)
  ultimately show ?thesis
    using sorter_transformEdits_parents_first [OF e]
    by (auto simp: spec' all_edits_def list_all_iff sorted_sortDevices intro!: exI [of _ ds])
qed

definition example_mounts :: CDISpec where
  "example_mounts = example_spec [\<lparr>dev_Name = ''0'', dev_Annotations = [],
     dev_Edits = empty_edits\<lparr>Mounts := map (\<lambda>p. Some \<lparr>m_HostPath = p, m_ContainerPath = p, m_Options = [],
       m_Type = []\<rparr>) [''/usr/lib/a.so'', ''/usr'', ''/usr/lib'']\<rparr>\<rparr>]"

subsection \<open>The merged device\<close>

lemma entities_Append: "entities (edits_Append e f) = entities e \<union> entities f"
  by (auto simp: entities_def edits_Append_def somes_append)

lemma entities_empty_edits [simp]: "entities empty_edits = {}"
  by (simp add: entities_def empty_edits_def)

lemma entities_foldl_Append:
  "entities (foldl edits_Append e es) = entities e \<union> (\<Union>x \<in> set es. entities x)"
  by (induction es arbitrary: e) (auto simp: entities_Append)

lemma mergeDeviceSpecs_fresh:
  "name \<notin> dev_Name ` set ds \<Longrightarrow> mergeDeviceSpecs ds name = Some \<lparr>dev_Name = name, dev_Annotations = [],
     dev_Edits = foldl edits_Append empty_edits (map dev_Edits ds)\<rparr>"
  by (simp add: mergeDeviceSpecs_def image_iff) metis

text \<open>
  (C17) If no device has the name of the merged device, the transformer succeeds and adds a device
  of that name through which a container gets the entities of all devices (with the common edits);
  the devices that were there are kept, and give a container what they gave before.
\<close>

theorem merged_device_complete:
  assumes "spec_valid spec" and "md_name m \<notin> dev_Name ` set (cdi_Devices spec)"
  shows "\<exists>spec'. mergedDevice_Transform m spec = Inr spec' \<and>
    mset (map dev_Name (cdi_Devices spec')) = add_mset (md_name m) (mset (map dev_Name (cdi_Devices spec))) \<and>
    (\<exists>d \<in> set (cdi_Devices spec'). dev_Name d = md_name m \<and>
       entities (cdi_Edits spec') \<union> entities (dev_Edits d) =
         entities (cdi_Edits spec) \<union> (\<Union>x \<in> set (cdi_Devices spec). entities (dev_Edits x))) \<and>
    (\<forall>x \<in> set (cdi_Devices spec). \<exists>d \<in> set (cdi_Devices spec'). dev_Name d = dev_Name x \<and>
       entities (cdi_Edits spec') \<union> entities (dev_Edits d) = entities (cdi_Edits spec) \<union> entities (dev_Edits x))"
proof -
  define md where "md = \<lparr>dev_Name = md_name m, dev_Annotations = [],
    dev_Edits = foldl edits_Append empty_edits (map dev_Edits (cdi_Devices spec))\<rparr>"
  define spec1 where "spec1 = spec\<lparr>cdi_Devices := cdi_Devices spec @ [md]\<rparr>"
  have ents: "entities (dev_Edits md) = (\<Union>x \<in> set (cdi_Devices spec). entities (dev_Edits x))"
    by (simp add: md_def entities_foldl_Append)
  have valid: "spec_valid spec1"
    using assms(1) by (auto simp: spec_valid_def spec1_def edits_valid_def ents)
  obtain spec' where spec': "NewSimplifier spec1 = Inr spec'"
    by (rule NewSimplifier_outcome [of spec1])
  have tr: "mergedDevice_Transform m spec = Inr spec'"
    using mergeDeviceSpecs_fresh [OF assms(2)] spec'
    by (simp add: mergedDevice_Transform_def md_def spec1_def)
  show ?thesis
    using tr simplified_devices [OF valid spec'] ents by (auto simp: spec1_def md_def)
qed

theorem merged_device_complete_witness:
  "spec_valid example_gpus \<and>
   (\<exists>spec'. mergedDevice_Transform \<lparr>md_name = ''all'', md_skipIfExists = True\<rparr> example_gpus = Inr spec' \<and>
     (\<exists>d \<in> set (cdi_Devices spec'). dev_Name d = ''all'' \<and>
       entities (cdi_Edits spec') \<union> entities (dev_Edits d) =
         entities (cdi_Edits example_gpus) \<union> (\<Union>x \<in> set (cdi_Devices example_gpus). entities (dev_Edits x))))"
proof -
  have "md_name \<lparr>md_name = ''all'', md_skipIfExists = True\<rparr> \<notin> dev_Name ` set (cdi_Devices example_gpus)"
    by code_simp
  from merged_device_complete [OF example_gpus_valid this] example_gpus_valid show ?thesis by auto
qed

text \<open>
  If a device already has the name of the merged device, nothing is added: the specification
  is returned as it is if that is asked for, and otherwise the transformation is an error.
\<close>

lemma merged_device_exists:
  assumes "md_name m \<in> dev_Name ` set (cdi_Devices spec)"
  shows "mergedDevice_Transform m spec =
    (if md_skipIfExists m then Inr spec
     else Inl (Errorf (''device '' @ md_name m @ '' already exists'')))"
  using assms by (auto simp: mergedDevice_Transform_def mergeDeviceSpecs_def)

text \<open>
  Removing entities from a specification only removes them from the common edits: the devices
  come back unchanged, since the loop over them works on copies.
\<close>

lemma remove_keeps_devices:
  assumes "remove_Transform r spec = Inr spec'"
  shows "cdi_Devices spec' = cdi_Devices spec \<and>
    entities (cdi_Edits spec') = {x \<in> entities (cdi_Edits spec). \<not> r (entity_id x)}"
proof -
  from assms obtain e where e: "remove_transformEdits r (cdi_Edits spec) = Inr e"
    and spec': "spec' = spec\<lparr>cdi_Edits := e\<rparr>"
    by (auto simp: remove_Transform_def bindR_eq_Inr)
  have "no_nil (cdi_Edits spec)"
    using e by (rule_tac ccontr) (auto simp: no_nil_def remove_transformEdits_def bindR_eq_Inr remove_loop_nil)
  then obtain e' where "remove_transformEdits r (cdi_Edits spec) = Inr e'"
    "entities e' = {x \<in> entities (cdi_Edits spec). \<not> r (entity_id x)}"
    by (rule remove_transformEdits_no_nil)
  with e spec' show ?thesis by simp
qed

end
