(* ===== verification/Transform_Root.thy ===== *)
theory Transform_Root
  imports Transform
begin

section \<open>Root transformers\<close>

text \<open>
  The package \<open>pkg/nvcdi/transform/root\<close>, which rewrites the paths of a CDI specification from one
  root directory to another.  Unlike the transformers of the parent package these assign to the
  fields of the structures that a specification points to, and specifications share structures: a
  merged device holds the pointers of the devices it was made from.  So a specification is modelled
  here with its pointers: addresses into a heap of device nodes, hooks and mounts.  The main result
  is that a structure is rewritten as often as the specification points to it, which is once in a
  specification without sharing.
\<close>

subsection \<open>Paths\<close>

record root_transformer =
  rt_root :: string
  rt_targetRoot :: string

definition transformPath :: "root_transformer \<Rightarrow> string \<Rightarrow> string" where
  "transformPath t path =
     (if \<not> HasPrefix path (rt_root t) then path
      else FJoin [rt_targetRoot t, TrimPrefix path (rt_root t)])"

text \<open>The arguments of hooks: both sides of \<open>target::link\<close> are paths.\<close>

definition transformArg :: "root_transformer \<Rightarrow> string \<Rightarrow> string" where
  "transformArg t arg =
     (if \<not> Contains arg ''::'' then transformPath t arg
      else StrJoin (map (transformPath t) (SplitN2 arg ''::'')) ''::'')"

subsection \<open>Entities\<close>

definition host_transformDeviceNode :: "root_transformer \<Rightarrow> DeviceNode \<Rightarrow> DeviceNode" where
  "host_transformDeviceNode t dn =
     (let dn = (if dn_HostPath dn = [] then dn\<lparr>dn_HostPath := dn_Path dn\<rparr> else dn)
      in dn\<lparr>dn_HostPath := transformPath t (dn_HostPath dn)\<rparr>)"

definition host_transformHook :: "root_transformer \<Rightarrow> Hook \<Rightarrow> Hook" where
  "host_transformHook t h =
     (let h = (if h_HookName h \<noteq> ''startContainer'' then h\<lparr>h_Path := transformPath t (h_Path h)\<rparr> else h)
      in if h_HookName h = ''createContainer'' \<or> h_HookName h = ''startContainer'' then h
         else h\<lparr>h_Args := map (transformArg t) (h_Args h)\<rparr>)"

definition host_transformMount :: "root_transformer \<Rightarrow> Mount \<Rightarrow> Mount" where
  "host_transformMount t m = m\<lparr>m_HostPath := transformPath t (m_HostPath m)\<rparr>"

definition container_transformDeviceNode :: "root_transformer \<Rightarrow> DeviceNode \<Rightarrow> DeviceNode" where
  "container_transformDeviceNode t dn = dn\<lparr>dn_Path := transformPath t (dn_Path dn)\<rparr>"

definition container_transformHook :: "root_transformer \<Rightarrow> Hook \<Rightarrow> Hook" where
  "container_transformHook t h =
     (let h = (if h_HookName h = ''startContainer'' then h\<lparr>h_Path := transformPath t (h_Path h)\<rparr> else h)
      in if h_HookName h \<noteq> ''createContainer'' \<and> h_HookName h \<noteq> ''startContainer'' then h
         else h\<lparr>h_Args := map (transformArg t) (h_Args h)\<rparr>)"

definition container_transformMount :: "root_transformer \<Rightarrow> Mount \<Rightarrow> Mount" where
  "container_transformMount t m = m\<lparr>m_ContainerPath := transformPath t (m_ContainerPath m)\<rparr>"

subsection \<open>Specifications with pointers\<close>

type_synonym addr = nat

record heap =
  hp_node :: "addr \<Rightarrow> DeviceNode"
  hp_hook :: "addr \<Rightarrow> Hook"
  hp_mount :: "addr \<Rightarrow> Mount"

record pedits =
  pe_DeviceNodes :: "addr option list"
  pe_Hooks :: "addr option list"
  pe_Mounts :: "addr option list"

record pspec =
  ps_Devices :: "(string \<times> pedits) list"
  ps_Edits :: pedits

text \<open>An entity transformer is what the two root transformers differ in.\<close>

record entity_transformer =
  et_node :: "DeviceNode \<Rightarrow> DeviceNode"
  et_hook :: "Hook \<Rightarrow> Hook"
  et_mount :: "Mount \<Rightarrow> Mount"

definition hostRoot :: "root_transformer \<Rightarrow> entity_transformer" where
  "hostRoot t = \<lparr>et_node = host_transformDeviceNode t, et_hook = host_transformHook t,
                 et_mount = host_transformMount t\<rparr>"

definition containerRoot :: "root_transformer \<Rightarrow> entity_transformer" where
  "containerRoot t = \<lparr>et_node = container_transformDeviceNode t, et_hook = container_transformHook t,
                      et_mount = container_transformMount t\<rparr>"

definition node_step :: "entity_transformer \<Rightarrow> heap \<Rightarrow> addr option \<Rightarrow> heap result" where
  "node_step et hp p =
     bindR (deref p) (\<lambda>a. Inr (hp\<lparr>hp_node := (hp_node hp)(a := et_node et (hp_node hp a))\<rparr>))"

definition hook_step :: "entity_transformer \<Rightarrow> heap \<Rightarrow> addr option \<Rightarrow> heap result" where
  "hook_step et hp p =
     bindR (deref p) (\<lambda>a. Inr (hp\<lparr>hp_hook := (hp_hook hp)(a := et_hook et (hp_hook hp a))\<rparr>))"

definition mount_step :: "entity_transformer \<Rightarrow> heap \<Rightarrow> addr option \<Rightarrow> heap result" where
  "mount_step et hp p =
     bindR (deref p) (\<lambda>a. Inr (hp\<lparr>hp_mount := (hp_mount hp)(a := et_mount et (hp_mount hp a))\<rparr>))"

definition applyToEdits :: "entity_transformer \<Rightarrow> heap \<Rightarrow> pedits \<Rightarrow> heap result" where
  "applyToEdits et hp e =
     bindR (foldR (node_step et) hp (pe_DeviceNodes e)) (\<lambda>hp.
     bindR (foldR (hook_step et) hp (pe_Hooks e)) (\<lambda>hp.
       foldR (mount_step et) hp (pe_Mounts e)))"

definition root_Transform :: "entity_transformer \<Rightarrow> pspec \<Rightarrow> heap \<Rightarrow> heap result" where
  "root_Transform et spec hp =
     bindR (foldR (\<lambda>hp d. wrapR (''failed to apply root transform to device '' @ fst d)
                            (applyToEdits et hp (snd d))) hp (ps_Devices spec)) (\<lambda>hp.
       wrapR ''failed to apply root transform to spec'' (applyToEdits et hp (ps_Edits spec)))"

subsection \<open>Construction\<close>

record root_builder = root_transformer +
  rb_relativeTo :: string

type_synonym Option = "root_builder \<Rightarrow> root_builder"

type_synonym heap_transformer = "pspec \<Rightarrow> heap \<Rightarrow> heap result"

definition WithRoot :: "string \<Rightarrow> Option" where
  "WithRoot root b = b\<lparr>rt_root := root\<rparr>"

definition WithTargetRoot :: "string \<Rightarrow> Option" where
  "WithTargetRoot root b = b\<lparr>rt_targetRoot := root\<rparr>"

definition WithRelativeTo :: "string \<Rightarrow> Option" where
  "WithRelativeTo relativeTo b = b\<lparr>rb_relativeTo := relativeTo\<rparr>"

definition noop :: heap_transformer where
  "noop spec hp = Inr hp"

definition root_build :: "root_builder \<Rightarrow> heap_transformer" where
  "root_build b =
     (if rt_root b = rt_targetRoot b then noop
      else let t = \<lparr>rt_root = rt_root b, rt_targetRoot = rt_targetRoot b\<rparr>
           in if rb_relativeTo b = ''container'' then root_Transform (containerRoot t)
              else root_Transform (hostRoot t))"

definition root_New :: "Option list \<Rightarrow> heap_transformer" where
  "root_New opts =
     root_build (foldl (\<lambda>b opt. opt b) \<lparr>rt_root = [], rt_targetRoot = [], rb_relativeTo = []\<rparr> opts)"

record driverOptions =
  do_driverRoot :: string
  do_targetDriverRoot :: string
  do_devRoot :: string
  do_targetDevRoot :: string

type_synonym DriverOption = "driverOptions \<Rightarrow> driverOptions"

definition WithDriverRoot :: "string \<Rightarrow> DriverOption" where
  "WithDriverRoot root d = d\<lparr>do_driverRoot := root\<rparr>"

definition WithTargetDriverRoot :: "string \<Rightarrow> DriverOption" where
  "WithTargetDriverRoot root d = d\<lparr>do_targetDriverRoot := root\<rparr>"

definition WithDevRoot :: "string \<Rightarrow> DriverOption" where
  "WithDevRoot root d = d\<lparr>do_devRoot := root\<rparr>"

definition WithTargetDevRoot :: "string \<Rightarrow> DriverOption" where
  "WithTargetDevRoot root d = d\<lparr>do_targetDevRoot := root\<rparr>"

definition ensureDev :: "string \<Rightarrow> string" where
  "ensureDev p = FJoin [TrimSuffix (Clean p) ''/dev'', ''/dev'']"

definition driver_defaults :: "driverOptions \<Rightarrow> driverOptions" where
  "driver_defaults d0 =
     (let d1 = (if do_driverRoot d0 = [] then d0\<lparr>do_driverRoot := ''/''\<rparr> else d0);
          d2 = (if do_targetDriverRoot d1 = [] then d1\<lparr>do_targetDriverRoot := ''/''\<rparr> else d1);
          d3 = (if do_devRoot d2 = [] then d2\<lparr>do_devRoot := do_driverRoot d2\<rparr> else d2)
      in if do_targetDevRoot d3 = [] then d3\<lparr>do_targetDevRoot := do_targetDriverRoot d3\<rparr> else d3)"

definition MergeH :: "heap_transformer list \<Rightarrow> heap_transformer" where
  "MergeH ts spec hp = foldR (\<lambda>hp t. t spec hp) hp ts"

definition NewDriverTransformer :: "DriverOption list \<Rightarrow> heap_transformer" where
  "NewDriverTransformer opts =
     (let d = driver_defaults (foldl (\<lambda>d opt. opt d)
                \<lparr>do_driverRoot = [], do_targetDriverRoot = [], do_devRoot = [], do_targetDevRoot = []\<rparr> opts)
      in MergeH
           ((if do_targetDevRoot d \<noteq> do_targetDriverRoot d
             then [root_New [WithRoot (ensureDev (do_devRoot d)), WithTargetRoot (ensureDev (do_targetDevRoot d))]]
             else []) @
            [root_New [WithRoot (do_driverRoot d), WithTargetRoot (do_targetDriverRoot d)]]))"

subsection \<open>Every structure is rewritten as often as it is pointed to\<close>

text \<open>
  The three loops of \<open>applyToEdits\<close> assign through pointers to cells of one kind; the contract of
  such a kind is that reading and writing its cells obey the laws of a lens.
\<close>

locale cells =
  fixes get :: "heap \<Rightarrow> addr \<Rightarrow> 'a" and put :: "(addr \<Rightarrow> 'a) \<Rightarrow> heap \<Rightarrow> heap"
    and f :: "'a \<Rightarrow> 'a" and step :: "heap \<Rightarrow> addr option \<Rightarrow> heap result"
  assumes get_put: "get (put m hp) = m"
    and put_put: "put m (put n hp) = put m hp"
    and put_get: "put (get hp) hp = hp"
    and step_eq: "step hp p = bindR (deref p) (\<lambda>a. Inr (put ((get hp)(a := f (get hp a))) hp))"
begin

lemma loop:
  "foldR step hp ps =
     (if None \<in> set ps then Inl nil_deref
      else Inr (put (\<lambda>a. (f ^^ count_list ps (Some a)) (get hp a)) hp))"
proof (induction ps arbitrary: hp)
  case Nil
  then show ?case by (simp add: put_get)
next
  case (Cons p ps)
  show ?case
  proof (cases p)
    case None
    then show ?thesis by (simp add: step_eq deref_def)
  next
    case (Some b)
    have "(f ^^ n) (f x) = (f ^^ Suc n) x" for n x by (simp add: funpow_swap1)
    then have "(\<lambda>a. (f ^^ count_list ps (Some a)) (((get hp)(b := f (get hp b))) a)) =
               (\<lambda>a. (f ^^ count_list (p # ps) (Some a)) (get hp a))"
      by (auto simp: Some fun_eq_iff)
    moreover have "step hp p = Inr (put ((get hp)(b := f (get hp b))) hp)"
      by (simp add: Some step_eq deref_def)
    ultimately show ?thesis
      using Some by (simp only: foldR.simps bindR_Inr Cons get_put put_put) simp
  qed
qed

end

interpretation node_cells: cells hp_node "\<lambda>m hp. hp\<lparr>hp_node := m\<rparr>" "et_node et" "node_step et" for et
  by unfold_locales (simp_all add: node_step_def)

interpretation hook_cells: cells hp_hook "\<lambda>m hp. hp\<lparr>hp_hook := m\<rparr>" "et_hook et" "hook_step et" for et
  by unfold_locales (simp_all add: hook_step_def)

interpretation mount_cells: cells hp_mount "\<lambda>m hp. hp\<lparr>hp_mount := m\<rparr>" "et_mount et" "mount_step et" for et
  by unfold_locales (simp_all add: mount_step_def)

text \<open>The pointers of a list of edits, and the heap in which each cell is rewritten as often as counted.\<close>

definition ptrs :: "(pedits \<Rightarrow> addr option list) \<Rightarrow> pedits list \<Rightarrow> addr option list" where
  "ptrs sel es = concat (map sel es)"

definition rewritten :: "entity_transformer \<Rightarrow> pedits list \<Rightarrow> heap \<Rightarrow> heap" where
  "rewritten et es hp =
     \<lparr>hp_node = \<lambda>a. (et_node et ^^ count_list (ptrs pe_DeviceNodes es) (Some a)) (hp_node hp a),
      hp_hook = \<lambda>a. (et_hook et ^^ count_list (ptrs pe_Hooks es) (Some a)) (hp_hook hp a),
      hp_mount = \<lambda>a. (et_mount et ^^ count_list (ptrs pe_Mounts es) (Some a)) (hp_mount hp a)\<rparr>"

definition nil_free :: "pedits \<Rightarrow> bool" where
  "nil_free e \<longleftrightarrow> None \<notin> set (pe_DeviceNodes e) \<and> None \<notin> set (pe_Hooks e) \<and> None \<notin> set (pe_Mounts e)"

definition edits_list :: "pspec \<Rightarrow> pedits list" where
  "edits_list spec = map snd (ps_Devices spec) @ [ps_Edits spec]"

lemma applyToEdits_eq:
  "applyToEdits et hp e = (if nil_free e then Inr (rewritten et [e] hp) else Inl nil_deref)"
  by (auto simp: applyToEdits_def node_cells.loop hook_cells.loop mount_cells.loop nil_free_def
      rewritten_def ptrs_def)

lemma rewritten_Nil: "rewritten et [] hp = hp"
  by (simp add: rewritten_def ptrs_def)

lemma funpow_twice: "(f ^^ m) ((f ^^ n) x) = (f ^^ (n + m)) x"
  by (metis add.commute comp_apply funpow_add)

lemma rewritten_append: "rewritten et ds (rewritten et es hp) = rewritten et (es @ ds) hp"
  by (simp add: rewritten_def ptrs_def funpow_twice)

lemma root_Transform_eq:
  "root_Transform et spec hp =
     (if list_all nil_free (edits_list spec) then Inr (rewritten et (edits_list spec) hp) else Inl nil_deref)"
proof -
  have loop: "foldR (\<lambda>hp d. wrapR (m @ fst d) (applyToEdits et hp (snd d))) hp ds =
      (if list_all nil_free (map snd ds) then Inr (rewritten et (map snd ds) hp) else Inl nil_deref)" for m ds
    by (induction ds arbitrary: hp)
      (auto simp: applyToEdits_eq rewritten_Nil rewritten_append nil_deref_def)
  show ?thesis
    unfolding root_Transform_def loop edits_list_def
    by (auto simp: applyToEdits_eq rewritten_append nil_deref_def)
qed

subsection \<open>Properties of the root transformers\<close>

lemma count_distinct: "distinct xs \<Longrightarrow> count_list xs x = (if x \<in> set xs then 1 else 0)"
  by (induction xs) auto

text \<open>
  (C26) In a specification without nil pointers that points to every structure once, a root
  transformer succeeds, applies its rewriting exactly once to every device node, hook and mount of
  the specification, in devices and in common edits, and leaves all other structures alone.
\<close>

theorem root_transform_once:
  assumes "list_all nil_free (edits_list spec)"
    and "distinct (ptrs pe_DeviceNodes (edits_list spec))"
    and "distinct (ptrs pe_Hooks (edits_list spec))"
    and "distinct (ptrs pe_Mounts (edits_list spec))"
  shows "\<exists>hp'. root_Transform et spec hp = Inr hp' \<and>
    (\<forall>a. hp_node hp' a =
       (if Some a \<in> set (ptrs pe_DeviceNodes (edits_list spec)) then et_node et (hp_node hp a) else hp_node hp a)) \<and>
    (\<forall>a. hp_hook hp' a =
       (if Some a \<in> set (ptrs pe_Hooks (edits_list spec)) then et_hook et (hp_hook hp a) else hp_hook hp a)) \<and>
    (\<forall>a. hp_mount hp' a =
       (if Some a \<in> set (ptrs pe_Mounts (edits_list spec)) then et_mount et (hp_mount hp a) else hp_mount hp a))"
  using assms by (simp add: root_Transform_eq rewritten_def count_distinct)

definition example_heap :: heap where
  "example_heap =
     \<lparr>hp_node = \<lambda>a. the (example_node ''/dev/nvidia0''),
      hp_hook = \<lambda>a. \<lparr>h_HookName = ''createContainer'', h_Path = ''/usr/bin/nvidia-ctk'', h_Args = [], h_Env = [],
                     h_Timeout = None\<rparr>,
      hp_mount = \<lambda>a. \<lparr>m_HostPath = ''/lib/a.so'', m_ContainerPath = ''/lib/a.so'', m_Options = [], m_Type = []\<rparr>\<rparr>"

definition example_pspec :: "addr list \<Rightarrow> pspec" where
  "example_pspec as =
     \<lparr>ps_Devices = map (\<lambda>a. (''gpu'', \<lparr>pe_DeviceNodes = [Some a], pe_Hooks = [], pe_Mounts = []\<rparr>)) as,
      ps_Edits = \<lparr>pe_DeviceNodes = [], pe_Hooks = [Some 0], pe_Mounts = [Some 0]\<rparr>\<rparr>"

definition example_root :: root_transformer where
  "example_root = \<lparr>rt_root = ''/'', rt_targetRoot = ''/host''\<rparr>"

theorem root_transform_once_witness:
  "\<exists>hp'. root_Transform (hostRoot example_root) (example_pspec [0, 1]) example_heap = Inr hp' \<and>
     dn_HostPath (hp_node hp' 0) = ''/host/dev/nvidia0'' \<and> dn_HostPath (hp_node hp' 2) = [] \<and>
     m_HostPath (hp_mount hp' 0) = ''/host/lib/a.so''"
proof -
  have "list_all nil_free (edits_list (example_pspec [0, 1]))"
    "distinct (ptrs pe_DeviceNodes (edits_list (example_pspec [0, 1])))"
    "distinct (ptrs pe_Hooks (edits_list (example_pspec [0, 1])))"
    "distinct (ptrs pe_Mounts (edits_list (example_pspec [0, 1])))"
    by code_simp+
  from root_transform_once [OF this, of "hostRoot example_root" example_heap]
  obtain hp' where hp': "root_Transform (hostRoot example_root) (example_pspec [0, 1]) example_heap = Inr hp'"
    and n: "\<forall>a. hp_node hp' a = (if Some a \<in> set (ptrs pe_DeviceNodes (edits_list (example_pspec [0, 1])))
        then et_node (hostRoot example_root) (hp_node example_heap a) else hp_node example_heap a)"
    and m: "\<forall>a. hp_mount hp' a = (if Some a \<in> set (ptrs pe_Mounts (edits_list (example_pspec [0, 1])))
        then et_mount (hostRoot example_root) (hp_mount example_heap a) else hp_mount example_heap a)"
    by blast
  have "dn_HostPath (host_transformDeviceNode example_root (the (example_node ''/dev/nvidia0''))) = ''/host/dev/nvidia0''"
    "m_HostPath (host_transformMount example_root (hp_mount example_heap 0)) = ''/host/lib/a.so''"
    by code_simp+
  with hp' n m show ?thesis
    by (simp add: ptrs_def edits_list_def example_pspec_def hostRoot_def)
      (simp add: example_heap_def example_node_def)
qed

text \<open>
  A structure that a specification points to twice is rewritten twice.  A device node that a
  device and the merged device share gets its new root twice, if the new root lies inside the old.
\<close>

lemma root_transform_shared:
  "\<exists>hp'. root_Transform (hostRoot example_root) (example_pspec [0, 0]) example_heap = Inr hp' \<and>
     dn_HostPath (hp_node hp' 0) = ''/host/host/dev/nvidia0''"
proof -
  have "list_all nil_free (edits_list (example_pspec [0, 0]))"
    "count_list (ptrs pe_DeviceNodes (edits_list (example_pspec [0, 0]))) (Some 0) = 2"
    "dn_HostPath ((host_transformDeviceNode example_root ^^ 2) (the (example_node ''/dev/nvidia0''))) = ''/host/host/dev/nvidia0''"
    by code_simp+
  then show ?thesis
    by (simp add: root_Transform_eq rewritten_def hostRoot_def) (simp add: example_heap_def)
qed

text \<open>
  Paths move with their root: a path below the old root becomes the path with the same
  remaining components below the new root, and transforming back gives the original path.
\<close>

lemma transformPath_moves:
  assumes "list_all name_part as" "list_all name_part bs" "list_all name_part rest"
  shows "transformPath \<lparr>rt_root = path_of as, rt_targetRoot = path_of bs\<rparr> (path_of (as @ rest)) = path_of (bs @ rest) \<and>
    transformPath \<lparr>rt_root = path_of bs, rt_targetRoot = path_of as\<rparr>
      (transformPath \<lparr>rt_root = path_of as, rt_targetRoot = path_of bs\<rparr> (path_of (as @ rest))) = path_of (as @ rest)"
proof -
  have move: "transformPath \<lparr>rt_root = path_of xs, rt_targetRoot = path_of ys\<rparr> (path_of (xs @ rest)) = path_of (ys @ rest)"
    if "list_all name_part ys" for xs ys
  proof -
    obtain q where q: "path_of (xs @ rest) = path_of xs @ q" "parts_of q = rest"
      using path_of_append [OF assms(3)] by blast
    then show ?thesis
      using FJoin_path_of [of ys q] that assms(3) by (simp add: transformPath_def)
  qed
  show ?thesis using move assms by simp
qed

text \<open>
  The prefix test does not look for the end of a component: a path beside the root whose first
  component only starts like it is moved, too, and torn apart.
\<close>

lemma transformPath_no_boundary:
  "transformPath \<lparr>rt_root = ''/run/nvidia'', rt_targetRoot = ''/host''\<rparr> ''/run/nvidia-fs/x'' = ''/host/-fs/x''"
  by code_simp

text \<open>
  A driver transformer whose target roots are its roots does nothing, whatever the
  specification holds, and without options it is such a transformer.
\<close>

lemma driver_transformer_identity:
  assumes "driver_defaults (foldl (\<lambda>d opt. opt d)
      \<lparr>do_driverRoot = [], do_targetDriverRoot = [], do_devRoot = [], do_targetDevRoot = []\<rparr> opts) = d"
    and "do_targetDriverRoot d = do_driverRoot d" "do_targetDevRoot d = do_devRoot d"
  shows "NewDriverTransformer opts spec hp = Inr hp"
  using assms
  by (auto simp: NewDriverTransformer_def Let_def MergeH_def root_New_def root_build_def WithRoot_def
      WithTargetRoot_def noop_def)

end
