(* ===== verification/OCI_Types.thy ===== *)
theory OCI_Types
  imports Prelude
begin

section \<open>The OCI runtime specification\<close>

text \<open>
  The parts of the OCI runtime specification (\<open>runtime-spec/specs-go\<close>) that the toolkit reads or
  changes.  Pointers of the Go structures that may be nil are options.
\<close>

record oci_mount =
  mnt_Destination :: string
  mnt_Type :: string
  mnt_Source :: string
  mnt_Options :: "string list"

record oci_hook =
  hk_Path :: string
  hk_Args :: "string list"
  hk_Env :: "string list"
  hk_Timeout :: "int option"

record oci_hooks =
  Prestart :: "oci_hook list"
  CreateRuntime :: "oci_hook list"
  CreateContainer :: "oci_hook list"
  StartContainer :: "oci_hook list"
  Poststart :: "oci_hook list"
  Poststop :: "oci_hook list"

record oci_capabilities =
  Bounding :: "string list"
  Effective :: "string list"
  Inheritable :: "string list"
  Permitted :: "string list"
  Ambient :: "string list"

record oci_process =
  proc_Env :: "string list"
  proc_Capabilities :: "oci_capabilities option"

record oci_root =
  root_Path :: string
  root_Readonly :: bool

record oci_spec =
  spec_Process :: "oci_process option"
  spec_Root :: "oci_root option"
  spec_Mounts :: "oci_mount list"
  spec_Hooks :: "oci_hooks option"
  spec_Annotations :: "(string \<times> string) list"

definition empty_hooks :: oci_hooks where
  "empty_hooks = \<lparr>Prestart = [], CreateRuntime = [], CreateContainer = [], StartContainer = [],
                  Poststart = [], Poststop = []\<rparr>"

definition empty_spec :: oci_spec where
  "empty_spec = \<lparr>spec_Process = None, spec_Root = None, spec_Mounts = [], spec_Hooks = None,
                 spec_Annotations = []\<rparr>"

end
