(* ===== verification/OCI.thy ===== *)
theory OCI
  imports OCI_Types Go_Path
begin

section \<open>The OCI layer\<close>

text \<open>
  The package \<open>internal/oci\<close>: reading the command line of the runtime (\<open>args.go\<close>), specifications in
  memory and in files (\<open>spec.go\<close>, \<open>spec_memory.go\<close>, \<open>spec_file.go\<close>), the wrapper that modifies a
  specification before it hands over to the low-level runtime (\<open>runtime_modifier.go\<close>), low-level
  runtimes (\<open>runtime_path.go\<close>, \<open>runtime_low_level.go\<close>, \<open>runtime_syscall_exec.go\<close>) and the state of a
  container (\<open>state.go\<close>).

  The operating system is a state that the operations pass on: the files by path, and the command
  line that replaced the process.  The JSON decoder and encoder for specifications are parameters;
  a file holds a value of an arbitrary type \<open>'f\<close>.
\<close>

subsection \<open>Command lines\<close>

definition specFileName :: string where
  "specFileName = ''config.json''"

definition IsBundleFlag :: "string \<Rightarrow> bool" where
  "IsBundleFlag arg =
     (if \<not> HasPrefix arg ''-'' then False
      else let trimmed = TrimLeft arg ''-'' in trimmed = ''b'' \<or> trimmed = ''bundle'')"

fun bundle_loop :: "string \<Rightarrow> string list \<Rightarrow> string result" where
  "bundle_loop bundleDir [] = Inr bundleDir"
| "bundle_loop bundleDir (param # args) =
     (let parts = SplitN2 param ''='' in
      if \<not> IsBundleFlag (parts ! 0) then bundle_loop bundleDir args
      else if length parts = 2 then bundle_loop (parts ! 1) args
      else case args of
             next # args' \<Rightarrow> bundle_loop next args'
           | [] \<Rightarrow> Inl (Errorf ''bundle option requires an argument''))"

definition GetBundleDirFromArgs :: "string list \<Rightarrow> string result" where
  "GetBundleDirFromArgs args = bundle_loop [] args"

definition GetBundleDir :: "string list \<Rightarrow> string result" where
  "GetBundleDir args = wrapR ''error getting bundle dir from args'' (GetBundleDirFromArgs args)"

definition GetSpecFilePath :: "string \<Rightarrow> string" where
  "GetSpecFilePath bundleDir = FJoin [bundleDir, specFileName]"

fun create_loop :: "bool \<Rightarrow> string list \<Rightarrow> bool" where
  "create_loop previousWasBundle [] = False"
| "create_loop previousWasBundle (a # as) =
     (if \<not> previousWasBundle \<and> IsBundleFlag a then create_loop True as
      else if \<not> previousWasBundle \<and> a = ''create'' then True
      else create_loop False as)"

definition HasCreateSubcommand :: "string list \<Rightarrow> bool" where
  "HasCreateSubcommand args = create_loop False args"

subsection \<open>Modifiers and specifications\<close>

text \<open>A modifier changes a specification in place; after an error the specification is not used.\<close>

type_synonym SpecModifier = "oci_spec \<Rightarrow> oci_spec result"

definition SpecModifiers_Modify :: "SpecModifier option list \<Rightarrow> SpecModifier" where
  "SpecModifiers_Modify ms s = foldR (\<lambda>s m. case m of None \<Rightarrow> Inr s | Some f \<Rightarrow> f s) s ms"

definition memorySpec_Load :: "oci_spec option \<Rightarrow> oci_spec option result" where
  "memorySpec_Load s = Inr s"

definition memorySpec_Flush :: "oci_spec option \<Rightarrow> unit result" where
  "memorySpec_Flush s = Inr ()"

definition memorySpec_Modify :: "SpecModifier \<Rightarrow> oci_spec option \<Rightarrow> oci_spec option result" where
  "memorySpec_Modify m s =
     (case s of None \<Rightarrow> Inl (Errorf ''cannot modify nil spec'') | Some x \<Rightarrow> bindR (m x) (\<lambda>y. Inr (Some y)))"

fun lookup_loop :: "string \<Rightarrow> string list \<Rightarrow> string \<times> bool" where
  "lookup_loop key [] = ([], False)"
| "lookup_loop key (env # envs) =
     (if \<not> HasPrefix env key then lookup_loop key envs
      else let parts = SplitN2 env ''='' in
           if parts ! 0 = key then (if length parts < 2 then ([], True) else (parts ! 1, True))
           else lookup_loop key envs)"

definition LookupEnv :: "oci_spec option \<Rightarrow> string \<Rightarrow> string \<times> bool" where
  "LookupEnv s key =
     (case s of None \<Rightarrow> ([], False)
      | Some x \<Rightarrow> (case spec_Process x of None \<Rightarrow> ([], False) | Some p \<Rightarrow> lookup_loop key (proc_Env p)))"

subsection \<open>Files\<close>

record 'f os =
  os_files :: "string \<Rightarrow> 'f option"
  os_exec :: "string list option"

record 'f codec =
  decode :: "bool \<Rightarrow> 'f \<Rightarrow> oci_spec result"
  encode :: "oci_spec \<Rightarrow> 'f"
  can_create :: "string \<Rightarrow> bool"

record fileSpec =
  fs_Spec :: "oci_spec option"
  fs_path :: string
  fs_strict :: bool

definition NewFileSpec :: "string \<Rightarrow> bool \<Rightarrow> fileSpec" where
  "NewFileSpec path isStrict = \<lparr>fs_Spec = None, fs_path = path, fs_strict = isStrict\<rparr>"

definition loadFrom :: "'f codec \<Rightarrow> bool \<Rightarrow> 'f \<Rightarrow> oci_spec result" where
  "loadFrom c isStrict f = wrapR ''error reading OCI specification'' (decode c isStrict f)"

definition fileSpec_Load :: "'f codec \<Rightarrow> 'f os \<Rightarrow> fileSpec \<Rightarrow> fileSpec result" where
  "fileSpec_Load c w s =
     (case os_files w (fs_path s) of
        None \<Rightarrow> Inl (Errorf ''error opening OCI specification file'')
      | Some f \<Rightarrow>
          bindR (wrapR ''error loading OCI specification from file'' (loadFrom c (fs_strict s) f)) (\<lambda>spec.
            Inr (s\<lparr>fs_Spec := Some spec\<rparr>)))"

definition fileSpec_Modify :: "SpecModifier \<Rightarrow> fileSpec \<Rightarrow> fileSpec result" where
  "fileSpec_Modify m s = bindR (memorySpec_Modify m (fs_Spec s)) (\<lambda>x. Inr (s\<lparr>fs_Spec := x\<rparr>))"

definition fileSpec_Flush :: "'f codec \<Rightarrow> fileSpec \<Rightarrow> 'f os \<Rightarrow> 'f os result" where
  "fileSpec_Flush c s w =
     (case fs_Spec s of
        None \<Rightarrow> Inl (Errorf ''no OCI specification loaded'')
      | Some spec \<Rightarrow>
          if \<not> can_create c (fs_path s) then Inl (Errorf ''error opening OCI specification file'')
          else Inr (w\<lparr>os_files := (os_files w)(fs_path s \<mapsto> encode c spec)\<rparr>))"

definition NewSpec :: "string list \<Rightarrow> bool \<Rightarrow> fileSpec result" where
  "NewSpec args allowUnkownFields =
     bindR (wrapR ''error getting bundle directory'' (GetBundleDir args)) (\<lambda>bundleDir.
       Inr (NewFileSpec (GetSpecFilePath bundleDir) (\<not> allowUnkownFields)))"

subsection \<open>Runtimes\<close>

text \<open>
  A runtime takes a command line and changes the system; it returns only with an error.  A process
  that was replaced shows in \<open>os_exec\<close>, and then nothing is returned to anyone.
\<close>

type_synonym 'f runtime = "string list \<Rightarrow> 'f os \<Rightarrow> 'f os \<times> error option"

definition syscallExec_Exec :: "(string \<Rightarrow> bool) \<Rightarrow> 'f runtime" where
  "syscallExec_Exec execve args w =
     (case args of
        [] \<Rightarrow> (w, Some (Panic ''index out of range [0] with length 0''))
      | a # _ \<Rightarrow>
          if execve a then (w\<lparr>os_exec := Some args\<rparr>, None)
          else (w, Some (Errorf (''could not exec '' @ a))))"

definition pathRuntime_Exec :: "'f runtime \<Rightarrow> string \<Rightarrow> 'f runtime" where
  "pathRuntime_Exec execRuntime path args =
     (let runtimeArgs = [path] @ (if length args > 1 then tl args else [])
      in execRuntime runtimeArgs)"

record file_info =
  fi_IsDir :: bool
  fi_executable :: bool

definition NewRuntimeForPath :: "(string \<Rightarrow> file_info result) \<Rightarrow> 'f runtime \<Rightarrow> string \<Rightarrow> 'f runtime result" where
  "NewRuntimeForPath stat execRuntime path =
     bindR (wrapR (''invalid path '' @ path) (stat path)) (\<lambda>info.
       if fi_IsDir info \<or> \<not> fi_executable info
       then Inl (Errorf (''specified path '' @ path @ '' is not an executable file''))
       else Inr (pathRuntime_Exec execRuntime path))"

fun find_runtime_loop :: "(string \<Rightarrow> string list result) \<Rightarrow> string list \<Rightarrow> string option" where
  "find_runtime_loop locate [] = None"
| "find_runtime_loop locate (candidate # candidates) =
     (case locate candidate of
        Inr (target # _) \<Rightarrow> Some target
      | _ \<Rightarrow> find_runtime_loop locate candidates)"

definition findRuntime :: "(string \<Rightarrow> string list result) \<Rightarrow> string list \<Rightarrow> string result" where
  "findRuntime locate candidates =
     (if candidates = [] then Inl (Errorf ''at least one runtime candidate must be specified'')
      else case find_runtime_loop locate candidates of
             Some target \<Rightarrow> Inr target
           | None \<Rightarrow> Inl (Errorf ''no runtime binary found from candidate list''))"

definition NewLowLevelRuntime ::
  "(string \<Rightarrow> string list result) \<Rightarrow> (string \<Rightarrow> file_info result) \<Rightarrow> 'f runtime \<Rightarrow> string list \<Rightarrow> 'f runtime result" where
  "NewLowLevelRuntime locate stat execRuntime candidates =
     bindR (wrapR ''error locating runtime'' (findRuntime locate candidates)) (\<lambda>path.
       NewRuntimeForPath stat execRuntime path)"

subsection \<open>The modifying wrapper\<close>

definition wrapper_modify :: "'f codec \<Rightarrow> fileSpec \<Rightarrow> SpecModifier \<Rightarrow> 'f os \<Rightarrow> 'f os result" where
  "wrapper_modify c s modifier w =
     bindR (wrapR ''error loading OCI specification for modification'' (fileSpec_Load c w s)) (\<lambda>s.
     bindR (wrapR ''error modifying OCI spec'' (fileSpec_Modify modifier s)) (\<lambda>s.
       wrapR ''error writing modified OCI specification'' (fileSpec_Flush c s w)))"

definition wrapper_Exec :: "'f codec \<Rightarrow> fileSpec \<Rightarrow> SpecModifier \<Rightarrow> 'f runtime \<Rightarrow> 'f runtime" where
  "wrapper_Exec c s modifier runtime args w =
     (if HasCreateSubcommand args
      then case wrapR ''could not apply required modification to OCI specification'' (wrapper_modify c s modifier w) of
             Inl e \<Rightarrow> (w, Some e)
           | Inr w' \<Rightarrow> runtime args w'
      else runtime args w)"

definition NewModifyingRuntimeWrapper ::
  "'f codec \<Rightarrow> fileSpec \<Rightarrow> SpecModifier option \<Rightarrow> 'f runtime \<Rightarrow> 'f runtime" where
  "NewModifyingRuntimeWrapper c s modifier runtime =
     (case modifier of None \<Rightarrow> runtime | Some m \<Rightarrow> wrapper_Exec c s m runtime)"

subsection \<open>Container state\<close>

record container_state =
  st_ID :: string
  st_Bundle :: string

definition LoadContainerState ::
  "('f \<Rightarrow> container_state result) \<Rightarrow> 'f os \<Rightarrow> 'f \<Rightarrow> string \<Rightarrow> container_state result" where
  "LoadContainerState read w stdin filename =
     (if filename = [] \<or> filename = ''-'' then wrapR ''failed to decode container state'' (read stdin)
      else case os_files w filename of
             None \<Rightarrow> Inl (Errorf ''failed to open file'')
           | Some f \<Rightarrow> wrapR ''failed to decode container state'' (read f))"

text \<open>The minimal specification is the path of the root filesystem, if there is one.\<close>

definition loadMinimalSpec ::
  "('f \<Rightarrow> string option result) \<Rightarrow> 'f os \<Rightarrow> container_state \<Rightarrow> string option result" where
  "loadMinimalSpec read w s =
     (case os_files w (GetSpecFilePath (st_Bundle s)) of
        None \<Rightarrow> Inl (Errorf ''failed to open OCI spec file'')
      | Some f \<Rightarrow> wrapR ''failed to load minimal OCI spec'' (read f))"

definition GetContainerRoot ::
  "('f \<Rightarrow> string option result) \<Rightarrow> 'f os \<Rightarrow> container_state \<Rightarrow> string result" where
  "GetContainerRoot read w s =
     bindR (loadMinimalSpec read w s) (\<lambda>root.
       let containerRoot = (case root of None \<Rightarrow> [] | Some p \<Rightarrow> p)
       in Inr (if IsAbs containerRoot then containerRoot else FJoin [st_Bundle s, containerRoot]))"

subsection \<open>The two readings of a command line agree\<close>

text \<open>
  What the options of \<open>runc\<close> mean: a bundle flag takes the next argument (or the text after \<open>=\<close>) as
  its value, whatever that looks like; everything else is an argument of its own.
\<close>

datatype token = Bundle string | Dangling | Arg string

fun tokens :: "string list \<Rightarrow> token list" where
  "tokens [] = []"
| "tokens (a # as) =
     (if IsBundleFlag a then (case as of [] \<Rightarrow> [Dangling] | v # as' \<Rightarrow> Bundle v # tokens as')
      else if CHR ''='' \<in> set a \<and> IsBundleFlag (takeWhile (\<lambda>c. c \<noteq> CHR ''='') a)
        then Bundle (tl (dropWhile (\<lambda>c. c \<noteq> CHR ''='') a)) # tokens as
      else Arg a # tokens as)"

fun last_bundle :: "string \<Rightarrow> token list \<Rightarrow> string" where
  "last_bundle d [] = d"
| "last_bundle d (Bundle v # ts) = last_bundle v ts"
| "last_bundle d (t # ts) = last_bundle d ts"

lemma TrimLeft_dashes: "set (TrimLeft a ''-'') \<union> {CHR ''-''} \<supseteq> set a"
  unfolding TrimLeft_def by (induction a) auto

lemma IsBundleFlag_no_eq: "IsBundleFlag a \<Longrightarrow> CHR ''='' \<notin> set a"
  using TrimLeft_dashes [of a] by (auto simp: IsBundleFlag_def Let_def split: if_splits)

declare SplitN.simps [simp del]

lemma no_sep: "c \<notin> set a \<Longrightarrow> takeWhile (\<lambda>x. x \<noteq> c) a = a \<and> dropWhile (\<lambda>x. x \<noteq> c) a = []"
  by (induction a) auto

lemma SplitN2_parts:
  "SplitN2 a ''='' = (if CHR ''='' \<in> set a
     then [takeWhile (\<lambda>c. c \<noteq> CHR ''='') a, tl (dropWhile (\<lambda>c. c \<noteq> CHR ''='') a)] else [a])"
proof (cases "CHR ''='' \<in> set a")
  case True
  then obtain u v where a: "a = u @ CHR ''='' # v" and u: "CHR ''='' \<notin> set u"
    by (meson split_list_first)
  have drop: "dropWhile (\<lambda>c. c \<noteq> CHR ''='') (u @ CHR ''='' # v) = CHR ''='' # v"
    using no_sep [OF u] by (simp add: dropWhile_append)
  show ?thesis
    unfolding a drop takeWhile_append_sep [OF u] SplitN2_char_append [OF u] by simp
next
  case False
  then show ?thesis by (simp add: SplitN2_char_notin)
qed

lemma SplitN2_name: "SplitN2 a ''='' ! 0 = takeWhile (\<lambda>c. c \<noteq> CHR ''='') a"
  by (simp add: SplitN2_parts no_sep)

lemma SplitN2_value:
  "(if length (SplitN2 a ''='') < 2 then [] else SplitN2 a ''='' ! 1) = tl (dropWhile (\<lambda>c. c \<noteq> CHR ''='') a)"
proof (cases "CHR ''='' \<in> set a")
  case False
  then show ?thesis by (simp add: SplitN2_parts no_sep)
qed (simp add: SplitN2_parts)

lemma bundle_loop_tokens:
  "bundle_loop d args =
     (if Dangling \<in> set (tokens args) then Inl (Errorf ''bundle option requires an argument'')
      else Inr (last_bundle d (tokens args)))"
proof (induction args arbitrary: d rule: tokens.induct)
  case (2 a as)
  show ?case
  proof (cases "IsBundleFlag a")
    case True
    with 2 IsBundleFlag_no_eq [of a] show ?thesis
      by (cases as) (simp_all add: SplitN2_parts Let_def)
  next
    case False
    with 2 show ?thesis by (simp add: SplitN2_parts Let_def)
  qed
qed simp

lemma create_loop_tokens: "create_loop False args \<longleftrightarrow> Arg ''create'' \<in> set (tokens args)"
proof (induction args rule: tokens.induct)
  case (2 a as)
  have "create_loop True (v # as') = create_loop False as'" for v as' by simp
  moreover have "\<not> IsBundleFlag ''create''" by code_simp
  moreover have "\<not> IsBundleFlag (takeWhile (\<lambda>c. c \<noteq> CHR ''='') ''create'')" by code_simp
  ultimately show ?case using 2 by (cases as) auto
qed simp

text \<open>
  The two functions that read the command line agree with each other and with the meaning of
  the bundle flag.  A create command is detected exactly if \<open>create\<close> is an argument of its own and
  not the value of a bundle flag; the bundle directory is the value of the last bundle flag; and
  the error is returned exactly if a bundle flag lacks its value.
\<close>

lemma command_line_reading:
  "HasCreateSubcommand args = (Arg ''create'' \<in> set (tokens args)) \<and>
   GetBundleDirFromArgs args =
     (if Dangling \<in> set (tokens args) then Inl (Errorf ''bundle option requires an argument'')
      else Inr (last_bundle [] (tokens args)))"
  by (simp add: HasCreateSubcommand_def GetBundleDirFromArgs_def bundle_loop_tokens create_loop_tokens)

subsection \<open>The wrapper modifies the specification of a create command, or nothing\<close>

lemma wrapper_modify_Inr:
  "wrapper_modify c s m w = Inr w' \<longleftrightarrow>
     (\<exists>f spec spec'. os_files w (fs_path s) = Some f \<and> decode c (fs_strict s) f = Inr spec \<and>
        m spec = Inr spec' \<and> can_create c (fs_path s) \<and>
        w' = w\<lparr>os_files := (os_files w)(fs_path s \<mapsto> encode c spec')\<rparr>)"
proof (cases "os_files w (fs_path s)")
  case None
  then show ?thesis by (simp add: wrapper_modify_def fileSpec_Load_def)
next
  case (Some f)
  note defs = wrapper_modify_def fileSpec_Load_def loadFrom_def fileSpec_Modify_def
    memorySpec_Modify_def fileSpec_Flush_def bindR_eq_Inr
  show ?thesis
  proof (cases "decode c (fs_strict s) f")
    case (Inl e)
    with Some show ?thesis by (auto simp: defs)
  next
    case (Inr spec)
    then have "fileSpec_Load c w s = Inr (s\<lparr>fs_Spec := Some spec\<rparr>)"
      by (simp add: Some fileSpec_Load_def loadFrom_def)
    with Some Inr show ?thesis
      by (cases "m spec") (auto simp: wrapper_modify_def fileSpec_Modify_def memorySpec_Modify_def
          fileSpec_Flush_def bindR_eq_Inr)
  qed
qed

lemma wrapper_modify_Inl:
  "(\<And>w'. wrapper_modify c s m w \<noteq> Inr w') \<Longrightarrow> \<exists>e. wrapper_modify c s m w = Inl e"
  by (cases "wrapper_modify c s m w") auto

text \<open>
  (C5) On a create command the low-level runtime runs with the given arguments on the modified
  specification: if the specification can be read, the modifier accepts it and the file can be
  written, the file holds the encoding of the modified specification when the runtime starts, and
  no other file has changed.
\<close>

theorem create_runs_on_modified_spec:
  assumes "HasCreateSubcommand args"
    and "os_files w (fs_path s) = Some f" and "decode c (fs_strict s) f = Inr spec"
    and "m spec = Inr spec'" and "can_create c (fs_path s)"
  shows "wrapper_Exec c s m runtime args w =
    runtime args (w\<lparr>os_files := (os_files w)(fs_path s \<mapsto> encode c spec')\<rparr>)"
proof -
  have "wrapper_modify c s m w = Inr (w\<lparr>os_files := (os_files w)(fs_path s \<mapsto> encode c spec')\<rparr>)"
    using assms(2-) by (auto simp: wrapper_modify_Inr)
  with assms(1) show ?thesis by (simp add: wrapper_Exec_def)
qed


text \<open>
  Any other command, and every command without a modifier, goes to the low-level runtime as it
  is, with the files as they are, however the modifier behaves.
\<close>

lemma other_commands_forwarded:
  assumes "\<not> HasCreateSubcommand args \<or> modifier = None"
  shows "NewModifyingRuntimeWrapper c s modifier runtime args w = runtime args w"
  using assms by (auto simp: NewModifyingRuntimeWrapper_def wrapper_Exec_def split: option.splits)

text \<open>Examples: files hold specifications, and the codec is the identity.\<close>

definition example_codec :: "oci_spec codec" where
  "example_codec = \<lparr>decode = (\<lambda>strict f. Inr f), encode = id, can_create = (\<lambda>_. True)\<rparr>"

definition example_spec_os :: "oci_spec os" where
  "example_spec_os = \<lparr>os_files = [''/b/config.json'' \<mapsto> empty_spec], os_exec = None\<rparr>"

definition example_file_spec :: fileSpec where
  "example_file_spec = NewFileSpec (GetSpecFilePath ''/b'') True"

definition example_modifier :: SpecModifier where
  "example_modifier s = Inr (s\<lparr>spec_Annotations := [(''a'', ''b'')]\<rparr>)"

definition example_runtime :: "oci_spec runtime" where
  "example_runtime = pathRuntime_Exec (syscallExec_Exec (\<lambda>_. True)) ''/usr/bin/runc''"

lemma example_file_spec_path: "fs_path example_file_spec = ''/b/config.json''"
  by code_simp

theorem create_runs_on_modified_spec_witness:
  "wrapper_Exec example_codec example_file_spec example_modifier example_runtime [''nvidia'', ''create''] example_spec_os =
     (\<lparr>os_files = [''/b/config.json'' \<mapsto> empty_spec\<lparr>spec_Annotations := [(''a'', ''b'')]\<rparr>],
       os_exec = Some [''/usr/bin/runc'', ''create'']\<rparr>, None)"
proof -
  have "HasCreateSubcommand [''nvidia'', ''create'']" by code_simp
  then show ?thesis
    using create_runs_on_modified_spec [of "[''nvidia'', ''create'']" example_spec_os example_file_spec
        empty_spec example_codec empty_spec example_modifier]
    by (simp add: example_spec_os_def example_file_spec_path example_codec_def example_modifier_def
        example_runtime_def pathRuntime_Exec_def syscallExec_Exec_def)
qed


subsection \<open>Environment variables and the root of a container\<close>

text \<open>
  Looking up an environment variable finds the value of the first entry of that name: the test
  for a common prefix only saves work.
\<close>

lemma LookupEnv_first:
  "LookupEnv (Some x) key =
     (case spec_Process x of None \<Rightarrow> ([], False)
      | Some p \<Rightarrow> (case find (\<lambda>env. SplitN2 env ''='' ! 0 = key) (proc_Env p) of
          None \<Rightarrow> ([], False)
        | Some env \<Rightarrow> (tl (dropWhile (\<lambda>c. c \<noteq> CHR ''='') env), True)))"
proof -
  have pre: "HasPrefix env (SplitN2 env ''='' ! 0)" for env
    using takeWhile_dropWhile_id [of "\<lambda>c. c \<noteq> CHR ''=''" env] by (metis HasPrefix_append SplitN2_name)
  have "lookup_loop key envs =
     (case find (\<lambda>env. SplitN2 env ''='' ! 0 = key) envs of
        None \<Rightarrow> ([], False) | Some env \<Rightarrow> (tl (dropWhile (\<lambda>c. c \<noteq> CHR ''='') env), True))" for envs
  proof (induction envs)
    case (Cons env envs)
    then show ?case
      using pre [of env] SplitN2_value [of env] by (auto simp: Let_def split: if_splits)
  qed simp
  then show ?thesis by (simp add: LookupEnv_def split: option.splits)
qed

end
