(* ===== verification/Semver.thy ===== *)
theory Semver
  imports Go_Strings
begin

section \<open>Semantic versions\<close>

text \<open>
  The package \<open>golang.org/x/mod/semver\<close> as vendored with the toolkit: parsing, validity,
  \<open>MajorMinor\<close> and comparison of version strings such as \<open>v12.4.1\<close>.  The requirement checks and
  the legacy-image logic rest on it.  The main result relates the string comparison of numbers
  (\<open>compareInt\<close>) to the order of the numbers they denote.
\<close>

record parsed =
  major :: string
  minor :: string
  patch :: string
  short :: string
  prerelease :: string
  build :: string

definition no_version :: parsed where
  "no_version = \<lparr>major = [], minor = [], patch = [], short = [], prerelease = [], build = []\<rparr>"

definition isIdentChar :: "char \<Rightarrow> bool" where
  "isIdentChar c \<longleftrightarrow>
     (CHR ''A'' \<le> c \<and> c \<le> CHR ''Z'') \<or> (CHR ''a'' \<le> c \<and> c \<le> CHR ''z'') \<or> is_digit c \<or> c = CHR ''-''"

definition isBadNum :: "string \<Rightarrow> bool" where
  "isBadNum v \<longleftrightarrow> list_all is_digit v \<and> 1 < length v \<and> hd v = CHR ''0''"

definition isNum :: "string \<Rightarrow> bool" where
  "isNum v \<longleftrightarrow> list_all is_digit v"

definition parseInt :: "string \<Rightarrow> (string \<times> string) option" where
  "parseInt v =
     (if v = [] \<or> \<not> is_digit (hd v) then None
      else let t = takeWhile is_digit v
           in if hd v = CHR ''0'' \<and> length t \<noteq> 1 then None else Some (t, drop (length t) v))"

text \<open>The loops over the identifiers of a prerelease and of build metadata; the pieces between
  the dots are the slices \<open>v[start:i]\<close> of the source.\<close>

definition parsePrerelease :: "string \<Rightarrow> (string \<times> string) option" where
  "parsePrerelease v =
     (if v = [] \<or> hd v \<noteq> CHR ''-'' then None
      else let b = takeWhile (\<lambda>c. c \<noteq> CHR ''+'') (tl v)
           in if list_all (\<lambda>c. isIdentChar c \<or> c = CHR ''.'') b \<and>
                 list_all (\<lambda>s. s \<noteq> [] \<and> \<not> isBadNum s) (Split b ''.'')
              then Some (CHR ''-'' # b, drop (Suc (length b)) v) else None)"

definition parseBuild :: "string \<Rightarrow> (string \<times> string) option" where
  "parseBuild v =
     (if v = [] \<or> hd v \<noteq> CHR ''+'' then None
      else if list_all (\<lambda>c. isIdentChar c \<or> c = CHR ''.'') (tl v) \<and>
              list_all (\<lambda>s. s \<noteq> []) (Split (tl v) ''.'')
           then Some (v, []) else None)"

text \<open>The tail of \<open>parse\<close>, after the patch number: prerelease and build are optional.\<close>

definition parse_suffix :: "parsed \<Rightarrow> string \<Rightarrow> parsed option" where
  "parse_suffix p v =
     (case (if HasPrefix v ''-'' then map_option (\<lambda>(t, r). (p\<lparr>prerelease := t\<rparr>, r)) (parsePrerelease v)
            else Some (p, v)) of
        None \<Rightarrow> None
      | Some (p1, v1) \<Rightarrow>
          (case (if HasPrefix v1 ''+'' then map_option (\<lambda>(t, r). (p1\<lparr>build := t\<rparr>, r)) (parseBuild v1)
                 else Some (p1, v1)) of
             None \<Rightarrow> None
           | Some (p2, v2) \<Rightarrow> if v2 = [] then Some p2 else None))"

definition semver_parse :: "string \<Rightarrow> parsed option" where
  "semver_parse v =
     (if v = [] \<or> hd v \<noteq> CHR ''v'' then None
      else case parseInt (tl v) of
        None \<Rightarrow> None
      | Some (ma, v1) \<Rightarrow>
          let p1 = no_version\<lparr>major := ma\<rparr>
          in if v1 = [] then Some (p1\<lparr>minor := ''0'', patch := ''0'', short := ''.0.0''\<rparr>)
             else if hd v1 \<noteq> CHR ''.'' then None
             else case parseInt (tl v1) of
               None \<Rightarrow> None
             | Some (mi, v2) \<Rightarrow>
                 let p2 = p1\<lparr>minor := mi\<rparr>
                 in if v2 = [] then Some (p2\<lparr>patch := ''0'', short := ''.0''\<rparr>)
                    else if hd v2 \<noteq> CHR ''.'' then None
                    else case parseInt (tl v2) of
                      None \<Rightarrow> None
                    | Some (pa, v3) \<Rightarrow> parse_suffix (p2\<lparr>patch := pa\<rparr>) v3)"

definition semver_IsValid :: "string \<Rightarrow> bool" where
  "semver_IsValid v \<longleftrightarrow> semver_parse v \<noteq> None"

definition semver_MajorMinor :: "string \<Rightarrow> string" where
  "semver_MajorMinor v =
     (case semver_parse v of
        None \<Rightarrow> []
      | Some pv \<Rightarrow>
          let i = 1 + length (major pv); j = i + 1 + length (minor pv)
          in if j \<le> length v \<and> v ! i = CHR ''.'' \<and> take (length (minor pv)) (drop (i + 1) v) = minor pv
             then take j v
             else take i v @ ''.'' @ minor pv)"

definition compareInt :: "string \<Rightarrow> string \<Rightarrow> int" where
  "compareInt x y =
     (if x = y then 0
      else if length x < length y then -1
      else if length x > length y then 1
      else if x < y then -1 else 1)"

definition nextIdent :: "string \<Rightarrow> string \<times> string" where
  "nextIdent x = (takeWhile (\<lambda>c. c \<noteq> CHR ''.'') x, dropWhile (\<lambda>c. c \<noteq> CHR ''.'') x)"

text \<open>Comparison of two different identifiers.\<close>

definition compareIdent :: "string \<Rightarrow> string \<Rightarrow> int" where
  "compareIdent dx dy =
     (if isNum dx \<noteq> isNum dy then (if isNum dx then -1 else 1)
      else if isNum dx \<and> length dx < length dy then -1
      else if isNum dx \<and> length dx > length dy then 1
      else if dx < dy then -1 else 1)"

text \<open>The loop of \<open>comparePrerelease\<close>: both strings start with \<open>-\<close> or a dot.\<close>

function comparePrerelease_loop :: "string \<Rightarrow> string \<Rightarrow> int" where
  "comparePrerelease_loop x y =
     (if x = [] then -1 else if y = [] then 1
      else let (dx, x') = nextIdent (tl x); (dy, y') = nextIdent (tl y)
           in if dx \<noteq> dy then compareIdent dx dy else comparePrerelease_loop x' y')"
  by pat_completeness auto
termination
proof (relation "measure (\<lambda>(x, y). length x)")
  fix x y dx x' dy y' :: string
  fix px py :: "string \<times> string"
  assume "x \<noteq> []" "px = nextIdent (tl x)" "(dx, x') = px"
  then have "x' = dropWhile (\<lambda>c. c \<noteq> CHR ''.'') (tl x)" by (simp add: nextIdent_def)
  then have "length x' \<le> length (tl x)" by (simp only: length_dropWhile_le)
  with \<open>x \<noteq> []\<close> show "((x', y'), (x, y)) \<in> measure (\<lambda>(x, y). length x)"
    by (cases x) auto
qed simp

declare comparePrerelease_loop.simps [simp del]

definition comparePrerelease :: "string \<Rightarrow> string \<Rightarrow> int" where
  "comparePrerelease x y =
     (if x = y then 0 else if x = [] then 1 else if y = [] then -1
      else comparePrerelease_loop x y)"

definition semver_Compare :: "string \<Rightarrow> string \<Rightarrow> int" where
  "semver_Compare v w =
     (case (semver_parse v, semver_parse w) of
        (None, None) \<Rightarrow> 0
      | (None, Some _) \<Rightarrow> -1
      | (Some _, None) \<Rightarrow> 1
      | (Some pv, Some pw) \<Rightarrow>
          if compareInt (major pv) (major pw) \<noteq> 0 then compareInt (major pv) (major pw)
          else if compareInt (minor pv) (minor pw) \<noteq> 0 then compareInt (minor pv) (minor pw)
          else if compareInt (patch pv) (patch pw) \<noteq> 0 then compareInt (patch pv) (patch pw)
          else comparePrerelease (prerelease pv) (prerelease pw))"

subsection \<open>Numbers as strings\<close>

text \<open>What \<open>parseInt\<close> accepts: decimal numbers without leading zeros.\<close>

definition canon_num :: "string \<Rightarrow> bool" where
  "canon_num s \<longleftrightarrow> s \<noteq> [] \<and> list_all is_digit s \<and> (hd s = CHR ''0'' \<longrightarrow> length s = 1)"

lemma parseInt_canon: "parseInt v = Some (t, r) \<Longrightarrow> canon_num t \<and> v = t @ r"
proof -
  assume *: "parseInt v = Some (t, r)"
  then have t: "t = takeWhile is_digit v" and r: "r = drop (length t) v"
    by (auto simp: parseInt_def Let_def split: if_splits)
  then have "r = dropWhile is_digit v" by (simp add: dropWhile_eq_drop)
  moreover have "canon_num t" using * t
    by (cases v) (auto simp: parseInt_def Let_def canon_num_def list_all_iff split: if_splits
        dest: set_takeWhileD)
  ultimately show ?thesis using t by simp
qed

lemma parseInt_append:
  assumes "canon_num t" and "r = [] \<or> \<not> is_digit (hd r)"
  shows "parseInt (t @ r) = Some (t, r)"
proof -
  have "takeWhile is_digit (t @ r) = t"
    using assms by (cases r) (auto simp: canon_num_def list_all_iff takeWhile_append2)
  with assms show ?thesis
    by (cases t) (auto simp: parseInt_def canon_num_def)
qed

lemma is_digit_val: "is_digit c \<Longrightarrow> digit_val c \<le> 9"
  by (auto simp: is_digit_def digit_val_def less_eq_char_def)

lemma digit_val_less: "is_digit c \<Longrightarrow> is_digit d \<Longrightarrow> digit_val c < digit_val d \<longleftrightarrow> c < d"
  by (auto simp: is_digit_def digit_val_def less_eq_char_def less_char_def)

lemma digit_val_pos: "is_digit c \<Longrightarrow> c \<noteq> CHR ''0'' \<Longrightarrow> 0 < digit_val c"
proof -
  assume "is_digit c" "c \<noteq> CHR ''0''"
  then have "CHR ''0'' < c" by (auto simp: is_digit_def)
  then show ?thesis by (simp add: digit_val_def less_char_def)
qed

lemma digit_val_inj: "is_digit c \<Longrightarrow> is_digit d \<Longrightarrow> digit_val c = digit_val d \<Longrightarrow> c = d"
  by (metis digit_val_less less_irrefl linorder_neqE)

lemma foldl_digits: "foldl (\<lambda>n c. 10 * n + digit_val c) k s = k * 10 ^ length s + digits_val s"
proof (induction s arbitrary: k)
  case (Cons c s)
  show ?case
    using Cons [of "10 * k + digit_val c"] Cons [of "digit_val c"]
    by (simp add: digits_val_def algebra_simps)
qed (simp add: digits_val_def)

lemma digits_val_Cons: "digits_val (c # s) = digit_val c * 10 ^ length s + digits_val s"
  using foldl_digits [of "digit_val c" s] by (simp add: digits_val_def)

lemma digits_val_bound: "list_all is_digit s \<Longrightarrow> digits_val s < 10 ^ length s"
proof (induction s)
  case (Cons c s)
  then have "digit_val c * 10 ^ length s \<le> 9 * 10 ^ length s"
    using is_digit_val [of c] by (intro mult_right_mono) auto
  moreover have "digits_val s < 10 ^ length s" using Cons by simp
  ultimately show ?case unfolding digits_val_Cons length_Cons power_Suc by linarith
qed (simp add: digits_val_def)

lemma digits_val_lower: "canon_num s \<Longrightarrow> 1 < length s \<Longrightarrow> 10 ^ (length s - 1) \<le> digits_val s"
proof -
  assume s: "canon_num s" "1 < length s"
  then obtain c t where ct: "s = c # t" "is_digit c" "c \<noteq> CHR ''0''"
    by (cases s) (auto simp: canon_num_def)
  then have "1 * 10 ^ length t \<le> digit_val c * 10 ^ length t"
    using digit_val_pos [of c] by (intro mult_right_mono) auto
  then have "10 ^ length t \<le> digits_val (c # t)" unfolding digits_val_Cons by linarith
  with ct show ?thesis by simp
qed

lemma digits_val_shorter:
  assumes "canon_num x" "canon_num y" "length x < length y"
  shows "digits_val x < digits_val y"
proof -
  have "digits_val x < 10 ^ length x" using assms(1) by (simp add: canon_num_def digits_val_bound)
  also have "(10::nat) ^ length x \<le> 10 ^ (length y - 1)" using assms(3) by (intro power_increasing) auto
  also have "\<dots> \<le> digits_val y"
    using assms by (intro digits_val_lower) (cases x; auto simp: canon_num_def)+
  finally show ?thesis .
qed

lemma digits_val_same_length:
  "length x = length y \<Longrightarrow> list_all is_digit x \<Longrightarrow> list_all is_digit y \<Longrightarrow>
   (digits_val x < digits_val y \<longleftrightarrow> x < y) \<and> (digits_val x = digits_val y \<longleftrightarrow> x = y)"
proof (induction x y rule: list_induct2)
  case (Cons c x d y)
  then have dig: "is_digit c" "is_digit d" and bx: "digits_val x < 10 ^ length x"
    and byy: "digits_val y < 10 ^ length x" and IH: "digits_val x < digits_val y \<longleftrightarrow> x < y"
    "digits_val x = digits_val y \<longleftrightarrow> x = y"
    using digits_val_bound [of y] digits_val_bound [of x] by auto
  consider "c = d" | "digit_val c < digit_val d" | "digit_val d < digit_val c"
    using dig digit_val_inj by (metis linorder_neqE_nat)
  then show ?case
  proof cases
    case 1
    then show ?thesis using IH Cons.hyps by (simp add: digits_val_Cons)
  next
    case 2
    then have "Suc (digit_val c) * 10 ^ length x \<le> digit_val d * 10 ^ length x"
      by (intro mult_right_mono) auto
    then have "digits_val (c # x) < digits_val (d # y)"
      using bx unfolding digits_val_Cons mult_Suc Cons.hyps by linarith
    moreover have "c < d" using 2 dig by (simp add: digit_val_less)
    ultimately show ?thesis by auto
  next
    case 3
    then have "Suc (digit_val d) * 10 ^ length x \<le> digit_val c * 10 ^ length x"
      by (intro mult_right_mono) auto
    then have "digits_val (d # y) < digits_val (c # x)"
      using byy unfolding digits_val_Cons mult_Suc Cons.hyps by linarith
    moreover have "d < c" using 3 dig by (simp add: digit_val_less)
    ultimately show ?thesis by auto
  qed
qed simp

text \<open>The string comparison of numbers is the comparison of the numbers.\<close>

lemma compareInt_numeric:
  assumes "canon_num x" "canon_num y"
  shows "compareInt x y = sgn (int (digits_val x) - int (digits_val y))"
proof -
  consider "length x < length y" | "length y < length x" | "length x = length y" by linarith
  then show ?thesis
  proof cases
    case 1
    then have "x \<noteq> y" by auto
    with 1 digits_val_shorter [OF assms 1] show ?thesis by (simp add: compareInt_def)
  next
    case 2
    then have "x \<noteq> y" by auto
    with 2 digits_val_shorter [OF assms(2,1) 2] show ?thesis by (simp add: compareInt_def)
  next
    case 3
    with assms have *: "digits_val x < digits_val y \<longleftrightarrow> x < y" "digits_val x = digits_val y \<longleftrightarrow> x = y"
      using digits_val_same_length [OF 3] by (auto simp: canon_num_def)
    show ?thesis
    proof (cases "x = y")
      case True
      then show ?thesis by (simp add: compareInt_def)
    next
      case False
      then show ?thesis using 3 * by (cases "x < y") (auto simp: compareInt_def sgn_if)
    qed
  qed
qed

subsection \<open>Comparison of versions\<close>

lemma compareInt_antisym: "compareInt x y = - compareInt y x"
  by (auto simp: compareInt_def)

lemma compareInt_refl [simp]: "compareInt x x = 0"
  by (simp add: compareInt_def)

lemma compareIdent_antisym: "dx \<noteq> dy \<Longrightarrow> compareIdent dx dy = - compareIdent dy dx"
  by (auto simp: compareIdent_def)

lemma nextIdent_rest: "nextIdent x = (d, r) \<Longrightarrow> r = [] \<or> hd r = CHR ''.''"
  using hd_dropWhile [of "\<lambda>c. c \<noteq> CHR ''.''" x]
  by (auto simp: nextIdent_def dropWhile_eq_Nil_conv)

lemma comparePrerelease_loop_antisym:
  "x \<noteq> y \<Longrightarrow> x = [] \<or> y = [] \<or> hd x = hd y \<Longrightarrow>
   comparePrerelease_loop x y = - comparePrerelease_loop y x"
proof (induction x y rule: comparePrerelease_loop.induct)
  case (1 x y)
  show ?case
  proof (cases "x = [] \<or> y = []")
    case True
    with "1.prems" show ?thesis by (auto simp: comparePrerelease_loop.simps)
  next
    case False
    obtain dx x' where x: "nextIdent (tl x) = (dx, x')" by fastforce
    obtain dy y' where y: "nextIdent (tl y) = (dy, y')" by fastforce
    have loop: "comparePrerelease_loop x y = (if dx \<noteq> dy then compareIdent dx dy else comparePrerelease_loop x' y')"
      "comparePrerelease_loop y x = (if dy \<noteq> dx then compareIdent dy dx else comparePrerelease_loop y' x')"
      using False x y by (simp_all add: comparePrerelease_loop.simps [of x y] comparePrerelease_loop.simps [of y x])
    show ?thesis
    proof (cases "dx = dy")
      case True
      have "tl x = dx @ x'" "tl y = dy @ y'" using x y by (auto simp: nextIdent_def)
      with True False "1.prems" have "x' \<noteq> y'" by (metis list.expand)
      moreover have "x' = [] \<or> y' = [] \<or> hd x' = hd y'"
        using x y nextIdent_rest by metis
      ultimately have *: "comparePrerelease_loop x' y' = - comparePrerelease_loop y' x'"
        using "1.IH" [OF _ _ refl x [symmetric] refl y [symmetric]] False True by blast
      have "comparePrerelease_loop x y = comparePrerelease_loop x' y'"
        "comparePrerelease_loop y x = comparePrerelease_loop y' x'" using True loop by simp_all
      then show ?thesis by (simp only: *)
    next
      case False
      then show ?thesis using loop compareIdent_antisym [of dx dy] by simp
    qed
  qed
qed

lemma comparePrerelease_antisym:
  "x = [] \<or> hd x = CHR ''-'' \<Longrightarrow> y = [] \<or> hd y = CHR ''-'' \<Longrightarrow>
   comparePrerelease x y = - comparePrerelease y x"
  using comparePrerelease_loop_antisym [of x y] by (auto simp: comparePrerelease_def)

lemma parsePrerelease_head: "parsePrerelease v = Some (t, r) \<Longrightarrow> hd t = CHR ''-''"
  by (auto simp: parsePrerelease_def Let_def split: if_splits)

lemma parse_suffix_prerelease:
  "parse_suffix p v = Some q \<Longrightarrow> prerelease p = [] \<Longrightarrow> prerelease q = [] \<or> hd (prerelease q) = CHR ''-''"
  by (auto simp: parse_suffix_def split: if_splits option.splits dest!: parsePrerelease_head)

lemma semver_parse_prerelease:
  "semver_parse v = Some p \<Longrightarrow> prerelease p = [] \<or> hd (prerelease p) = CHR ''-''"
  by (auto simp: semver_parse_def Let_def no_version_def split: if_splits option.splits
      dest!: parse_suffix_prerelease)

text \<open>Comparison is antisymmetric: swapping the versions negates the result.\<close>

lemma semver_Compare_antisym: "semver_Compare v w = - semver_Compare w v"
proof (cases "semver_parse v")
  case None
  then show ?thesis by (auto simp: semver_Compare_def split: option.split)
next
  case pv: (Some pv)
  show ?thesis
  proof (cases "semver_parse w")
    case None
    then show ?thesis using pv by (simp add: semver_Compare_def)
  next
    case pw: (Some pw)
    have "comparePrerelease (prerelease pv) (prerelease pw) = - comparePrerelease (prerelease pw) (prerelease pv)"
      using semver_parse_prerelease pv pw by (intro comparePrerelease_antisym) auto
    moreover note compareInt_antisym [of "major pv" "major pw"] compareInt_antisym [of "minor pv" "minor pw"]
      compareInt_antisym [of "patch pv" "patch pw"]
    ultimately show ?thesis using pv pw by (simp add: semver_Compare_def)
  qed
qed

text \<open>Plain versions: the parsed form and the order of \<open>v<major>.<minor>\<close> strings.\<close>

lemma dot_not_digit [simp]: "\<not> is_digit (CHR ''.'')"
  by code_simp

lemma semver_parse_two:
  assumes "canon_num a" "canon_num b"
  shows "semver_parse (''v'' @ a @ ''.'' @ b) =
    Some (no_version\<lparr>major := a, minor := b, patch := ''0'', short := ''.0''\<rparr>)"
  using assms parseInt_append [of a "CHR ''.'' # b"] parseInt_append [of b "[]"]
  by (simp add: semver_parse_def)

lemma canon_num_zero [simp]: "canon_num ''0''"
  by code_simp

lemma semver_Compare_two:
  assumes "canon_num a" "canon_num b" "canon_num c" "canon_num d"
  shows "semver_Compare (''v'' @ a @ ''.'' @ b) (''v'' @ c @ ''.'' @ d) =
    (if digits_val a = digits_val c then sgn (int (digits_val b) - int (digits_val d))
     else sgn (int (digits_val a) - int (digits_val c)))"
  using semver_parse_two [OF assms(1,2)] semver_parse_two [OF assms(3,4)] assms
  by (simp add: semver_Compare_def compareInt_numeric comparePrerelease_def no_version_def sgn_if)

end
