(* ===== verification/Requirements.thy ===== *)
theory Requirements
  imports Semver
begin

section \<open>Image requirements\<close>

text \<open>
  The package \<open>internal/requirements\<close>: properties of the system (CUDA version, architecture,
  driver, brand), constraints over them, the parser of requirement strings such as
  \<open>cuda>=11.0 brand=tesla,driver>=450\<close> (blanks separate alternatives, commas conjuncts) and the
  check that an image's requirements are met.
\<close>

subsection \<open>Properties (constraints/property.go)\<close>

datatype property =
    stringProperty string string
  | versionProperty string string

definition NewStringProperty :: "string \<Rightarrow> string \<Rightarrow> property" where
  "NewStringProperty name value = stringProperty name value"

definition NewVersionProperty :: "string \<Rightarrow> string \<Rightarrow> property" where
  "NewVersionProperty name value = versionProperty name value"

fun property_Name :: "property \<Rightarrow> string" where
  "property_Name (stringProperty name value) = name"
| "property_Name (versionProperty name value) = name"

fun property_Value :: "property \<Rightarrow> string result" where
  "property_Value (stringProperty name value) = Inr value"
| "property_Value (versionProperty name value) = Inr value"

definition property_String :: "property \<Rightarrow> string" where
  "property_String p =
     (case property_Value p of
        Inl e \<Rightarrow> ''invalid '' @ property_Name p
      | Inr v \<Rightarrow> property_Name p @ ''='' @ v)"

definition ensurePrefix :: "string \<Rightarrow> string \<Rightarrow> string" where
  "ensurePrefix s p = p @ TrimPrefix s p"

fun property_Validate :: "property \<Rightarrow> string \<Rightarrow> error option" where
  "property_Validate (stringProperty name value) other = None"
| "property_Validate (versionProperty name value) other =
     (if \<not> semver_IsValid (ensurePrefix other ''v'')
      then Some (Errorf (''invailid value '' @ other @ ''; expected a valid version string''))
      else None)"

fun property_CompareTo :: "property \<Rightarrow> string \<Rightarrow> int result" where
  "property_CompareTo (stringProperty name value) other =
     Inr (if value < other then -1 else if value > other then 1 else 0)"
| "property_CompareTo (versionProperty name value) other =
     (case property_Validate (versionProperty name value) other of
        Some e \<Rightarrow> Inl (Wrap (''invailid value for '' @ name) e)
      | None \<Rightarrow> Inr (semver_Compare (ensurePrefix value ''v'') (ensurePrefix other ''v'')))"

subsection \<open>Constraints (constraints/binary.go, constants.go, logical.go)\<close>

definition op_equal :: string where "op_equal = ''=''"
definition op_notEqual :: string where "op_notEqual = ''!=''"
definition op_less :: string where "op_less = ''<''"
definition op_lessEqual :: string where "op_lessEqual = ''<=''"
definition op_greater :: string where "op_greater = ''>''"
definition op_greaterEqual :: string where "op_greaterEqual = ''>=''"

lemmas op_defs = op_equal_def op_notEqual_def op_less_def op_lessEqual_def op_greater_def
  op_greaterEqual_def

text \<open>A comparison has a property, which may be nil, an operator and a value.\<close>

datatype constraint =
    Always
  | Binary "property option" string string
  | Or "constraint list"
  | And "constraint list"

definition binary_String :: "property option \<Rightarrow> string \<Rightarrow> string \<Rightarrow> string" where
  "binary_String left operator right =
     (case left of None \<Rightarrow> [] | Some p \<Rightarrow> property_Name p) @ operator @ right"

text \<open>The switch on the operator, on the result of the comparison.\<close>

definition apply_operator :: "string \<Rightarrow> int \<Rightarrow> bool result" where
  "apply_operator operator compare =
     (if operator = op_equal then Inr (compare = 0)
      else if operator = op_notEqual then Inr (compare \<noteq> 0)
      else if operator = op_less then Inr (compare < 0)
      else if operator = op_lessEqual then Inr (compare \<le> 0)
      else if operator = op_greater then Inr (compare > 0)
      else if operator = op_greaterEqual then Inr (compare \<ge> 0)
      else Inl (Errorf (''invalid operator '' @ operator)))"

definition binary_eval :: "property option \<Rightarrow> string \<Rightarrow> string \<Rightarrow> bool result" where
  "binary_eval left operator right =
     (case left of
        None \<Rightarrow> Inr True
      | Some p \<Rightarrow> bindR (property_CompareTo p right) (apply_operator operator))"

definition binary_Assert :: "property option \<Rightarrow> string \<Rightarrow> string \<Rightarrow> error option" where
  "binary_Assert left operator right =
     (case binary_eval left operator right of
        Inl e \<Rightarrow> Some e
      | Inr satisfied \<Rightarrow>
          if satisfied then None
          else Some (Errorf (''unsatisfied condition: '' @ binary_String left operator right @ '' ('' @
                 (case left of None \<Rightarrow> [] | Some p \<Rightarrow> property_String p) @ '')'')))"

fun constraint_String :: "constraint \<Rightarrow> string"
  and constraint_Strings :: "constraint list \<Rightarrow> string list" where
  "constraint_String Always = ''true''"
| "constraint_String (Binary l operator r) = binary_String l operator r"
| "constraint_String (Or cs) = StrJoin (constraint_Strings cs) ''||''"
| "constraint_String (And cs) = StrJoin (constraint_Strings cs) ''&&''"
| "constraint_Strings [] = []"
| "constraint_Strings (c # cs) = constraint_String c # constraint_Strings cs"

text \<open>\<open>or\<close> stops at the first operand that holds, \<open>and\<close> at the first that fails.\<close>

fun Assert :: "constraint \<Rightarrow> error option"
  and or_Assert :: "constraint list \<Rightarrow> bool"
  and and_Assert :: "constraint list \<Rightarrow> error option" where
  "Assert Always = None"
| "Assert (Binary l operator r) = binary_Assert l operator r"
| "Assert (Or cs) =
     (if or_Assert cs then None
      else Some (Errorf (constraint_String (Or cs) @ '' not met'')))"
| "Assert (And cs) = and_Assert cs"
| "or_Assert [] = False"
| "or_Assert (c # cs) = (if Assert c = None then True else or_Assert cs)"
| "and_Assert [] = None"
| "and_Assert (c # cs) = (case Assert c of Some e \<Rightarrow> Some e | None \<Rightarrow> and_Assert cs)"

definition AND :: "constraint list \<Rightarrow> constraint" where
  "AND cs = (case cs of [] \<Rightarrow> Always | [c] \<Rightarrow> c | _ \<Rightarrow> And cs)"

definition OR :: "constraint list \<Rightarrow> constraint option" where
  "OR cs = (case cs of [] \<Rightarrow> None | [c] \<Rightarrow> Some c | _ \<Rightarrow> Some (Or cs))"

subsection \<open>Parsing (constraints/factory.go)\<close>

type_synonym properties = "string \<rightharpoonup> property"

definition operators :: "string list" where
  "operators = [op_notEqual, op_lessEqual, op_greaterEqual, op_equal, op_less, op_greater]"

text \<open>
  \<open>parse\<close> of one comparison: nothing for a blank or an unsupported property.  The operator is the
  first of \<open>operators\<close> that is a prefix of the rest, or empty.
\<close>

definition parse :: "properties \<Rightarrow> string \<Rightarrow> constraint option result" where
  "parse props condition =
     (if TrimSpace condition = [] then Inr None
      else case IndexAny condition ''<>=!'' of
        None \<Rightarrow> Inl (Errorf (''invalid constraint: '' @ condition))
      | Some propertyEnd \<Rightarrow>
          let property = take propertyEnd condition;
              rest = TrimPrefix condition property
          in case props property of
               None \<Rightarrow> Inr None
             | Some p \<Rightarrow>
                 let op' = (case find (HasPrefix rest) operators of Some o' \<Rightarrow> o' | None \<Rightarrow> []);
                     value = TrimPrefix rest op'
                 in case property_Validate p value of
                      Some e \<Rightarrow> Inl e
                    | None \<Rightarrow> Inr (Some (Binary (Some p) op' value)))"

text \<open>The inner loop over the comma-separated factors of a term.\<close>

fun parse_factors :: "properties \<Rightarrow> string list \<Rightarrow> constraint list result" where
  "parse_factors props [] = Inr []"
| "parse_factors props (f # fs) =
     bindR (parse props f) (\<lambda>c.
       bindR (parse_factors props fs) (\<lambda>cs.
         Inr (case c of None \<Rightarrow> cs | Some c' \<Rightarrow> c' # cs)))"

text \<open>The outer loop over the blank-separated terms.\<close>

fun parse_terms :: "properties \<Rightarrow> string list \<Rightarrow> constraint list result" where
  "parse_terms props [] = Inr []"
| "parse_terms props (t # ts) =
     bindR (parse_factors props (Split t '','')) (\<lambda>factors.
       bindR (parse_terms props ts) (\<lambda>terms.
         Inr (case factors of
                [] \<Rightarrow> terms
              | [f] \<Rightarrow> f # terms
              | _ \<Rightarrow> And factors # terms)))"

definition newConstraintFromRequirement :: "properties \<Rightarrow> string \<Rightarrow> constraint option result" where
  "newConstraintFromRequirement props requirement =
     (if TrimSpace requirement = [] then Inr None
      else bindR (parse_terms props (Split requirement '' '')) (\<lambda>terms. Inr (OR terms)))"

fun constraints_loop :: "properties \<Rightarrow> string list \<Rightarrow> constraint list result" where
  "constraints_loop props [] = Inr []"
| "constraints_loop props (r # rs) =
     bindR (newConstraintFromRequirement props r) (\<lambda>c.
       bindR (constraints_loop props rs) (\<lambda>cs.
         Inr (case c of None \<Rightarrow> cs | Some c' \<Rightarrow> c' # cs)))"

definition constraints_New :: "string list \<Rightarrow> properties \<Rightarrow> constraint result" where
  "constraints_New requirements props =
     (if requirements = [] then Inr Always
      else bindR (constraints_loop props requirements) (\<lambda>cs. Inr (AND cs)))"

subsection \<open>Requirements (requirements.go)\<close>

record requirements =
  reqs :: "string list"
  properties :: properties

definition CUDA_prop :: string where "CUDA_prop = ''cuda''"
definition ARCH_prop :: string where "ARCH_prop = ''arch''"
definition DRIVER_prop :: string where "DRIVER_prop = ''driver''"
definition BRAND_prop :: string where "BRAND_prop = ''brand''"

definition requirements_New :: "string list \<Rightarrow> requirements" where
  "requirements_New rs =
     \<lparr>reqs = rs,
      properties = [CUDA_prop \<mapsto> NewVersionProperty CUDA_prop [],
                    ARCH_prop \<mapsto> NewVersionProperty ARCH_prop [],
                    DRIVER_prop \<mapsto> NewVersionProperty DRIVER_prop [],
                    BRAND_prop \<mapsto> NewStringProperty BRAND_prop []]\<rparr>"

definition AddVersionProperty :: "requirements \<Rightarrow> string \<Rightarrow> string \<Rightarrow> requirements" where
  "AddVersionProperty r name value =
     r\<lparr>properties := (properties r)(name \<mapsto> NewVersionProperty name value)\<rparr>"

definition AddStringProperty :: "requirements \<Rightarrow> string \<Rightarrow> string \<Rightarrow> requirements" where
  "AddStringProperty r name value =
     r\<lparr>properties := (properties r)(name \<mapsto> NewStringProperty name value)\<rparr>"

definition requirements_Assert :: "requirements \<Rightarrow> error option" where
  "requirements_Assert r =
     (if reqs r = [] then None
      else case constraints_New (reqs r) (properties r) of
        Inl e \<Rightarrow> Some e
      | Inr c \<Rightarrow> Assert c)"

subsection \<open>The interface of a property\<close>

text \<open>
  What the comparisons rely on: a value that validates can be compared, and no other can.  The
  six operators then behave like an order.
\<close>

locale comparable_property =
  fixes Validate :: "'p \<Rightarrow> string \<Rightarrow> error option"
    and CompareTo :: "'p \<Rightarrow> string \<Rightarrow> int result"
  assumes valid_compares: "Validate p v = None \<Longrightarrow> \<exists>k. CompareTo p v = Inr k"
    and invalid_fails: "Validate p v = Some e \<Longrightarrow> \<exists>e'. CompareTo p v = Inl e'"
begin

definition holds :: "'p \<Rightarrow> string \<Rightarrow> string \<Rightarrow> bool result" where
  "holds p operator v = bindR (CompareTo p v) (apply_operator operator)"

lemma holds_total:
  "Validate p v = None \<Longrightarrow> operator \<in> set operators \<Longrightarrow> \<exists>b. holds p operator v = Inr b"
  using valid_compares [of p v] by (auto simp: holds_def operators_def apply_operator_def op_defs)

lemma holds_trichotomy:
  assumes "Validate p v = None"
  shows "(holds p op_less v = Inr True \<and> holds p op_equal v = Inr False \<and> holds p op_greater v = Inr False) \<or>
         (holds p op_less v = Inr False \<and> holds p op_equal v = Inr True \<and> holds p op_greater v = Inr False) \<or>
         (holds p op_less v = Inr False \<and> holds p op_equal v = Inr False \<and> holds p op_greater v = Inr True)"
  using valid_compares [OF assms] by (auto simp: holds_def apply_operator_def op_defs)

lemma holds_complement:
  assumes "Validate p v = None"
  shows "holds p op_notEqual v = Inr True \<longleftrightarrow> holds p op_equal v = Inr False"
    and "holds p op_lessEqual v = Inr True \<longleftrightarrow> holds p op_greater v = Inr False"
    and "holds p op_greaterEqual v = Inr True \<longleftrightarrow> holds p op_less v = Inr False"
  using valid_compares [OF assms] by (auto simp: holds_def apply_operator_def op_defs)

lemma holds_invalid: "Validate p v = Some e \<Longrightarrow> \<exists>e'. holds p operator v = Inl e'"
  using invalid_fails [of p v e] by (auto simp: holds_def)

end

interpretation pcmp: comparable_property property_Validate property_CompareTo
proof unfold_locales
  fix p v
  assume "property_Validate p v = None"
  then show "\<exists>k. property_CompareTo p v = Inr k" by (cases p) auto
next
  fix p v e
  assume "property_Validate p v = Some e"
  then show "\<exists>e'. property_CompareTo p v = Inl e'" by (cases p) auto
qed

lemma binary_eval_holds: "binary_eval (Some p) operator v = pcmp.holds p operator v"
  by (simp add: binary_eval_def pcmp.holds_def)

subsection \<open>The meaning of requirement strings\<close>

text \<open>
  The specification: a requirement is a list of alternatives, each a list of comparisons.
  Comparisons of unknown properties do not count; an alternative without any comparison that
  counts does not count either.
\<close>

definition supported :: "properties \<Rightarrow> string \<Rightarrow> bool" where
  "supported props f \<longleftrightarrow> (case parse props f of Inr (Some c) \<Rightarrow> True | _ \<Rightarrow> False)"

definition factor_sat :: "properties \<Rightarrow> string \<Rightarrow> bool" where
  "factor_sat props f \<longleftrightarrow> (case parse props f of Inr (Some c) \<Rightarrow> Assert c = None | _ \<Rightarrow> False)"

definition term_supported :: "properties \<Rightarrow> string \<Rightarrow> bool" where
  "term_supported props t \<longleftrightarrow> (\<exists>f \<in> set (Split t '',''). supported props f)"

definition term_sat :: "properties \<Rightarrow> string \<Rightarrow> bool" where
  "term_sat props t \<longleftrightarrow> term_supported props t \<and>
     (\<forall>f \<in> set (Split t '',''). supported props f \<longrightarrow> factor_sat props f)"

definition requirement_sat :: "properties \<Rightarrow> string \<Rightarrow> bool" where
  "requirement_sat props r \<longleftrightarrow>
     TrimSpace r = [] \<or>
     (\<forall>t \<in> set (Split r '' ''). \<not> term_supported props t) \<or>
     (\<exists>t \<in> set (Split r '' ''). term_sat props t)"

lemma or_Assert_iff: "or_Assert cs \<longleftrightarrow> (\<exists>c \<in> set cs. Assert c = None)"
  by (induction cs) auto

lemma and_Assert_iff: "and_Assert cs = None \<longleftrightarrow> (\<forall>c \<in> set cs. Assert c = None)"
  by (induction cs) (auto split: option.split)

lemma Assert_AND: "Assert (AND cs) = None \<longleftrightarrow> (\<forall>c \<in> set cs. Assert c = None)"
  using and_Assert_iff [of cs] by (auto simp: AND_def split: list.split)

lemma Assert_OR: "OR cs = Some c \<Longrightarrow> Assert c = None \<longleftrightarrow> (\<exists>c \<in> set cs. Assert c = None)"
  by (auto simp: OR_def or_Assert_iff split: list.splits if_splits)

lemma OR_None: "OR cs = None \<longleftrightarrow> cs = []"
  by (auto simp: OR_def split: list.split)

lemma parse_factors_set:
  "parse_factors props fs = Inr cs \<Longrightarrow> set cs = {c. \<exists>f \<in> set fs. parse props f = Inr (Some c)}"
  by (induction fs arbitrary: cs) (fastforce simp: bindR_eq_Inr split: option.splits)+

lemma parse_factors_meaning:
  assumes "parse_factors props (Split t '','') = Inr fs"
  shows "fs \<noteq> [] \<longleftrightarrow> term_supported props t"
    and "fs \<noteq> [] \<Longrightarrow> (\<forall>c \<in> set fs. Assert c = None) \<longleftrightarrow> term_sat props t"
proof -
  have *: "set fs = {c. \<exists>f \<in> set (Split t '',''). parse props f = Inr (Some c)}"
    by (rule parse_factors_set [OF assms])
  have sup: "supported props f \<longleftrightarrow> (\<exists>c. parse props f = Inr (Some c))" for f
    by (auto simp: supported_def split: sum.splits option.splits)
  show ts: "fs \<noteq> [] \<longleftrightarrow> term_supported props t"
    using * by (auto simp: term_supported_def sup simp flip: set_empty)
  have sat: "factor_sat props f \<longleftrightarrow> Assert c = None" if "parse props f = Inr (Some c)" for f c
    using that by (simp add: factor_sat_def)
  assume "fs \<noteq> []"
  with ts show "(\<forall>c \<in> set fs. Assert c = None) \<longleftrightarrow> term_sat props t"
    using * sat by (auto simp: term_sat_def sup)
qed

lemma parse_terms_meaning:
  "parse_terms props ts = Inr cs \<Longrightarrow>
   (cs = [] \<longleftrightarrow> (\<forall>t \<in> set ts. \<not> term_supported props t)) \<and>
   ((\<exists>c \<in> set cs. Assert c = None) \<longleftrightarrow> (\<exists>t \<in> set ts. term_sat props t))"
proof (induction ts arbitrary: cs)
  case (Cons t ts)
  then obtain fs cs' where fs: "parse_factors props (Split t '','') = Inr fs"
    and cs': "parse_terms props ts = Inr cs'"
    and cs: "cs = (case fs of [] \<Rightarrow> cs' | [f] \<Rightarrow> f # cs' | _ \<Rightarrow> And fs # cs')"
    by (auto simp: bindR_eq_Inr)
  note IH = Cons.IH [OF cs'] and m = parse_factors_meaning [OF fs]
  show ?case
  proof (cases "fs = []")
    case True
    then have "\<not> term_sat props t" using m(1) by (simp add: term_sat_def)
    with True IH cs m(1) show ?thesis by auto
  next
    case False
    then obtain c where c: "cs = c # cs'" "Assert c = None \<longleftrightarrow> (\<forall>c \<in> set fs. Assert c = None)"
      using cs by (cases fs; cases "tl fs") (auto simp: and_Assert_iff split: option.split)
    with False IH m show ?thesis by auto
  qed
qed auto

lemma newConstraint_meaning:
  "newConstraintFromRequirement props r = Inr oc \<Longrightarrow>
   requirement_sat props r \<longleftrightarrow> (case oc of None \<Rightarrow> True | Some c \<Rightarrow> Assert c = None)"
proof -
  assume a: "newConstraintFromRequirement props r = Inr oc"
  show ?thesis
  proof (cases "TrimSpace r = []")
    case True
    with a show ?thesis by (auto simp: newConstraintFromRequirement_def requirement_sat_def)
  next
    case False
    then obtain cs where cs: "parse_terms props (Split r '' '') = Inr cs" "oc = OR cs"
      using a by (auto simp: newConstraintFromRequirement_def bindR_eq_Inr)
    note m = parse_terms_meaning [OF cs(1)]
    show ?thesis
    proof (cases oc)
      case None
      then have "cs = []" using cs(2) OR_None by simp
      then show ?thesis using None m by (simp add: requirement_sat_def)
    next
      case (Some c)
      then have "cs \<noteq> []" "Assert c = None \<longleftrightarrow> (\<exists>c \<in> set cs. Assert c = None)"
        using cs(2) Assert_OR by (auto simp: OR_def)
      then show ?thesis using Some m False by (auto simp: requirement_sat_def)
    qed
  qed
qed

lemma constraints_loop_meaning:
  "constraints_loop props rs = Inr cs \<Longrightarrow>
   (\<forall>c \<in> set cs. Assert c = None) \<longleftrightarrow> (\<forall>r \<in> set rs. requirement_sat props r)"
proof (induction rs arbitrary: cs)
  case (Cons r rs)
  then obtain oc cs' where oc: "newConstraintFromRequirement props r = Inr oc"
    and cs': "constraints_loop props rs = Inr cs'"
    and cs: "cs = (case oc of None \<Rightarrow> cs' | Some c \<Rightarrow> c # cs')"
    by (auto simp: bindR_eq_Inr)
  show ?case using Cons.IH [OF cs'] newConstraint_meaning [OF oc] cs
    by (auto split: option.splits)
qed auto

lemma constraints_New_meaning:
  "constraints_New rs props = Inr c \<Longrightarrow>
   Assert c = None \<longleftrightarrow> (\<forall>r \<in> set rs. requirement_sat props r)"
  by (auto simp: constraints_New_def bindR_eq_Inr Assert_AND constraints_loop_meaning
      split: if_splits)

text \<open>
  (C3) The requirement checker is correct for requirement lists it can parse: it reports no error
  exactly if every requirement string has an alternative all of whose comparisons of known
  properties hold (or is blank, or compares known properties nowhere).
\<close>

theorem requirements_Assert_correct:
  assumes "constraints_New (reqs r) (properties r) = Inr c"
  shows "requirements_Assert r = None \<longleftrightarrow> (\<forall>q \<in> set (reqs r). requirement_sat (properties r) q)"
  using assms constraints_New_meaning [OF assms] by (simp add: requirements_Assert_def)

theorem requirements_Assert_correct_witness:
  "requirements_Assert (AddVersionProperty (requirements_New [''cuda>=11.0 brand=tesla,driver>=450'']) ''cuda'' ''12.4'')
     = None \<longleftrightarrow>
   (\<forall>q \<in> set (reqs (AddVersionProperty (requirements_New [''cuda>=11.0 brand=tesla,driver>=450'']) ''cuda'' ''12.4'')).
     requirement_sat (properties (AddVersionProperty (requirements_New [''cuda>=11.0 brand=tesla,driver>=450'']) ''cuda'' ''12.4'')) q)"
  by (rule requirements_Assert_correct
      [where c = "Or [Binary (Some (versionProperty ''cuda'' ''12.4'')) ''>='' ''11.0'',
                      And [Binary (Some (stringProperty ''brand'' [])) ''='' ''tesla'',
                           Binary (Some (versionProperty ''driver'' [])) ''>='' ''450'']]"]) code_simp

subsection \<open>Single comparisons\<close>

lemma find_operator:
  assumes "operator \<in> set operators" and "operator = ''<'' \<or> operator = ''>'' \<Longrightarrow> \<not> HasPrefix v ''=''"
  shows "find (HasPrefix (operator @ v)) operators = Some operator"
proof -
  consider "operator = ''=''" | "operator = ''!=''" | "operator = ''<=''" | "operator = ''>=''"
    | "operator = ''<''" | "operator = ''>''"
    using assms(1) unfolding operators_def op_defs by auto
  then show ?thesis using assms(2) unfolding operators_def op_defs by cases simp_all
qed

definition no_op_char :: "string \<Rightarrow> bool" where
  "no_op_char s \<longleftrightarrow> list_all (\<lambda>c. c \<notin> set ''<>=!'') s"

lemma nonspace_op_char: "c \<in> set ''<>=!'' \<Longrightarrow> nonspace_byte c"
proof -
  have "list_all nonspace_byte ''<>=!''" by code_simp
  then show "c \<in> set ''<>=!'' \<Longrightarrow> nonspace_byte c" unfolding list_all_iff by blast
qed

lemma operator_head: "operator \<in> set operators \<Longrightarrow> \<exists>c t. operator = c # t \<and> c \<in> set ''<>=!''"
  by (auto simp: operators_def op_defs)

lemma parse_comparison:
  assumes "no_op_char n" "props n = Some p" "operator \<in> set operators"
    and "operator = ''<'' \<or> operator = ''>'' \<Longrightarrow> \<not> HasPrefix v ''=''"
  shows "parse props (n @ operator @ v) =
    (case property_Validate p v of Some e \<Rightarrow> Inl e | None \<Rightarrow> Inr (Some (Binary (Some p) operator v)))"
proof -
  obtain c t where op: "operator = c # t" "c \<in> set ''<>=!''" using operator_head [OF assms(3)] by blast
  have "c \<in> set (n @ operator @ v)" using op by simp
  then have nb: "TrimSpace (n @ operator @ v) \<noteq> []"
    using nonspace_op_char [OF op(2)] by (rule TrimSpace_nonblank)
  have ix: "IndexAny (n @ operator @ v) ''<>=!'' = Some (length n)"
    using IndexAny_append [of n "''<>=!''" c "t @ v"] assms(1) op
    by (simp add: no_op_char_def list_all_iff)
  show ?thesis
    using nb ix find_operator [OF assms(3,4)] assms(2) by (simp add: parse_def)
qed

text \<open>
  Printing and parsing agree: the text of a comparison of a known property with a value that
  validates parses back to that comparison, so the longest operator is read.
\<close>

lemma parse_binary_String:
  assumes "no_op_char (property_Name p)" and "props (property_Name p) = Some p"
    and "operator \<in> set operators" and "property_Validate p v = None"
    and "operator = ''<'' \<or> operator = ''>'' \<Longrightarrow> \<not> HasPrefix v ''=''"
  shows "parse props (constraint_String (Binary (Some p) operator v)) = Inr (Some (Binary (Some p) operator v))"
  using parse_comparison [of "property_Name p" props p operator v] assms
  by (simp add: binary_String_def)

text \<open>Versions of the form \<open><major>.<minor>\<close>.\<close>

definition two_part :: "nat \<Rightarrow> nat \<Rightarrow> string \<Rightarrow> bool" where
  "two_part m n v \<longleftrightarrow> (\<exists>a b. v = a @ ''.'' @ b \<and> canon_num a \<and> canon_num b \<and> digits_val a = m \<and> digits_val b = n)"

lemma two_partI: "canon_num a \<Longrightarrow> canon_num b \<Longrightarrow> two_part (digits_val a) (digits_val b) (a @ ''.'' @ b)"
  by (auto simp: two_part_def)

lemma canon_num_no_v: "canon_num a \<Longrightarrow> \<not> HasPrefix (a @ t) ''v''"
  by (cases a) (auto simp: canon_num_def is_digit_def less_eq_char_def)

lemma ensurePrefix_canon: "canon_num a \<Longrightarrow> ensurePrefix (a @ t) ''v'' = ''v'' @ a @ t"
  by (simp add: ensurePrefix_def TrimPrefix_def canon_num_no_v)

lemma two_part_valid: "two_part m n v \<Longrightarrow> property_Validate (versionProperty name w) v = None"
  using semver_parse_two by (auto simp: two_part_def ensurePrefix_canon semver_IsValid_def)

lemma two_part_compare:
  assumes "two_part m n v" "two_part k l w"
  shows "property_CompareTo (versionProperty name v) w =
    Inr (if m = k then sgn (int n - int l) else sgn (int m - int k))"
  using assms two_part_valid [OF assms(2), of name v] semver_Compare_two
  by (auto simp: two_part_def ensurePrefix_canon)

lemma two_part_chars: "two_part m n v \<Longrightarrow> c \<in> set v \<Longrightarrow> is_digit c \<or> c = CHR ''.''"
  by (auto simp: two_part_def canon_num_def list_all_iff)

text \<open>A requirement that is a single comparison: no blank and no comma inside.\<close>

lemma requirements_Assert_single:
  assumes "CHR '' '' \<notin> set f" "CHR '','' \<notin> set f" "parse (properties r) f = Inr (Some c)" "reqs r = [f]"
  shows "requirements_Assert r = Assert c"
proof -
  have "TrimSpace f \<noteq> []" using assms(3) by (auto simp: parse_def)
  then show ?thesis
    using assms by (simp add: requirements_Assert_def constraints_New_def newConstraintFromRequirement_def
        Split_char_notin OR_def AND_def)
qed

text \<open>
  A minimum-version requirement means what it says: on a system whose CUDA version is \<open>m.n\<close>,
  the requirement \<open>cuda>=k.l\<close> is met exactly if \<open>(m, n)\<close> is at least \<open>(k, l)\<close> as a pair of numbers, not
  as a string or a decimal fraction (so 11.10 is newer than 11.9).
\<close>

lemma cuda_requirement_numeric:
  assumes "two_part m n v" and "two_part k l w"
  shows "requirements_Assert (AddVersionProperty (requirements_New [''cuda>='' @ w]) CUDA_prop v) = None \<longleftrightarrow>
    k < m \<or> (k = m \<and> l \<le> n)"
proof -
  let ?r = "AddVersionProperty (requirements_New [''cuda>='' @ w]) CUDA_prop v"
  let ?p = "versionProperty CUDA_prop v"
  let ?c = "Binary (Some ?p) ''>='' w"
  have "parse (properties ?r) (''cuda'' @ ''>='' @ w) =
    (case property_Validate ?p w of Some e \<Rightarrow> Inl e | None \<Rightarrow> Inr (Some ?c))"
    by (rule parse_comparison)
       (simp_all add: AddVersionProperty_def NewVersionProperty_def CUDA_prop_def operators_def op_defs
          no_op_char_def)
  then have "parse (properties ?r) (''cuda'' @ ''>='' @ w) = Inr (Some ?c)"
    by (simp only: two_part_valid [OF assms(2)] option.case)
  then have p: "parse (properties ?r) (''cuda>='' @ w) = Inr (Some ?c)" by simp
  have sep: "CHR '' '' \<notin> set (''cuda>='' @ w)" "CHR '','' \<notin> set (''cuda>='' @ w)"
    using two_part_chars [OF assms(2), of "CHR '' ''"] two_part_chars [OF assms(2), of "CHR '',''"]
    by (auto simp: is_digit_def less_eq_char_def)
  have "requirements_Assert ?r = Assert ?c"
    by (rule requirements_Assert_single [OF sep p])
       (simp add: AddVersionProperty_def requirements_New_def)
  then show ?thesis
    using two_part_compare [OF assms, of CUDA_prop]
    by (auto simp: binary_Assert_def binary_eval_def apply_operator_def op_defs sgn_if)
qed

lemma two_part_11_10: "two_part 11 10 ''11.10''"
proof -
  have "canon_num ''11''" "canon_num ''10''" "digits_val ''11'' = 11" "digits_val ''10'' = 10" by code_simp+
  then show ?thesis using two_partI [of "''11''" "''10''"] by simp
qed

lemma two_part_11_9: "two_part 11 9 ''11.9''"
proof -
  have "canon_num ''11''" "canon_num ''9''" "digits_val ''11'' = 11" "digits_val ''9'' = 9" by code_simp+
  then show ?thesis using two_partI [of "''11''" "''9''"] by simp
qed

subsection \<open>Rejected requirements\<close>

lemma parse_factors_error:
  "f \<in> set fs \<Longrightarrow> parse props f = Inl e \<Longrightarrow> \<exists>e'. parse_factors props fs = Inl e'"
proof (induction fs)
  case (Cons a fs)
  then show ?case by (cases "parse props a") (auto simp: bindR_eq_Inl)
qed simp

lemma parse_terms_error:
  "t \<in> set ts \<Longrightarrow> f \<in> set (Split t '','') \<Longrightarrow> parse props f = Inl e \<Longrightarrow> \<exists>e'. parse_terms props ts = Inl e'"
proof (induction ts)
  case (Cons a ts)
  show ?case
  proof (cases "parse_factors props (Split a '','')")
    case (Inl e')
    then show ?thesis by auto
  next
    case (Inr fs)
    then have "a \<noteq> t" using parse_factors_error Cons.prems(2,3) by force
    then show ?thesis using Cons Inr by (auto simp: bindR_eq_Inl)
  qed
qed simp

lemma constraints_loop_error:
  "r \<in> set rs \<Longrightarrow> newConstraintFromRequirement props r = Inl e \<Longrightarrow> \<exists>e'. constraints_loop props rs = Inl e'"
proof (induction rs)
  case (Cons a rs)
  then show ?case by (cases "newConstraintFromRequirement props a") (auto simp: bindR_eq_Inl)
qed simp

text \<open>
  (C25) A malformed comparison anywhere makes the whole check fail, whatever the other alternatives
  say: the requirement list is rejected rather than the bad part ignored.
\<close>

theorem malformed_requirement_rejected:
  assumes "q \<in> set (reqs r)" and "TrimSpace q \<noteq> []"
    and "t \<in> set (Split q '' '')" and "f \<in> set (Split t '','')"
    and "parse (properties r) f = Inl e"
  shows "\<exists>e'. requirements_Assert r = Some e'"
proof -
  obtain e1 where "parse_terms (properties r) (Split q '' '') = Inl e1"
    using parse_terms_error [OF assms(3-5)] by blast
  then have "newConstraintFromRequirement (properties r) q = Inl e1"
    using assms(2) by (simp add: newConstraintFromRequirement_def)
  then obtain e2 where "constraints_loop (properties r) (reqs r) = Inl e2"
    using constraints_loop_error [OF assms(1)] by blast
  moreover have "reqs r \<noteq> []" using assms(1) by auto
  ultimately show ?thesis by (simp add: requirements_Assert_def constraints_New_def)
qed

theorem malformed_requirement_rejected_witness:
  "\<exists>e'. requirements_Assert (requirements_New [''cuda>=9.0 driver'']) = Some e'"
  by (rule malformed_requirement_rejected
      [where q = "''cuda>=9.0 driver''" and t = "''driver''" and f = "''driver''"
         and e = "Errorf ''invalid constraint: driver''"]) code_simp+

subsection \<open>Comparisons form an order\<close>

text \<open>
  For a value that validates, exactly one of \<open><\<close>, \<open>=\<close> and \<open>>\<close> holds of a property, and \<open>!=\<close>, \<open><=\<close> and
  \<open>>=\<close> are the complements: no comparison is undecided and none contradicts another.
\<close>

lemma comparisons_form_an_order:
  assumes "property_Validate p v = None"
  shows "\<exists>lt eq gt. binary_eval (Some p) op_less v = Inr lt \<and> binary_eval (Some p) op_equal v = Inr eq \<and>
      binary_eval (Some p) op_greater v = Inr gt \<and>
      (lt \<or> eq \<or> gt) \<and> \<not> (lt \<and> eq) \<and> \<not> (lt \<and> gt) \<and> \<not> (eq \<and> gt) \<and>
      binary_eval (Some p) op_notEqual v = Inr (\<not> eq) \<and>
      binary_eval (Some p) op_lessEqual v = Inr (\<not> gt) \<and>
      binary_eval (Some p) op_greaterEqual v = Inr (\<not> lt)"
proof -
  note total = pcmp.holds_total [OF assms]
  have "\<exists>b. pcmp.holds p operator v = Inr b" if "operator \<in> set operators" for operator
    using total [OF that] .
  then obtain lt eq gt ne le ge where *:
    "pcmp.holds p op_less v = Inr lt" "pcmp.holds p op_equal v = Inr eq" "pcmp.holds p op_greater v = Inr gt"
    "pcmp.holds p op_notEqual v = Inr ne" "pcmp.holds p op_lessEqual v = Inr le" "pcmp.holds p op_greaterEqual v = Inr ge"
    unfolding operators_def by (metis list.set_intros(1) list.set_intros(2))
  with pcmp.holds_trichotomy [OF assms] pcmp.holds_complement [OF assms] show ?thesis
    unfolding binary_eval_holds by auto
qed

end
