(* ===== verification/Tegra_CSV.thy ===== *)
theory Tegra_CSV
  imports Go_Path
begin

section \<open>CSV mount specifications of Tegra systems\<close>

text \<open>
  The package \<open>internal/platform-support/tegra/csv\<close>: the list of CSV files of a directory, and the
  parser of their lines.  The directory listing and the contents of files are parameters.
\<close>

definition DefaultMountSpecPath :: string where
  "DefaultMountSpecPath = ''/etc/nvidia-container-runtime/host-files-for-container.d''"

definition DefaultFileList :: "string list" where
  "DefaultFileList =
     map (\<lambda>file. FJoin [DefaultMountSpecPath, file]) [''devices.csv'', ''drivers.csv'', ''l4t.csv'']"

text \<open>The outcome of \<open>os.ReadDir\<close>: the names of the entries and whether they are directories.\<close>

datatype dir_listing = DirNotExist | DirError error | Entries "(string \<times> bool) list"

definition ascii_lower :: "char \<Rightarrow> char" where
  "ascii_lower c = (if CHR ''A'' \<le> c \<and> c \<le> CHR ''Z'' then char_of ((of_char c :: nat) + 32) else c)"

definition is_csv_entry :: "string \<times> bool \<Rightarrow> bool" where
  "is_csv_entry e =
     (case e of (name, isDir) \<Rightarrow>
        \<not> isDir \<and> name \<noteq> ''.csv'' \<and> map ascii_lower (Ext name) = ''.csv'')"

definition GetFileList :: "(string \<Rightarrow> dir_listing) \<Rightarrow> string \<Rightarrow> string list result" where
  "GetFileList readDir root =
     (case readDir root of
        DirNotExist \<Rightarrow> Inr []
      | DirError e \<Rightarrow> Inl (Wrap (''failed to read the contents of '' @ root) e)
      | Entries es \<Rightarrow> Inr (map (\<lambda>(name, _). FJoin [root, name]) (filter is_csv_entry es)))"

definition BaseFilesOnly :: "string list \<Rightarrow> string list" where
  "BaseFilesOnly filenames =
     filter (\<lambda>f. Base f \<in> set [''l4t.csv'', ''drivers.csv'', ''devices.csv'']) filenames"

record MountSpec =
  ms_Type :: string
  ms_Path :: string

definition MountSpecDev :: string where "MountSpecDev = ''dev''"
definition MountSpecDir :: string where "MountSpecDir = ''dir''"
definition MountSpecLib :: string where "MountSpecLib = ''lib''"
definition MountSpecSym :: string where "MountSpecSym = ''sym''"

definition NewMountSpec :: "string \<Rightarrow> string \<Rightarrow> MountSpec result" where
  "NewMountSpec mountType path =
     (if mountType \<notin> set [MountSpecDev, MountSpecLib, MountSpecSym, MountSpecDir]
        then Inl (Errorf (''unexpected mount type: '' @ mountType))
      else if path = [] then Inl (Errorf (''invalid path: '' @ path))
      else Inr \<lparr>ms_Type = mountType, ms_Path = path\<rparr>)"

definition NewMountSpecFromLine :: "string \<Rightarrow> MountSpec result" where
  "NewMountSpecFromLine line =
     (let parts = SplitN2 (TrimSpace line) '','' in
      if length parts < 2 then Inl (Errorf (''failed to parse line: '' @ line))
      else NewMountSpec (TrimSpace (parts ! 0)) (TrimSpace (parts ! 1)))"

definition parseFromReader :: "string \<Rightarrow> MountSpec list" where
  "parseFromReader contents =
     concat (map (\<lambda>line. case NewMountSpecFromLine line of Inl e \<Rightarrow> [] | Inr t \<Rightarrow> [t]) (scan_lines contents))"

definition csv_Parse :: "(string \<Rightarrow> string result) \<Rightarrow> string \<Rightarrow> MountSpec list result" where
  "csv_Parse read filename =
     bindR (wrapR (''failed to open '' @ filename @ '' for reading'') (read filename)) (\<lambda>contents.
       Inr (parseFromReader contents))"

subsection \<open>Printing and parsing\<close>

definition MountSpec_line :: "MountSpec \<Rightarrow> string" where
  "MountSpec_line m = ms_Type m @ '', '' @ ms_Path m"

definition MountSpec_valid :: "MountSpec \<Rightarrow> bool" where
  "MountSpec_valid m \<longleftrightarrow>
     ms_Type m \<in> {''dev'', ''dir'', ''lib'', ''sym''} \<and> ms_Path m \<noteq> [] \<and> TrimSpace (ms_Path m) = ms_Path m"

lemma space_with_blank: "p \<in> set utf8_spaces \<Longrightarrow> CHR '' '' \<in> set p \<Longrightarrow> p = '' ''"
  by (auto simp: utf8_spaces_def)

lemma TrimSpace_after_blank:
  assumes "TrimSpace path = path" and "path \<noteq> []" and "\<And>p. p \<in> set utf8_spaces \<Longrightarrow> \<not> HasPrefix (a @ CHR '' '' # path) p"
  shows "TrimSpace (a @ CHR '' '' # path) = a @ CHR '' '' # path"
proof (rule TrimSpace_id)
  fix p
  assume p: "p \<in> set utf8_spaces"
  show "\<not> HasSuffix (a @ CHR '' '' # path) p"
  proof
    assume "HasSuffix (a @ CHR '' '' # path) p"
    then have "HasSuffix ((a @ '' '') @ path) p" by simp
    then show False
    proof (cases rule: HasSuffix_append_cases)
      case inside
      with TrimSpace_no_suffix [OF assms(1) p] show False by simp
    next
      case (across u)
      then have "CHR '' '' \<in> set p" by (cases u rule: rev_cases) (auto simp: HasSuffix_append)
      with space_with_blank [OF p] across assms(2) show False by (cases u) auto
    qed
  qed
qed (use assms(3) in simp)

lemma MountSpec_line_trimmed: "MountSpec_valid m \<Longrightarrow> TrimSpace (MountSpec_line m) = MountSpec_line m"
proof -
  assume m: "MountSpec_valid m"
  have "\<not> HasPrefix (ms_Type m @ t) p" if "p \<in> set utf8_spaces" for t p
    using that m by (auto simp: utf8_spaces_def MountSpec_valid_def)
  with TrimSpace_after_blank [of "ms_Path m" "ms_Type m @ '',''"] m show ?thesis
    by (simp add: MountSpec_line_def MountSpec_valid_def)
qed

lemma TrimSpace_type: "ty \<in> {''dev'', ''dir'', ''lib'', ''sym''} \<Longrightarrow> TrimSpace ty = ty"
  by (rule TrimSpace_id) (auto simp: utf8_spaces_def HasSuffix_def)

lemma NewMountSpecFromLine_line:
  assumes "MountSpec_valid m"
  shows "NewMountSpecFromLine (MountSpec_line m) = Inr m"
proof -
  have ty: "ms_Type m \<in> {''dev'', ''dir'', ''lib'', ''sym''}" "ms_Path m \<noteq> []" "TrimSpace (ms_Path m) = ms_Path m"
    using assms by (simp_all add: MountSpec_valid_def)
  then have "SplitN2 (MountSpec_line m) '','' = [ms_Type m, CHR '' '' # ms_Path m]"
    unfolding MountSpec_line_def
    using SplitN2_char_append [of "CHR '',''" "ms_Type m" "CHR '' '' # ms_Path m"] by auto
  then show ?thesis
    using ty MountSpec_line_trimmed [OF assms] TrimSpace_type [OF ty(1)]
    by (auto simp: NewMountSpecFromLine_def NewMountSpec_def MountSpecDev_def MountSpecDir_def
        MountSpecLib_def MountSpecSym_def)
qed

text \<open>What the parser accepts is a valid specification.\<close>

lemma NewMountSpecFromLine_valid: "NewMountSpecFromLine line = Inr m \<Longrightarrow> MountSpec_valid m"
  by (auto simp: NewMountSpecFromLine_def NewMountSpec_def MountSpec_valid_def Let_def
      MountSpecDev_def MountSpecDir_def MountSpecLib_def MountSpecSym_def simp del: SplitN.simps split: if_splits)

lemma drop_cr_trimmed: "TrimSpace l = l \<Longrightarrow> drop_cr l = l"
  using TrimSpace_no_suffix [of l "[CHR 0x0D]"]
  by (simp add: drop_cr_def TrimSuffix_def utf8_spaces_def)

definition csv_contents :: "MountSpec list \<Rightarrow> string" where
  "csv_contents ms = StrJoin (map MountSpec_line ms) [CHR 0x0A]"

text \<open>
  (C28) Printing a list of valid mount specifications as lines \<open>type, path\<close> and parsing the result
  with the reader of CSV files gives the specifications back, and everything the reader accepts is a
  valid specification.
\<close>

theorem csv_round_trip:
  assumes "list_all MountSpec_valid ms"
    and "list_all (\<lambda>m. CHR 0x0A \<notin> set (ms_Path m) \<and> length (ms_Path m) < 65000) ms"
  shows "parseFromReader (csv_contents ms) = ms
         \<and> list_all MountSpec_valid (parseFromReader contents)"
proof
  show "list_all MountSpec_valid (parseFromReader contents)"
    by (auto simp: parseFromReader_def list_all_iff split: sum.splits dest: NewMountSpecFromLine_valid [OF sym])
  have valid: "MountSpec_valid m" "CHR 0x0A \<notin> set (ms_Path m)" "length (ms_Path m) < 65000" if "m \<in> set ms" for m
    using assms that by (auto simp: list_all_iff)
  have line: "CHR 0x0A \<notin> set (MountSpec_line m)" "int (length (MountSpec_line m)) < MaxScanTokenSize"
    "drop_cr (MountSpec_line m) = MountSpec_line m" "MountSpec_line m \<noteq> []" if "m \<in> set ms" for m
    using valid [OF that] drop_cr_trimmed [OF MountSpec_line_trimmed]
    by (auto simp: MountSpec_line_def MountSpec_valid_def MaxScanTokenSize_def)
  show "parseFromReader (csv_contents ms) = ms"
  proof (cases "ms = []")
    case True
    then show ?thesis by (simp add: parseFromReader_def csv_contents_def scan_lines_def Split_char_notin)
  next
    case False
    then have "scan_lines (csv_contents ms) = map MountSpec_line ms"
      unfolding csv_contents_def
      by (intro scan_lines_StrJoin) (auto simp: last_map line)
    then show ?thesis
      by (simp add: parseFromReader_def NewMountSpecFromLine_line valid comp_def cong: map_cong)
  qed
qed

theorem csv_round_trip_witness:
  "parseFromReader ''dev, /dev/nvhost-ctrl\<newline>lib, /usr/lib/libcuda.so'' =
     [\<lparr>ms_Type = ''dev'', ms_Path = ''/dev/nvhost-ctrl''\<rparr>, \<lparr>ms_Type = ''lib'', ms_Path = ''/usr/lib/libcuda.so''\<rparr>]"
proof -
  let ?ms = "[\<lparr>ms_Type = ''dev'', ms_Path = ''/dev/nvhost-ctrl''\<rparr>, \<lparr>ms_Type = ''lib'', ms_Path = ''/usr/lib/libcuda.so''\<rparr>]"
  have "TrimSpace ''/dev/nvhost-ctrl'' = ''/dev/nvhost-ctrl''" "TrimSpace ''/usr/lib/libcuda.so'' = ''/usr/lib/libcuda.so''"
    by code_simp+
  with csv_round_trip [of ?ms "[]"] show ?thesis
    by (simp add: MountSpec_valid_def csv_contents_def MountSpec_line_def)
qed

end
