(* ===== verification/Go_Match.thy ===== *)
theory Go_Match
  imports Go_Json Go_Path
begin

section \<open>Pattern matching of \<open>path/filepath\<close>\<close>

text \<open>
  \<open>filepath.Match\<close> as the Go library implements it on Unix: a pattern is cut into chunks at the stars
  (\<open>scanChunk\<close>), a chunk is matched at one position (\<open>matchChunk\<close>), and a star tries the positions up
  to the next slash.  A malformed pattern is an error, also if the match has failed before.
\<close>

definition ErrBadPattern :: error where
  "ErrBadPattern = Errorf ''syntax error in pattern''"

text \<open>\<open>utf8.DecodeRuneInString\<close>: the code point and its length; an invalid byte is \<open>RuneError\<close>, of length 1.\<close>

definition decode_rune :: "string \<Rightarrow> nat \<times> nat" where
  "decode_rune s =
     (let b = (\<lambda>i. of_char (s ! i)); n = utf8_size s in
      if s = [] then (0xFFFD, 0)
      else if n = 0 then (0xFFFD, 1)
      else if n = 1 then (b 0, 1)
      else if n = 2 then ((b 0 mod 32) * 64 + b 1 mod 64, 2)
      else if n = 3 then ((b 0 mod 16) * 4096 + (b 1 mod 64) * 64 + b 2 mod 64, 3)
      else ((b 0 mod 8) * 262144 + (b 1 mod 64) * 4096 + (b 2 mod 64) * 64 + b 3 mod 64, 4))"

text \<open>The number of bytes up to the next star outside of a character class.\<close>

fun chunk_len :: "bool \<Rightarrow> string \<Rightarrow> nat" where
  "chunk_len inrange [] = 0"
| "chunk_len inrange (c # cs) =
     (if c = CHR 0x5C then (case cs of [] \<Rightarrow> 1 | d # ds \<Rightarrow> 2 + chunk_len inrange ds)
      else if c = CHR ''*'' \<and> \<not> inrange then 0
      else 1 + chunk_len (if c = CHR ''['' then True else if c = CHR '']'' then False else inrange) cs)"

definition scanChunk :: "string \<Rightarrow> bool \<times> string \<times> string" where
  "scanChunk pattern =
     (let p = dropWhile (\<lambda>c. c = CHR ''*'') pattern; n = chunk_len False p
      in (HasPrefix pattern ''*'', take n p, drop n p))"

definition getEsc :: "string \<Rightarrow> (nat \<times> string) result" where
  "getEsc chunk =
     (if chunk = [] \<or> hd chunk = CHR ''-'' \<or> hd chunk = CHR '']'' then Inl ErrBadPattern
      else let chunk = (if hd chunk = CHR 0x5C then tl chunk else chunk) in
           if chunk = [] then Inl ErrBadPattern
           else let (r, n) = decode_rune chunk; nchunk = drop n chunk in
                if (r = 0xFFFD \<and> n = 1) \<or> nchunk = [] then Inl ErrBadPattern else Inr (r, nchunk))"

text \<open>The ranges of a character class, up to the closing bracket; the flag is that a range was read.\<close>

function class_loop :: "nat \<Rightarrow> bool \<Rightarrow> bool \<Rightarrow> string \<Rightarrow> (bool \<times> string) result" where
  "class_loop r found some chunk =
     (if some \<and> chunk \<noteq> [] \<and> hd chunk = CHR '']'' then Inr (found, tl chunk)
      else case getEsc chunk of
             Inl e \<Rightarrow> Inl e
           | Inr (lo, c1) \<Rightarrow>
               if hd c1 = CHR ''-''
               then (case getEsc (tl c1) of
                       Inl e \<Rightarrow> Inl e
                     | Inr (hi, c2) \<Rightarrow> class_loop r (found \<or> (lo \<le> r \<and> r \<le> hi)) True c2)
               else class_loop r (found \<or> lo = r) True c1)"
  by pat_completeness auto

lemma utf8_size_pos: "s \<noteq> [] \<Longrightarrow> 0 < snd (decode_rune s)"
  by (simp add: decode_rune_def Let_def)

lemma getEsc_shorter: "getEsc c = Inr (r, d) \<Longrightarrow> length d < length c"
proof -
  assume *: "getEsc c = Inr (r, d)"
  define c' where "c' = (if hd c = CHR 0x5C then tl c else c)"
  have "c' \<noteq> [] \<and> d = drop (snd (decode_rune c')) c'"
    using * unfolding c'_def by (auto simp: getEsc_def Let_def split: if_splits prod.splits)
  moreover have "length c' \<le> length c" by (simp add: c'_def)
  ultimately show ?thesis using utf8_size_pos [of c'] by (cases c') auto
qed

termination class_loop
proof (relation "measure (\<lambda>(r, found, some, chunk). length chunk)", goal_cases)
  case (2 r found some chunk p lo c1 p' hi c2)
  then have "length c1 < length chunk" "length c2 < length (tl c1)" by (auto dest: getEsc_shorter)
  then show ?case by simp
next
  case (3 r found some chunk p lo c1)
  then show ?case by (auto dest: getEsc_shorter)
qed simp

declare class_loop.simps [simp del]

text \<open>The subject is \<open>None\<close> once the match has failed; the chunk is then only checked.\<close>

definition eat_class :: "string \<Rightarrow> string option \<Rightarrow> (string \<times> string option) result" where
  "eat_class chunk s =
     (let (r, s') = (case s of None \<Rightarrow> (0, None)
                     | Some t \<Rightarrow> (let (r, n) = decode_rune t in (r, Some (drop n t))));
          negated = HasPrefix chunk ''^''
      in bindR (class_loop r False False (if negated then tl chunk else chunk)) (\<lambda>(found, rest).
           Inr (rest, if found = negated then None else s')))"

function matchChunk :: "string \<Rightarrow> string option \<Rightarrow> string option result" where
  "matchChunk [] s = Inr s"
| "matchChunk (c # chunk) s0 =
     (let s = (if s0 = Some [] then None else s0) in
      if c = CHR ''['' then
        (case eat_class chunk s of Inl e \<Rightarrow> Inl e | Inr (rest, s') \<Rightarrow> matchChunk rest s')
      else if c = CHR ''?'' then
        matchChunk chunk
          (case s of None \<Rightarrow> None
           | Some t \<Rightarrow> if hd t = slash then None else Some (drop (snd (decode_rune t)) t))
      else if c = CHR 0x5C \<and> chunk = [] then Inl ErrBadPattern
      else let (d, rest) = (if c = CHR 0x5C then (hd chunk, tl chunk) else (c, chunk))
           in matchChunk rest (case s of None \<Rightarrow> None | Some t \<Rightarrow> if hd t \<noteq> d then None else Some (tl t)))"
  by pat_completeness auto

lemma class_loop_shorter: "class_loop r f b c = Inr (x, d) \<Longrightarrow> length d < length c"
proof (induction r f b c rule: class_loop.induct)
  case (1 r f b c)
  show ?case
  proof (cases "b \<and> c \<noteq> [] \<and> hd c = CHR '']''")
    case True
    with 1(3) show ?thesis by (subst (asm) class_loop.simps) (auto simp: Let_def)
  next
    case False
    with 1(3) obtain lo c1 where e1: "getEsc c = Inr (lo, c1)"
      by (subst (asm) class_loop.simps) (auto split: sum.splits)
    show ?thesis
    proof (cases "hd c1 = CHR ''-''")
      case True
      with False 1(3) e1 obtain hi c2 where e2: "getEsc (tl c1) = Inr (hi, c2)"
        and "class_loop r (f \<or> lo \<le> r \<and> r \<le> hi) True c2 = Inr (x, d)"
        by (subst (asm) class_loop.simps) (auto split: sum.splits)
      then have "length d < length c2" using 1(1) [OF False e1 _ True e2] by simp
      with e1 e2 show ?thesis by (auto dest!: getEsc_shorter)
    next
      case f2: False
      with False 1(3) e1 have "class_loop r (f \<or> lo = r) True c1 = Inr (x, d)"
        by (subst (asm) class_loop.simps) (auto split: sum.splits)
      then have "length d < length c1" using 1(2) [OF False e1 _ f2] by simp
      with e1 show ?thesis by (auto dest!: getEsc_shorter)
    qed
  qed
qed

lemma eat_class_shorter: "eat_class c s = Inr (d, s') \<Longrightarrow> length d < length c"
proof -
  assume "eat_class c s = Inr (d, s')"
  then obtain r x where "class_loop r False False (if HasPrefix c ''^'' then tl c else c) = Inr (x, d)"
    by (auto simp: eat_class_def Let_def bindR_eq_Inr split: prod.splits)
  then show ?thesis by (auto dest!: class_loop_shorter split: if_splits)
qed

termination matchChunk
  by (relation "measure (\<lambda>(c, s). length c)")
    (auto simp: Let_def split: if_splits dest!: eat_class_shorter)

fun skip_star :: "string \<Rightarrow> bool \<Rightarrow> string \<Rightarrow> string option result" where
  "skip_star chunk final [] = Inr None"
| "skip_star chunk final (c # name) =
     (if c = slash then Inr None
      else case matchChunk chunk (Some name) of
             Inl e \<Rightarrow> Inl e
           | Inr (Some t) \<Rightarrow> if final \<and> t \<noteq> [] then skip_star chunk final name else Inr (Some t)
           | Inr None \<Rightarrow> skip_star chunk final name)"

lemma chunk_len_pos: "c \<noteq> CHR ''*'' \<Longrightarrow> 0 < chunk_len r (c # cs)"
  by (cases cs) auto

lemma scanChunk_shorter: "p \<noteq> [] \<Longrightarrow> length (snd (snd (scanChunk p))) < length p"
proof (cases p)
  case (Cons c cs)
  show ?thesis
  proof (cases "c = CHR ''*''")
    case True
    have "length (dropWhile (\<lambda>c. c = CHR ''*'') cs) \<le> length cs" by (rule length_dropWhile_le)
    with True show ?thesis by (simp add: Cons scanChunk_def Let_def)
  next
    case False
    then show ?thesis
      using chunk_len_pos [of c False cs] by (simp add: Cons scanChunk_def Let_def)
  qed
qed simp

lemma scanChunk_rest: "(star, chunk, rest) = scanChunk p \<Longrightarrow> p \<noteq> [] \<Longrightarrow> length rest < length p"
  by (metis scanChunk_shorter snd_conv)

function check_rest :: "string \<Rightarrow> bool result" where
  "check_rest pattern =
     (if pattern = [] then Inr False
      else let (star, chunk, rest) = scanChunk pattern in
           case matchChunk chunk (Some []) of Inl e \<Rightarrow> Inl e | Inr _ \<Rightarrow> check_rest rest)"
  by pat_completeness auto
termination
  by (relation "measure length") (auto dest: scanChunk_rest)

function filepath_Match :: "string \<Rightarrow> string \<Rightarrow> bool result" where
  "filepath_Match pattern name =
     (if pattern = [] then Inr (name = [])
      else let (star, chunk, rest) = scanChunk pattern in
           if star \<and> chunk = [] then Inr (slash \<notin> set name)
           else case matchChunk chunk (Some name) of
                  Inl e \<Rightarrow> Inl e
                | Inr t \<Rightarrow>
                    if t \<noteq> None \<and> (t = Some [] \<or> rest \<noteq> []) then filepath_Match rest (the t)
                    else case (if star then skip_star chunk (rest = []) name else Inr None) of
                           Inl e \<Rightarrow> Inl e
                         | Inr (Some u) \<Rightarrow> filepath_Match rest u
                         | Inr None \<Rightarrow> check_rest rest)"
  by pat_completeness auto
termination
  by (relation "measure (\<lambda>(p, n). length p)") (auto dest: scanChunk_rest)

declare check_rest.simps [simp del] filepath_Match.simps [simp del]

subsection \<open>Literal patterns\<close>

text \<open>A pattern without special characters matches itself only.\<close>

definition literal :: "string \<Rightarrow> bool" where
  "literal p \<longleftrightarrow> list_all (\<lambda>c. c \<notin> {CHR ''*'', CHR ''?'', CHR ''['', CHR 0x5C}) p"

lemma chunk_len_literal: "literal p \<Longrightarrow> chunk_len False p = length p"
  by (induction p) (auto simp: literal_def)

lemma scanChunk_literal: "literal p \<Longrightarrow> scanChunk p = (False, p, [])"
  by (cases p) (auto simp: scanChunk_def chunk_len_literal literal_def)

lemma matchChunk_literal_None: "literal p \<Longrightarrow> matchChunk p None = Inr None"
  by (induction p) (auto simp: literal_def matchChunk.simps)

lemma matchChunk_literal:
  "literal p \<Longrightarrow> matchChunk p (Some s) = Inr (if HasPrefix s p then Some (drop (length p) s) else None)"
proof (induction p arbitrary: s)
  case (Cons c p)
  then show ?case
    by (cases s) (auto simp: literal_def matchChunk.simps matchChunk_literal_None Let_def)
qed (simp add: matchChunk.simps)

lemma filepath_Match_literal: "literal p \<Longrightarrow> filepath_Match p s = Inr (s = p)"
proof (cases "p = []")
  case False
  assume p: "literal p"
  have m: "HasPrefix s p \<and> drop (length p) s = [] \<longleftrightarrow> s = p" by (auto simp: HasPrefix_append)
  show ?thesis
    unfolding filepath_Match.simps [of p s]
    using False p m
    by (auto simp: scanChunk_literal matchChunk_literal filepath_Match.simps [of "[]"] check_rest.simps [of "[]"])
qed (simp add: filepath_Match.simps)

end
