(* ===== verification/Discover.thy ===== *)
theory Discover
  imports Go_Match
begin

section \<open>Discovery of devices, mounts, environment variables and hooks\<close>

text \<open>
  The package \<open>internal/discover\<close>.  A discoverer is the record of the answers it gives on the current
  state of the system; the combinators (\<open>none.go\<close>, \<open>list.go\<close>, \<open>filter.go\<close>, \<open>first-valid.go\<close>,
  \<open>gds.go\<close>, \<open>symlinks.go\<close>, \<open>ldconfig.go\<close>, \<open>graphics.go\<close>) compute answers from answers.  The cache
  (\<open>cache.go\<close>) is the one discoverer with a state of its own, and is modelled as a state machine.
  A locator (\<open>pkg/lookup\<close>) is a function from a pattern to the paths it finds; the SONAME of a
  library, the symlinks of the host and the link targets are parameters.
\<close>

subsection \<open>Entities and discoverers (\<open>discover.go\<close>)\<close>

record dsc_device =
  dd_HostPath :: string
  dd_Path :: string

record dsc_env =
  ev_Name :: string
  ev_Value :: string

record dsc_mount =
  dm_HostPath :: string
  dm_Path :: string
  dm_Options :: "string list"

record dsc_hook =
  dh_Lifecycle :: string
  dh_Path :: string
  dh_Args :: "string list"
  dh_Env :: "string list"

record discover =
  ds_Devices :: "dsc_device list result"
  ds_EnvVars :: "dsc_env list result"
  ds_Mounts :: "dsc_mount list result"
  ds_Hooks :: "dsc_hook list result"

type_synonym locator = "string \<Rightarrow> string list result"

definition dsc_None :: discover where
  "dsc_None = \<lparr>ds_Devices = Inr [], ds_EnvVars = Inr [], ds_Mounts = Inr [], ds_Hooks = Inr []\<rparr>"

definition EnvVar_discover :: "dsc_env \<Rightarrow> discover" where
  "EnvVar_discover e = dsc_None\<lparr>ds_EnvVars := Inr [e]\<rparr>"

text \<open>A hook is a discoverer of itself, a nil hook of nothing.\<close>

definition Hook_Hooks :: "dsc_hook option \<Rightarrow> dsc_hook list result" where
  "Hook_Hooks h = (case h of None \<Rightarrow> Inr [] | Some x \<Rightarrow> Inr [x])"

definition Hook_discover :: "dsc_hook option \<Rightarrow> discover" where
  "Hook_discover h = dsc_None\<lparr>ds_Hooks := Hook_Hooks h\<rparr>"

subsection \<open>Lists (\<open>list.go\<close>)\<close>

fun list_loop :: "string \<Rightarrow> nat \<Rightarrow> 'a list result list \<Rightarrow> 'a list result" where
  "list_loop what i [] = Inr []"
| "list_loop what i (r # rs) =
     bindR (wrapR (''error discovering '' @ what @ '' for discoverer '' @ nat_decimal i) r) (\<lambda>xs.
     bindR (list_loop what (Suc i) rs) (\<lambda>ys. Inr (xs @ ys)))"

definition Merge_list :: "discover option list \<Rightarrow> discover list" where
  "Merge_list ds = map the (filter (\<lambda>d. d \<noteq> None) ds)"

definition discover_Merge :: "discover option list \<Rightarrow> discover" where
  "discover_Merge ds =
     (let l = Merge_list ds in
      \<lparr>ds_Devices = list_loop ''devices'' 0 (map ds_Devices l),
       ds_EnvVars = list_loop ''envs'' 0 (map ds_EnvVars l),
       ds_Mounts = list_loop ''mounts'' 0 (map ds_Mounts l),
       ds_Hooks = list_loop ''hooks'' 0 (map ds_Hooks l)\<rparr>)"

subsection \<open>The first valid discoverer (\<open>first-valid.go\<close>)\<close>

definition errors_Join :: "error option \<Rightarrow> error \<Rightarrow> error" where
  "errors_Join errs e = Joined ((case errs of None \<Rightarrow> [] | Some x \<Rightarrow> [x]) @ [e])"

fun first_loop :: "error option \<Rightarrow> 'a list result list \<Rightarrow> 'a list result" where
  "first_loop errs [] = (case errs of None \<Rightarrow> Inr [] | Some e \<Rightarrow> Inl e)"
| "first_loop errs (r # rs) =
     (case r of
        Inl (Panic p) \<Rightarrow> Inl (Panic p)
      | Inl e \<Rightarrow> first_loop (Some (errors_Join errs e)) rs
      | Inr xs \<Rightarrow> Inr xs)"

text \<open>The last line of \<open>Mounts\<close> is \<open>return nil, nil\<close>: the collected errors are dropped.\<close>

fun first_mounts_loop :: "dsc_mount list result list \<Rightarrow> dsc_mount list result" where
  "first_mounts_loop [] = Inr []"
| "first_mounts_loop (r # rs) =
     (case r of
        Inl (Panic p) \<Rightarrow> Inl (Panic p)
      | Inl e \<Rightarrow> first_mounts_loop rs
      | Inr xs \<Rightarrow> Inr xs)"

definition FirstValid :: "discover option list \<Rightarrow> discover" where
  "FirstValid ds =
     (let f = Merge_list ds in
      \<lparr>ds_Devices = first_loop None (map ds_Devices f),
       ds_EnvVars = first_loop None (map ds_EnvVars f),
       ds_Mounts = first_mounts_loop (map ds_Mounts f),
       ds_Hooks = first_loop None (map ds_Hooks f)\<rparr>)"

subsection \<open>Filters (\<open>filter.go\<close>)\<close>

type_synonym device_filter = "dsc_device \<Rightarrow> bool"

definition filtered_Devices :: "device_filter option \<Rightarrow> discover \<Rightarrow> dsc_device list result" where
  "filtered_Devices f d =
     bindR (ds_Devices d) (\<lambda>devices.
       case f of None \<Rightarrow> Inr devices | Some sel \<Rightarrow> Inr (filter sel devices))"

definition newFilteredDiscoverer :: "discover \<Rightarrow> device_filter option \<Rightarrow> discover" where
  "newFilteredDiscoverer d f = d\<lparr>ds_Devices := filtered_Devices f d\<rparr>"

subsection \<open>The cache (\<open>cache.go\<close>)\<close>

text \<open>
  An empty list stands for a nil slice, which is the state of an answer that is not cached.  The
  first argument of an operation is what the decorated discoverer answers at the time of the call;
  it is only asked if the cache is empty.
\<close>

record cache =
  c_devices :: "dsc_device list"
  c_envVars :: "dsc_env list"
  c_hooks :: "dsc_hook list"
  c_mounts :: "dsc_mount list"

definition new_cache :: cache where
  "new_cache = \<lparr>c_devices = [], c_envVars = [], c_hooks = [], c_mounts = []\<rparr>"

definition cached :: "'a list result \<Rightarrow> 'a list \<Rightarrow> 'a list result \<times> 'a list" where
  "cached answer c =
     (if c = [] then (case answer of Inl e \<Rightarrow> (Inl e, c) | Inr xs \<Rightarrow> (Inr xs, xs)) else (Inr c, c))"

definition cache_Devices :: "discover \<Rightarrow> cache \<Rightarrow> dsc_device list result \<times> cache" where
  "cache_Devices d c = (let (r, x) = cached (ds_Devices d) (c_devices c) in (r, c\<lparr>c_devices := x\<rparr>))"

definition cache_EnvVars :: "discover \<Rightarrow> cache \<Rightarrow> dsc_env list result \<times> cache" where
  "cache_EnvVars d c = (let (r, x) = cached (ds_EnvVars d) (c_envVars c) in (r, c\<lparr>c_envVars := x\<rparr>))"

definition cache_Hooks :: "discover \<Rightarrow> cache \<Rightarrow> dsc_hook list result \<times> cache" where
  "cache_Hooks d c = (let (r, x) = cached (ds_Hooks d) (c_hooks c) in (r, c\<lparr>c_hooks := x\<rparr>))"

definition cache_Mounts :: "discover \<Rightarrow> cache \<Rightarrow> dsc_mount list result \<times> cache" where
  "cache_Mounts d c = (let (r, x) = cached (ds_Mounts d) (c_mounts c) in (r, c\<lparr>c_mounts := x\<rparr>))"

subsection \<open>Mounts (\<open>mounts.go\<close>, \<open>mounts-to-container-path.go\<close>)\<close>

definition mount_options :: "string list" where
  "mount_options = [''ro'', ''nosuid'', ''nodev'', ''rbind'', ''rprivate'']"

record mounts =
  mo_lookup :: "locator option"
  mo_root :: string
  mo_required :: "string list"

definition newMounts :: "locator option \<Rightarrow> string \<Rightarrow> string list \<Rightarrow> mounts" where
  "newMounts lookup root required =
     \<lparr>mo_lookup = lookup, mo_root = FJoin [''/'', root], mo_required = required\<rparr>"

definition relativeTo :: "mounts \<Rightarrow> string \<Rightarrow> string" where
  "relativeTo d path = (if mo_root d = ''/'' then path else TrimPrefix path (mo_root d))"

text \<open>A candidate that is not found, with an error or without, is skipped.\<close>

definition located :: "locator \<Rightarrow> string \<Rightarrow> string list" where
  "located lookup candidate = (case lookup candidate of Inl e \<Rightarrow> [] | Inr ps \<Rightarrow> ps)"

definition mount_of :: "mounts \<Rightarrow> string \<Rightarrow> dsc_mount" where
  "mount_of d p =
     (let r = relativeTo d p; r = (if r = [] then p else r)
      in \<lparr>dm_HostPath = p, dm_Path = r, dm_Options = mount_options\<rparr>)"

definition mounts_Mounts :: "mounts \<Rightarrow> dsc_mount list result" where
  "mounts_Mounts d =
     (case mo_lookup d of
        None \<Rightarrow> Inl (Errorf ''no lookup defined'')
      | Some lookup \<Rightarrow>
          Inr (map (mount_of d) (unique_by id (concat (map (located lookup) (mo_required d))))))"

definition NewMounts :: "locator option \<Rightarrow> string \<Rightarrow> string list \<Rightarrow> discover" where
  "NewMounts lookup root required = dsc_None\<lparr>ds_Mounts := mounts_Mounts (newMounts lookup root required)\<rparr>"

fun container_path_loop ::
  "locator \<Rightarrow> string \<Rightarrow> (string \<Rightarrow> bool) \<Rightarrow> string list \<Rightarrow> dsc_mount list result" where
  "container_path_loop lookup containerRoot seen [] = Inr []"
| "container_path_loop lookup containerRoot seen (target # targets) =
     (if Contains target ''*'' then Inl (Errorf (''wildcard patterns are not supported: '' @ target))
      else case located lookup target of
             [] \<Rightarrow> container_path_loop lookup containerRoot seen targets
           | hostPath # _ \<Rightarrow>
               if seen hostPath then container_path_loop lookup containerRoot seen targets
               else bindR (container_path_loop lookup containerRoot (seen(hostPath := True)) targets) (\<lambda>ms.
                      Inr (\<lparr>dm_HostPath = hostPath, dm_Path = FJoin [containerRoot, target],
                            dm_Options = mount_options\<rparr> # ms)))"

definition mountsToContainerPath :: "locator \<Rightarrow> string list \<Rightarrow> string \<Rightarrow> discover" where
  "mountsToContainerPath lookup required containerRoot =
     dsc_None\<lparr>ds_Mounts := container_path_loop lookup containerRoot (\<lambda>_. False) required\<rparr>"

subsection \<open>IPC sockets (\<open>ipc.go\<close>) and character devices (\<open>char_devices.go\<close>)\<close>

definition ipcMountOptions :: "string list" where
  "ipcMountOptions = [''nosuid'', ''nodev'', ''rbind'', ''rprivate'', ''noexec'']"

definition ipcMounts_Mounts :: "mounts \<Rightarrow> dsc_mount list result" where
  "ipcMounts_Mounts d =
     bindR (mounts_Mounts d) (\<lambda>ms. Inr (map (\<lambda>m. m\<lparr>dm_Options := ipcMountOptions\<rparr>) ms))"

text \<open>The two locators are the file locators with and without the search paths \<open>/run\<close> and \<open>/var/run\<close>.\<close>

definition NewIPCDiscoverer :: "locator \<Rightarrow> locator \<Rightarrow> string \<Rightarrow> discover" where
  "NewIPCDiscoverer runLocator fileLocator driverRoot =
     (let sockets = newMounts (Some runLocator) driverRoot
                      [''/nvidia-persistenced/socket'', ''/nvidia-fabricmanager/socket''];
          mps = newMounts (Some fileLocator) driverRoot [''/tmp/nvidia-mps'']
      in discover_Merge
           [Some (dsc_None\<lparr>ds_Mounts := ipcMounts_Mounts sockets\<rparr>),
            Some (dsc_None\<lparr>ds_Mounts := ipcMounts_Mounts mps\<rparr>)])"

definition charDevices_Devices :: "mounts \<Rightarrow> dsc_device list result" where
  "charDevices_Devices d =
     bindR (mounts_Mounts d) (\<lambda>ms. Inr (map (\<lambda>m. \<lparr>dd_HostPath = dm_HostPath m, dd_Path = dm_Path m\<rparr>) ms))"

definition NewCharDeviceDiscoverer :: "locator \<Rightarrow> string \<Rightarrow> string list \<Rightarrow> discover" where
  "NewCharDeviceDiscoverer locate devRoot devices =
     dsc_None\<lparr>ds_Devices := charDevices_Devices (newMounts (Some locate) devRoot devices)\<rparr>"

subsection \<open>Devices of other subsystems\<close>

definition NewGDRCopyDiscoverer :: "locator \<Rightarrow> string \<Rightarrow> discover" where
  "NewGDRCopyDiscoverer locate devRoot = NewCharDeviceDiscoverer locate devRoot [''/dev/gdrdrv'']"

definition NewMOFEDDiscoverer :: "locator \<Rightarrow> string \<Rightarrow> discover" where
  "NewMOFEDDiscoverer locate devRoot =
     NewCharDeviceDiscoverer locate devRoot [''/dev/infiniband/uverbs*'', ''/dev/infiniband/rdma_cm'']"

definition NewNvSwitchDiscoverer :: "locator \<Rightarrow> string \<Rightarrow> discover" where
  "NewNvSwitchDiscoverer locate devRoot =
     NewCharDeviceDiscoverer locate devRoot [''/dev/nvidia-nvswitchctl'', ''/dev/nvidia-nvswitch*'']"

definition gds_Mounts :: "discover \<Rightarrow> discover \<Rightarrow> dsc_mount list result" where
  "gds_Mounts devices mounts =
     (case ds_Devices devices of
        Inl (Panic p) \<Rightarrow> Inl (Panic p)
      | Inl e \<Rightarrow> Inr []
      | Inr [] \<Rightarrow> Inr []
      | Inr _ \<Rightarrow> ds_Mounts mounts)"

definition NewGDSDiscoverer :: "locator \<Rightarrow> locator \<Rightarrow> locator \<Rightarrow> string \<Rightarrow> string \<Rightarrow> discover" where
  "NewGDSDiscoverer charLocator dirLocator fileLocator devRoot root =
     (let devices = NewCharDeviceDiscoverer charLocator devRoot [''/dev/nvidia-fs*''];
          udev = NewMounts (Some dirLocator) root [''/run/udev''];
          cufile = NewMounts (Some fileLocator) root [''/etc/cufile.json'']
      in dsc_None\<lparr>ds_Devices := ds_Devices devices,
                   ds_Mounts := gds_Mounts devices (discover_Merge [Some udev, Some cufile])\<rparr>)"

subsection \<open>Hooks (\<open>hooks.go\<close>)\<close>

definition AllHooks :: string where "AllHooks = ''all''"
definition ChmodHook :: string where "ChmodHook = ''chmod''"
definition CreateSymlinksHook :: string where "CreateSymlinksHook = ''create-symlinks''"
definition DisableDeviceNodeModificationHook :: string where
  "DisableDeviceNodeModificationHook = ''disable-device-node-modification''"
definition EnableCudaCompatHook :: string where "EnableCudaCompatHook = ''enable-cuda-compat''"
definition UpdateLDCacheHook :: string where "UpdateLDCacheHook = ''update-ldcache''"

definition defaultNvidiaCDIHookPath :: string where
  "defaultNvidiaCDIHookPath = ''/usr/bin/nvidia-cdi-hook''"

definition defaultDisabledHooks :: "string list" where
  "defaultDisabledHooks = [ChmodHook]"

record hookCreatorOptions =
  hco_nvidiaCDIHookPath :: string
  hco_ldconfigPath :: string
  hco_disabledHooks :: "string list"
  hco_enabledHooks :: "string list"
  hco_debugLogging :: bool

type_synonym HookOption = "hookCreatorOptions \<Rightarrow> hookCreatorOptions"

definition WithDebugLogging :: "bool \<Rightarrow> HookOption" where
  "WithDebugLogging d hco = hco\<lparr>hco_debugLogging := d\<rparr>"

definition WithDisabledHooks :: "string list \<Rightarrow> HookOption" where
  "WithDisabledHooks hooks hco = hco\<lparr>hco_disabledHooks := hco_disabledHooks hco @ hooks\<rparr>"

definition WithEnabledHooks :: "string list \<Rightarrow> HookOption" where
  "WithEnabledHooks hooks hco = hco\<lparr>hco_enabledHooks := hco_enabledHooks hco @ hooks\<rparr>"

definition WithLdconfigPath :: "string \<Rightarrow> HookOption" where
  "WithLdconfigPath p hco = hco\<lparr>hco_ldconfigPath := p\<rparr>"

definition WithNVIDIACDIHookPath :: "string \<Rightarrow> HookOption" where
  "WithNVIDIACDIHookPath p hco = hco\<lparr>hco_nvidiaCDIHookPath := p\<rparr>"

record cdiHookCreator =
  hc_nvidiaCDIHookPath :: string
  hc_ldconfigPath :: string
  hc_disabledHooks :: "string \<Rightarrow> bool option"
  hc_fixedArgs :: "string list"
  hc_debugLogging :: bool

datatype HookCreator = AllDisabled | CDIHooks cdiHookCreator

definition getFixedArgsForCDIHookCLI :: "string \<Rightarrow> string list" where
  "getFixedArgsForCDIHookCLI path =
     (let base = Base path in if base = ''nvidia-ctk'' then [base, ''hook''] else [base])"

definition set_hooks :: "bool \<Rightarrow> string list \<Rightarrow> (string \<Rightarrow> bool option) \<Rightarrow> string \<Rightarrow> bool option" where
  "set_hooks v hooks m = foldl (\<lambda>m h. m(h \<mapsto> v)) m hooks"

definition NewHookCreator :: "HookOption list \<Rightarrow> HookCreator" where
  "NewHookCreator opts =
     (let hco = foldl (\<lambda>hco opt. opt hco)
                \<lparr>hco_nvidiaCDIHookPath = defaultNvidiaCDIHookPath, hco_ldconfigPath = [],
                 hco_disabledHooks = [], hco_enabledHooks = [], hco_debugLogging = False\<rparr> opts;
          disabled = set_hooks True (hco_disabledHooks hco @ defaultDisabledHooks) Map.empty
      in if disabled AllHooks = Some True \<and> hco_enabledHooks hco = [] then AllDisabled
         else CDIHooks
           \<lparr>hc_nvidiaCDIHookPath = hco_nvidiaCDIHookPath hco,
            hc_ldconfigPath = hco_ldconfigPath hco,
            hc_disabledHooks = set_hooks False (hco_enabledHooks hco) disabled,
            hc_fixedArgs = getFixedArgsForCDIHookCLI (hco_nvidiaCDIHookPath hco),
            hc_debugLogging = hco_debugLogging hco\<rparr>)"

definition isDisabled :: "cdiHookCreator \<Rightarrow> string \<Rightarrow> string list \<Rightarrow> bool" where
  "isDisabled c name args =
     (case hc_disabledHooks c name of
        Some disabled \<Rightarrow> disabled
      | None \<Rightarrow>
          if hc_disabledHooks c AllHooks = Some True then True
          else if name = CreateSymlinksHook \<or> name = ChmodHook then args = []
          else False)"

definition requiredArgs :: "cdiHookCreator \<Rightarrow> string \<Rightarrow> string list" where
  "requiredArgs c name = hc_fixedArgs c @ [name]"

definition flag_each :: "string \<Rightarrow> string list \<Rightarrow> string list" where
  "flag_each flag args = concat (map (\<lambda>a. [flag, a]) args)"

definition transformArgs :: "cdiHookCreator \<Rightarrow> string \<Rightarrow> string list \<Rightarrow> string list" where
  "transformArgs c name args =
     (if name = CreateSymlinksHook then flag_each ''--link'' args
      else if name = ChmodHook then [''--mode'', ''755''] @ flag_each ''--path'' args
      else if name = UpdateLDCacheHook then
        (if hc_ldconfigPath c \<noteq> [] then [''--ldconfig-path'', hc_ldconfigPath c] else []) @
        flag_each ''--folder'' args
      else args)"

definition CreateContainerHook :: string where
  "CreateContainerHook = ''createContainer''"

definition Create :: "HookCreator \<Rightarrow> string \<Rightarrow> string list \<Rightarrow> dsc_hook option" where
  "Create hc name args =
     (case hc of
        AllDisabled \<Rightarrow> None
      | CDIHooks c \<Rightarrow>
          if isDisabled c name args then None
          else Some \<lparr>dh_Lifecycle = CreateContainerHook, dh_Path = hc_nvidiaCDIHookPath c,
                     dh_Args = requiredArgs c name @ transformArgs c name args,
                     dh_Env = [''NVIDIA_CTK_DEBUG='' @ (if hc_debugLogging c then ''true'' else ''false'')]\<rparr>)"

subsection \<open>Symlinks to driver libraries (\<open>symlinks.go\<close>)\<close>

definition Symlink_String :: "string \<Rightarrow> string \<Rightarrow> string" where
  "Symlink_String target link = target @ ''::'' @ link"

record symlinks_env =
  se_getSoname :: "string \<Rightarrow> string result"
  se_linkExists :: "string \<Rightarrow> bool result"

text \<open>
  The SONAME of a library from the dynamic strings of its ELF header: several are an error, none
  gives the name of the file.
\<close>

definition getSoname :: "(string \<Rightarrow> string list result) \<Rightarrow> string \<Rightarrow> string result" where
  "getSoname dynString libraryPath =
     bindR (dynString libraryPath) (\<lambda>sonames.
       if length sonames > 1 then Inl (Errorf (''multiple SONAMEs detected for '' @ libraryPath))
       else case sonames of [] \<Rightarrow> Inr (Base libraryPath) | s # _ \<Rightarrow> Inr s)"

datatype lstat = NotExist | LstatError error | Exists bool

definition linkExists :: "(string \<Rightarrow> lstat) \<Rightarrow> string \<Rightarrow> bool result" where
  "linkExists lstat linkPath =
     (case lstat linkPath of NotExist \<Rightarrow> Inr False | LstatError e \<Rightarrow> Inl e | Exists isSymlink \<Rightarrow> Inr isSymlink)"

definition linkExistsInDir :: "symlinks_env \<Rightarrow> string \<Rightarrow> string \<Rightarrow> bool" where
  "linkExistsInDir se dir link =
     (if link = [] then False
      else case se_linkExists se (FJoin [dir, link]) of Inl e \<Rightarrow> False | Inr b \<Rightarrow> b)"

function getSoLink :: "string \<Rightarrow> string" where
  "getSoLink soname =
     (let ext = Ext soname in
      if ext = [] then [] else if ext = ''.so'' then soname
      else getSoLink (TrimSuffix soname ext))"
  by pat_completeness auto

lemma Ext_suffix: "\<exists>u. s = u @ Ext s"
proof -
  have split: "s = fst (FSplit s) @ snd (FSplit s)" by (simp add: FSplit_join)
  let ?f = "snd (FSplit s)" and ?P = "\<lambda>c. c \<noteq> CHR ''.''"
  let ?t = "takeWhile ?P (rev ?f)" and ?d = "dropWhile ?P (rev ?f)"
  have f: "?f = rev ?d @ rev ?t"
    by (metis rev_append rev_rev_ident takeWhile_dropWhile_id)
  show ?thesis
  proof (cases "?d = []")
    case True
    then have "length ?t = length ?f" by (metis append_Nil2 length_rev takeWhile_dropWhile_id)
    then show ?thesis by (simp add: Ext_def Let_def)
  next
    case False
    then obtain d where d: "?d = CHR ''.'' # d" using hd_dropWhile [of ?P "rev ?f"] by (cases ?d) auto
    then have "?f = rev d @ CHR ''.'' # rev ?t" using f by simp
    moreover from this have "length ?t < length ?f" by (metis add.commute add_Suc_right length_Cons length_append length_rev less_add_Suc1)
    ultimately have "s = (fst (FSplit s) @ rev d) @ Ext s"
      using split by (simp add: Ext_def Let_def)
    then show ?thesis by blast
  qed
qed

termination getSoLink
proof (relation "measure length", goal_cases)
  case (2 soname x)
  then show ?case
    using Ext_suffix [of soname] by (auto simp: HasSuffix_append intro!: length_TrimSuffix_less)
qed simp

declare getSoLink.simps [simp del]

definition isDriverLibrary :: "string \<Rightarrow> string \<Rightarrow> string \<Rightarrow> bool" where
  "isDriverLibrary version libraryName filename =
     (case filepath_Match (libraryName @ ''.'' @ version) filename of Inl e \<Rightarrow> False | Inr b \<Rightarrow> b)"

definition getLinksForMount :: "string \<Rightarrow> string \<Rightarrow> string list" where
  "getLinksForMount version path =
     (let (dir, filename) = FSplit path in
      if isDriverLibrary version ''libcuda.so'' filename
        then [''libcuda.so.1'' @ ''::'' @ FJoin [dir, ''libcuda.so'']]
      else if isDriverLibrary version ''libGLX_nvidia.so'' filename
        then [filename @ ''::'' @ FJoin [dir, ''libGLX_indirect.so.0'']]
      else if isDriverLibrary version ''libnvidia-opticalflow.so'' filename
        then [''libnvidia-opticalflow.so.1'' @ ''::'' @ FJoin [dir, ''libnvidia-opticalflow.so'']]
      else [])"

definition getDotSoSymlinks :: "symlinks_env \<Rightarrow> string \<Rightarrow> string \<Rightarrow> string \<Rightarrow> string list result" where
  "getDotSoSymlinks se version hostLibraryPath libraryContainerPath =
     (let hostLibraryDir = Dir hostLibraryPath;
          (containerLibraryDir, libraryName) = FSplit libraryContainerPath
      in if \<not> isDriverLibrary version ''*'' libraryName then Inr []
         else bindR (se_getSoname se hostLibraryPath) (\<lambda>soname.
           let first = (if soname \<noteq> libraryName \<and> linkExistsInDir se hostLibraryDir soname
                        then [Symlink_String libraryName (FJoin [containerLibraryDir, soname])] else []);
               soTarget = (if soname = [] then libraryName else soname);
               soLink = getSoLink soTarget;
               second = (if soLink \<noteq> soTarget \<and> linkExistsInDir se hostLibraryDir soLink
                         then [Symlink_String soTarget (FJoin [containerLibraryDir, soLink])] else [])
           in Inr (first @ second)))"

definition links_for_mount :: "symlinks_env \<Rightarrow> string \<Rightarrow> dsc_mount \<Rightarrow> string list" where
  "links_for_mount se version m =
     getLinksForMount version (dm_Path m) @
     (case getDotSoSymlinks se version (dm_HostPath m) (dm_Path m) of Inl e \<Rightarrow> [] | Inr ls \<Rightarrow> ls)"

definition additionalSymlinks_Hooks ::
  "symlinks_env \<Rightarrow> HookCreator \<Rightarrow> string \<Rightarrow> discover \<Rightarrow> dsc_hook list result" where
  "additionalSymlinks_Hooks se hc version d =
     bindR (wrapR ''failed to get library mounts'' (ds_Mounts d)) (\<lambda>mounts.
     bindR (wrapR ''failed to get hooks'' (ds_Hooks d)) (\<lambda>hooks.
       let links = unique_by id (concat (map (links_for_mount se version) (unique_by dm_Path mounts)))
       in if links = [] then Inr hooks
          else bindR (wrapR ''failed to create symlink hook'' (Hook_Hooks (Create hc CreateSymlinksHook links)))
                 (\<lambda>new. Inr (hooks @ new))))"

definition WithDriverDotSoSymlinks :: "symlinks_env \<Rightarrow> discover \<Rightarrow> string \<Rightarrow> HookCreator \<Rightarrow> discover" where
  "WithDriverDotSoSymlinks se mounts version hc =
     mounts\<lparr>ds_Hooks :=
       additionalSymlinks_Hooks se hc (if version = [] then ''*.*'' else version) mounts\<rparr>"

subsection \<open>The ldcache hook (\<open>ldconfig.go\<close>) and the compat hook (\<open>compat_libs.go\<close>)\<close>

definition isLibName :: "string \<Rightarrow> bool" where
  "isLibName filename =
     (let base = Base filename in
      case filepath_Match ''lib?*.so*'' base of
        Inl e \<Rightarrow> False
      | Inr isLib \<Rightarrow>
          if \<not> isLib then False
          else let parts = Split base ''.so'' in
               if length parts = 1 then True
               else last parts = [] \<or> HasPrefix (last parts) ''.'')"

definition getLibraryPaths :: "dsc_mount list \<Rightarrow> string list" where
  "getLibraryPaths mounts = map dm_Path (filter (\<lambda>m. isLibName (dm_Path m)) mounts)"

definition uniqueFolders :: "string list \<Rightarrow> string list" where
  "uniqueFolders libraries = unique_by id (filter (\<lambda>d. d \<noteq> []) (map Dir libraries))"

definition ldconfig_Hooks :: "HookCreator \<Rightarrow> discover \<Rightarrow> dsc_hook list result" where
  "ldconfig_Hooks hc mountsFrom =
     bindR (wrapR ''failed to discover mounts for ldcache update'' (ds_Mounts mountsFrom)) (\<lambda>mounts.
       Hook_Hooks (Create hc UpdateLDCacheHook (uniqueFolders (getLibraryPaths mounts))))"

definition NewLDCacheUpdateHook :: "discover \<Rightarrow> HookCreator \<Rightarrow> discover" where
  "NewLDCacheUpdateHook mounts hc = dsc_None\<lparr>ds_Hooks := ldconfig_Hooks hc mounts\<rparr>"

record EnableCUDACompatHookOptions =
  co_HostDriverVersion :: string
  co_HostCUDAVersion :: string
  co_CUDACompatContainerRoot :: string

definition compat_args :: "EnableCUDACompatHookOptions option \<Rightarrow> string list" where
  "compat_args opts =
     (case opts of None \<Rightarrow> []
      | Some co \<Rightarrow>
          (if co_HostDriverVersion co \<noteq> [] \<and> \<not> Contains (co_HostDriverVersion co) ''*''
           then [''--host-driver-version='' @ co_HostDriverVersion co] else []) @
          (if co_HostCUDAVersion co \<noteq> [] then [''--host-cuda-version='' @ co_HostCUDAVersion co] else []) @
          (if co_CUDACompatContainerRoot co \<noteq> []
           then [''--cuda-compat-container-root='' @ co_CUDACompatContainerRoot co] else []))"

definition NewCUDACompatHookDiscoverer :: "HookCreator \<Rightarrow> EnableCUDACompatHookOptions option \<Rightarrow> discover" where
  "NewCUDACompatHookDiscoverer hc co = Hook_discover (Create hc EnableCudaCompatHook (compat_args co))"

subsection \<open>Lists of discoverers are monoids\<close>

lemma list_loop_Inr: "list_loop what i rs = Inr zs \<longleftrightarrow> (\<exists>xss. list_all2 (\<lambda>r xs. r = Inr xs) rs xss \<and> zs = concat xss)"
proof (induction rs arbitrary: i zs)
  case (Cons r rs)
  show ?case
    by (auto simp: bindR_eq_Inr Cons list_all2_Cons1) (metis concat.simps(2) list_all2_Cons)
qed auto

lemma Merge_list_Some [simp]: "Merge_list (map Some ds) = ds"
  by (induction ds) (auto simp: Merge_list_def)

lemma first_loop_find:
  "\<forall>p. Inl (Panic p) \<notin> set rs \<Longrightarrow> rs \<noteq> [] \<or> errs \<noteq> None \<Longrightarrow>
   (case find (\<lambda>r. \<not> isl r) rs of None \<Rightarrow> isl (first_loop errs rs) | Some r \<Rightarrow> first_loop errs rs = r)"
proof (induction rs arbitrary: errs)
  case (Cons r rs)
  show ?case
  proof (cases r)
    case (Inl e)
    with Cons.prems have "first_loop errs (r # rs) = first_loop (Some (errors_Join errs e)) rs"
      by (cases e) auto
    then show ?thesis
      using Cons.IH [of "Some (errors_Join errs e)"] Cons.prems Inl
      by (simp del: first_loop.simps split: option.splits)
  qed simp
qed auto

lemma first_mounts_loop_find:
  "\<forall>p. Inl (Panic p) \<notin> set rs \<Longrightarrow>
   first_mounts_loop rs = (case find (\<lambda>r. \<not> isl r) rs of None \<Rightarrow> Inr [] | Some r \<Rightarrow> r)"
proof (induction rs)
  case (Cons r rs)
  show ?case
  proof (cases r)
    case (Inl e)
    with Cons show ?thesis by (cases e) auto
  qed simp
qed simp

text \<open>
  A merged discoverer finds exactly what its parts find, in their order, with nil discoverers
  left out: if every part answers, the answer is the concatenation of theirs, and if one of them
  fails, so does the merged discoverer.  This holds for the four kinds of entities.
\<close>

lemma merged_discoverer:
  fixes ds :: "discover list"
  defines "m \<equiv> discover_Merge (map Some ds)"
  shows "(ds_Devices m = Inr xs \<longleftrightarrow> (\<exists>xss. map ds_Devices ds = map Inr xss \<and> xs = concat xss)) \<and>
    (ds_EnvVars m = Inr vs \<longleftrightarrow> (\<exists>xss. map ds_EnvVars ds = map Inr xss \<and> vs = concat xss)) \<and>
    (ds_Mounts m = Inr ms \<longleftrightarrow> (\<exists>xss. map ds_Mounts ds = map Inr xss \<and> ms = concat xss)) \<and>
    (ds_Hooks m = Inr hs \<longleftrightarrow> (\<exists>xss. map ds_Hooks ds = map Inr xss \<and> hs = concat xss))"
proof -
  have eq: "list_all2 (\<lambda>r xs. r = Inr xs) rs xss \<longleftrightarrow> rs = map Inr xss" for rs :: "'z list result list" and xss
    by (auto simp: list_all2_conv_all_nth intro: nth_equalityI)
  show ?thesis unfolding m_def discover_Merge_def by (simp add: list_loop_Inr eq)
qed

text \<open>
  The first valid discoverer answers with the first part that answers.  If all of them fail,
  devices, environment variables and hooks are errors, but mounts are the empty list and no error.
\<close>

lemma first_valid_answers:
  fixes ds :: "discover list"
  assumes "ds \<noteq> []"
    and "\<forall>d \<in> set ds. \<forall>p. ds_Mounts d \<noteq> Inl (Panic p) \<and> ds_Devices d \<noteq> Inl (Panic p)"
  shows "(case find (\<lambda>r. \<not> isl r) (map ds_Devices ds) of
            None \<Rightarrow> isl (ds_Devices (FirstValid (map Some ds)))
          | Some r \<Rightarrow> ds_Devices (FirstValid (map Some ds)) = r) \<and>
    ds_Mounts (FirstValid (map Some ds)) =
      (case find (\<lambda>r. \<not> isl r) (map ds_Mounts ds) of None \<Rightarrow> Inr [] | Some r \<Rightarrow> r)"
proof -
  have "\<forall>p. Inl (Panic p) \<notin> set (map ds_Devices ds)" "\<forall>p. Inl (Panic p) \<notin> set (map ds_Mounts ds)"
    using assms(2) by (metis (no_types, lifting) image_iff list.set_map)+
  then show ?thesis
    using first_loop_find [of "map ds_Devices ds" None] first_mounts_loop_find assms(1)
    by (simp add: FirstValid_def Let_def split: option.splits)
qed

definition failing_discoverer :: discover where
  "failing_discoverer = dsc_None\<lparr>ds_Devices := Inl (Errorf ''e''), ds_Mounts := Inl (Errorf ''e'')\<rparr>"

subsection \<open>The cache is transparent and stable\<close>

text \<open>
  Sequences of calls to a cached discoverer: every call names the discoverer's answer at that time.
  The contract of a cached query is stated for one kind of entity and interpreted on the four.
\<close>

locale cached_query =
  fixes query :: "discover \<Rightarrow> cache \<Rightarrow> 'a list result \<times> cache"
    and answer :: "discover \<Rightarrow> 'a list result" and slot :: "cache \<Rightarrow> 'a list"
  assumes query_eq: "fst (query d c) = fst (cached (answer d) (slot c)) \<and>
                     slot (snd (query d c)) = snd (cached (answer d) (slot c))"
begin

primrec answers :: "cache \<Rightarrow> discover list \<Rightarrow> 'a list result list" where
  "answers c [] = []"
| "answers c (d # ds) = fst (query d c) # answers (snd (query d c)) ds"

lemma stable: "slot c \<noteq> [] \<Longrightarrow> fst (query d c) = Inr (slot c) \<and> slot (snd (query d c)) = slot c"
  by (simp add: query_eq cached_def)

lemma answers_stable: "slot c \<noteq> [] \<Longrightarrow> answers c ds = replicate (length ds) (Inr (slot c))"
  by (induction ds arbitrary: c) (simp_all add: stable)

lemma transparent: "slot c = [] \<Longrightarrow> fst (query d c) = answer d"
  by (simp add: query_eq cached_def split: sum.splits)

lemma first_answer_stays:
  "slot c = [] \<Longrightarrow> answer d = Inr (x # xs) \<Longrightarrow> answers c (d # ds) = replicate (Suc (length ds)) (Inr (x # xs))"
  using answers_stable [of "snd (query d c)" ds] by (simp add: query_eq cached_def)

lemma failures_not_cached:
  "slot c = [] \<Longrightarrow> \<forall>d \<in> set ds. isl (answer d) \<Longrightarrow> answers c (ds @ [d]) = map answer (ds @ [d])"
  by (induction ds arbitrary: c) (auto simp: query_eq cached_def split: sum.splits)

end

interpretation c_dev: cached_query cache_Devices ds_Devices c_devices
  by unfold_locales (simp add: cache_Devices_def split: prod.splits)

interpretation c_env: cached_query cache_EnvVars ds_EnvVars c_envVars
  by unfold_locales (simp add: cache_EnvVars_def split: prod.splits)

interpretation c_hook: cached_query cache_Hooks ds_Hooks c_hooks
  by unfold_locales (simp add: cache_Hooks_def split: prod.splits)

interpretation c_mnt: cached_query cache_Mounts ds_Mounts c_mounts
  by unfold_locales (simp add: cache_Mounts_def split: prod.splits)

text \<open>A sequence of calls for mounts, as the cache answers them.\<close>

fun mount_calls :: "cache \<Rightarrow> discover list \<Rightarrow> dsc_mount list result list" where
  "mount_calls c [] = []"
| "mount_calls c (d # ds) = (let (r, c') = cache_Mounts d c in r # mount_calls c' ds)"

lemma mount_calls_answers: "mount_calls c ds = c_mnt.answers c ds"
  by (induction ds arbitrary: c) (auto split: prod.splits)

text \<open>
  A cached discoverer hands on the failures of the discoverer it decorates and asks again; the
  first answer with a mount in it is then given to every later call, whatever the discoverer would
  answer by then.
\<close>

lemma cache_keeps_first_answer:
  assumes "\<forall>d \<in> set before. isl (ds_Mounts d)" and "ds_Mounts d = Inr (x # xs)"
  shows "mount_calls new_cache (before @ d # later) =
    map ds_Mounts before @ replicate (Suc (length later)) (Inr (x # xs))"
proof -
  have "c_mnt.answers c (before @ d # later) = map ds_Mounts before @ replicate (Suc (length later)) (Inr (x # xs))"
    if "c_mounts c = []" for c
    using assms(1) that
  proof (induction before arbitrary: c)
    case Nil
    then show ?case using c_mnt.first_answer_stays [of c d x xs later] assms(2) by simp
  next
    case (Cons b before)
    then obtain e where "ds_Mounts b = Inl e" by (auto simp: isl_def)
    with Cons show ?case by (simp add: c_mnt.query_eq cached_def)
  qed
  then show ?thesis by (simp add: mount_calls_answers new_cache_def)
qed

definition one_mount :: discover where
  "one_mount = dsc_None\<lparr>ds_Mounts := Inr [\<lparr>dm_HostPath = ''/a'', dm_Path = ''/a'', dm_Options = []\<rparr>]\<rparr>"

subsection \<open>Mounts, hooks and links\<close>

lemma TrimPrefix_cases: "TrimPrefix s p = s \<or> s = p @ TrimPrefix s p"
  using TrimPrefix_inverse [of s p] by (cases "HasPrefix s p") (auto simp: TrimPrefix_def)

text \<open>
  The discovered mounts are exactly the located files, each once: the host paths are distinct,
  they are the paths that the locator returns for the required candidates (candidates that are not
  found are skipped, not errors), every mount is read-only without suid and devices, and the path
  in the container is the host path with the root of the driver taken off, where that leaves
  anything.
\<close>

lemma mounts_are_located_files:
  assumes "mo_lookup d = Some lookup"
  shows "\<exists>ms. mounts_Mounts d = Inr ms \<and> distinct (map dm_HostPath ms) \<and>
    set (map dm_HostPath ms) = (\<Union>c \<in> set (mo_required d). set (located lookup c)) \<and>
    (\<forall>m \<in> set ms. dm_Options m = mount_options \<and>
       (dm_Path m = dm_HostPath m \<or> dm_HostPath m = mo_root d @ dm_Path m))"
proof -
  let ?ps = "unique_by id (concat (map (located lookup) (mo_required d)))"
  have host: "map dm_HostPath (map (mount_of d) ?ps) = ?ps"
    by (simp add: mount_of_def Let_def comp_def)
  have each: "dm_Options (mount_of d p) = mount_options \<and>
      (dm_Path (mount_of d p) = dm_HostPath (mount_of d p) \<or> dm_HostPath (mount_of d p) = mo_root d @ dm_Path (mount_of d p))" for p
    using TrimPrefix_cases [of p "mo_root d"] by (simp add: mount_of_def Let_def relativeTo_def)
  have "mounts_Mounts d = Inr (map (mount_of d) ?ps)" by (simp add: mounts_Mounts_def assms)
  moreover have "distinct ?ps" by (rule distinct_unique_id)
  moreover have "set ?ps = (\<Union>c \<in> set (mo_required d). set (located lookup c))"
    unfolding set_unique_id by simp
  moreover have "\<forall>m \<in> set (map (mount_of d) ?ps). dm_Options m = mount_options \<and>
       (dm_Path m = dm_HostPath m \<or> dm_HostPath m = mo_root d @ dm_Path m)"
    using each by auto
  ultimately show ?thesis
    by (intro exI [of _ "map (mount_of d) ?ps"] conjI) (simp_all only: host)
qed

definition example_locator :: locator where
  "example_locator c = (if c = ''libcuda.so.*'' then Inr [''/drv/usr/lib/libcuda.so.1'', ''/drv/usr/lib/libcuda.so.2'']
     else if c = ''libcuda.so.1'' then Inr [''/drv/usr/lib/libcuda.so.1''] else Inl (Errorf ''not found''))"

lemma set_hooks_eq: "set_hooks v hooks m name = (if name \<in> set hooks then Some v else m name)"
  unfolding set_hooks_def by (induction hooks arbitrary: m) auto

text \<open>The options of a hook creator: the lists of hooks that were disabled and enabled.\<close>

definition hook_options :: "HookOption list \<Rightarrow> hookCreatorOptions" where
  "hook_options opts = foldl (\<lambda>o' opt. opt o')
     \<lparr>hco_nvidiaCDIHookPath = defaultNvidiaCDIHookPath, hco_ldconfigPath = [],
      hco_disabledHooks = [], hco_enabledHooks = [], hco_debugLogging = False\<rparr> opts"

text \<open>
  Which hooks are created: a hook that is explicitly enabled, always, even one that needs
  arguments and has none; any other hook unless it is disabled, is the chmod hook, all hooks are
  disabled and \<open>all\<close> is not enabled, or it is the symlink hook without arguments.
\<close>

lemma hook_created_iff:
  "Create (NewHookCreator opts) name args \<noteq> None \<longleftrightarrow>
     (let dis = set (hco_disabledHooks (hook_options opts)); en = set (hco_enabledHooks (hook_options opts)) in
      name \<in> en \<or>
      (name \<notin> dis \<and> name \<noteq> ''chmod'' \<and> (if ''all'' \<in> dis then ''all'' \<in> en else True) \<and>
       (if name = ''create-symlinks'' then args \<noteq> [] else True)))"
proof -
  define ho where "ho = hook_options opts"
  define dis where "dis = set_hooks True (hco_disabledHooks ho @ defaultDisabledHooks) Map.empty"
  have m: "dis n = (if n \<in> set (hco_disabledHooks ho) \<or> n = ''chmod'' then Some True else None)" for n
    by (simp add: dis_def set_hooks_eq defaultDisabledHooks_def ChmodHook_def)
  have new: "NewHookCreator opts = (if dis AllHooks = Some True \<and> hco_enabledHooks ho = [] then AllDisabled
      else CDIHooks
           \<lparr>hc_nvidiaCDIHookPath = hco_nvidiaCDIHookPath ho, hc_ldconfigPath = hco_ldconfigPath ho,
            hc_disabledHooks = set_hooks False (hco_enabledHooks ho) dis,
            hc_fixedArgs = getFixedArgsForCDIHookCLI (hco_nvidiaCDIHookPath ho),
            hc_debugLogging = hco_debugLogging ho\<rparr>)"
    by (simp add: NewHookCreator_def ho_def hook_options_def dis_def Let_def)
  show ?thesis
    unfolding new ho_def [symmetric] Let_def
    by (auto simp: Create_def isDisabled_def set_hooks_eq m AllHooks_def ChmodHook_def CreateSymlinksHook_def)
qed

text \<open>
  Stripping the extensions of a SONAME ends, and gives either nothing or the part of the name
  up to and including a \<open>.so\<close>.
\<close>

lemma getSoLink_prefix:
  "getSoLink soname = [] \<or> (HasPrefix soname (getSoLink soname) \<and> Ext (getSoLink soname) = ''.so'')"
proof (induction soname rule: getSoLink.induct)
  case (1 soname)
  show ?case
  proof (cases "Ext soname = [] \<or> Ext soname = ''.so''")
    case True
    then show ?thesis by (subst (1 2 3) getSoLink.simps) (auto simp: Let_def HasPrefix_append)
  next
    case False
    then have step: "getSoLink soname = getSoLink (TrimSuffix soname (Ext soname))"
      by (subst getSoLink.simps) (simp add: Let_def)
    obtain u where u: "soname = u @ Ext soname" using Ext_suffix by blast
    then have "TrimSuffix soname (Ext soname) = u" by (metis TrimSuffix_append)
    then show ?thesis
      using 1 [OF refl] False step u by (auto simp: HasPrefix_append) (metis append.assoc)
  qed
qed

end
