(* ===== verification/Image.thy ===== *)
theory Image
  imports Semver Go_Path CDI_Parser OCI_Types "HOL-Library.AList"
begin

section \<open>CUDA images\<close>

text \<open>
  The package \<open>internal/config/image\<close>: what a container asks for through its environment, its
  mounts and its annotations.  Go maps are association lists with distinct keys, in the order the
  program happens to iterate over them.
\<close>

subsection \<open>Environment variable names (envvars.go)\<close>

definition NvidiaRequirePrefix :: string where "NvidiaRequirePrefix = ''NVIDIA_REQUIRE_''"
definition EnvVarCudaVersion :: string where "EnvVarCudaVersion = ''CUDA_VERSION''"
definition EnvVarNvidiaDisableRequire :: string where
  "EnvVarNvidiaDisableRequire = ''NVIDIA_DISABLE_REQUIRE''"
definition EnvVarNvidiaDriverCapabilities :: string where
  "EnvVarNvidiaDriverCapabilities = ''NVIDIA_DRIVER_CAPABILITIES''"
definition EnvVarNvidiaImexChannels :: string where "EnvVarNvidiaImexChannels = ''NVIDIA_IMEX_CHANNELS''"
definition EnvVarNvidiaMigConfigDevices :: string where
  "EnvVarNvidiaMigConfigDevices = ''NVIDIA_MIG_CONFIG_DEVICES''"
definition EnvVarNvidiaMigMonitorDevices :: string where
  "EnvVarNvidiaMigMonitorDevices = ''NVIDIA_MIG_MONITOR_DEVICES''"
definition EnvVarNvidiaRequireCuda :: string where
  "EnvVarNvidiaRequireCuda = NvidiaRequirePrefix @ ''CUDA''"
definition EnvVarNvidiaRequireJetpack :: string where
  "EnvVarNvidiaRequireJetpack = NvidiaRequirePrefix @ ''JETPACK''"
definition EnvVarNvidiaVisibleDevices :: string where
  "EnvVarNvidiaVisibleDevices = ''NVIDIA_VISIBLE_DEVICES''"

lemmas envvar_defs = NvidiaRequirePrefix_def EnvVarCudaVersion_def EnvVarNvidiaDisableRequire_def
  EnvVarNvidiaDriverCapabilities_def EnvVarNvidiaImexChannels_def EnvVarNvidiaRequireCuda_def
  EnvVarNvidiaRequireJetpack_def EnvVarNvidiaVisibleDevices_def EnvVarNvidiaMigConfigDevices_def
  EnvVarNvidiaMigMonitorDevices_def

subsection \<open>Privileged containers (privileged.go)\<close>

definition capSysAdmin :: string where "capSysAdmin = ''CAP_SYS_ADMIN''"

definition OCISpecCapabilities_GetCapabilities :: "oci_capabilities \<Rightarrow> string list" where
  "OCISpecCapabilities_GetCapabilities c = Bounding c"

definition OCISpec_GetCapabilities :: "oci_spec \<Rightarrow> string list" where
  "OCISpec_GetCapabilities s =
     (case spec_Process s of
        None \<Rightarrow> []
      | Some p \<Rightarrow> (case proc_Capabilities p of
                     None \<Rightarrow> [] | Some c \<Rightarrow> OCISpecCapabilities_GetCapabilities c))"

text \<open>The argument is a getter of capabilities, or nil.\<close>

definition IsPrivileged :: "string list option \<Rightarrow> bool" where
  "IsPrivileged s =
     (case s of None \<Rightarrow> False | Some caps \<Rightarrow> list_ex (\<lambda>c. c = capSysAdmin) caps)"

subsection \<open>Requested devices (devices.go)\<close>

datatype VisibleDevices =
    VD_all
  | VD_none
  | VD_void
  | VD_devices nat "(string \<times> nat) list"

text \<open>\<open>newDevices\<close> numbers the ids; a repeated id keeps its last number.\<close>

definition newDevices :: "string list \<Rightarrow> VisibleDevices" where
  "newDevices idOrCommaSeparated =
     (case foldl (\<lambda>(i, lookup) did. (Suc i, AList.update did i lookup)) (0, [])
             (concat (map (\<lambda>s. Split s '','') idOrCommaSeparated)) of
        (i, lookup) \<Rightarrow> VD_devices i lookup)"

text \<open>\<open>NewVisibleDevices\<close> lets the first special value decide.\<close>

fun NewVisibleDevices_loop :: "string list \<Rightarrow> VisibleDevices option" where
  "NewVisibleDevices_loop [] = None"
| "NewVisibleDevices_loop (envvar # rest) =
     (if envvar = ''all'' then Some VD_all
      else if envvar = ''none'' then Some VD_none
      else if envvar = [] \<or> envvar = ''void'' then Some VD_void
      else NewVisibleDevices_loop rest)"

definition NewVisibleDevices :: "string list \<Rightarrow> VisibleDevices" where
  "NewVisibleDevices envvars =
     (case NewVisibleDevices_loop envvars of Some d \<Rightarrow> d | None \<Rightarrow> newDevices envvars)"

fun VisibleDevices_List :: "VisibleDevices \<Rightarrow> string list" where
  "VisibleDevices_List VD_all = [''all'']"
| "VisibleDevices_List VD_none = [[]]"
| "VisibleDevices_List VD_void = []"
| "VisibleDevices_List (VD_devices len lookup) =
     foldl (\<lambda>list (did, i). list[i := did]) (replicate len []) lookup"

fun VisibleDevices_Has :: "VisibleDevices \<Rightarrow> string \<Rightarrow> bool" where
  "VisibleDevices_Has VD_all did = (did \<noteq> [])"
| "VisibleDevices_Has VD_none did = False"
| "VisibleDevices_Has VD_void did = False"
| "VisibleDevices_Has (VD_devices len lookup) did =
     (if did = [] then False else map_of lookup did \<noteq> None)"

subsection \<open>Driver capabilities (capabilities.go)\<close>

text \<open>A \<open>DriverCapabilities\<close> value is a map to booleans that only ever stores \<open>true\<close>: a set.\<close>

type_synonym driver_capabilities = "string set"

definition NewDriverCapabilities :: "string list \<Rightarrow> driver_capabilities" where
  "NewDriverCapabilities capabilities =
     set (filter (\<lambda>t. t \<noteq> []) (map TrimSpace (concat (map (\<lambda>c. Split c '','') capabilities))))"

definition caps_IsAll :: "driver_capabilities \<Rightarrow> bool" where
  "caps_IsAll c \<longleftrightarrow> ''all'' \<in> c"

definition caps_Has :: "driver_capabilities \<Rightarrow> string \<Rightarrow> bool" where
  "caps_Has c capability = (if caps_IsAll c then True else capability \<in> c)"

definition caps_Any :: "driver_capabilities \<Rightarrow> string list \<Rightarrow> bool" where
  "caps_Any c capabilities = (if caps_IsAll c then True else list_ex (caps_Has c) capabilities)"

definition caps_List :: "driver_capabilities \<Rightarrow> string list" where
  "caps_List c = sorted_list_of_set c"

definition caps_String :: "driver_capabilities \<Rightarrow> string" where
  "caps_String c = (if caps_IsAll c then ''all'' else StrJoin (caps_List c) '','')"

definition caps_Intersection :: "driver_capabilities \<Rightarrow> driver_capabilities \<Rightarrow> driver_capabilities" where
  "caps_Intersection c s2 =
     (if caps_IsAll s2 then c else if caps_IsAll c then s2 else {x \<in> s2. x \<in> c})"

definition caps_IsSuperset :: "driver_capabilities \<Rightarrow> driver_capabilities \<Rightarrow> bool" where
  "caps_IsSuperset c s2 = (if caps_IsAll c then True else (\<forall>x \<in> s2. x \<in> c))"

definition DefaultDriverCapabilities :: driver_capabilities where
  "DefaultDriverCapabilities = NewDriverCapabilities [''utility,compute'']"

definition SupportedDriverCapabilities :: driver_capabilities where
  "SupportedDriverCapabilities =
     NewDriverCapabilities [''compute,compat32,graphics,utility,video,display,ngx'']"

subsection \<open>The image (cuda\_image.go, builder.go)\<close>

record CUDA =
  annotations :: "(string \<times> string) list"
  env :: "(string \<times> string) list"
  isPrivileged :: bool
  mounts :: "oci_mount list"
  annotationsPrefixes :: "string list"
  acceptDeviceListAsVolumeMounts :: bool
  acceptEnvvarUnprivileged :: bool
  ignoreImexChannelRequests :: bool
  preferredVisibleDeviceEnvVars :: "string list"

record image_builder =
  b_CUDA :: CUDA
  disableRequire :: bool

type_synonym image_option = "image_builder \<Rightarrow> image_builder result"

definition WithAcceptDeviceListAsVolumeMounts :: "bool \<Rightarrow> image_option" where
  "WithAcceptDeviceListAsVolumeMounts v b =
     Inr (b\<lparr>b_CUDA := (b_CUDA b)\<lparr>acceptDeviceListAsVolumeMounts := v\<rparr>\<rparr>)"

definition WithAcceptEnvvarUnprivileged :: "bool \<Rightarrow> image_option" where
  "WithAcceptEnvvarUnprivileged v b = Inr (b\<lparr>b_CUDA := (b_CUDA b)\<lparr>acceptEnvvarUnprivileged := v\<rparr>\<rparr>)"

definition WithAnnotations :: "(string \<times> string) list \<Rightarrow> image_option" where
  "WithAnnotations v b = Inr (b\<lparr>b_CUDA := (b_CUDA b)\<lparr>annotations := v\<rparr>\<rparr>)"

definition WithAnnotationsPrefixes :: "string list \<Rightarrow> image_option" where
  "WithAnnotationsPrefixes v b = Inr (b\<lparr>b_CUDA := (b_CUDA b)\<lparr>annotationsPrefixes := v\<rparr>\<rparr>)"

definition WithDisableRequire :: "bool \<Rightarrow> image_option" where
  "WithDisableRequire v b = Inr (b\<lparr>disableRequire := v\<rparr>)"

definition WithEnvMap :: "(string \<times> string) list \<Rightarrow> image_option" where
  "WithEnvMap v b = Inr (b\<lparr>b_CUDA := (b_CUDA b)\<lparr>env := v\<rparr>\<rparr>)"

text \<open>The loop of \<open>WithEnv\<close>: a variable without \<open>=\<close> is an error, a later one overrides.\<close>

definition env_entry :: "(string \<times> string) list \<Rightarrow> string \<Rightarrow> (string \<times> string) list result" where
  "env_entry envmap e =
     (case SplitN2 e ''='' of
        [k, v] \<Rightarrow> Inr (AList.update k v envmap)
      | _ \<Rightarrow> Inl (Errorf (''invalid environment variable: '' @ e)))"

definition WithEnv :: "string list \<Rightarrow> image_option" where
  "WithEnv envs b = bindR (foldR env_entry [] envs) (\<lambda>envmap. WithEnvMap envmap b)"

definition WithIgnoreImexChannelRequests :: "bool \<Rightarrow> image_option" where
  "WithIgnoreImexChannelRequests v b = Inr (b\<lparr>b_CUDA := (b_CUDA b)\<lparr>ignoreImexChannelRequests := v\<rparr>\<rparr>)"

definition WithMounts :: "oci_mount list \<Rightarrow> image_option" where
  "WithMounts v b = Inr (b\<lparr>b_CUDA := (b_CUDA b)\<lparr>mounts := v\<rparr>\<rparr>)"

definition WithPreferredVisibleDevicesEnvVars :: "string list \<Rightarrow> image_option" where
  "WithPreferredVisibleDevicesEnvVars vs b =
     Inr (b\<lparr>b_CUDA := (b_CUDA b)\<lparr>preferredVisibleDeviceEnvVars :=
       filter (\<lambda>t. length t > 0) (map TrimSpace (concat (map (\<lambda>e. Split e '','') vs)))\<rparr>\<rparr>)"

definition WithPrivileged :: "bool \<Rightarrow> image_option" where
  "WithPrivileged v b = Inr (b\<lparr>b_CUDA := (b_CUDA b)\<lparr>isPrivileged := v\<rparr>\<rparr>)"

definition image_build :: "image_builder \<Rightarrow> CUDA" where
  "image_build b =
     (if disableRequire b
      then (b_CUDA b)\<lparr>env := AList.update EnvVarNvidiaDisableRequire ''true'' (env (b_CUDA b))\<rparr>
      else b_CUDA b)"

definition initial_CUDA :: CUDA where
  "initial_CUDA =
     \<lparr>annotations = [], env = [], isPrivileged = False, mounts = [], annotationsPrefixes = [],
      acceptDeviceListAsVolumeMounts = False, acceptEnvvarUnprivileged = True,
      ignoreImexChannelRequests = False, preferredVisibleDeviceEnvVars = []\<rparr>"

definition image_New :: "image_option list \<Rightarrow> CUDA result" where
  "image_New opts =
     bindR (foldR (\<lambda>b opt. opt b) \<lparr>b_CUDA = initial_CUDA, disableRequire = False\<rparr> opts)
       (\<lambda>b. Inr (image_build b))"

text \<open>\<open>NewCUDAImageFromSpec\<close>: the options read from the specification come last.\<close>

definition NewCUDAImageFromSpec :: "oci_spec option \<Rightarrow> image_option list \<Rightarrow> CUDA result" where
  "NewCUDAImageFromSpec spec opts =
     (case spec of
        None \<Rightarrow> image_New opts
      | Some s \<Rightarrow>
          image_New (opts @
            [WithAnnotations (spec_Annotations s),
             WithEnv (case spec_Process s of None \<Rightarrow> [] | Some p \<Rightarrow> proc_Env p),
             WithMounts (spec_Mounts s),
             WithPrivileged (IsPrivileged (Some (OCISpec_GetCapabilities s)))]))"

definition newCUDAImageFromEnv :: "string list \<Rightarrow> CUDA result" where
  "newCUDAImageFromEnv e = image_New [WithEnv e]"

definition HasEnvvar :: "CUDA \<Rightarrow> string \<Rightarrow> bool" where
  "HasEnvvar i key \<longleftrightarrow> map_of (env i) key \<noteq> None"

text \<open>A missing variable reads as the empty string.\<close>

definition Getenv :: "CUDA \<Rightarrow> string \<Rightarrow> string" where
  "Getenv i key = (case map_of (env i) key of None \<Rightarrow> [] | Some v \<Rightarrow> v)"

definition IsLegacy :: "CUDA \<Rightarrow> bool" where
  "IsLegacy i \<longleftrightarrow>
     length (Getenv i EnvVarCudaVersion) > 0 \<and> length (Getenv i EnvVarNvidiaRequireCuda) = 0"

definition HasDisableRequire :: "CUDA \<Rightarrow> bool" where
  "HasDisableRequire i =
     (case map_of (env i) EnvVarNvidiaDisableRequire of
        Some disable \<Rightarrow> (case ParseBool disable of Inr d \<Rightarrow> d | Inl _ \<Rightarrow> False)
      | None \<Rightarrow> False)"

definition parseMajorMinorVersion :: "string \<Rightarrow> string result" where
  "parseMajorMinorVersion version =
     (let vVersion = ''v'' @ TrimPrefix version ''v''
      in if \<not> semver_IsValid vVersion then Inl (Errorf ''invalid version string'')
         else let majorMinor = TrimPrefix (semver_MajorMinor vVersion) ''v''
              in case Split majorMinor ''.'' of
                   (ma # mi # _) \<Rightarrow>
                     (case ParseUint ma 32 of
                        Inl _ \<Rightarrow> Inl (Errorf ''invalid major version'')
                      | Inr _ \<Rightarrow>
                         (case ParseUint mi 32 of
                            Inl _ \<Rightarrow> Inl (Errorf ''invalid minor version'')
                          | Inr _ \<Rightarrow> Inr majorMinor))
                 | _ \<Rightarrow> Inl (Panic ''index out of range [1] with length 1''))"

definition legacyVersion :: "CUDA \<Rightarrow> string result" where
  "legacyVersion i =
     (case parseMajorMinorVersion (Getenv i EnvVarCudaVersion) of
        Inl e \<Rightarrow> Inl (Wrap (''invalid CUDA version '' @ Getenv i EnvVarCudaVersion) e)
      | Inr v \<Rightarrow> Inr v)"

definition GetRequirements :: "CUDA \<Rightarrow> string list result" where
  "GetRequirements i =
     (if HasDisableRequire i then Inr []
      else let requirements =
                 map snd (filter (\<lambda>(name, value). HasPrefix name NvidiaRequirePrefix \<and>
                                    \<not> HasPrefix name EnvVarNvidiaRequireJetpack) (env i))
           in if IsLegacy i
              then (case legacyVersion i of
                      Inl e \<Rightarrow> Inl (Wrap ''failed to get version'' e)
                    | Inr v \<Rightarrow> Inr (requirements @ [''cuda>='' @ v]))
              else Inr requirements)"

text \<open>The devices named in a comma-separated value, trimmed, blanks dropped.\<close>

definition split_devices :: "string \<Rightarrow> string list" where
  "split_devices devs = filter (\<lambda>t. length t \<noteq> 0) (map TrimSpace (Split devs '',''))"

definition devicesFromEnvvars :: "CUDA \<Rightarrow> string list \<Rightarrow> string list" where
  "devicesFromEnvvars i envVars =
     (let isSet = list_ex (HasEnvvar i) envVars;
          requested = concat (map (\<lambda>v. case map_of (env i) v of
                                 None \<Rightarrow> [] | Some devs \<Rightarrow> split_devices devs) envVars);
          devices = (if \<not> isSet \<and> length requested = 0 \<and> IsLegacy i then [''all''] else requested);
          devices' = (if length devices = 0 \<or> ''void'' \<in> set requested then [''void''] else devices)
      in VisibleDevices_List (NewVisibleDevices devices'))"

definition GetDriverCapabilities :: "CUDA \<Rightarrow> driver_capabilities" where
  "GetDriverCapabilities i = set (Split (Getenv i EnvVarNvidiaDriverCapabilities) '','')"

definition visibleEnvVars :: "CUDA \<Rightarrow> string list" where
  "visibleEnvVars i =
     (let envVars = filter (HasEnvvar i) (preferredVisibleDeviceEnvVars i)
      in if length envVars > 0 then envVars else [EnvVarNvidiaVisibleDevices])"

definition visibleDevicesFromEnvVar :: "CUDA \<Rightarrow> string list" where
  "visibleDevicesFromEnvVar i = devicesFromEnvvars i (visibleEnvVars i)"

text \<open>Requests in annotations: keys with one of the prefixes, in sorted order.\<close>

definition cdiDeviceRequestsFromAnnotations :: "CUDA \<Rightarrow> string list" where
  "cdiDeviceRequestsFromAnnotations i =
     (if length (annotationsPrefixes i) = 0 \<or> length (annotations i) = 0 then []
      else let annotationKeys =
                 sort_Strings (filter (\<lambda>key. list_ex (HasPrefix key) (annotationsPrefixes i))
                   (map fst (annotations i)))
           in concat (map (\<lambda>key. Split (case map_of (annotations i) key of None \<Rightarrow> [] | Some v \<Rightarrow> v) '','')
                annotationKeys))"

subsection \<open>Requests through volume mounts\<close>

definition DeviceListAsVolumeMountsRoot :: string where
  "DeviceListAsVolumeMountsRoot = ''/var/run/nvidia-container-devices''"

definition volumeMountDevicePrefixCDI :: string where "volumeMountDevicePrefixCDI = ''cdi/''"
definition volumeMountDevicePrefixImex :: string where "volumeMountDevicePrefixImex = ''imex/''"

text \<open>
  The loop of \<open>requestsFromMounts\<close> over mounts of \<open>/dev/null\<close>, with the cleaned destinations seen
  so far.
\<close>

definition requestsFromMounts :: "CUDA \<Rightarrow> string list" where
  "requestsFromMounts i =
     (let root = Clean DeviceListAsVolumeMountsRoot;
          destinations = seen_loop id (\<lambda>_. False)
            (map (\<lambda>m. Clean (mnt_Destination m))
              (filter (\<lambda>m. Clean (mnt_Source m) = ''/dev/null'') (mounts i)))
      in filter (\<lambda>d. length d \<noteq> 0)
           (map (\<lambda>d. Trim (TrimPrefix d root) ''/'') (filter (\<lambda>d. HasPrefix d root) destinations)))"

definition qualifiedName :: "string \<Rightarrow> string result" where
  "qualifiedName m =
     (if \<not> HasPrefix m volumeMountDevicePrefixCDI
      then Inl (Errorf (''invalid mount CDI device request: '' @ m))
      else let requestedDevice = TrimPrefix m volumeMountDevicePrefixCDI
           in bindR (IsQualifiedName requestedDevice) (\<lambda>qualified.
                if qualified then Inr requestedDevice
                else case SplitN requestedDevice ''/'' 3 of
                       [a, b, c] \<Rightarrow> Inr (a @ ''/'' @ b @ ''='' @ c)
                     | _ \<Rightarrow> Inl (Errorf (''invalid mount CDI device request: '' @ m))))"

text \<open>An invalid CDI request is skipped with a warning; a panic is not recovered.\<close>

fun visibleDevicesFromMounts_loop :: "string list \<Rightarrow> string list result" where
  "visibleDevicesFromMounts_loop [] = Inr []"
| "visibleDevicesFromMounts_loop (device # rest) =
     (if HasPrefix device volumeMountDevicePrefixImex then visibleDevicesFromMounts_loop rest
      else if HasPrefix device volumeMountDevicePrefixCDI then
        (case qualifiedName device of
           Inr name \<Rightarrow> bindR (visibleDevicesFromMounts_loop rest) (\<lambda>ds. Inr (name # ds))
         | Inl (Panic p) \<Rightarrow> Inl (Panic p)
         | Inl e \<Rightarrow> visibleDevicesFromMounts_loop rest)
      else bindR (visibleDevicesFromMounts_loop rest) (\<lambda>ds. Inr (device # ds)))"

definition visibleDevicesFromMounts :: "CUDA \<Rightarrow> string list result" where
  "visibleDevicesFromMounts i = visibleDevicesFromMounts_loop (requestsFromMounts i)"

subsection \<open>The devices a container sees\<close>

text \<open>The last step of \<open>VisibleDevices\<close>: requests in the environment, if they are allowed.\<close>

definition visibleDevicesIfAllowed :: "CUDA \<Rightarrow> string list" where
  "visibleDevicesIfAllowed i =
     (let envVarDeviceRequests = visibleDevicesFromEnvVar i
      in if length envVarDeviceRequests = 0 then []
         else if isPrivileged i \<or> acceptEnvvarUnprivileged i then envVarDeviceRequests
         else [])"

definition VisibleDevices :: "CUDA \<Rightarrow> string list result" where
  "VisibleDevices i =
     (let annotationDeviceRequests = cdiDeviceRequestsFromAnnotations i
      in if length annotationDeviceRequests > 0 then Inr annotationDeviceRequests
         else if acceptDeviceListAsVolumeMounts i
         then bindR (visibleDevicesFromMounts i) (\<lambda>volumeMountDeviceRequests.
                if length volumeMountDeviceRequests > 0 then Inr volumeMountDeviceRequests
                else Inr (visibleDevicesIfAllowed i))
         else Inr (visibleDevicesIfAllowed i))"

text \<open>\<open>OnlyFullyQualifiedCDIDevices\<close> stops at the first unqualified device.\<close>

fun all_qualified :: "string list \<Rightarrow> bool result" where
  "all_qualified [] = Inr True"
| "all_qualified (d # ds) = bindR (IsQualifiedName d) (\<lambda>q. if q then all_qualified ds else Inr False)"

definition OnlyFullyQualifiedCDIDevices :: "CUDA \<Rightarrow> bool result" where
  "OnlyFullyQualifiedCDIDevices i =
     bindR (VisibleDevices i) (\<lambda>ds. bindR (all_qualified ds) (\<lambda>q. Inr (q \<and> ds \<noteq> [])))"

definition imexChannelsFromEnvVar :: "CUDA \<Rightarrow> string list" where
  "imexChannelsFromEnvVar i =
     (let imexChannels = devicesFromEnvvars i [EnvVarNvidiaImexChannels]
      in if imexChannels = [''all''] then [] else imexChannels)"

definition imexChannelsFromMounts :: "CUDA \<Rightarrow> string list" where
  "imexChannelsFromMounts i =
     map (\<lambda>d. TrimPrefix d volumeMountDevicePrefixImex)
       (filter (\<lambda>d. HasPrefix d volumeMountDevicePrefixImex) (requestsFromMounts i))"

definition ImexChannelRequests :: "CUDA \<Rightarrow> string list" where
  "ImexChannelRequests i =
     (if ignoreImexChannelRequests i then []
      else if acceptDeviceListAsVolumeMounts i \<and> length (imexChannelsFromMounts i) > 0
           then imexChannelsFromMounts i
      else let envVarDeviceRequests = imexChannelsFromEnvVar i
           in if length envVarDeviceRequests = 0 then []
              else if isPrivileged i \<or> acceptEnvvarUnprivileged i then envVarDeviceRequests
              else [])"

subsection \<open>What the environment can and cannot change\<close>

lemma requests_env [simp]:
  "cdiDeviceRequestsFromAnnotations (i\<lparr>env := e\<rparr>) = cdiDeviceRequestsFromAnnotations i"
  "requestsFromMounts (i\<lparr>env := e\<rparr>) = requestsFromMounts i"
  "visibleDevicesFromMounts (i\<lparr>env := e\<rparr>) = visibleDevicesFromMounts i"
  "imexChannelsFromMounts (i\<lparr>env := e\<rparr>) = imexChannelsFromMounts i"
  by (simp_all add: cdiDeviceRequestsFromAnnotations_def requestsFromMounts_def
      visibleDevicesFromMounts_def imexChannelsFromMounts_def)

lemma env_mounts [simp]:
  "HasEnvvar (i\<lparr>mounts := m\<rparr>) = HasEnvvar i" "Getenv (i\<lparr>mounts := m\<rparr>) = Getenv i"
  "IsLegacy (i\<lparr>mounts := m\<rparr>) = IsLegacy i"
  by (simp_all add: fun_eq_iff HasEnvvar_def Getenv_def IsLegacy_def)

lemma requests_mounts [simp]:
  "cdiDeviceRequestsFromAnnotations (i\<lparr>mounts := m\<rparr>) = cdiDeviceRequestsFromAnnotations i"
  "devicesFromEnvvars (i\<lparr>mounts := m\<rparr>) vs = devicesFromEnvvars i vs"
  "visibleDevicesIfAllowed (i\<lparr>mounts := m\<rparr>) = visibleDevicesIfAllowed i"
proof -
  show d: "devicesFromEnvvars (i\<lparr>mounts := m\<rparr>) vs = devicesFromEnvvars i vs" for vs
    by (simp add: devicesFromEnvvars_def)
  have "visibleEnvVars (i\<lparr>mounts := m\<rparr>) = visibleEnvVars i" by (simp add: visibleEnvVars_def)
  then show "visibleDevicesIfAllowed (i\<lparr>mounts := m\<rparr>) = visibleDevicesIfAllowed i"
    by (simp add: visibleDevicesIfAllowed_def visibleDevicesFromEnvVar_def d Let_def)
qed (simp add: cdiDeviceRequestsFromAnnotations_def)

text \<open>
  (C2) An unprivileged container cannot select devices through its environment when the
  configuration forbids it: whatever environment such a container brings, the devices and the
  IMEX channels it is given are the same.
\<close>

theorem unprivileged_env_ignored:
  assumes "\<not> isPrivileged i" and "\<not> acceptEnvvarUnprivileged i"
  shows "VisibleDevices (i\<lparr>env := e\<rparr>) = VisibleDevices i
       \<and> ImexChannelRequests (i\<lparr>env := e\<rparr>) = ImexChannelRequests i"
proof -
  have "visibleDevicesIfAllowed (i\<lparr>env := e\<rparr>) = []" "visibleDevicesIfAllowed i = []"
    using assms by (simp_all add: visibleDevicesIfAllowed_def Let_def)
  then show ?thesis
    using assms by (simp add: VisibleDevices_def ImexChannelRequests_def Let_def cong: if_cong)
qed

theorem unprivileged_env_ignored_witness:
  "VisibleDevices (initial_CUDA\<lparr>acceptEnvvarUnprivileged := False, env := [(''NVIDIA_VISIBLE_DEVICES'', ''all'')]\<rparr>)
     = VisibleDevices (initial_CUDA\<lparr>acceptEnvvarUnprivileged := False\<rparr>)
   \<and> ImexChannelRequests (initial_CUDA\<lparr>acceptEnvvarUnprivileged := False, env := [(''NVIDIA_VISIBLE_DEVICES'', ''all'')]\<rparr>)
     = ImexChannelRequests (initial_CUDA\<lparr>acceptEnvvarUnprivileged := False\<rparr>)"
  by (rule unprivileged_env_ignored) (simp_all add: initial_CUDA_def)

text \<open>
  Device lists passed as volume mounts count only when they are enabled: otherwise the mounts
  of a container have no influence on the devices and IMEX channels it is given.
\<close>

lemma volume_mounts_ignored:
  assumes "\<not> acceptDeviceListAsVolumeMounts i"
  shows "VisibleDevices (i\<lparr>mounts := m\<rparr>) = VisibleDevices i
       \<and> ImexChannelRequests (i\<lparr>mounts := m\<rparr>) = ImexChannelRequests i"
  using assms by (simp add: VisibleDevices_def ImexChannelRequests_def imexChannelsFromEnvVar_def Let_def)

text \<open>Requests that do count are returned, in the order annotations, mounts, environment.\<close>

lemma VisibleDevices_cases:
  assumes "VisibleDevices i = Inr ds"
  obtains (annotations) "ds = cdiDeviceRequestsFromAnnotations i" "ds \<noteq> []"
  | (mounts) "acceptDeviceListAsVolumeMounts i" "visibleDevicesFromMounts i = Inr ds" "ds \<noteq> []"
      "cdiDeviceRequestsFromAnnotations i = []"
  | (environment) "ds = visibleDevicesFromEnvVar i" "ds \<noteq> []" "isPrivileged i \<or> acceptEnvvarUnprivileged i"
      "cdiDeviceRequestsFromAnnotations i = []"
  | (nothing) "ds = []"
  using assms that by (auto simp: VisibleDevices_def visibleDevicesIfAllowed_def Let_def bindR_eq_Inr split: if_splits)

text \<open>Preferred environment variables replace the default one.\<close>

lemma preferred_env_vars:
  assumes "list_ex (HasEnvvar i) (preferredVisibleDeviceEnvVars i)"
  shows "visibleEnvVars i = filter (HasEnvvar i) (preferredVisibleDeviceEnvVars i)"
  using assms by (auto simp: visibleEnvVars_def list_ex_iff filter_empty_conv)

lemma map_of_update_other: "k \<noteq> k' \<Longrightarrow> map_of (AList.update k v al) k' = map_of al k'"
  by (simp add: update_conv')

lemma Getenv_update_other: "k \<noteq> k' \<Longrightarrow> Getenv (i\<lparr>env := AList.update k v (env i)\<rparr>) k' = Getenv i k'"
  by (simp add: Getenv_def map_of_update_other)

lemma HasEnvvar_update_other:
  "k \<noteq> k' \<Longrightarrow> HasEnvvar (i\<lparr>env := AList.update k v (env i)\<rparr>) k' = HasEnvvar i k'"
  by (simp add: HasEnvvar_def map_of_update_other)

lemma devicesFromEnvvars_update_other:
  assumes "k \<notin> set vs" "k \<noteq> EnvVarCudaVersion" "k \<noteq> EnvVarNvidiaRequireCuda"
  shows "devicesFromEnvvars (i\<lparr>env := AList.update k v (env i)\<rparr>) vs = devicesFromEnvvars i vs"
proof -
  let ?j = "i\<lparr>env := AList.update k v (env i)\<rparr>"
  have "IsLegacy ?j = IsLegacy i" using assms(2,3) by (simp add: IsLegacy_def Getenv_update_other)
  moreover have "list_ex (HasEnvvar ?j) vs = list_ex (HasEnvvar i) vs"
    unfolding list_ex_iff using assms(1) HasEnvvar_update_other by metis
  moreover have "map (\<lambda>v. case map_of (env ?j) v of None \<Rightarrow> [] | Some devs \<Rightarrow> split_devices devs) vs =
      map (\<lambda>v. case map_of (env i) v of None \<Rightarrow> [] | Some devs \<Rightarrow> split_devices devs) vs"
  proof (intro map_cong refl)
    fix x assume "x \<in> set vs"
    then have "k \<noteq> x" using assms(1) by auto
    then show "(case map_of (env ?j) x of None \<Rightarrow> [] | Some devs \<Rightarrow> split_devices devs) =
        (case map_of (env i) x of None \<Rightarrow> [] | Some devs \<Rightarrow> split_devices devs)"
      by (simp add: map_of_update_other)
  qed
  ultimately show ?thesis unfolding devicesFromEnvvars_def Let_def by (simp only:)
qed

text \<open>
  If one of the preferred environment variables is set in the image, the value of
  \<open>NVIDIA_VISIBLE_DEVICES\<close> no longer matters.
\<close>

lemma preferred_env_var_overrides:
  assumes "list_ex (HasEnvvar i) (preferredVisibleDeviceEnvVars i)"
    and "EnvVarNvidiaVisibleDevices \<notin> set (preferredVisibleDeviceEnvVars i)"
  shows "VisibleDevices (i\<lparr>env := AList.update EnvVarNvidiaVisibleDevices v (env i)\<rparr>) = VisibleDevices i"
proof -
  let ?j = "i\<lparr>env := AList.update EnvVarNvidiaVisibleDevices v (env i)\<rparr>"
  have has: "HasEnvvar ?j x = HasEnvvar i x" if "x \<in> set (preferredVisibleDeviceEnvVars i)" for x
    using that assms(2) HasEnvvar_update_other by metis
  then have "list_ex (HasEnvvar ?j) (preferredVisibleDeviceEnvVars ?j)"
    using assms(1) by (auto simp: list_ex_iff)
  then have "visibleEnvVars ?j = filter (HasEnvvar ?j) (preferredVisibleDeviceEnvVars i)"
    using preferred_env_vars by fastforce
  also have "\<dots> = visibleEnvVars i"
    using preferred_env_vars [OF assms(1)] has by (simp cong: filter_cong)
  finally have vis: "visibleEnvVars ?j = visibleEnvVars i" .
  have "EnvVarNvidiaVisibleDevices \<notin> set (visibleEnvVars i)"
    using preferred_env_vars [OF assms(1)] assms(2) by auto
  moreover have "EnvVarNvidiaVisibleDevices \<noteq> EnvVarCudaVersion"
    "EnvVarNvidiaVisibleDevices \<noteq> EnvVarNvidiaRequireCuda" by (simp_all add: envvar_defs)
  ultimately have "visibleDevicesFromEnvVar ?j = visibleDevicesFromEnvVar i"
    by (simp add: visibleDevicesFromEnvVar_def vis devicesFromEnvvars_update_other)
  then have "visibleDevicesIfAllowed ?j = visibleDevicesIfAllowed i"
    by (simp add: visibleDevicesIfAllowed_def Let_def)
  then show ?thesis by (simp add: VisibleDevices_def Let_def cong: if_cong)
qed

end
