(* ===== verification/Discover_Graphics.thy ===== *)
theory Discover_Graphics
  imports Discover Image
begin

section \<open>Discovery for graphics\<close>

text \<open>
  \<open>internal/discover/graphics.go\<close> with the two packages it reads the system through,
  \<open>internal/info/proc\<close> and \<open>internal/info/drm\<close>: the libraries and configuration files of graphics
  drivers, and the DRM device nodes of the selected GPUs.  File names that match a pattern, the
  contents of files and the targets of links are parameters.
\<close>

subsection \<open>GPU information (\<open>internal/info/proc\<close>, \<open>internal/info/drm\<close>)\<close>

definition GPUInfoGPUUUID :: string where "GPUInfoGPUUUID = ''GPU UUID''"
definition GPUInfoBusLocation :: string where "GPUInfoBusLocation = ''Bus Location''"
definition GPUInfoDeviceMinor :: string where "GPUInfoDeviceMinor = ''Device Minor''"

type_synonym GPUInfo = "string \<Rightarrow> string option"

definition info_line :: "GPUInfo \<Rightarrow> string \<Rightarrow> GPUInfo" where
  "info_line info line =
     (let parts = SplitN2 line '':'' in
      if length parts \<noteq> 2 then info else info(parts ! 0 \<mapsto> TrimSpace (parts ! 1)))"

definition gpuInfoFrom :: "string \<Rightarrow> GPUInfo" where
  "gpuInfoFrom contents = foldl info_line Map.empty (scan_lines contents)"

record host =
  host_glob :: "string \<Rightarrow> string list result"
  host_read :: "string \<Rightarrow> string result"
  host_readlink :: "string \<Rightarrow> string result"

definition GetInformationFilePaths :: "host \<Rightarrow> string \<Rightarrow> string list result" where
  "GetInformationFilePaths hst root = host_glob hst (FJoin [root, ''/proc/driver/nvidia/gpus/*/information''])"

definition ParseGPUInformationFile :: "host \<Rightarrow> string \<Rightarrow> GPUInfo result" where
  "ParseGPUInformationFile hst path =
     bindR (wrapR (''failed to open '' @ path) (host_read hst path)) (\<lambda>c. Inr (gpuInfoFrom c))"

definition GetDeviceNodesByBusID :: "host \<Rightarrow> string \<Rightarrow> string list result" where
  "GetDeviceNodesByBusID hst busID =
     (let drmRoot = FJoin [''/sys/bus/pci/devices'', busID, ''drm'']
      in bindR (host_glob hst (drmRoot @ ''/*'')) (\<lambda>matches.
           Inr (map (\<lambda>m. FJoin [''/dev/dri'', Base m]) matches)))"

subsection \<open>DRM nodes of the visible devices\<close>

text \<open>An absent field of the information reads as the empty string, as in a Go map.\<close>

definition field :: "GPUInfo \<Rightarrow> string \<Rightarrow> string" where
  "field info f = (case info f of None \<Rightarrow> [] | Some v \<Rightarrow> v)"

definition gpu_selected :: "VisibleDevices \<Rightarrow> GPUInfo \<Rightarrow> bool" where
  "gpu_selected devices info \<longleftrightarrow>
     VisibleDevices_Has devices (field info GPUInfoDeviceMinor) \<or>
     VisibleDevices_Has devices (field info GPUInfoGPUUUID) \<or>
     VisibleDevices_Has devices (field info GPUInfoBusLocation)"

definition newDRMDeviceFilter :: "host \<Rightarrow> VisibleDevices \<Rightarrow> string \<Rightarrow> device_filter result" where
  "newDRMDeviceFilter hst devices devRoot =
     bindR (wrapR ''failed to read GPU information'' (GetInformationFilePaths hst devRoot)) (\<lambda>paths.
     bindR (mapR (\<lambda>f. wrapR (''failed to parse '' @ f) (ParseGPUInformationFile hst f)) paths) (\<lambda>infos.
       let selectedBusIds = map (\<lambda>info. field info GPUInfoBusLocation) (filter (gpu_selected devices) infos)
       in bindR (mapR (\<lambda>b. wrapR (''failed to determine DRM devices for '' @ b) (GetDeviceNodesByBusID hst b))
                      selectedBusIds) (\<lambda>nodes.
            Inr (\<lambda>d. dd_Path d \<in> set (concat nodes)))))"

definition newDRMDeviceDiscoverer ::
  "host \<Rightarrow> locator \<Rightarrow> VisibleDevices \<Rightarrow> string \<Rightarrow> discover result" where
  "newDRMDeviceDiscoverer hst charLocator devices devRoot =
     (let allDevices = NewCharDeviceDiscoverer charLocator devRoot [''/dev/dri/card*'', ''/dev/dri/renderD*'']
      in bindR (wrapR ''failed to construct DRM device filter'' (newDRMDeviceFilter hst devices devRoot)) (\<lambda>f.
           Inr (newFilteredDiscoverer allDevices (Some f))))"

text \<open>A link that cannot be read is skipped; a link to a selected device is kept.\<close>

definition getSpecificLinkArgs :: "host \<Rightarrow> locator \<Rightarrow> dsc_device list \<Rightarrow> string list" where
  "getSpecificLinkArgs hst fileLocator devices =
     (let selected = map (\<lambda>d. Base (dd_HostPath d)) devices in
      case fileLocator ''/dev/dri/by-path/pci-*-*'' of
        Inl e \<Rightarrow> []
      | Inr candidates \<Rightarrow>
          concat (map (\<lambda>c. case host_readlink hst c of
                             Inl e \<Rightarrow> []
                           | Inr device \<Rightarrow> if Base device \<in> set selected then [device @ ''::'' @ c] else [])
                      candidates))"

definition drmDevicesByPath_Hooks ::
  "host \<Rightarrow> locator \<Rightarrow> HookCreator \<Rightarrow> discover \<Rightarrow> dsc_hook list result" where
  "drmDevicesByPath_Hooks hst fileLocator hc devicesFrom =
     bindR (wrapR ''failed to discover devices for by-path symlinks'' (ds_Devices devicesFrom)) (\<lambda>devices.
       if devices = [] then Inr []
       else let links = getSpecificLinkArgs hst fileLocator devices in
            if links = [] then Inr [] else Hook_Hooks (Create hc CreateSymlinksHook links))"

definition NewDRMNodesDiscoverer ::
  "host \<Rightarrow> locator \<Rightarrow> locator \<Rightarrow> VisibleDevices \<Rightarrow> string \<Rightarrow> HookCreator \<Rightarrow> discover result" where
  "NewDRMNodesDiscoverer hst charLocator fileLocator devices devRoot hc =
     bindR (wrapR ''failed to create DRM device discoverer''
              (newDRMDeviceDiscoverer hst charLocator devices devRoot)) (\<lambda>nodes.
       Inr (discover_Merge
              [Some nodes, Some (dsc_None\<lparr>ds_Hooks := drmDevicesByPath_Hooks hst fileLocator hc nodes\<rparr>)]))"

subsection \<open>Libraries and configuration files\<close>

definition gdl_isDriverLibrary :: "string \<Rightarrow> string \<Rightarrow> bool" where
  "gdl_isDriverLibrary filename libraryName =
     (case filepath_Match (TrimSuffix libraryName ''.'' @ ''.*.*'') filename of Inl e \<Rightarrow> False | Inr b \<Rightarrow> b)"

definition gdl_Mounts :: "discover \<Rightarrow> dsc_mount list result" where
  "gdl_Mounts d =
     bindR (wrapR ''failed to get library mounts'' (ds_Mounts d)) (\<lambda>mounts.
       Inr (filter (\<lambda>m. \<not> gdl_isDriverLibrary (Base (dm_Path m)) ''libnvidia-allocator.so'') mounts))"

definition gdl_links :: "dsc_mount \<Rightarrow> string list" where
  "gdl_links m =
     (let (dir, filename) = FSplit (dm_Path m) in
      if gdl_isDriverLibrary filename ''libnvidia-allocator.so''
        then [''../libnvidia-allocator.so.1'' @ ''::'' @ FJoin [dir, ''gbm'', ''nvidia-drm_gbm.so'']]
      else if gdl_isDriverLibrary filename ''libnvidia-vulkan-producer.so''
        then [filename @ ''::'' @ FJoin [dir, ''libnvidia-vulkan-producer.so'']]
      else if gdl_isDriverLibrary filename ''libglxserver_nvidia.so''
        then [filename @ ''::'' @ FJoin [dir, ''libglxserver_nvidia.so'']]
      else [])"

definition gdl_Hooks :: "HookCreator \<Rightarrow> discover \<Rightarrow> dsc_hook list result" where
  "gdl_Hooks hc d =
     bindR (wrapR ''failed to get library mounts'' (ds_Mounts d)) (\<lambda>mounts.
       let links = concat (map gdl_links mounts)
       in if links = [] then Inr [] else Hook_Hooks (Create hc CreateSymlinksHook links))"

definition buildXOrgSearchPaths :: "string \<Rightarrow> string list" where
  "buildXOrgSearchPaths libRoot =
     (if libRoot \<noteq> [] then
        [FJoin [libRoot, ''nvidia/xorg''], FJoin [libRoot, ''xorg'', ''modules'', ''drivers''],
         FJoin [libRoot, ''xorg'', ''modules'', ''extensions''],
         FJoin [libRoot, ''xorg'', ''modules/updates'', ''drivers''],
         FJoin [libRoot, ''xorg'', ''modules/updates'', ''extensions'']]
      else []) @
     concat (map (\<lambda>base.
        [FJoin [base, ''modules'', ''drivers''], FJoin [base, ''modules'', ''extensions''],
         FJoin [base, ''modules/updates'', ''drivers''], FJoin [base, ''modules/updates'', ''extensions'']])
       [''/usr/lib/xorg'', ''/usr/lib64/xorg'', ''/usr/X11R6/lib'', ''/usr/X11R6/lib64''])"

text \<open>What the discoverers use of the driver: its root, version, library directory and locators.\<close>

record driver_root =
  dr_Root :: string
  dr_Version :: "string result"
  dr_LibDirectory :: "string result"
  dr_Libraries :: locator
  dr_Configs :: locator
  dr_FirstConfigsFiles :: locator
  dr_Files :: "string list \<Rightarrow> locator"

definition newGraphicsLibrariesDiscoverer :: "driver_root \<Rightarrow> HookCreator \<Rightarrow> discover result" where
  "newGraphicsLibrariesDiscoverer driver hc =
     bindR (wrapR ''failed to get driver version'' (dr_Version driver)) (\<lambda>version.
     bindR (wrapR ''failed to get libcuda.so parent directory'' (dr_LibDirectory driver)) (\<lambda>cudaLibRoot.
       let libraries = NewMounts (Some (dr_Libraries driver)) (dr_Root driver)
             [''libnvidia-egl-gbm.so.*.*'', ''libnvidia-egl-wayland.so.*.*'', ''libnvidia-egl-wayland2.so.*.*'',
              ''libnvidia-allocator.so.'' @ version, ''libnvidia-vulkan-producer.so.'' @ version];
           xorgLibraries = NewMounts (Some (dr_Files driver (buildXOrgSearchPaths cudaLibRoot))) (dr_Root driver)
             [''nvidia_drv.so'', ''libglxserver_nvidia.so.'' @ version];
           d = discover_Merge [Some libraries, Some xorgLibraries]
       in Inr (d\<lparr>ds_Mounts := gdl_Mounts d, ds_Hooks := gdl_Hooks hc d\<rparr>)))"

definition newVulkanConfigsDiscover :: "string \<Rightarrow> driver_root \<Rightarrow> discover" where
  "newVulkanConfigsDiscover goarch driver =
     mountsToContainerPath (dr_FirstConfigsFiles driver)
       ([''vulkan/icd.d/nvidia_icd.json'', ''vulkan/icd.d/nvidia_layers.json'',
         ''vulkan/implicit_layer.d/nvidia_layers.json''] @
        (if goarch = ''amd64'' then [''vulkan/icd.d/nvidia_icd.x86_64.json'']
         else if goarch = ''arm64'' then [''vulkan/icd.d/nvidia_icd.aarch64.json''] else []))
       ''/etc''"

definition NewGraphicsMountsDiscoverer :: "string \<Rightarrow> driver_root \<Rightarrow> HookCreator \<Rightarrow> discover result" where
  "NewGraphicsMountsDiscoverer goarch driver hc =
     bindR (wrapR ''failed to construct discoverer for graphics libraries''
              (newGraphicsLibrariesDiscoverer driver hc)) (\<lambda>libraries.
       let configs = NewMounts (Some (dr_Configs driver)) (dr_Root driver)
             [''glvnd/egl_vendor.d/10_nvidia.json'', ''egl/egl_external_platform.d/15_nvidia_gbm.json'',
              ''egl/egl_external_platform.d/10_nvidia_wayland.json'',
              ''egl/egl_external_platform.d/09_nvidia_wayland2.json'', ''nvidia/nvoptix.bin'',
              ''X11/xorg.conf.d/10-nvidia.conf'', ''X11/xorg.conf.d/nvidia-drm-outputclass.conf'']
       in Inr (discover_Merge [Some libraries, Some configs, Some (newVulkanConfigsDiscover goarch driver)]))"

subsection \<open>Only the DRM nodes of selected GPUs are injected\<close>

lemma gpu_selected_none: "\<not> gpu_selected VD_none info" "\<not> gpu_selected VD_void info"
  by (simp_all add: gpu_selected_def)

lemma newDRMDeviceFilter_sound:
  assumes "newDRMDeviceFilter hst devices devRoot = Inr f" "f x"
  shows "\<exists>path info nodes. ParseGPUInformationFile hst path = Inr info \<and> gpu_selected devices info \<and>
    GetDeviceNodesByBusID hst (field info GPUInfoBusLocation) = Inr nodes \<and> dd_Path x \<in> set nodes"
proof -
  from assms obtain paths infos nodess where
    infos: "mapR (\<lambda>f. wrapR (''failed to parse '' @ f) (ParseGPUInformationFile hst f)) paths = Inr infos"
    and nodess: "mapR (\<lambda>b. wrapR (''failed to determine DRM devices for '' @ b) (GetDeviceNodesByBusID hst b))
        (map (\<lambda>info. field info GPUInfoBusLocation) (filter (gpu_selected devices) infos)) = Inr nodess"
    and x: "dd_Path x \<in> set (concat nodess)"
    by (auto simp: newDRMDeviceFilter_def bindR_eq_Inr Let_def)
  from x obtain nodes where nodes: "nodes \<in> set nodess" "dd_Path x \<in> set nodes" by auto
  from list_all2_setR [OF nodess [unfolded mapR_Inr_iff] nodes(1)] obtain info
    where info: "info \<in> set infos" "gpu_selected devices info"
      "GetDeviceNodesByBusID hst (field info GPUInfoBusLocation) = Inr nodes" by auto
  from list_all2_setR [OF infos [unfolded mapR_Inr_iff] info(1)] obtain path
    where "ParseGPUInformationFile hst path = Inr info" by auto
  with info nodes show ?thesis by blast
qed

text \<open>
  (C27) The DRM devices that are added to a container belong to GPUs that the container selects: for
  every discovered device there is a GPU, known from an information file of the driver, that is
  selected by its minor number, UUID or bus id, and whose bus id has the device as a DRM node.
  A container that selects no devices gets none.
\<close>

theorem drm_devices_of_selected_gpus:
  assumes "newDRMDeviceDiscoverer hst charLocator devices devRoot = Inr d"
    and "ds_Devices d = Inr xs" and "x \<in> set xs"
  shows "devices \<noteq> VD_none \<and> devices \<noteq> VD_void \<and>
    (\<exists>path info nodes. ParseGPUInformationFile hst path = Inr info \<and> gpu_selected devices info \<and>
       GetDeviceNodesByBusID hst (field info GPUInfoBusLocation) = Inr nodes \<and> dd_Path x \<in> set nodes)"
proof -
  from assms obtain f where "newDRMDeviceFilter hst devices devRoot = Inr f" "f x"
    by (auto simp: newDRMDeviceDiscoverer_def bindR_eq_Inr newFilteredDiscoverer_def filtered_Devices_def Let_def)
  from newDRMDeviceFilter_sound [OF this] show ?thesis
    using gpu_selected_none by metis
qed

definition example_host :: host where
  "example_host =
     \<lparr>host_glob = (\<lambda>p. if p = ''/proc/driver/nvidia/gpus/*/information'' then Inr [''i0'', ''i1'']
        else if p = ''/sys/bus/pci/devices/0000:01:00.0/drm/*'' then Inr [''/sys/bus/pci/devices/0000:01:00.0/drm/card1'']
        else Inr []),
      host_read = (\<lambda>p. if p = ''i0'' then Inr (''Device Minor: 0'' @ [CHR 0x0A] @ ''Bus Location: 0000:01:00.0'')
        else Inr (''Device Minor: 1'' @ [CHR 0x0A] @ ''Bus Location: 0000:02:00.0'')),
      host_readlink = (\<lambda>p. Inl (Errorf ''no link''))\<rparr>"

definition example_char_locator :: locator where
  "example_char_locator p = (if p = ''/dev/dri/card*'' then Inr [''/dev/dri/card0'', ''/dev/dri/card1''] else Inr [])"

definition example_selection :: "discover result" where
  "example_selection = newDRMDeviceDiscoverer example_host example_char_locator (newDevices [''0'']) ''/''"

theorem drm_devices_of_selected_gpus_witness:
  "\<exists>d. example_selection = Inr d \<and> ds_Devices d = Inr [\<lparr>dd_HostPath = ''/dev/dri/card1'', dd_Path = ''/dev/dri/card1''\<rparr>] \<and>
     (\<exists>path info. ParseGPUInformationFile example_host path = Inr info \<and> gpu_selected (newDevices [''0'']) info)"
proof -
  have "\<not> isl example_selection"
    and dev: "ds_Devices (projr example_selection) = Inr [\<lparr>dd_HostPath = ''/dev/dri/card1'', dd_Path = ''/dev/dri/card1''\<rparr>]"
    by code_simp+
  then have sel: "newDRMDeviceDiscoverer example_host example_char_locator (newDevices [''0'']) ''/'' = Inr (projr example_selection)"
    by (cases example_selection) (simp_all add: example_selection_def)
  from drm_devices_of_selected_gpus [OF sel dev] have
    "\<exists>path info. ParseGPUInformationFile example_host path = Inr info \<and> gpu_selected (newDevices [''0'']) info"
    by auto
  with sel dev show ?thesis by (auto simp: example_selection_def)
qed

end
