(* ===== verification/Edits.thy ===== *)
theory Edits
  imports Discover CDI_Types
begin

section \<open>From discovered entities to container edits\<close>

text \<open>
  The package \<open>internal/edits\<close>, which turns the answers of a discoverer into CDI container edits:
  device nodes with what the host knows of them (\<open>device.go\<close>), environment variables (\<open>envvar.go\<close>),
  mounts (\<open>mount.go\<close>) and hooks (\<open>hook.go\<close>), put together by the factory (\<open>edits.go\<close>).  What the
  host knows of a device node is a parameter; file modes and ids are 32-bit words.
\<close>

unbundle bit_operations_syntax

text \<open>What \<open>devices.DeviceFromPath\<close> returns of a device node.\<close>

record host_device =
  hd_Major :: int
  hd_Minor :: int
  hd_FileMode :: "32 word"
  hd_Permissions :: string
  hd_Gid :: "32 word"

type_synonym device_from_path = "string \<Rightarrow> string \<Rightarrow> host_device result"

definition ptrIfNonZero :: "32 word \<Rightarrow> 32 word option" where
  "ptrIfNonZero i = (if i = 0 then None else Some i)"

definition fromPathOrDefault :: "device_from_path \<Rightarrow> dsc_device \<Rightarrow> DeviceNode" where
  "fromPathOrDefault deviceFromPath d =
     (let path = (if dd_HostPath d = [] then dd_Path d else dd_HostPath d);
          minimal = \<lparr>dn_Path = dd_Path d, dn_HostPath = dd_HostPath d, dn_Type = [], dn_Major = 0, dn_Minor = 0,
                     dn_FileMode = None, dn_Permissions = [], dn_UID = None, dn_GID = None\<rparr>
      in case deviceFromPath path ''rwm'' of
           Inl e \<Rightarrow> minimal
         | Inr dn \<Rightarrow> minimal\<lparr>dn_Major := hd_Major dn, dn_Minor := hd_Minor dn,
                               dn_FileMode := ptrIfNonZero (hd_FileMode dn),
                               dn_Permissions := hd_Permissions dn, dn_GID := ptrIfNonZero (hd_Gid dn)\<rparr>)"

definition device_toSpec :: "device_from_path \<Rightarrow> dsc_device \<Rightarrow> DeviceNode" where
  "device_toSpec deviceFromPath d =
     (let s = fromPathOrDefault deviceFromPath d
      in if dn_HostPath s = dd_Path d then s\<lparr>dn_HostPath := []\<rparr> else s)"

text \<open>\<open>FileMode.Perm\<close> keeps the nine permission bits.\<close>

definition Perm :: "32 word \<Rightarrow> 32 word" where
  "Perm m = m AND 0x1FF"

definition isWorldReadable :: "32 word \<Rightarrow> bool" where
  "isWorldReadable m \<longleftrightarrow> m AND 4 \<noteq> 0"

definition isWorldWriteable :: "32 word \<Rightarrow> bool" where
  "isWorldWriteable m \<longleftrightarrow> m AND 2 \<noteq> 0"

definition getAdditionalGIDs :: "bool \<Rightarrow> DeviceNode \<Rightarrow> 32 word list" where
  "getAdditionalGIDs noAdditionalGIDs dn =
     (if noAdditionalGIDs then []
      else case dn_GID dn of
             None \<Rightarrow> []
           | Some gid \<Rightarrow>
               if gid = 0 then []
               else case dn_FileMode dn of
                      None \<Rightarrow> []
                    | Some mode \<Rightarrow>
                        let permission = Perm mode
                        in if isWorldReadable permission \<and> isWorldWriteable permission then [] else [gid])"

definition device_toEdits :: "device_from_path \<Rightarrow> bool \<Rightarrow> dsc_device \<Rightarrow> ContainerEdits" where
  "device_toEdits deviceFromPath noGIDs d =
     (let deviceNode = device_toSpec deviceFromPath d
      in empty_edits\<lparr>DeviceNodes := [Some deviceNode], AdditionalGIDs := getAdditionalGIDs noGIDs deviceNode\<rparr>)"

definition envvar_toEdits :: "dsc_env \<Rightarrow> ContainerEdits" where
  "envvar_toEdits e = empty_edits\<lparr>Env := [ev_Name e @ ''='' @ ev_Value e]\<rparr>"

definition mount_toSpec :: "dsc_mount \<Rightarrow> Mount" where
  "mount_toSpec m = \<lparr>m_HostPath = dm_HostPath m, m_ContainerPath = dm_Path m, m_Options = dm_Options m, m_Type = []\<rparr>"

definition mount_toEdits :: "dsc_mount \<Rightarrow> ContainerEdits" where
  "mount_toEdits m = empty_edits\<lparr>Mounts := [Some (mount_toSpec m)]\<rparr>"

definition hook_toSpec :: "dsc_hook \<Rightarrow> Hook" where
  "hook_toSpec h = \<lparr>h_HookName = dh_Lifecycle h, h_Path = dh_Path h, h_Args = dh_Args h, h_Env = dh_Env h, h_Timeout = None\<rparr>"

definition hook_toEdits :: "dsc_hook \<Rightarrow> ContainerEdits" where
  "hook_toEdits h = empty_edits\<lparr>Hooks := [Some (hook_toSpec h)]\<rparr>"

subsection \<open>The factory\<close>

datatype edits_factory = EmptyFactory | Factory bool

definition NewFactory :: "(bool \<Rightarrow> bool) list \<Rightarrow> edits_factory" where
  "NewFactory opts = Factory (foldl (\<lambda>f opt. opt f) False opts)"

definition WithNoAdditionalGIDsForDeviceNodes :: "bool \<Rightarrow> bool \<Rightarrow> bool" where
  "WithNoAdditionalGIDsForDeviceNodes b f = b"

definition factory_New :: "edits_factory \<Rightarrow> ContainerEdits" where
  "factory_New f = empty_edits"

definition FromDiscoverer :: "device_from_path \<Rightarrow> edits_factory \<Rightarrow> discover \<Rightarrow> ContainerEdits result" where
  "FromDiscoverer deviceFromPath f d =
     (case f of
        EmptyFactory \<Rightarrow> Inr empty_edits
      | Factory noGIDs \<Rightarrow>
          bindR (wrapR ''failed to discover devices'' (ds_Devices d)) (\<lambda>devices.
          bindR (wrapR ''failed to discover environment variables'' (ds_EnvVars d)) (\<lambda>envs.
          bindR (wrapR ''failed to discover mounts'' (ds_Mounts d)) (\<lambda>mounts.
          bindR (wrapR ''failed to discover hooks'' (ds_Hooks d)) (\<lambda>hooks.
            let c = foldl edits_Append (factory_New EmptyFactory) (map (device_toEdits deviceFromPath noGIDs) devices);
                c = foldl edits_Append c (map envvar_toEdits envs);
                c = foldl edits_Append c (map mount_toEdits mounts);
                c = foldl edits_Append c (map hook_toEdits hooks)
            in Inr c)))))"

subsection \<open>Nothing is lost and nothing is added\<close>

lemma foldl_Append:
  "foldl edits_Append e es =
     \<lparr>Env = Env e @ concat (map Env es), DeviceNodes = DeviceNodes e @ concat (map DeviceNodes es),
      NetDevices = NetDevices e @ concat (map NetDevices es), Hooks = Hooks e @ concat (map Hooks es),
      Mounts = Mounts e @ concat (map Mounts es),
      Intel_Rdt = foldl (\<lambda>r x. case Intel_Rdt x of None \<Rightarrow> r | Some y \<Rightarrow> Some y) (Intel_Rdt e) es,
      AdditionalGIDs = AdditionalGIDs e @ concat (map AdditionalGIDs es)\<rparr>"
  by (induction es arbitrary: e) (auto simp: edits_Append_def)

lemma concat_singletons: "concat (map (\<lambda>x. [f x]) xs) = map f xs"
  by (induction xs) auto

lemma concat_Nils: "concat (map (\<lambda>x. []) xs) = []"
  by (induction xs) auto

lemma foldl_no_rdt: "\<forall>x \<in> set es. Intel_Rdt x = None \<Longrightarrow>
  foldl (\<lambda>r x. case Intel_Rdt x of None \<Rightarrow> r | Some y \<Rightarrow> Some y) r es = r"
  by (induction es) auto

lemmas toEdits_defs = device_toEdits_def envvar_toEdits_def mount_toEdits_def hook_toEdits_def
  empty_edits_def factory_New_def

text \<open>
  (C18) The edits made from a discoverer hold one entity per discovered entity, in the order of
  discovery: a node for every device, a variable for every environment variable, a mount for every
  mount and a hook for every hook, and nothing else but the additional group ids of the devices.
\<close>

theorem edits_of_discoverer:
  assumes "ds_Devices d = Inr devices" "ds_EnvVars d = Inr envs" "ds_Mounts d = Inr mounts" "ds_Hooks d = Inr hooks"
  shows "FromDiscoverer deviceFromPath (Factory noGIDs) d =
    Inr \<lparr>Env = map (\<lambda>e. ev_Name e @ ''='' @ ev_Value e) envs,
         DeviceNodes = map (\<lambda>x. Some (device_toSpec deviceFromPath x)) devices,
         NetDevices = [], Hooks = map (Some \<circ> hook_toSpec) hooks, Mounts = map (Some \<circ> mount_toSpec) mounts,
         Intel_Rdt = None,
         AdditionalGIDs = concat (map (\<lambda>x. getAdditionalGIDs noGIDs (device_toSpec deviceFromPath x)) devices)\<rparr>"
proof -
  have rdt: "foldl (\<lambda>r x. case Intel_Rdt x of None \<Rightarrow> r | Some y \<Rightarrow> Some y) None (map f xs) = None"
    if "\<And>x. Intel_Rdt (f x) = None" for f and xs :: "'z list"
    using that by (intro foldl_no_rdt) auto
  show ?thesis
    by (simp add: FromDiscoverer_def assms foldl_Append Let_def toEdits_defs comp_def concat_singletons concat_Nils rdt)
qed

definition example_answers :: discover where
  "example_answers =
     \<lparr>ds_Devices = Inr [\<lparr>dd_HostPath = ''/dev/nvidia0'', dd_Path = ''/dev/nvidia0''\<rparr>],
      ds_EnvVars = Inr [\<lparr>ev_Name = ''A'', ev_Value = ''b''\<rparr>], ds_Mounts = Inr [], ds_Hooks = Inr []\<rparr>"

definition example_devices :: device_from_path where
  "example_devices path perm = Inr \<lparr>hd_Major = 195, hd_Minor = 0, hd_FileMode = 0x1B0, hd_Permissions = perm, hd_Gid = 44\<rparr>"

theorem edits_of_discoverer_witness:
  "\<exists>e. FromDiscoverer example_devices (Factory False) example_answers = Inr e \<and> Env e = [''A=b''] \<and>
     length (DeviceNodes e) = 1 \<and> AdditionalGIDs e = [44]"
proof -
  have "getAdditionalGIDs False (device_toSpec example_devices \<lparr>dd_HostPath = ''/dev/nvidia0'', dd_Path = ''/dev/nvidia0''\<rparr>) = [44]"
    by code_simp
  then show ?thesis
    using edits_of_discoverer [of example_answers "[\<lparr>dd_HostPath = ''/dev/nvidia0'', dd_Path = ''/dev/nvidia0''\<rparr>]"
        "[\<lparr>ev_Name = ''A'', ev_Value = ''b''\<rparr>]" "[]" "[]" example_devices False]
    by (simp add: example_answers_def)
qed

lemma and_pow_bit: "m AND 2 ^ n \<noteq> 0 \<longleftrightarrow> bit m n" if "n < 32" for m :: "32 word"
proof -
  have "bit (m AND 2 ^ n) k \<longleftrightarrow> bit m n \<and> k = n" for k
    using that by (auto simp: bit_and_iff bit_exp_iff)
  then show ?thesis by (metis bit_0_eq bit_eqI bot_apply bot_bool_def)
qed

lemma world_bits:
  "isWorldReadable (Perm m) \<longleftrightarrow> bit m 2" "isWorldWriteable (Perm m) \<longleftrightarrow> bit m 1"
proof -
  have perm: "bit (Perm m) n \<longleftrightarrow> bit m n" if "n < 9" for n
  proof -
    have "Perm m = m AND mask 9" by (simp add: Perm_def mask_eq_exp_minus_1)
    then show ?thesis using that by (simp add: bit_and_iff bit_mask_iff)
  qed
  show "isWorldReadable (Perm m) \<longleftrightarrow> bit m 2" "isWorldWriteable (Perm m) \<longleftrightarrow> bit m 1"
    using and_pow_bit [of 2 "Perm m"] and_pow_bit [of 1 "Perm m"] perm [of 2] perm [of 1]
    by (simp_all add: isWorldReadable_def isWorldWriteable_def)
qed

text \<open>
  A container gets the group of a device as an additional group exactly if the host knows the
  device, its group is not 0 and its mode, which is known, does not already let everybody read and
  write: at least one of the bits 2 and 1 of the mode is clear.  The root group is never added.
\<close>

lemma additional_gid_iff:
  "gid \<in> set (getAdditionalGIDs noGIDs (device_toSpec deviceFromPath d)) \<longleftrightarrow>
     \<not> noGIDs \<and> gid \<noteq> 0 \<and>
     (\<exists>hd. deviceFromPath (if dd_HostPath d = [] then dd_Path d else dd_HostPath d) ''rwm'' = Inr hd \<and>
        hd_Gid hd = gid \<and> hd_FileMode hd \<noteq> 0 \<and> \<not> (bit (hd_FileMode hd) 2 \<and> bit (hd_FileMode hd) 1))"
  by (cases "deviceFromPath (if dd_HostPath d = [] then dd_Path d else dd_HostPath d) ''rwm''")
    (auto simp: getAdditionalGIDs_def device_toSpec_def fromPathOrDefault_def ptrIfNonZero_def world_bits Let_def)

end
