(* ===== verification/Toolkit_Config.thy ===== *)
theory Toolkit_Config
  imports Image Discover
begin

section \<open>The configuration of the toolkit\<close>

text \<open>
  \<open>api/config/v1\<close>: the typed configuration with its defaults and validity check, the resolution of
  the executables it names, and the handling of the TOML tree it is read from.  The environment,
  the existence and contents of files, the search for executables and the TOML library are
  parameters.
\<close>

subsection \<open>Features (\<open>features.go\<close>)\<close>

type_synonym feature = "bool option"

definition IsEnabled :: "feature \<Rightarrow> bool" where
  "IsEnabled f = (case f of Some b \<Rightarrow> b | None \<Rightarrow> False)"

record features =
  AllowCUDACompatLibsFromContainer :: feature
  AllowLDConfigFromContainer :: feature
  AllowUnknownOCISpecFields :: feature
  DisableCUDACompatLibHook :: feature
  DisableImexChannelCreation :: feature
  IgnoreImexChannelRequests :: feature
  NoAdditionalGIDsForDeviceNodes :: feature

definition no_features :: features where
  "no_features = \<lparr>AllowCUDACompatLibsFromContainer = None, AllowLDConfigFromContainer = None,
     AllowUnknownOCISpecFields = None, DisableCUDACompatLibHook = None, DisableImexChannelCreation = None,
     IgnoreImexChannelRequests = None, NoAdditionalGIDsForDeviceNodes = None\<rparr>"

subsection \<open>The path of ldconfig (\<open>cli.go\<close>)\<close>

record ContainerCLIConfig =
  cli_Root :: string
  cli_Path :: string
  cli_Environment :: "string list"
  cli_Debug :: string
  cli_Ldcache :: string
  cli_LoadKmods :: bool
  cli_NoPivot :: bool
  cli_NoCgroups :: bool
  cli_User :: string
  cli_Ldconfig :: string

definition isHostRelative :: "string \<Rightarrow> bool" where
  "isHostRelative p = HasPrefix p ''@''"

definition ldconfigPath_assertValid :: "string \<Rightarrow> bool \<Rightarrow> error option" where
  "ldconfigPath_assertValid p allowContainerRelativePath =
     (if isHostRelative p then None
      else if allowContainerRelativePath then None
      else Some (Errorf (''nvidia-container-cli.ldconfig value is not host-relative: '' @ p)))"

definition ldconfigPath_normalize :: "(string \<Rightarrow> bool) \<Rightarrow> string \<Rightarrow> string" where
  "ldconfigPath_normalize exists p =
     (if \<not> isHostRelative p then p
      else let trimmedPath = TrimSuffix (TrimPrefix p ''@'') ''.real'' in
           if exists (trimmedPath @ ''.real'') then ''@'' @ trimmedPath @ ''.real''
           else ''@'' @ trimmedPath)"

definition NormalizeLDConfigPath :: "(string \<Rightarrow> bool) \<Rightarrow> ContainerCLIConfig \<Rightarrow> string" where
  "NormalizeLDConfigPath exists c = ldconfigPath_normalize exists (cli_Ldconfig c)"

subsection \<open>Runtime configuration (\<open>runtime.go\<close>, \<open>hook.go\<close>, \<open>toolkit-cli.go\<close>)\<close>

record cdiModeConfig =
  cdi_SpecDirs :: "string list"
  cdi_DefaultKind :: string
  cdi_AnnotationPrefixes :: "string list"

record csvModeConfig =
  csv_MountSpecPath :: string
  csv_CompatContainerRoot :: string

record modesConfig =
  modes_CSV :: csvModeConfig
  modes_CDI :: cdiModeConfig
  modes_JitCDI_NVCDIFeatureFlags :: "string list"
  modes_Legacy_CUDACompatMode :: string

definition CUDACompatModeDisabled :: string where "CUDACompatModeDisabled = ''disabled''"
definition CUDACompatModeHook :: string where "CUDACompatModeHook = ''hook''"
definition CUDACompatModeLdconfig :: string where "CUDACompatModeLdconfig = ''ldconfig''"
definition CUDACompatModeMount :: string where "CUDACompatModeMount = ''mount''"
definition defaultCUDACompatMode :: string where "defaultCUDACompatMode = CUDACompatModeLdconfig"

record RuntimeConfig =
  rt_DebugFilePath :: string
  rt_LogLevel :: string
  rt_Runtimes :: "string list"
  rt_Mode :: string
  rt_Modes :: modesConfig

record RuntimeHookConfig =
  hook_Path :: string
  hook_SkipModeDetection :: bool

record Config =
  cfg_DisableRequire :: bool
  cfg_SwarmResource :: string
  cfg_AcceptEnvvarUnprivileged :: bool
  cfg_AcceptDeviceListAsVolumeMounts :: bool
  cfg_SupportedDriverCapabilities :: string
  cfg_CLI :: ContainerCLIConfig
  cfg_CTK_Path :: string
  cfg_Runtime :: RuntimeConfig
  cfg_Hook :: RuntimeHookConfig
  cfg_Features :: features

subsection \<open>Defaults and validity (\<open>config.go\<close>)\<close>

definition FilePathOverrideEnvVar :: string where "FilePathOverrideEnvVar = ''NVIDIA_CTK_CONFIG_FILE_PATH''"
definition RelativeFilePath :: string where "RelativeFilePath = ''nvidia-container-runtime/config.toml''"
definition configRootOverride :: string where "configRootOverride = ''XDG_CONFIG_HOME''"
definition nvidiaCTKExecutable :: string where "nvidiaCTKExecutable = ''nvidia-ctk''"
definition nvidiaCTKDefaultFilePath :: string where "nvidiaCTKDefaultFilePath = ''/usr/bin/nvidia-ctk''"
definition nvidiaCDIHookDefaultFilePath :: string where "nvidiaCDIHookDefaultFilePath = ''/usr/bin/nvidia-cdi-hook''"
definition nvidiaContainerRuntimeHookDefaultPath :: string where
  "nvidiaContainerRuntimeHookDefaultPath = ''/usr/bin/nvidia-container-runtime-hook''"
definition NVIDIAContainerRuntimeHookExecutable :: string where
  "NVIDIAContainerRuntimeHookExecutable = ''nvidia-container-runtime-hook''"
definition NVIDIAContainerToolkitExecutable :: string where
  "NVIDIAContainerToolkitExecutable = ''nvidia-container-toolkit''"

definition GetConfigFilePath :: "(string \<Rightarrow> string) \<Rightarrow> string" where
  "GetConfigFilePath osGetenv =
     (if osGetenv FilePathOverrideEnvVar \<noteq> [] then osGetenv FilePathOverrideEnvVar
      else FJoin [if osGetenv configRootOverride \<noteq> [] then osGetenv configRootOverride else ''/etc'',
                  RelativeFilePath])"

text \<open>The field \<open>ID_LIKE\<close> of the contents of \<open>/etc/os-release\<close>; \<open>None\<close> if it cannot be opened.\<close>

definition getDistIDLike :: "string option \<Rightarrow> string list" where
  "getDistIDLike release =
     (case release of
        None \<Rightarrow> []
      | Some contents \<Rightarrow>
          (case find (\<lambda>line. HasPrefix line ''ID_LIKE='') (scan_lines contents) of
             None \<Rightarrow> []
           | Some line \<Rightarrow> Split (Trim (TrimPrefix line ''ID_LIKE='') [CHR 0x22]) '' ''))"

definition isSuse :: "string option \<Rightarrow> bool" where
  "isSuse release = list_ex (\<lambda>id. id = ''suse'' \<or> id = ''opensuse'') (getDistIDLike release)"

definition getUserGroup :: "string option \<Rightarrow> string" where
  "getUserGroup release = (if isSuse release then ''root:video'' else [])"

definition getLdConfigPath :: "(string \<Rightarrow> bool) \<Rightarrow> string" where
  "getLdConfigPath exists = ldconfigPath_normalize exists ''@/sbin/ldconfig''"

definition GetDefault :: "(string \<Rightarrow> bool) \<Rightarrow> string option \<Rightarrow> Config" where
  "GetDefault exists release =
     \<lparr>cfg_DisableRequire = False, cfg_SwarmResource = [], cfg_AcceptEnvvarUnprivileged = True,
      cfg_AcceptDeviceListAsVolumeMounts = False,
      cfg_SupportedDriverCapabilities = caps_String SupportedDriverCapabilities,
      cfg_CLI = \<lparr>cli_Root = [], cli_Path = [], cli_Environment = [], cli_Debug = [], cli_Ldcache = [],
        cli_LoadKmods = True, cli_NoPivot = False, cli_NoCgroups = False, cli_User = getUserGroup release,
        cli_Ldconfig = getLdConfigPath exists\<rparr>,
      cfg_CTK_Path = nvidiaCTKExecutable,
      cfg_Runtime = \<lparr>rt_DebugFilePath = ''/dev/null'', rt_LogLevel = ''info'', rt_Runtimes = [''runc'', ''crun''],
        rt_Mode = ''auto'',
        rt_Modes = \<lparr>modes_CSV = \<lparr>csv_MountSpecPath = ''/etc/nvidia-container-runtime/host-files-for-container.d'',
                                csv_CompatContainerRoot = []\<rparr>,
          modes_CDI = \<lparr>cdi_SpecDirs = [''/etc/cdi'', ''/var/run/cdi''], cdi_DefaultKind = ''nvidia.com/gpu'',
                       cdi_AnnotationPrefixes = [''cdi.k8s.io/'']\<rparr>,
          modes_JitCDI_NVCDIFeatureFlags = [],
          modes_Legacy_CUDACompatMode = defaultCUDACompatMode\<rparr>\<rparr>,
      cfg_Hook = \<lparr>hook_Path = NVIDIAContainerRuntimeHookExecutable, hook_SkipModeDetection = False\<rparr>,
      cfg_Features = no_features\<rparr>"

definition errInvalidConfig :: error where
  "errInvalidConfig = Errorf ''invalid config value''"

definition config_assertValid :: "Config \<Rightarrow> error option" where
  "config_assertValid c =
     (case ldconfigPath_assertValid (cli_Ldconfig (cfg_CLI c)) (IsEnabled (AllowLDConfigFromContainer (cfg_Features c))) of
        None \<Rightarrow> None
      | Some e \<Rightarrow> Some (Joined [e, errInvalidConfig]))"

subsection \<open>Executables\<close>

text \<open>The first of the located targets is used; the locator never answers with an empty list.\<close>

definition resolveWithDefault :: "locator \<Rightarrow> string \<Rightarrow> string \<Rightarrow> string result" where
  "resolveWithDefault locate path defaultPath =
     (if IsAbs path then Inr path
      else let path = (if path = [] then Base defaultPath else path) in
           case locate path of
             Inl e \<Rightarrow> Inr defaultPath
           | Inr [] \<Rightarrow> Inl (Panic ''index out of range'')
           | Inr (t # ts) \<Rightarrow> Inr t)"

definition ResolveNVIDIACTKPath :: "locator \<Rightarrow> string \<Rightarrow> string result" where
  "ResolveNVIDIACTKPath locate nvidiaCTKPath = resolveWithDefault locate nvidiaCTKPath nvidiaCTKDefaultFilePath"

definition ResolveNVIDIACDIHookPath :: "locator \<Rightarrow> string \<Rightarrow> string result" where
  "ResolveNVIDIACDIHookPath locate nvidiaCDIHookPath =
     (if Base nvidiaCDIHookPath = ''nvidia-ctk''
      then resolveWithDefault locate nvidiaCDIHookPath nvidiaCTKDefaultFilePath
      else resolveWithDefault locate nvidiaCDIHookPath nvidiaCDIHookDefaultFilePath)"

definition ResolveNVIDIAContainerRuntimeHookPath :: "locator \<Rightarrow> string \<Rightarrow> string result" where
  "ResolveNVIDIAContainerRuntimeHookPath locate path =
     resolveWithDefault locate path nvidiaContainerRuntimeHookDefaultPath"

subsection \<open>The TOML tree (\<open>toml.go\<close>)\<close>

text \<open>
  The tree is a value of the TOML library, whose operations are a parameter; values that are neither
  strings nor booleans are not told apart.  \<open>valuesSet\<close> tracks the keys that were set explicitly.
\<close>

datatype toml_value = TString string | TBool bool | TOther

record 't toml_lib =
  tl_Load :: "string \<Rightarrow> 't result"
  tl_Marshal :: "Config \<Rightarrow> string result"
  tl_Unmarshal :: "'t \<Rightarrow> Config \<Rightarrow> Config result"
  tl_Get :: "'t \<Rightarrow> string \<Rightarrow> toml_value option"
  tl_Set :: "'t \<Rightarrow> string \<Rightarrow> toml_value \<Rightarrow> 't"
  tl_SetCommented :: "'t \<Rightarrow> string \<Rightarrow> toml_value \<Rightarrow> 't"
  tl_Delete :: "'t \<Rightarrow> string \<Rightarrow> 't result"

record 't Toml =
  toml_tree :: 't
  valuesSet :: "string \<Rightarrow> bool"

definition fromTree :: "'t \<Rightarrow> 't Toml" where
  "fromTree t = \<lparr>toml_tree = t, valuesSet = (\<lambda>_. False)\<rparr>"

datatype file_contents = FileNotExist | FileError error | FileContents string

record toml_host =
  th_exists :: "string \<Rightarrow> bool"
  th_release :: "string option"
  th_open :: "string \<Rightarrow> file_contents"

abbreviation host_default :: "toml_host \<Rightarrow> Config" where
  "host_default h \<equiv> GetDefault (th_exists h) (th_release h)"

definition loadConfigTomlFrom :: "'t toml_lib \<Rightarrow> string \<Rightarrow> 't Toml result" where
  "loadConfigTomlFrom lib contents = bindR (tl_Load lib contents) (\<lambda>t. Inr (fromTree t))"

definition defaultToml :: "'t toml_lib \<Rightarrow> toml_host \<Rightarrow> 't Toml result" where
  "defaultToml lib h = bindR (tl_Marshal lib (host_default h)) (\<lambda>contents. loadConfigTomlFrom lib contents)"

record toml_options =
  opt_configFile :: string
  opt_required :: bool

definition WithConfigFile :: "string \<Rightarrow> toml_options \<Rightarrow> toml_options" where
  "WithConfigFile f opts = opts\<lparr>opt_configFile := f\<rparr>"

definition WithRequired :: "bool \<Rightarrow> toml_options \<Rightarrow> toml_options" where
  "WithRequired r opts = opts\<lparr>opt_required := r\<rparr>"

definition loadConfigToml :: "'t toml_lib \<Rightarrow> toml_host \<Rightarrow> toml_options \<Rightarrow> 't Toml result" where
  "loadConfigToml lib h opts =
     (if opt_configFile opts = [] then defaultToml lib h
      else if th_open h (opt_configFile opts) = FileNotExist \<and> opt_required opts
           then Inl (Errorf ''file does not exist'')
      else case th_open h (opt_configFile opts) of
             FileNotExist \<Rightarrow> defaultToml lib h
           | FileError e \<Rightarrow> Inl (Wrap ''failed to load specified config file'' e)
           | FileContents c \<Rightarrow> loadConfigTomlFrom lib c)"

definition toml_New :: "'t toml_lib \<Rightarrow> toml_host \<Rightarrow> (toml_options \<Rightarrow> toml_options) list \<Rightarrow> 't Toml result" where
  "toml_New lib h opts =
     loadConfigToml lib h (foldl (\<lambda>a f. f a) \<lparr>opt_configFile = [], opt_required = False\<rparr> opts)"

definition configNoOverrides :: "'t toml_lib \<Rightarrow> toml_host \<Rightarrow> 't Toml option \<Rightarrow> Config result" where
  "configNoOverrides lib h t =
     (case t of
        None \<Rightarrow> Inr (host_default h)
      | Some x \<Rightarrow> wrapR ''failed to unmarshal config'' (tl_Unmarshal lib (toml_tree x) (host_default h)))"

definition toml_Config :: "'t toml_lib \<Rightarrow> toml_host \<Rightarrow> 't Toml option \<Rightarrow> Config result" where
  "toml_Config lib h t =
     bindR (configNoOverrides lib h t) (\<lambda>cfg.
       case config_assertValid cfg of Some e \<Rightarrow> Inl e | None \<Rightarrow> Inr cfg)"

definition GetConfig :: "'t toml_lib \<Rightarrow> toml_host \<Rightarrow> (string \<Rightarrow> string) \<Rightarrow> Config result" where
  "GetConfig lib h osGetenv =
     bindR (toml_New lib h [WithConfigFile (GetConfigFilePath osGetenv)]) (\<lambda>t. toml_Config lib h (Some t))"

definition toml_Delete :: "'t toml_lib \<Rightarrow> 't Toml \<Rightarrow> string \<Rightarrow> 't Toml \<times> error option" where
  "toml_Delete lib t key =
     (let t = t\<lparr>valuesSet := (valuesSet t)(key := False)\<rparr> in
      case tl_Delete lib (toml_tree t) key of
        Inl e \<Rightarrow> (t, Some e)
      | Inr tree \<Rightarrow> (t\<lparr>toml_tree := tree\<rparr>, None))"

definition toml_Get :: "'t toml_lib \<Rightarrow> 't Toml \<Rightarrow> string \<Rightarrow> toml_value option" where
  "toml_Get lib t key = tl_Get lib (toml_tree t) key"

definition toml_Set :: "'t toml_lib \<Rightarrow> 't Toml \<Rightarrow> string \<Rightarrow> toml_value \<Rightarrow> 't Toml" where
  "toml_Set lib t key value =
     \<lparr>toml_tree = tl_Set lib (toml_tree t) key value, valuesSet = (valuesSet t)(key := True)\<rparr>"

definition shouldComment :: "bool \<Rightarrow> string \<Rightarrow> toml_value \<Rightarrow> toml_value option \<Rightarrow> bool" where
  "shouldComment suse key defaultValue setTo =
     (if key = ''nvidia-container-cli.user'' \<and> Some defaultValue = setTo \<and> suse then False
      else if key = ''nvidia-container-runtime.debug'' \<and> setTo = Some (TString ''/dev/null'') then True
      else setTo = None \<or> Some defaultValue = setTo \<or> setTo = Some (TString []))"

definition commentedDefaults :: "(string \<times> toml_value) list" where
  "commentedDefaults =
     [(''swarm-resource'', TString ''DOCKER_RESOURCE_GPU''),
      (''accept-nvidia-visible-devices-envvar-when-unprivileged'', TBool True),
      (''accept-nvidia-visible-devices-as-volume-mounts'', TBool False),
      (''nvidia-container-cli.root'', TString ''/run/nvidia/driver''),
      (''nvidia-container-cli.path'', TString ''/usr/bin/nvidia-container-cli''),
      (''nvidia-container-cli.debug'', TString ''/var/log/nvidia-container-toolkit.log''),
      (''nvidia-container-cli.ldcache'', TString ''/etc/ld.so.cache''),
      (''nvidia-container-cli.no-cgroups'', TBool False),
      (''nvidia-container-cli.user'', TString ''root:video''),
      (''nvidia-container-runtime.debug'', TString ''/var/log/nvidia-container-runtime.log'')]"

text \<open>The loop visits the defaults in the order of a Go map, that is in any order.\<close>

definition comment_default :: "'t toml_lib \<Rightarrow> bool \<Rightarrow> (string \<Rightarrow> bool) \<Rightarrow> 't \<Rightarrow> string \<times> toml_value \<Rightarrow> 't" where
  "comment_default lib suse vset tree kv =
     (case kv of (k, v) \<Rightarrow>
        if vset k then tree
        else if \<not> shouldComment suse k v (tl_Get lib tree k) then tree
        else tl_SetCommented lib tree k v)"

definition commentDefaults ::
  "'t toml_lib \<Rightarrow> bool \<Rightarrow> (string \<times> toml_value) list \<Rightarrow> 't Toml \<Rightarrow> 't Toml" where
  "commentDefaults lib suse order t =
     t\<lparr>toml_tree := foldl (comment_default lib suse (valuesSet t)) (toml_tree t) order\<rparr>"

subsection \<open>Valid configurations\<close>

lemma normalize_host_relative:
  "isHostRelative (ldconfigPath_normalize exists p) \<longleftrightarrow> isHostRelative p"
  by (simp add: ldconfigPath_normalize_def Let_def isHostRelative_def)

lemma config_assertValid_iff:
  "config_assertValid c = None \<longleftrightarrow>
     isHostRelative (cli_Ldconfig (cfg_CLI c)) \<or> AllowLDConfigFromContainer (cfg_Features c) = Some True"
  by (auto simp: config_assertValid_def ldconfigPath_assertValid_def IsEnabled_def split: option.splits)

lemma GetDefault_valid: "config_assertValid (GetDefault exists release) = None"
  by (simp add: config_assertValid_iff GetDefault_def getLdConfigPath_def normalize_host_relative)
     (simp add: isHostRelative_def)

text \<open>
  Whatever the configuration file, the TOML library and the host are: a configuration that
  \<open>GetConfig\<close> returns runs ldconfig from the host (its path starts with \<open>@\<close>) unless the feature
  \<open>allow-ldconfig-from-container\<close> is explicitly enabled.
\<close>

lemma config_ldconfig_from_host:
  "case GetConfig lib h osGetenv of
     Inl e \<Rightarrow> True
   | Inr cfg \<Rightarrow> isHostRelative (cli_Ldconfig (cfg_CLI cfg)) \<or> AllowLDConfigFromContainer (cfg_Features cfg) = Some True"
  by (auto simp: GetConfig_def toml_Config_def bindR_eq_Inr config_assertValid_iff [symmetric]
      split: sum.splits option.splits)

lemma get_comment_default:
  assumes "\<And>t k v k'. tl_Get lib (tl_SetCommented lib t k v) k' = (if k' = k then Some v else tl_Get lib t k')"
  shows "tl_Get lib (comment_default lib suse vset t (a, v)) k =
    (if k = a \<and> \<not> vset k \<and> shouldComment suse k v (tl_Get lib t k) then Some v else tl_Get lib t k)"
  by (auto simp: comment_default_def assms)

lemma foldl_comment_default_other:
  assumes "\<And>t k v k'. tl_Get lib (tl_SetCommented lib t k v) k' = (if k' = k then Some v else tl_Get lib t k')"
    and "k \<notin> fst ` set order"
  shows "tl_Get lib (foldl (comment_default lib suse vset) t order) k = tl_Get lib t k"
  using assms(2)
  by (induction order arbitrary: t) (auto simp: get_comment_default [OF assms(1)])

lemma foldl_comment_default:
  assumes get: "\<And>t k v k'. tl_Get lib (tl_SetCommented lib t k v) k' = (if k' = k then Some v else tl_Get lib t k')"
    and "distinct (map fst order)"
  shows "tl_Get lib (foldl (comment_default lib suse vset) t order) k =
    (case map_of order k of
       None \<Rightarrow> tl_Get lib t k
     | Some v \<Rightarrow> if \<not> vset k \<and> shouldComment suse k v (tl_Get lib t k) then Some v else tl_Get lib t k)"
  using assms(2)
proof (induction order arbitrary: t)
  case (Cons kv order)
  obtain a v where kv: "kv = (a, v)" by (cases kv)
  show ?case
  proof (cases "k = a")
    case True
    with Cons.prems kv have "k \<notin> fst ` set order" by auto
    from foldl_comment_default_other [OF get this] True kv show ?thesis
      by (simp add: get_comment_default [OF get])
  next
    case False
    with Cons kv show ?thesis by (simp add: get_comment_default [OF get] split: option.split)
  qed
qed simp

text \<open>
  In whatever order the defaults are visited, after commenting a key reads as its default exactly
  if it was not set explicitly and was absent, empty, equal to the default or (for the debug log)
  \<open>/dev/null\<close>, with the exception of the user on SUSE; every other key reads as before.
\<close>

lemma comment_defaults_values:
  assumes get: "\<And>t k v k'. tl_Get lib (tl_SetCommented lib t k v) k' = (if k' = k then Some v else tl_Get lib t k')"
    and order: "mset order = mset commentedDefaults"
  shows "toml_Get lib (commentDefaults lib suse order t) k =
    (case map_of commentedDefaults k of
       None \<Rightarrow> toml_Get lib t k
     | Some v \<Rightarrow> if \<not> valuesSet t k \<and> shouldComment suse k v (toml_Get lib t k) then Some v else toml_Get lib t k)"
proof -
  have dist: "distinct (map fst commentedDefaults)" by code_simp
  have "mset (map fst order) = mset (map fst commentedDefaults)" using order by simp
  with dist have d: "distinct (map fst order)" by (metis mset_eq_imp_distinct_iff)
  have "map_of order = map_of commentedDefaults"
    using order d dist by (metis map_of_inject_set mset_eq_setD)
  with foldl_comment_default [OF get d, of suse "valuesSet t" "toml_tree t" k] show ?thesis
    by (simp add: commentDefaults_def toml_Get_def split: option.split)
qed

definition map_toml :: "(string \<Rightarrow> toml_value option) toml_lib" where
  "map_toml = \<lparr>tl_Load = (\<lambda>_. Inr Map.empty), tl_Marshal = (\<lambda>_. Inr []), tl_Unmarshal = (\<lambda>_ c. Inr c),
     tl_Get = (\<lambda>t k. t k), tl_Set = (\<lambda>t k v. t(k \<mapsto> v)), tl_SetCommented = (\<lambda>t k v. t(k \<mapsto> v)),
     tl_Delete = (\<lambda>t k. Inr (t(k := None)))\<rparr>"

end
