(* ===== verification/Modifier.thy ===== *)
theory Modifier
  imports Transform OCI Requirements Tegra_CSV Discover_Graphics Edits Toolkit_Config
begin

section \<open>Modifiers of OCI specifications\<close>

text \<open>
  \<open>internal/modifier\<close> and \<open>internal/modifier/cdi\<close>: the modifiers that the runtime applies to the OCI
  specification of a container, and the factory that selects them by the runtime mode.  Parameters
  are the vendored CDI library (which applies container edits to a specification and resolves devices
  in a registry), the generation of CDI specifications by \<open>pkg/nvcdi\<close>, the CUDA library, and the host.
\<close>

subsection \<open>Lists of modifiers (\<open>list.go\<close>)\<close>

definition list_Modify :: "SpecModifier option list \<Rightarrow> SpecModifier" where
  "list_Modify ms s = foldR (\<lambda>s m. case m of None \<Rightarrow> Inr s | Some f \<Rightarrow> f s) s ms"

subsection \<open>The NVIDIA Container Runtime Hook (\<open>stable.go\<close>, \<open>hook_remover.go\<close>)\<close>

definition isNVIDIAContainerRuntimeHook :: "oci_hook \<Rightarrow> bool" where
  "isNVIDIAContainerRuntimeHook hook \<longleftrightarrow>
     Base (hk_Path hook) \<in> set [NVIDIAContainerRuntimeHookExecutable, NVIDIAContainerToolkitExecutable]"

definition runtime_hook :: "string \<Rightarrow> oci_hook" where
  "runtime_hook path = \<lparr>hk_Path = path, hk_Args = [Base path] @ [''prestart''], hk_Env = [], hk_Timeout = None\<rparr>"

definition stable_Modify :: "string \<Rightarrow> SpecModifier" where
  "stable_Modify hookPath spec =
     (if (case spec_Hooks spec of None \<Rightarrow> False | Some hs \<Rightarrow> list_ex isNVIDIAContainerRuntimeHook (Prestart hs))
      then Inr spec
      else let hs = (case spec_Hooks spec of None \<Rightarrow> empty_hooks | Some hs \<Rightarrow> hs)
           in Inr (spec\<lparr>spec_Hooks := Some (hs\<lparr>Prestart := Prestart hs @ [runtime_hook hookPath]\<rparr>)\<rparr>))"

definition hookRemover_Modify :: SpecModifier where
  "hookRemover_Modify spec =
     (case spec_Hooks spec of
        None \<Rightarrow> Inr spec
      | Some hs \<Rightarrow>
          if Prestart hs = [] then Inr spec
          else let newPrestart = filter (\<lambda>h. \<not> isNVIDIAContainerRuntimeHook h) (Prestart hs) in
               if length newPrestart \<noteq> length (Prestart hs)
               then Inr (spec\<lparr>spec_Hooks := Some (hs\<lparr>Prestart := newPrestart\<rparr>)\<rparr>)
               else Inr spec)"

subsection \<open>Modifiers from CDI specifications (\<open>modifier/cdi\<close>)\<close>

text \<open>
  The vendored CDI library: the edits of a device or of a specification applied to an OCI
  specification, the construction of a registry for a list of directories, and the injection of
  devices with it.
\<close>

record cdi_lib =
  cl_IsOverrideApplied :: bool
  cl_ApplyEdits :: "ContainerEdits \<Rightarrow> oci_spec \<Rightarrow> oci_spec result"
  cl_NewCache :: "string list \<Rightarrow> unit result"
  cl_InjectDevices :: "string list \<Rightarrow> string list \<Rightarrow> oci_spec \<Rightarrow> oci_spec result"

text \<open>
  With the override of the device information that tests apply (\<open>devices.IsOverrideApplied\<close>), every
  device node becomes a character device.
\<close>

definition enrich_node :: "DeviceNode \<Rightarrow> DeviceNode" where
  "enrich_node dn =
     (let dn = dn\<lparr>dn_Type := ''c''\<rparr> in if dn_Major dn = 0 then dn\<lparr>dn_Major := 99\<rparr> else dn)"

definition enrichDevice :: "cdi_lib \<Rightarrow> Device \<Rightarrow> Device result" where
  "enrichDevice lib device =
     (if \<not> cl_IsOverrideApplied lib then Inr device
      else bindR (mapR (\<lambda>dn. bindR (deref dn) (\<lambda>n. Inr (Some (enrich_node n)))) (DeviceNodes (dev_Edits device))) (\<lambda>dns.
             Inr (device\<lparr>dev_Edits := (dev_Edits device)\<lparr>DeviceNodes := dns\<rparr>\<rparr>)))"

definition fromCDISpec_Modify :: "cdi_lib \<Rightarrow> CDISpec \<Rightarrow> SpecModifier" where
  "fromCDISpec_Modify lib cdiSpec spec =
     bindR (foldR (\<lambda>s device.
                bindR (enrichDevice lib device) (\<lambda>device.
                  wrapR (''failed to apply edits for device '' @ cdi_Kind cdiSpec @ ''='' @ dev_Name device)
                    (cl_ApplyEdits lib (dev_Edits device) s))) spec (cdi_Devices cdiSpec)) (\<lambda>s.
       cl_ApplyEdits lib (cdi_Edits cdiSpec) s)"

definition fromRegistry_Modify :: "cdi_lib \<Rightarrow> string list \<Rightarrow> string list \<Rightarrow> SpecModifier" where
  "fromRegistry_Modify lib specDirs devices spec =
     wrapR ''failed to inject CDI devices'' (cl_InjectDevices lib specDirs devices spec)"

record cdi_builder =
  cb_specDirs :: "string list"
  cb_devices :: "string list"
  cb_cdiSpec :: "CDISpec option"

definition WithSpecDirs :: "string list \<Rightarrow> cdi_builder \<Rightarrow> cdi_builder" where
  "WithSpecDirs ds b = b\<lparr>cb_specDirs := ds\<rparr>"

definition WithDevices :: "string list \<Rightarrow> cdi_builder \<Rightarrow> cdi_builder" where
  "WithDevices ds b = b\<lparr>cb_devices := ds\<rparr>"

definition WithSpec :: "CDISpec option \<Rightarrow> cdi_builder \<Rightarrow> cdi_builder" where
  "WithSpec s b = b\<lparr>cb_cdiSpec := s\<rparr>"

definition cdi_build :: "cdi_lib \<Rightarrow> cdi_builder \<Rightarrow> SpecModifier option result" where
  "cdi_build lib m =
     (if length (cb_devices m) = 0 \<and> cb_cdiSpec m = None then Inr None
      else case cb_cdiSpec m of
             Some s \<Rightarrow> Inr (Some (fromCDISpec_Modify lib s))
           | None \<Rightarrow>
               bindR (wrapR ''failed to create CDI registry'' (cl_NewCache lib (cb_specDirs m))) (\<lambda>_.
                 Inr (Some (fromRegistry_Modify lib (cb_specDirs m) (cb_devices m)))))"

definition cdi_New :: "cdi_lib \<Rightarrow> (cdi_builder \<Rightarrow> cdi_builder) list \<Rightarrow> SpecModifier option result" where
  "cdi_New lib opts =
     cdi_build lib (foldl (\<lambda>b opt. opt b) \<lparr>cb_specDirs = [], cb_devices = [], cb_cdiSpec = None\<rparr> opts)"

subsection \<open>Requested devices (\<open>cdi.go\<close>, \<open>csv.go\<close>)\<close>

definition automaticDeviceVendor :: string where "automaticDeviceVendor = ''runtime.nvidia.com''"
definition automaticDeviceClass :: string where "automaticDeviceClass = ''gpu''"
definition automaticDeviceKind :: string where
  "automaticDeviceKind = automaticDeviceVendor @ ''/'' @ automaticDeviceClass"
definition automaticDevicePrefix :: string where "automaticDevicePrefix = automaticDeviceKind @ ''=''"

definition cdi_device_name :: "string \<Rightarrow> string \<Rightarrow> string result" where
  "cdi_device_name defaultKind name =
     (let name = (if name = [] then ''none'' else name) in
      bindR (IsQualifiedName name) (\<lambda>q. Inr (if q then name else defaultKind @ ''='' @ name)))"

definition cdiDeviceRequestor_DeviceRequests :: "CUDA option \<Rightarrow> string \<Rightarrow> string list result" where
  "cdiDeviceRequestor_DeviceRequests img defaultKind =
     (case img of
        None \<Rightarrow> Inl nil_deref
      | Some i \<Rightarrow> bindR (VisibleDevices i) (mapR (cdi_device_name defaultKind)))"

definition gatedDevices_DeviceRequests :: "CUDA \<Rightarrow> string list" where
  "gatedDevices_DeviceRequests i =
     (if Getenv i ''NVIDIA_GDS'' = ''enabled'' then [''mode=gds''] else []) @
     (if Getenv i ''NVIDIA_MOFED'' = ''enabled'' then [''mode=mofed''] else []) @
     (if Getenv i ''NVIDIA_GDRCOPY'' = ''enabled'' then [''mode=gdrcopy''] else []) @
     (if Getenv i ''NVIDIA_NVSWITCH'' = ''enabled'' then [''mode=nvswitch''] else [])"

definition imexDevices_DeviceRequests :: "CUDA \<Rightarrow> string list" where
  "imexDevices_DeviceRequests i = map (\<lambda>channelID. ''mode=imex,id='' @ channelID) (ImexChannelRequests i)"

definition csvDevices_DeviceRequests :: "CUDA \<Rightarrow> string list result" where
  "csvDevices_DeviceRequests i =
     bindR (VisibleDevices i) (\<lambda>ds. Inr (map (\<lambda>deviceID. ''mode=csv,id='' @ deviceID) ds))"

definition deduplicated_DeviceRequests :: "string list \<Rightarrow> string list" where
  "deduplicated_DeviceRequests devices = unique_by id devices"

definition newCDIDeviceRequestor_DeviceRequests :: "CUDA option \<Rightarrow> string \<Rightarrow> string list result" where
  "newCDIDeviceRequestor_DeviceRequests img defaultKind =
     bindR (cdiDeviceRequestor_DeviceRequests img defaultKind) (\<lambda>ds. Inr (deduplicated_DeviceRequests ds))"

definition filterAutomaticDevices :: "string list \<Rightarrow> string list" where
  "filterAutomaticDevices devices = filter (\<lambda>device. HasPrefix device automaticDevicePrefix) devices"

definition getModeIdentifier :: "string \<Rightarrow> string \<times> string" where
  "getModeIdentifier device =
     (if \<not> HasPrefix device ''mode='' then (''auto'', TrimPrefix device automaticDevicePrefix)
      else let parts = SplitN2 device '','';
               mode = TrimPrefix (parts ! 0) ''mode=''
           in if length parts = 2 then (mode, TrimPrefix (parts ! 1) ''id='') else (mode, []))"

record cdiModeIdentifiers =
  mi_modes :: "string list"
  mi_idsByMode :: "string \<Rightarrow> string list"
  mi_deviceClassByMode :: "string \<Rightarrow> string"

definition mode_step ::
  "string list \<times> (string \<Rightarrow> string list) \<times> (string \<Rightarrow> bool) \<Rightarrow> string
     \<Rightarrow> string list \<times> (string \<Rightarrow> string list) \<times> (string \<Rightarrow> bool)" where
  "mode_step st device =
     (case st of (uniqueModes, perModeIdentifiers, seen) \<Rightarrow>
      case getModeIdentifier device of (mode, ident) \<Rightarrow>
        (if seen mode then uniqueModes else uniqueModes @ [mode],
         if ident \<noteq> [] then perModeIdentifiers(mode := perModeIdentifiers mode @ [ident]) else perModeIdentifiers,
         if seen mode then seen else seen(mode := True)))"

definition cdiModeIdentfiersFromDevices :: "string list \<Rightarrow> cdiModeIdentifiers" where
  "cdiModeIdentfiersFromDevices devices =
     (case foldl mode_step ([], (\<lambda>_. []), (\<lambda>_. False)) devices of
        (uniqueModes, perModeIdentifiers, seen) \<Rightarrow>
          \<lparr>mi_modes = uniqueModes, mi_idsByMode = perModeIdentifiers,
           mi_deviceClassByMode = (\<lambda>_. [])(''auto'' := automaticDeviceClass)\<rparr>)"

subsection \<open>The modifier factory (\<open>factory.go\<close>, \<open>mode.go\<close>, \<open>discover.go\<close>, \<open>gated.go\<close>, \<open>graphics.go\<close>)\<close>

text \<open>
  The environment of the factory.  \<open>nvcdi\<close> is the library of \<open>pkg/nvcdi\<close> for a mode, a class and a list
  of CSV files: its construction may fail, and it then generates a CDI specification for identifiers.
\<close>

record modifier_env =
  me_cdi :: cdi_lib
  me_nvcdi :: "string \<Rightarrow> string \<Rightarrow> string list \<Rightarrow> (string list \<Rightarrow> CDISpec result) result"
  me_readDir :: "string \<Rightarrow> dir_listing"
  me_cudaVersion :: "string result"
  me_computeCapability :: "string result"
  me_deviceFromPath :: device_from_path
  me_host :: host
  me_charLocator :: locator
  me_fileLocator :: locator
  me_goarch :: string

record factory =
  f_cfg :: Config
  f_driver :: "driver_root option"
  f_hookCreator :: HookCreator
  f_image :: "CUDA option"
  f_runtimeMode :: string

definition LegacyRuntimeMode :: string where "LegacyRuntimeMode = ''legacy''"
definition CSVRuntimeMode :: string where "CSVRuntimeMode = ''csv''"
definition CDIRuntimeMode :: string where "CDIRuntimeMode = ''cdi''"
definition JitCDIRuntimeMode :: string where "JitCDIRuntimeMode = ''jit-cdi''"

definition f_editsFactory :: "factory \<Rightarrow> edits_factory" where
  "f_editsFactory f =
     NewFactory [WithNoAdditionalGIDsForDeviceNodes (IsEnabled (NoAdditionalGIDsForDeviceNodes (cfg_Features (f_cfg f))))]"

definition validate :: "factory \<Rightarrow> error option" where
  "validate f =
     (if f_driver f = None then Some (Errorf ''a driver must be specified'')
      else if f_runtimeMode f = [] then Some (Errorf ''a mode must be specified'')
      else if f_runtimeMode f \<in> set [''legacy'', ''csv'', ''jit-cdi'', ''cdi''] then None
      else Some (Errorf (''invalid mode '' @ f_runtimeMode f)))"

definition discoverModifier_Modify :: "modifier_env \<Rightarrow> factory \<Rightarrow> discover \<Rightarrow> SpecModifier" where
  "discoverModifier_Modify me f d spec =
     bindR (wrapR ''failed to get required container edits''
              (FromDiscoverer (me_deviceFromPath me) (f_editsFactory f) d)) (\<lambda>specEdits.
       cl_ApplyEdits (me_cdi me) specEdits spec)"

text \<open>
  The loop of \<open>newAutomaticCDISpecModifier\<close>: one modifier per mode, each for the specification that is
  generated for the identifiers of the mode.
\<close>

definition mode_modifier :: "modifier_env \<Rightarrow> string list \<Rightarrow> cdiModeIdentifiers \<Rightarrow> string \<Rightarrow> SpecModifier option result" where
  "mode_modifier me csvFiles ids mode =
     bindR (wrapR (''failed to construct CDI library for mode '' @ mode)
              (me_nvcdi me mode (mi_deviceClassByMode ids mode) csvFiles)) (\<lambda>getSpec.
     bindR (wrapR (''failed to generate CDI spec for mode '' @ mode) (getSpec (mi_idsByMode ids mode))) (\<lambda>spec.
       wrapR (''failed to construct CDI modifier for mode '' @ mode) (cdi_New (me_cdi me) [WithSpec (Some spec)])))"

definition newAutomaticCDISpecModifier :: "modifier_env \<Rightarrow> factory \<Rightarrow> string list \<Rightarrow> SpecModifier option result" where
  "newAutomaticCDISpecModifier me f devices =
     (let files = (case GetFileList (me_readDir me) (csv_MountSpecPath (modes_CSV (rt_Modes (cfg_Runtime (f_cfg f))))) of
                     Inl e \<Rightarrow> [] | Inr fs \<Rightarrow> fs) in
      bindR (deref (f_image f)) (\<lambda>img.
        let csvFiles = (if Getenv img EnvVarNvidiaRequireJetpack \<noteq> ''csv-mounts=all'' then BaseFilesOnly files else files);
            ids = cdiModeIdentfiersFromDevices devices
        in bindR (if mi_modes ids \<noteq> [] then bindR (deref (f_driver f)) (\<lambda>_. Inr ()) else Inr ()) (\<lambda>_.
           bindR (mapR (mode_modifier me csvFiles ids) (mi_modes ids)) (\<lambda>modifiers.
             Inr (Some (SpecModifiers_Modify modifiers))))))"

definition newJitCDIModifier :: "modifier_env \<Rightarrow> factory \<Rightarrow> string list \<Rightarrow> SpecModifier option result" where
  "newJitCDIModifier me f automaticDevices =
     newAutomaticCDISpecModifier me f
       (case f_image f of
          None \<Rightarrow> automaticDevices
        | Some i \<Rightarrow> automaticDevices @ deduplicated_DeviceRequests (gatedDevices_DeviceRequests i) @
                   deduplicated_DeviceRequests (imexDevices_DeviceRequests i))"

definition newCDIModifier :: "modifier_env \<Rightarrow> factory \<Rightarrow> bool \<Rightarrow> SpecModifier option result" where
  "newCDIModifier me f isJitCDI =
     (let cdi = modes_CDI (rt_Modes (cfg_Runtime (f_cfg f)));
          defaultKind = (if isJitCDI then automaticDeviceKind else cdi_DefaultKind cdi)
      in bindR (newCDIDeviceRequestor_DeviceRequests (f_image f) defaultKind) (\<lambda>devices.
           if length devices = 0 then Inr None
           else let automaticDevices = filterAutomaticDevices devices in
             if length automaticDevices \<noteq> length devices \<and> length automaticDevices > 0
             then Inl (Errorf ''requesting a CDI device with vendor 'runtime.nvidia.com' is not supported when requesting other CDI devices'')
             else if length automaticDevices > 0
             then wrapR ''failed to create the automatic CDI modifier'' (newJitCDIModifier me f automaticDevices)
             else cdi_New (me_cdi me) [WithDevices devices, WithSpecDirs (cdi_SpecDirs cdi)]))"

definition checkRequirements :: "modifier_env \<Rightarrow> CUDA option \<Rightarrow> error option" where
  "checkRequirements me img =
     (case img of
        None \<Rightarrow> None
      | Some i \<Rightarrow>
          if HasDisableRequire i then None
          else (case GetRequirements i of
                  Inl e \<Rightarrow> Some (Wrap ''failed to get image requirements'' e)
                | Inr imageRequirements \<Rightarrow>
                    let r = requirements_New imageRequirements;
                        r = (case me_cudaVersion me of Inl e \<Rightarrow> r | Inr v \<Rightarrow> AddVersionProperty r CUDA_prop v);
                        r = (case me_computeCapability me of Inl e \<Rightarrow> r | Inr v \<Rightarrow> AddVersionProperty r ARCH_prop v)
                    in requirements_Assert r))"

definition newCSVModifier :: "modifier_env \<Rightarrow> factory \<Rightarrow> SpecModifier option result" where
  "newCSVModifier me f =
     bindR (deref (f_image f)) (\<lambda>img.
     bindR (csvDevices_DeviceRequests img) (\<lambda>requests.
       let devices = deduplicated_DeviceRequests requests in
       if length devices = 0 then Inr None
       else case checkRequirements me (f_image f) of
              Some e \<Rightarrow> Inl (Wrap ''requirements not met'' e)
            | None \<Rightarrow> newAutomaticCDISpecModifier me f devices))"

definition newModeModifier :: "modifier_env \<Rightarrow> factory \<Rightarrow> SpecModifier option result" where
  "newModeModifier me f =
     (if f_runtimeMode f = LegacyRuntimeMode then Inr (Some (stable_Modify (hook_Path (cfg_Hook (f_cfg f)))))
      else if f_runtimeMode f = CSVRuntimeMode then newCSVModifier me f
      else if f_runtimeMode f = CDIRuntimeMode \<or> f_runtimeMode f = JitCDIRuntimeMode
           then newCDIModifier me f (f_runtimeMode f = JitCDIRuntimeMode)
      else Inl (Errorf (''invalid runtime mode: '' @ f_runtimeMode f)))"

definition supportedModifierTypes :: "string \<Rightarrow> string list" where
  "supportedModifierTypes mode =
     (if mode = CDIRuntimeMode \<or> mode = JitCDIRuntimeMode then [''nvidia-hook-remover'', ''mode'']
      else if mode = CSVRuntimeMode then [''nvidia-hook-remover'', ''feature-gated'', ''mode'']
      else [''feature-gated'', ''graphics'', ''mode''])"

definition requiresGraphicsModifier :: "CUDA \<Rightarrow> string list result" where
  "requiresGraphicsModifier i =
     bindR (VisibleDevices i) (\<lambda>devices.
       if length devices = 0 then Inr []
       else if \<not> caps_Any (GetDriverCapabilities i) [''graphics'', ''display''] then Inr []
       else Inr devices)"

definition newGraphicsModifier :: "modifier_env \<Rightarrow> factory \<Rightarrow> SpecModifier option result" where
  "newGraphicsModifier me f =
     bindR (deref (f_image f)) (\<lambda>img.
     bindR (requiresGraphicsModifier img) (\<lambda>devices.
       if length devices = 0 then Inr None
       else bindR (deref (f_driver f)) (\<lambda>driver.
            bindR (wrapR ''failed to create mounts discoverer''
                     (NewGraphicsMountsDiscoverer (me_goarch me) driver (f_hookCreator f))) (\<lambda>mounts.
            bindR (wrapR ''failed to construct discoverer''
                     (NewDRMNodesDiscoverer (me_host me) (me_charLocator me) (me_fileLocator me)
                        (NewVisibleDevices devices) (dr_Root driver) (f_hookCreator f))) (\<lambda>drmNodes.
              Inr (Some (discoverModifier_Modify me f (discover_Merge [Some drmNodes, Some mounts]))))))))"

definition getCudaCompatModeModifier :: "modifier_env \<Rightarrow> factory \<Rightarrow> SpecModifier option result" where
  "getCudaCompatModeModifier me f =
     (let mode = rt_Mode (cfg_Runtime (f_cfg f)) in
      if mode = ''csv'' then Inr None
      else if mode = ''legacy'' \<and> modes_Legacy_CUDACompatMode (rt_Modes (cfg_Runtime (f_cfg f))) \<noteq> CUDACompatModeHook
           then Inr None
      else bindR (deref (f_driver f)) (\<lambda>driver.
           bindR (wrapR ''failed to get driver version'' (dr_Version driver)) (\<lambda>version.
             let compat = NewCUDACompatHookDiscoverer (f_hookCreator f)
                   (Some \<lparr>co_HostDriverVersion = version, co_HostCUDAVersion = [], co_CUDACompatContainerRoot = []\<rparr>)
             in if mode \<noteq> ''legacy'' then Inr (Some (discoverModifier_Modify me f compat))
                else Inr (Some (discoverModifier_Modify me f
                       (discover_Merge [Some compat, Some (NewLDCacheUpdateHook dsc_None (f_hookCreator f))]))))))"

definition newFeatureGatedModifier :: "modifier_env \<Rightarrow> factory \<Rightarrow> SpecModifier option result" where
  "newFeatureGatedModifier me f =
     bindR (deref (f_image f)) (\<lambda>img.
     bindR (VisibleDevices img) (\<lambda>devices.
       if length devices = 0 then Inr None
       else let gated = deduplicated_DeviceRequests (gatedDevices_DeviceRequests img) in
         bindR (if length gated \<noteq> 0
                then bindR (newAutomaticCDISpecModifier me f gated) (\<lambda>m. Inr [m])
                else Inr []) (\<lambda>first.
         bindR (if \<not> IsEnabled (DisableCUDACompatLibHook (cfg_Features (f_cfg f)))
                then bindR (wrapR ''failed to construct CUDA Compat discoverer'' (getCudaCompatModeModifier me f)) (\<lambda>m. Inr [m])
                else Inr []) (\<lambda>second.
           Inr (Some (list_Modify (first @ second)))))))"

fun factory_loop :: "modifier_env \<Rightarrow> factory \<Rightarrow> string list \<Rightarrow> SpecModifier option list result" where
  "factory_loop me f [] = Inr []"
| "factory_loop me f (t # ts) =
     bindR (if t = ''mode'' then bindR (newModeModifier me f) (\<lambda>m. Inr [m])
            else if t = ''nvidia-hook-remover'' then Inr [Some hookRemover_Modify]
            else if t = ''graphics'' then bindR (newGraphicsModifier me f) (\<lambda>m. Inr [m])
            else if t = ''feature-gated'' then bindR (newFeatureGatedModifier me f) (\<lambda>m. Inr [m])
            else Inr []) (\<lambda>ms.
     bindR (factory_loop me f ts) (\<lambda>rest. Inr (ms @ rest)))"

definition factory_create :: "modifier_env \<Rightarrow> factory \<Rightarrow> SpecModifier result" where
  "factory_create me f =
     bindR (factory_loop me f (supportedModifierTypes (f_runtimeMode f))) (\<lambda>ms. Inr (list_Modify ms))"

definition factory_Modify :: "modifier_env \<Rightarrow> factory \<Rightarrow> SpecModifier" where
  "factory_Modify me f s = bindR (factory_create me f) (\<lambda>m. m s)"

definition modifier_New :: "modifier_env \<Rightarrow> factory \<Rightarrow> SpecModifier result" where
  "modifier_New me f = (case validate f of Some e \<Rightarrow> Inl e | None \<Rightarrow> Inr (factory_Modify me f))"

subsection \<open>The NVIDIA Container Runtime Hook is inserted once and removed completely\<close>

definition prestart_hooks :: "oci_spec \<Rightarrow> oci_hook list" where
  "prestart_hooks s = (case spec_Hooks s of None \<Rightarrow> [] | Some hs \<Rightarrow> Prestart hs)"

abbreviation has_runtime_hook :: "oci_spec \<Rightarrow> bool" where
  "has_runtime_hook s \<equiv> list_ex isNVIDIAContainerRuntimeHook (prestart_hooks s)"

lemma stable_Modify_total:
  "stable_Modify p s =
     Inr (if has_runtime_hook s then s
          else s\<lparr>spec_Hooks := Some ((case spec_Hooks s of None \<Rightarrow> empty_hooks | Some hs \<Rightarrow> hs)
                                      \<lparr>Prestart := prestart_hooks s @ [runtime_hook p]\<rparr>)\<rparr>)"
  by (auto simp: stable_Modify_def prestart_hooks_def empty_hooks_def split: option.splits)

lemma prestart_stable:
  "stable_Modify p s = Inr s' \<Longrightarrow>
     prestart_hooks s' = (if has_runtime_hook s then prestart_hooks s else prestart_hooks s @ [runtime_hook p])"
  by (auto simp: stable_Modify_total prestart_hooks_def)

lemma filter_length_eq: "length (filter P xs) = length xs \<longleftrightarrow> filter P xs = xs"
  by (metis filter_id_conv length_filter_less linorder_neq_iff)

lemma hookRemover_Modify_total: "\<exists>s'. hookRemover_Modify s = Inr s'"
  by (simp add: hookRemover_Modify_def Let_def split: option.splits)

lemma prestart_remover:
  assumes "hookRemover_Modify s = Inr s'"
  shows "prestart_hooks s' = filter (\<lambda>h. \<not> isNVIDIAContainerRuntimeHook h) (prestart_hooks s)"
  using assms
  by (auto simp: hookRemover_Modify_def prestart_hooks_def Let_def filter_length_eq split: option.splits if_splits)

lemma hookRemover_without_hook: "\<not> has_runtime_hook s \<Longrightarrow> hookRemover_Modify s = Inr s"
  by (auto simp: hookRemover_Modify_def prestart_hooks_def Let_def list_ex_iff filter_length_eq
      split: option.splits)



subsection \<open>Identifiers per mode\<close>

text \<open>The modes and the identifiers of a mode, read off the requests one by one.\<close>

definition request_modes :: "string list \<Rightarrow> string list" where
  "request_modes devices = map (\<lambda>d. fst (getModeIdentifier d)) devices"

definition request_ids :: "string \<Rightarrow> string list \<Rightarrow> string list" where
  "request_ids mode devices =
     map (\<lambda>d. snd (getModeIdentifier d))
       (filter (\<lambda>d. fst (getModeIdentifier d) = mode \<and> snd (getModeIdentifier d) \<noteq> []) devices)"

lemma mode_step_fold:
  "foldl mode_step (ms, ids, seen) devices =
     (ms @ seen_loop id seen (request_modes devices), \<lambda>m. ids m @ request_ids m devices,
      \<lambda>m. seen m \<or> m \<in> set (request_modes devices))"
proof (induction devices arbitrary: ms ids seen)
  case Nil
  then show ?case by (simp add: request_modes_def request_ids_def)
next
  case (Cons d ds)
  obtain mode ident where mi: "getModeIdentifier d = (mode, ident)" by fastforce
  let ?ids = "if ident \<noteq> [] then ids(mode := ids mode @ [ident]) else ids"
  have step: "mode_step (ms, ids, seen) d =
      (if seen mode then ms else ms @ [mode], ?ids, if seen mode then seen else seen(mode := True))"
    by (simp add: mode_step_def mi)
  have ids: "?ids m @ request_ids m ds = ids m @ request_ids m (d # ds)" for m
    by (simp add: request_ids_def mi)
  show ?case
    unfolding foldl_Cons step Cons.IH
    by (auto simp: ids request_modes_def mi id_def)
qed

text \<open>
  The grouping of device requests by mode: the modes are those of the requests, each once and in
  order of their first request; the identifiers of a mode are exactly the non-empty identifiers of its
  requests, in their order and with repetitions; only \<open>auto\<close> has a device class.
\<close>

lemma requests_grouped_by_mode:
  "cdiModeIdentfiersFromDevices devices =
     \<lparr>mi_modes = unique_by id (request_modes devices),
      mi_idsByMode = (\<lambda>m. request_ids m devices),
      mi_deviceClassByMode = (\<lambda>m. if m = ''auto'' then ''gpu'' else [])\<rparr>"
  by (auto simp: cdiModeIdentfiersFromDevices_def mode_step_fold automaticDeviceClass_def)

subsection \<open>Requests select no mode\<close>

lemma getModeIdentifier_mode:
  assumes "CHR '','' \<notin> set m"
  shows "getModeIdentifier (''mode='' @ m @ '',id='' @ x) = (m, x)" "getModeIdentifier (''mode='' @ m) = (m, [])"
proof -
  have "SplitN2 (''mode='' @ m @ '',id='' @ x) '','' = [''mode='' @ m, ''id='' @ x]"
    using assms SplitN2_char_append [of "CHR '',''" "''mode='' @ m" "''id='' @ x"] by simp
  then show "getModeIdentifier (''mode='' @ m @ '',id='' @ x) = (m, x)"
    using TrimPrefix_append [of "''mode=''" m] TrimPrefix_append [of "''id=''" x]
    by (simp add: getModeIdentifier_def del: SplitN.simps)
  have "SplitN2 (''mode='' @ m) '','' = [''mode='' @ m]"
    using assms by (intro SplitN2_char_notin) simp
  then show "getModeIdentifier (''mode='' @ m) = (m, [])"
    using TrimPrefix_append [of "''mode=''" m]
    by (simp add: getModeIdentifier_def del: SplitN.simps)
qed

lemma getModeIdentifier_auto:
  "\<not> HasPrefix d ''mode='' \<Longrightarrow> getModeIdentifier d = (''auto'', TrimPrefix d automaticDevicePrefix)"
  by (simp add: getModeIdentifier_def)

lemma automatic_not_mode: "HasPrefix d automaticDevicePrefix \<Longrightarrow> \<not> HasPrefix d ''mode=''"
  by (cases d) (auto simp: automaticDevicePrefix_def automaticDeviceKind_def automaticDeviceVendor_def)

lemma requestor_Inr:
  "newCDIDeviceRequestor_DeviceRequests img kind = Inr ds \<longleftrightarrow>
     (\<exists>i names devices. img = Some i \<and> VisibleDevices i = Inr names \<and>
        list_all2 (\<lambda>n d. cdi_device_name kind n = Inr d) names devices \<and> ds = unique_by id devices)"
  by (auto simp: newCDIDeviceRequestor_DeviceRequests_def cdiDeviceRequestor_DeviceRequests_def
      deduplicated_DeviceRequests_def bindR_eq_Inr mapR_Inr_iff split: option.splits)

definition gated_modes :: "string list" where
  "gated_modes = [''gds'', ''mofed'', ''gdrcopy'', ''nvswitch'']"

lemma gated_request_modes:
  "d \<in> set (gatedDevices_DeviceRequests i) \<Longrightarrow> \<exists>m \<in> set gated_modes. getModeIdentifier d = (m, [])"
  using getModeIdentifier_mode(2) [of "''gds''"] getModeIdentifier_mode(2) [of "''mofed''"]
    getModeIdentifier_mode(2) [of "''gdrcopy''"] getModeIdentifier_mode(2) [of "''nvswitch''"]
  by (auto simp: gatedDevices_DeviceRequests_def gated_modes_def split: if_splits)

lemma imex_request_modes:
  "d \<in> set (imexDevices_DeviceRequests i) \<Longrightarrow>
     \<exists>c \<in> set (ImexChannelRequests i). getModeIdentifier d = (''imex'', c)"
  using getModeIdentifier_mode(1) [of "''imex''"] by (auto simp: imexDevices_DeviceRequests_def)

text \<open>The requests that \<open>newCDIModifier\<close> hands to the generation of CDI specifications.\<close>

definition jit_requests :: "CUDA \<Rightarrow> string list \<Rightarrow> string list" where
  "jit_requests i devices =
     filterAutomaticDevices devices @ deduplicated_DeviceRequests (gatedDevices_DeviceRequests i) @
     deduplicated_DeviceRequests (imexDevices_DeviceRequests i)"

lemma newJitCDIModifier_requests:
  "f_image f = Some i \<Longrightarrow>
     newJitCDIModifier me f (filterAutomaticDevices devices) = newAutomaticCDISpecModifier me f (jit_requests i devices)"
  by (simp add: newJitCDIModifier_def jit_requests_def)

text \<open>
  (C14) What a container requests cannot choose how CDI specifications are generated.  Whatever device
  names an image asks for, the automatic devices among them all belong to the mode \<open>auto\<close>; other
  modes come only from the four feature variables (without identifiers) and from IMEX channels (with
  the channels as identifiers); and in CSV mode every request, commas and all, is an identifier of
  the mode \<open>csv\<close>.
\<close>

theorem requests_select_no_mode:
  shows "set (request_modes (filterAutomaticDevices devices)) \<subseteq> {''auto''}
    \<and> set (request_modes (jit_requests i devices)) \<subseteq> {''auto'', ''gds'', ''mofed'', ''gdrcopy'', ''nvswitch'', ''imex''}
    \<and> set (request_ids ''imex'' (jit_requests i devices)) \<subseteq> set (ImexChannelRequests i)
    \<and> map getModeIdentifier (map (\<lambda>d. ''mode=csv,id='' @ d) names) = map (Pair ''csv'') names"
proof (intro conjI)
  have auto: "fst (getModeIdentifier d) = ''auto''" if "d \<in> set (filterAutomaticDevices devices)" for d
    using that automatic_not_mode by (auto simp: filterAutomaticDevices_def getModeIdentifier_auto)
  then show "set (request_modes (filterAutomaticDevices devices)) \<subseteq> {''auto''}"
    by (auto simp: request_modes_def)
  have cases: "fst (getModeIdentifier d) = ''auto'' \<or> fst (getModeIdentifier d) \<in> set gated_modes \<or>
      (\<exists>c \<in> set (ImexChannelRequests i). getModeIdentifier d = (''imex'', c))" if "d \<in> set (jit_requests i devices)" for d
    using that auto gated_request_modes [of d i] imex_request_modes [of d i]
    by (auto simp: jit_requests_def deduplicated_DeviceRequests_def seen_simps)
  show "set (request_modes (jit_requests i devices)) \<subseteq> {''auto'', ''gds'', ''mofed'', ''gdrcopy'', ''nvswitch'', ''imex''}"
    using cases by (fastforce simp: request_modes_def gated_modes_def)
  show "set (request_ids ''imex'' (jit_requests i devices)) \<subseteq> set (ImexChannelRequests i)"
    using cases by (fastforce simp: request_ids_def gated_modes_def)
  show "map getModeIdentifier (map (\<lambda>d. ''mode=csv,id='' @ d) names) = map (Pair ''csv'') names"
    using getModeIdentifier_mode(1) [of "''csv''"] by simp
qed

subsection \<open>Containers that request no devices\<close>

lemma list_Modify_simps [simp]:
  "list_Modify [] s = Inr s" "list_Modify (None # ms) s = list_Modify ms s"
  "list_Modify (Some m # ms) s = bindR (m s) (\<lambda>s'. list_Modify ms s')"
  by (simp_all add: list_Modify_def)

lemma bindR_Inr_right [simp]: "bindR r Inr = r"
  by (cases r) auto

lemma no_devices_no_modifiers:
  assumes "f_image f = Some i" and "VisibleDevices i = Inr []"
  shows "newFeatureGatedModifier me f = Inr None" "newGraphicsModifier me f = Inr None"
    "newCSVModifier me f = Inr None" "newCDIModifier me f jit = Inr None"
  using assms
  by (simp_all add: newFeatureGatedModifier_def newGraphicsModifier_def requiresGraphicsModifier_def
      newCSVModifier_def csvDevices_DeviceRequests_def newCDIModifier_def requestor_Inr deref_def
      newCDIDeviceRequestor_DeviceRequests_def cdiDeviceRequestor_DeviceRequests_def deduplicated_DeviceRequests_def)

lemma no_devices_factory:
  assumes "f_image f = Some i" and "VisibleDevices i = Inr []" and "validate f = None"
  shows "factory_Modify me f s =
    (if f_runtimeMode f = ''legacy'' then stable_Modify (hook_Path (cfg_Hook (f_cfg f))) s
     else hookRemover_Modify s)"
proof -
  note none = no_devices_no_modifiers [OF assms(1,2)]
  note modes = LegacyRuntimeMode_def CSVRuntimeMode_def CDIRuntimeMode_def JitCDIRuntimeMode_def
  have "f_runtimeMode f \<in> {''legacy'', ''csv'', ''jit-cdi'', ''cdi''}"
    using assms(3) by (auto simp: validate_def split: if_splits)
  then show ?thesis
    by (elim insertE; simp add: factory_Modify_def factory_create_def supportedModifierTypes_def modes
        newModeModifier_def none)
qed

text \<open>
  (C8) A container that requests no devices gets none: in the modes \<open>cdi\<close>, \<open>jit-cdi\<close> and \<open>csv\<close> the only
  change the modifier makes is to remove NVIDIA Container Runtime Hooks, and in the mode \<open>legacy\<close> the
  only change is to insert that hook, whatever the host, the driver and the configuration are.
\<close>

theorem no_devices_no_modification:
  assumes "f_image f = Some i" and "VisibleDevices i = Inr []" and "validate f = None"
  shows "factory_Modify me f s =
    (if f_runtimeMode f = ''legacy'' then stable_Modify (hook_Path (cfg_Hook (f_cfg f))) s
     else hookRemover_Modify s)"
  using assms by (rule no_devices_factory)

definition example_env :: modifier_env where
  "example_env = \<lparr>me_cdi = \<lparr>cl_IsOverrideApplied = False, cl_ApplyEdits = (\<lambda>e s. Inr s), cl_NewCache = (\<lambda>_. Inr ()),
       cl_InjectDevices = (\<lambda>_ _ s. Inr s)\<rparr>,
     me_nvcdi = (\<lambda>_ _ _. Inl (Errorf ''no driver'')), me_readDir = (\<lambda>_. DirNotExist),
     me_cudaVersion = Inr ''12.4'', me_computeCapability = Inr ''8.6'',
     me_deviceFromPath = (\<lambda>_ _. Inl (Errorf ''no device'')),
     me_host = \<lparr>host_glob = (\<lambda>_. Inr []), host_read = (\<lambda>_. Inr []), host_readlink = (\<lambda>_. Inr [])\<rparr>,
     me_charLocator = (\<lambda>_. Inr []), me_fileLocator = (\<lambda>_. Inr []), me_goarch = ''amd64''\<rparr>"

definition example_driver :: driver_root where
  "example_driver = \<lparr>dr_Root = ''/'', dr_Version = Inr ''550.54'', dr_LibDirectory = Inr ''/usr/lib64'',
     dr_Libraries = (\<lambda>_. Inr []), dr_Configs = (\<lambda>_. Inr []), dr_FirstConfigsFiles = (\<lambda>_. Inr []),
     dr_Files = (\<lambda>_ _. Inr [])\<rparr>"

definition example_factory :: "string \<Rightarrow> CUDA \<Rightarrow> factory" where
  "example_factory mode i = \<lparr>f_cfg = GetDefault (\<lambda>_. False) None, f_driver = Some example_driver,
     f_hookCreator = AllDisabled, f_image = Some i, f_runtimeMode = mode\<rparr>"

theorem no_devices_no_modification_witness:
  "factory_Modify example_env (example_factory ''cdi'' initial_CUDA) empty_spec = hookRemover_Modify empty_spec"
proof -
  have "VisibleDevices initial_CUDA = Inr []" by code_simp
  with no_devices_no_modification [of "example_factory ''cdi'' initial_CUDA" initial_CUDA example_env empty_spec]
  show ?thesis by (simp add: example_factory_def validate_def)
qed

subsection \<open>Requirements in CSV mode\<close>

text \<open>
  (C15) In CSV mode a container that requests devices and whose requirements are not met (or cannot be
  read) is rejected: the modifier is an error, whatever else is configured, so that the specification
  is not modified.
\<close>

theorem unmet_requirements_rejected:
  assumes "f_runtimeMode f = ''csv''" and "f_image f = Some i" and "VisibleDevices i = Inr (d # ds)"
    and "checkRequirements me (Some i) = Some e"
  shows "\<exists>e'. factory_Modify me f s = Inl e'"
proof -
  have "newCSVModifier me f = Inl (Wrap ''requirements not met'' e)"
    using assms(2-) by (simp add: newCSVModifier_def deref_def csvDevices_DeviceRequests_def
        deduplicated_DeviceRequests_def unique_by_nonempty)
  then have "newModeModifier me f = Inl (Wrap ''requirements not met'' e)"
    using assms(1) by (simp add: newModeModifier_def LegacyRuntimeMode_def CSVRuntimeMode_def)
  moreover have "supportedModifierTypes (f_runtimeMode f) = [''nvidia-hook-remover'', ''feature-gated'', ''mode'']"
    using assms(1) by (simp add: supportedModifierTypes_def CDIRuntimeMode_def JitCDIRuntimeMode_def CSVRuntimeMode_def)
  ultimately show ?thesis
    by (cases "newFeatureGatedModifier me f") (simp_all add: factory_Modify_def factory_create_def)
qed

definition demanding_image :: CUDA where
  "demanding_image = initial_CUDA\<lparr>env := [(''NVIDIA_VISIBLE_DEVICES'', ''all''), (''NVIDIA_REQUIRE_CUDA'', ''cuda>=99.0'')]\<rparr>"

theorem unmet_requirements_rejected_witness:
  "\<exists>e. factory_Modify example_env (example_factory ''csv'' demanding_image) empty_spec = Inl e"
proof -
  have "VisibleDevices demanding_image = Inr [''all'']" by code_simp
  moreover have "map_option (\<lambda>_. ()) (checkRequirements example_env (Some demanding_image)) = Some ()" by code_simp
  then obtain e where "checkRequirements example_env (Some demanding_image) = Some e" by auto
  ultimately show ?thesis
    by (intro unmet_requirements_rejected) (auto simp: example_factory_def)
qed

end
