(* ===== verification/Runtime.thy ===== *)
theory Runtime
  imports Modifier
begin

section \<open>The NVIDIA Container Runtime\<close>

text \<open>
  \<open>internal/info/auto.go\<close> (the runtime mode) and \<open>internal/runtime\<close>: the construction of the runtime from
  the configuration and a command line, its entry point, and the reading of the logging flags.  What
  the platform is, the executables and the driver of the host are parameters; log output is left out.
\<close>

lemma bindR_cong [fundef_cong]:
  "r = r' \<Longrightarrow> (\<And>x. r' = Inr x \<Longrightarrow> f x = g x) \<Longrightarrow> bindR r f = bindR r' g"
  by (cases r') auto

subsection \<open>The runtime mode (\<open>internal/info/auto.go\<close>)\<close>

datatype platform = PlatformNVML | PlatformWSL | PlatformTegra | PlatformUnknown

record modeResolver =
  mr_image :: "CUDA option"
  mr_platform :: platform
  mr_defaultMode :: string

definition ResolveRuntimeMode :: "modeResolver \<Rightarrow> string \<Rightarrow> string result" where
  "ResolveRuntimeMode m mode =
     (if mode \<noteq> ''auto'' then Inr mode
      else bindR (deref (mr_image m)) (\<lambda>img.
           bindR (OnlyFullyQualifiedCDIDevices img) (\<lambda>q.
             if q then Inr CDIRuntimeMode
             else case mr_platform m of
                    PlatformNVML \<Rightarrow> Inr (mr_defaultMode m)
                  | PlatformWSL \<Rightarrow> Inr (mr_defaultMode m)
                  | PlatformTegra \<Rightarrow> Inr CSVRuntimeMode
                  | PlatformUnknown \<Rightarrow> Inr (mr_defaultMode m))))"

definition NewRuntimeModeResolver :: "platform \<Rightarrow> (modeResolver \<Rightarrow> modeResolver) list \<Rightarrow> modeResolver" where
  "NewRuntimeModeResolver platform opts =
     foldl (\<lambda>r opt. opt r) \<lparr>mr_image = None, mr_platform = platform, mr_defaultMode = JitCDIRuntimeMode\<rparr> opts"

definition WithDefaultMode :: "string \<Rightarrow> modeResolver \<Rightarrow> modeResolver" where
  "WithDefaultMode defaultMode mr = mr\<lparr>mr_defaultMode := defaultMode\<rparr>"

definition WithImage :: "CUDA \<Rightarrow> modeResolver \<Rightarrow> modeResolver" where
  "WithImage img mr = mr\<lparr>mr_image := Some img\<rparr>"

text \<open>\<open>ResolveAutoMode\<close> sets no default mode.\<close>

definition ResolveAutoMode :: "platform \<Rightarrow> string \<Rightarrow> CUDA \<Rightarrow> string result" where
  "ResolveAutoMode platform mode img =
     ResolveRuntimeMode \<lparr>mr_image = Some img, mr_platform = platform, mr_defaultMode = []\<rparr> mode"

subsection \<open>Construction of the runtime (\<open>runtime_factory.go\<close>)\<close>

record ('f, 't) runtime_env =
  re_codec :: "'f codec"
  re_execRuntime :: "'f runtime"
  re_locate :: locator
  re_stat :: "string \<Rightarrow> file_info result"
  re_platform :: platform
  re_driver :: "string \<Rightarrow> driver_root"
  re_modifiers :: modifier_env
  re_toml :: "'t toml_lib"
  re_tomlHost :: toml_host
  re_getenv :: "string \<Rightarrow> string"

abbreviation cfg_mode :: "Config \<Rightarrow> string" where
  "cfg_mode cfg \<equiv> rt_Mode (cfg_Runtime cfg)"

abbreviation cfg_prefixes :: "Config \<Rightarrow> string list" where
  "cfg_prefixes cfg \<equiv> cdi_AnnotationPrefixes (modes_CDI (rt_Modes (cfg_Runtime cfg)))"

definition set_mode :: "string \<Rightarrow> Config \<Rightarrow> Config" where
  "set_mode mode cfg = cfg\<lparr>cfg_Runtime := (cfg_Runtime cfg)\<lparr>rt_Mode := mode\<rparr>\<rparr>"

definition clear_prefixes :: "Config \<Rightarrow> Config" where
  "clear_prefixes cfg =
     cfg\<lparr>cfg_Runtime := (cfg_Runtime cfg)\<lparr>rt_Modes := (rt_Modes (cfg_Runtime cfg))
       \<lparr>modes_CDI := (modes_CDI (rt_Modes (cfg_Runtime cfg)))\<lparr>cdi_AnnotationPrefixes := []\<rparr>\<rparr>\<rparr>\<rparr>"

definition image_options :: "Config \<Rightarrow> image_option list" where
  "image_options cfg =
     [WithAcceptDeviceListAsVolumeMounts (cfg_AcceptDeviceListAsVolumeMounts cfg),
      WithAcceptEnvvarUnprivileged (cfg_AcceptEnvvarUnprivileged cfg),
      WithAnnotationsPrefixes (cfg_prefixes cfg),
      WithPreferredVisibleDevicesEnvVars [cfg_SwarmResource cfg],
      WithIgnoreImexChannelRequests (IsEnabled (IgnoreImexChannelRequests (cfg_Features cfg)))]"

text \<open>The configuration is updated in place, so it is part of the result.\<close>

function initRuntimeModeAndImage ::
  "'f codec \<Rightarrow> platform \<Rightarrow> 'f os \<Rightarrow> fileSpec \<Rightarrow> Config \<Rightarrow> (string \<times> CUDA \<times> Config) result" where
  "initRuntimeModeAndImage codec platform w ociSpec cfg =
     bindR (wrapR ''failed to load OCI spec'' (fileSpec_Load codec w ociSpec)) (\<lambda>rawSpec.
     bindR (NewCUDAImageFromSpec (fs_Spec rawSpec) (image_options cfg)) (\<lambda>img.
     bindR (ResolveRuntimeMode (NewRuntimeModeResolver platform [WithImage img]) (cfg_mode cfg)) (\<lambda>mode.
       let cfg' = set_mode mode cfg in
       if mode = ''cdi'' \<or> length (cfg_prefixes cfg) = 0 then Inr (mode, img, cfg')
       else initRuntimeModeAndImage codec platform w ociSpec (clear_prefixes cfg'))))"
  by pat_completeness auto
termination initRuntimeModeAndImage
  by (relation "measure (\<lambda>(codec, platform, w, ociSpec, cfg). length (cfg_prefixes cfg))")
     (auto simp: clear_prefixes_def set_mode_def)

declare initRuntimeModeAndImage.simps [simp del]

definition runtime_factory :: "('f, 't) runtime_env \<Rightarrow> driver_root \<Rightarrow> string \<times> CUDA \<times> Config \<Rightarrow> factory" where
  "runtime_factory rte driver mic =
     (case mic of (mode, img, cfg) \<Rightarrow>
        \<lparr>f_cfg = cfg, f_driver = Some driver,
         f_hookCreator = NewHookCreator [WithNVIDIACDIHookPath (cfg_CTK_Path cfg)],
         f_image = Some img, f_runtimeMode = mode\<rparr>)"

definition newSpecModifier ::
  "('f, 't) runtime_env \<Rightarrow> 'f os \<Rightarrow> driver_root \<Rightarrow> Config \<Rightarrow> fileSpec \<Rightarrow> SpecModifier result" where
  "newSpecModifier rte w driver cfg ociSpec =
     bindR (initRuntimeModeAndImage (re_codec rte) (re_platform rte) w ociSpec cfg) (\<lambda>mic.
       modifier_New (re_modifiers rte) (runtime_factory rte driver mic))"

definition newNVIDIAContainerRuntime ::
  "('f, 't) runtime_env \<Rightarrow> 'f os \<Rightarrow> driver_root \<Rightarrow> Config \<Rightarrow> string list \<Rightarrow> 'f runtime result" where
  "newNVIDIAContainerRuntime rte w driver cfg argv =
     bindR (wrapR ''error constructing low-level runtime''
              (NewLowLevelRuntime (re_locate rte) (re_stat rte) (re_execRuntime rte) (rt_Runtimes (cfg_Runtime cfg)))) (\<lambda>lowLevelRuntime.
       if \<not> HasCreateSubcommand argv then Inr lowLevelRuntime
       else bindR (wrapR ''error constructing OCI specification''
                     (NewSpec argv (IsEnabled (AllowUnknownOCISpecFields (cfg_Features cfg))))) (\<lambda>ociSpec.
            bindR (wrapR ''failed to construct OCI spec modifier'' (newSpecModifier rte w driver cfg ociSpec)) (\<lambda>specModifier.
              Inr (NewModifyingRuntimeWrapper (re_codec rte) ociSpec (Some specModifier) lowLevelRuntime))))"

subsection \<open>The entry point (\<open>runtime.go\<close>)\<close>

definition hasVersionFlag :: "string list \<Rightarrow> bool" where
  "hasVersionFlag args =
     list_ex (\<lambda>param. let flag = SplitN2 param ''='' ! 0; trimmed = TrimLeft flag ''-''
                      in flag \<noteq> trimmed \<and> trimmed = ''version'') args"

definition update_config :: "locator \<Rightarrow> string \<Rightarrow> Config \<Rightarrow> Config result" where
  "update_config locate modeOverride cfg =
     (let cfg = (if modeOverride \<noteq> [] then set_mode modeOverride cfg else cfg) in
      bindR (ResolveNVIDIACTKPath locate (cfg_CTK_Path cfg)) (\<lambda>ctk.
      bindR (ResolveNVIDIAContainerRuntimeHookPath locate (hook_Path (cfg_Hook cfg))) (\<lambda>hook.
        Inr (cfg\<lparr>cfg_CTK_Path := ctk, cfg_Hook := (cfg_Hook cfg)\<lparr>hook_Path := hook\<rparr>\<rparr>))))"

definition rt_Run :: "('f, 't) runtime_env \<Rightarrow> string \<Rightarrow> string list \<Rightarrow> 'f os \<Rightarrow> 'f os \<times> error option" where
  "rt_Run rte modeOverride argv w =
     (case bindR (wrapR ''error loading config'' (GetConfig (re_toml rte) (re_tomlHost rte) (re_getenv rte))) (\<lambda>cfg.
           bindR (update_config (re_locate rte) modeOverride cfg) (\<lambda>cfg.
             wrapR ''failed to create NVIDIA Container Runtime''
               (newNVIDIAContainerRuntime rte w (re_driver rte (cli_Root (cfg_CLI cfg))) cfg argv))) of
        Inl e \<Rightarrow> (w, Some e)
      | Inr runtime \<Rightarrow> runtime argv w)"

subsection \<open>Logging flags (\<open>logger.go\<close>)\<close>

record loggerConfig =
  lc_file :: string
  lc_format :: string
  lc_debug :: bool
  lc_version :: bool

definition set_flag :: "string \<Rightarrow> string \<Rightarrow> loggerConfig \<Rightarrow> loggerConfig" where
  "set_flag flag value c =
     (if flag = ''log-format'' then c\<lparr>lc_format := value\<rparr>
      else if flag = ''log'' then c\<lparr>lc_file := value\<rparr> else c)"

fun parse_loop :: "loggerConfig \<Rightarrow> string set \<Rightarrow> string list \<Rightarrow> loggerConfig" where
  "parse_loop c found [] = c"
| "parse_loop c found (param # args) =
     (if card found = 4 then c
      else let parts = SplitN2 param ''=''; trimmed = TrimLeft (parts ! 0) ''-'' in
        if parts ! 0 = trimmed then parse_loop c found args
        else if trimmed = ''version'' then parse_loop (c\<lparr>lc_version := True\<rparr>) (insert ''version'' found) args
        else if trimmed = ''debug'' then parse_loop (c\<lparr>lc_debug := True\<rparr>) (insert ''debug'' found) args
        else if trimmed \<notin> set [''log-format'', ''log''] then parse_loop c found args
        else if length parts = 2 then parse_loop (set_flag trimmed (parts ! 1) c) (insert trimmed found) args
        else (case args of
                [] \<Rightarrow> parse_loop c found args
              | value # rest \<Rightarrow> parse_loop (set_flag trimmed value c) (insert trimmed found) rest))"

definition logger_parseArgs :: "string list \<Rightarrow> loggerConfig" where
  "logger_parseArgs args =
     parse_loop \<lparr>lc_file = [], lc_format = [], lc_debug = False, lc_version = False\<rparr> {} args"

subsection \<open>The image and the mode of a container\<close>

lemma image_options_effect:
  assumes "NewCUDAImageFromSpec (Some s) (image_options cfg) = Inr i"
  shows "annotationsPrefixes i = cfg_prefixes cfg \<and> acceptEnvvarUnprivileged i = cfg_AcceptEnvvarUnprivileged cfg
    \<and> acceptDeviceListAsVolumeMounts i = cfg_AcceptDeviceListAsVolumeMounts cfg
    \<and> isPrivileged i = IsPrivileged (Some (OCISpec_GetCapabilities s))"
  using assms
  by (auto simp: NewCUDAImageFromSpec_def image_options_def image_New_def bindR_eq_Inr image_build_def
      WithAcceptDeviceListAsVolumeMounts_def WithAcceptEnvvarUnprivileged_def WithAnnotationsPrefixes_def
      WithPreferredVisibleDevicesEnvVars_def WithIgnoreImexChannelRequests_def WithAnnotations_def
      WithEnv_def WithEnvMap_def WithMounts_def WithPrivileged_def initial_CUDA_def)

lemma no_prefixes_no_annotations:
  "annotationsPrefixes i = [] \<Longrightarrow> cdiDeviceRequestsFromAnnotations i = []"
  by (simp add: cdiDeviceRequestsFromAnnotations_def)

lemma ResolveRuntimeMode_cases:
  assumes "ResolveRuntimeMode (NewRuntimeModeResolver platform [WithImage img]) mode = Inr rmode"
  shows "if mode = ''auto'' then rmode \<in> {''cdi'', ''csv'', ''jit-cdi''} else rmode = mode"
  using assms
  by (auto simp: ResolveRuntimeMode_def NewRuntimeModeResolver_def WithImage_def bindR_eq_Inr
      CDIRuntimeMode_def CSVRuntimeMode_def JitCDIRuntimeMode_def split: if_splits platform.splits)

lemma fileSpec_Load_Inr:
  "fileSpec_Load c w fs = Inr fs' \<longleftrightarrow>
     (\<exists>f s. os_files w (fs_path fs) = Some f \<and> decode c (fs_strict fs) f = Inr s \<and> fs' = fs\<lparr>fs_Spec := Some s\<rparr>)"
  by (auto simp: fileSpec_Load_def loadFrom_def bindR_eq_Inr split: option.splits)

lemma mode_config [simp]:
  "cfg_mode (set_mode m cfg) = m" "cfg_prefixes (set_mode m cfg) = cfg_prefixes cfg"
  "cfg_mode (clear_prefixes cfg) = cfg_mode cfg" "cfg_prefixes (clear_prefixes cfg) = []"
  "cfg_AcceptEnvvarUnprivileged (set_mode m cfg) = cfg_AcceptEnvvarUnprivileged cfg"
  "cfg_AcceptDeviceListAsVolumeMounts (set_mode m cfg) = cfg_AcceptDeviceListAsVolumeMounts cfg"
  "cfg_AcceptEnvvarUnprivileged (clear_prefixes cfg) = cfg_AcceptEnvvarUnprivileged cfg"
  "cfg_AcceptDeviceListAsVolumeMounts (clear_prefixes cfg) = cfg_AcceptDeviceListAsVolumeMounts cfg"
  "cfg_Hook (set_mode m cfg) = cfg_Hook cfg" "cfg_Hook (clear_prefixes cfg) = cfg_Hook cfg"
  by (simp_all add: set_mode_def clear_prefixes_def)

text \<open>One call either returns or is repeated with the resolved mode and without annotation prefixes.\<close>

lemma initRuntimeModeAndImage_step:
  assumes "initRuntimeModeAndImage c p w fs cfg = Inr (mode, img, cfg')"
  obtains f s i m where "os_files w (fs_path fs) = Some f" "decode c (fs_strict fs) f = Inr s"
    "NewCUDAImageFromSpec (Some s) (image_options cfg) = Inr i"
    "ResolveRuntimeMode (NewRuntimeModeResolver p [WithImage i]) (cfg_mode cfg) = Inr m"
    "(m = ''cdi'' \<or> cfg_prefixes cfg = []) \<and> (mode, img, cfg') = (m, i, set_mode m cfg) \<or>
     \<not> (m = ''cdi'' \<or> cfg_prefixes cfg = []) \<and>
     initRuntimeModeAndImage c p w fs (clear_prefixes (set_mode m cfg)) = Inr (mode, img, cfg')"
  using assms unfolding initRuntimeModeAndImage.simps [of c p w fs cfg]
  by (auto simp: bindR_eq_Inr fileSpec_Load_Inr Let_def split: if_splits)

definition same_access :: "Config \<Rightarrow> Config \<Rightarrow> bool" where
  "same_access cfg cfg' \<longleftrightarrow>
     cfg_AcceptEnvvarUnprivileged cfg' = cfg_AcceptEnvvarUnprivileged cfg \<and>
     cfg_AcceptDeviceListAsVolumeMounts cfg' = cfg_AcceptDeviceListAsVolumeMounts cfg \<and> cfg_Hook cfg' = cfg_Hook cfg"

lemma initRuntimeModeAndImage_result:
  assumes "initRuntimeModeAndImage c p w fs cfg = Inr (mode, img, cfg')"
  shows "cfg_mode cfg' = mode \<and> same_access cfg cfg' \<and>
    (if cfg_mode cfg = ''auto'' then mode \<in> {''cdi'', ''csv'', ''jit-cdi''} else mode = cfg_mode cfg) \<and>
    (\<exists>f s pre. os_files w (fs_path fs) = Some f \<and> decode c (fs_strict fs) f = Inr s \<and>
       annotationsPrefixes img = pre \<and> (mode \<noteq> ''cdi'' \<longrightarrow> pre = []) \<and>
       acceptEnvvarUnprivileged img = cfg_AcceptEnvvarUnprivileged cfg \<and>
       acceptDeviceListAsVolumeMounts img = cfg_AcceptDeviceListAsVolumeMounts cfg \<and>
       isPrivileged img = IsPrivileged (Some (OCISpec_GetCapabilities s)))"
  using assms
proof (induction c p w fs cfg rule: initRuntimeModeAndImage.induct)
  case (1 c p w fs cfg)
  from 1(2) show ?case
  proof (rule initRuntimeModeAndImage_step)
    fix f s i m
    assume load: "os_files w (fs_path fs) = Some f" "decode c (fs_strict fs) f = Inr s"
      and i: "NewCUDAImageFromSpec (Some s) (image_options cfg) = Inr i"
      and m: "ResolveRuntimeMode (NewRuntimeModeResolver p [WithImage i]) (cfg_mode cfg) = Inr m"
      and res: "(m = ''cdi'' \<or> cfg_prefixes cfg = []) \<and> (mode, img, cfg') = (m, i, set_mode m cfg) \<or>
        \<not> (m = ''cdi'' \<or> cfg_prefixes cfg = []) \<and>
        initRuntimeModeAndImage c p w fs (clear_prefixes (set_mode m cfg)) = Inr (mode, img, cfg')"
    note mode = ResolveRuntimeMode_cases [OF m]
    from res show ?thesis
    proof
      assume "(m = ''cdi'' \<or> cfg_prefixes cfg = []) \<and> (mode, img, cfg') = (m, i, set_mode m cfg)"
      with load mode image_options_effect [OF i] show ?thesis by (auto simp: same_access_def)
    next
      assume rec: "\<not> (m = ''cdi'' \<or> cfg_prefixes cfg = []) \<and>
        initRuntimeModeAndImage c p w fs (clear_prefixes (set_mode m cfg)) = Inr (mode, img, cfg')"
      have "fileSpec_Load c w fs = Inr (fs\<lparr>fs_Spec := Some s\<rparr>)" using load by (simp add: fileSpec_Load_Inr)
      with rec i m have IH: "cfg_mode cfg' = mode \<and> same_access (clear_prefixes (set_mode m cfg)) cfg' \<and>
        (if cfg_mode (clear_prefixes (set_mode m cfg)) = ''auto'' then mode \<in> {''cdi'', ''csv'', ''jit-cdi''}
         else mode = cfg_mode (clear_prefixes (set_mode m cfg))) \<and>
        (\<exists>f s pre. os_files w (fs_path fs) = Some f \<and> decode c (fs_strict fs) f = Inr s \<and>
           annotationsPrefixes img = pre \<and> (mode \<noteq> ''cdi'' \<longrightarrow> pre = []) \<and>
           acceptEnvvarUnprivileged img = cfg_AcceptEnvvarUnprivileged (clear_prefixes (set_mode m cfg)) \<and>
           acceptDeviceListAsVolumeMounts img = cfg_AcceptDeviceListAsVolumeMounts (clear_prefixes (set_mode m cfg)) \<and>
           isPrivileged img = IsPrivileged (Some (OCISpec_GetCapabilities s)))"
        by (intro "1.IH" [where xb = m]) auto
      with mode show ?thesis by (auto simp: same_access_def split: if_splits)
    qed
  qed
qed

lemma VisibleDevices_annotations:
  assumes "annotationsPrefixes i = []"
  shows "VisibleDevices (i\<lparr>annotations := ann\<rparr>) = VisibleDevices i"
proof -
  have "cdiDeviceRequestsFromAnnotations (i\<lparr>annotations := ann\<rparr>) = []" "cdiDeviceRequestsFromAnnotations i = []"
    using assms by (simp_all add: no_prefixes_no_annotations)
  moreover have "requestsFromMounts (i\<lparr>annotations := ann\<rparr>) = requestsFromMounts i"
    by (simp add: requestsFromMounts_def)
  then have "visibleDevicesFromMounts (i\<lparr>annotations := ann\<rparr>) = visibleDevicesFromMounts i"
    by (simp add: visibleDevicesFromMounts_def)
  moreover have e: "HasEnvvar (i\<lparr>annotations := ann\<rparr>) = HasEnvvar i" "Getenv (i\<lparr>annotations := ann\<rparr>) = Getenv i"
    "IsLegacy (i\<lparr>annotations := ann\<rparr>) = IsLegacy i"
    by (simp_all add: fun_eq_iff HasEnvvar_def Getenv_def IsLegacy_def)
  then have "devicesFromEnvvars (i\<lparr>annotations := ann\<rparr>) vs = devicesFromEnvvars i vs" for vs
    by (simp add: devicesFromEnvvars_def)
  with e have "visibleDevicesIfAllowed (i\<lparr>annotations := ann\<rparr>) = visibleDevicesIfAllowed i"
    by (simp add: visibleDevicesIfAllowed_def visibleDevicesFromEnvVar_def visibleEnvVars_def Let_def)
  ultimately show ?thesis by (simp add: VisibleDevices_def cong: if_cong)
qed

text \<open>
  (C7) Annotations select devices in the mode \<open>cdi\<close> only.  When the mode and the image of a container
  are determined, the mode is the configured one, or for \<open>auto\<close> one of \<open>cdi\<close>, \<open>csv\<close> and \<open>jit-cdi\<close>; the
  updated configuration names it; and in every other mode than \<open>cdi\<close> the devices of the image are
  the same whatever the annotations are.
\<close>

theorem annotations_only_in_cdi_mode:
  assumes "initRuntimeModeAndImage c p w fs cfg = Inr (mode, img, cfg')"
  shows "cfg_mode cfg' = mode
    \<and> (if cfg_mode cfg = ''auto'' then mode \<in> {''cdi'', ''csv'', ''jit-cdi''} else mode = cfg_mode cfg)
    \<and> (mode = ''cdi'' \<or> VisibleDevices (img\<lparr>annotations := ann\<rparr>) = VisibleDevices img)"
  using initRuntimeModeAndImage_result [OF assms] VisibleDevices_annotations [of img ann] by auto

definition annotated_spec :: oci_spec where
  "annotated_spec = empty_spec\<lparr>spec_Annotations := [(''cdi.k8s.io/x'', ''nvidia.com/gpu=0'')]\<rparr>"

definition annotated_os :: "oci_spec os" where
  "annotated_os = \<lparr>os_files = [''/b/config.json'' \<mapsto> annotated_spec], os_exec = None\<rparr>"

definition example_config :: "string \<Rightarrow> Config" where
  "example_config mode = set_mode mode (GetDefault (\<lambda>_. False) None)"

lemma example_init:
  "\<exists>img cfg'. initRuntimeModeAndImage example_codec PlatformNVML annotated_os example_file_spec
     (example_config ''jit-cdi'') = Inr (''jit-cdi'', img, cfg')"
proof -
  have "map_sum (\<lambda>_. ()) fst (initRuntimeModeAndImage example_codec PlatformNVML annotated_os example_file_spec
     (example_config ''jit-cdi'')) = Inr ''jit-cdi''"
    by code_simp
  then show ?thesis
    by (cases "initRuntimeModeAndImage example_codec PlatformNVML annotated_os example_file_spec (example_config ''jit-cdi'')")
       auto
qed

theorem annotations_only_in_cdi_mode_witness:
  "\<exists>img cfg'. initRuntimeModeAndImage example_codec PlatformNVML annotated_os example_file_spec
       (example_config ''jit-cdi'') = Inr (''jit-cdi'', img, cfg')
     \<and> VisibleDevices (img\<lparr>annotations := []\<rparr>) = VisibleDevices img"
proof -
  obtain img cfg' where r: "initRuntimeModeAndImage example_codec PlatformNVML annotated_os example_file_spec
      (example_config ''jit-cdi'') = Inr (''jit-cdi'', img, cfg')"
    using example_init by blast
  from annotations_only_in_cdi_mode [OF r, of "[]"] r show ?thesis by auto
qed

subsection \<open>From the command line to the low-level runtime\<close>

lemma nothing_accepted_no_devices:
  assumes "annotationsPrefixes i = []" "\<not> isPrivileged i" "\<not> acceptEnvvarUnprivileged i"
    "\<not> acceptDeviceListAsVolumeMounts i"
  shows "VisibleDevices i = Inr []"
  using assms by (simp add: VisibleDevices_def no_prefixes_no_annotations visibleDevicesIfAllowed_def Let_def)


definition example_rte :: "(oci_spec, string \<Rightarrow> toml_value option) runtime_env" where
  "example_rte = \<lparr>re_codec = example_codec, re_execRuntime = syscallExec_Exec (\<lambda>_. True),
     re_locate = (\<lambda>n. Inr [''/usr/bin/'' @ n]), re_stat = (\<lambda>_. Inr \<lparr>fi_IsDir = False, fi_executable = True\<rparr>),
     re_platform = PlatformNVML, re_driver = (\<lambda>_. example_driver), re_modifiers = example_env,
     re_toml = map_toml, re_tomlHost = \<lparr>th_exists = (\<lambda>_. False), th_release = None, th_open = (\<lambda>_. FileNotExist)\<rparr>,
     re_getenv = (\<lambda>_. [])\<rparr>"

definition strict_config :: Config where
  "strict_config = (example_config ''jit-cdi'')\<lparr>cfg_AcceptEnvvarUnprivileged := False\<rparr>"

definition example_argv :: "string list" where
  "example_argv = [''nvidia-container-runtime'', ''create'', ''--bundle'', ''/b'', ''c'']"

definition asking_spec :: oci_spec where
  "asking_spec = annotated_spec\<lparr>spec_Process := Some \<lparr>proc_Env = [''NVIDIA_VISIBLE_DEVICES=all''], proc_Capabilities = None\<rparr>\<rparr>"

definition asking_os :: "oci_spec os" where
  "asking_os = \<lparr>os_files = [''/b/config.json'' \<mapsto> asking_spec], os_exec = None\<rparr>"


end
