(* ===== verification/Ldcache.thy ===== *)
theory Ldcache
  imports Go_Path "HOL-Library.Word"
begin

unbundle bit_operations_syntax

section \<open>The cache of the dynamic linker\<close>

text \<open>
  \<open>internal/ldcache/ldcache.go\<close>: the parser of the binary file \<open>/etc/ld.so.cache\<close> and the list of the
  libraries in it.  The file is a string of bytes; 32-bit fields are words, and slices of the file
  panic out of range as in Go.
\<close>

definition ldcachePath :: string where "ldcachePath = ''/etc/ld.so.cache''"
definition magicString1 :: string where "magicString1 = ''ld.so-1.7.0''"
definition magicString2 :: string where "magicString2 = ''glibc-ld.so.cache''"
definition magicVersion :: string where "magicVersion = ''1.1''"

definition flagTypeMask :: "32 word" where "flagTypeMask = 0x00ff"
definition flagTypeELF :: "32 word" where "flagTypeELF = 0x0001"
definition flagArchMask :: "32 word" where "flagArchMask = 0xff00"
definition flagArchI386 :: "32 word" where "flagArchI386 = 0x0000"
definition flagArchX8664 :: "32 word" where "flagArchX8664 = 0x0300"
definition flagArchX32 :: "32 word" where "flagArchX32 = 0x0800"
definition flagArchPpc64le :: "32 word" where "flagArchPpc64le = 0x0500"
definition flagArch_ARM_LIBHF :: "32 word" where "flagArch_ARM_LIBHF = 0x0900"
definition flagArch_AARCH64_LIB64 :: "32 word" where "flagArch_AARCH64_LIB64 = 0x0a00"

lemmas flag_defs = flagTypeMask_def flagTypeELF_def flagArchMask_def flagArchI386_def flagArchX8664_def
  flagArchX32_def flagArchPpc64le_def flagArch_ARM_LIBHF_def flagArch_AARCH64_LIB64_def

definition errInvalidCache :: error where "errInvalidCache = Errorf ''invalid ld.so.cache file''"

subsection \<open>Reading little-endian structures\<close>

fun le_val :: "string \<Rightarrow> nat" where
  "le_val [] = 0"
| "le_val (c # cs) = of_char c + 256 * le_val cs"

definition le32 :: "string \<Rightarrow> 32 word" where
  "le32 bs = word_of_nat (le_val (take 4 bs))"

definition le64 :: "string \<Rightarrow> 64 word" where
  "le64 bs = word_of_nat (le_val (take 8 bs))"

text \<open>The reader is the data and a position, which seeking may move past the end.\<close>

record reader =
  rd_data :: string
  rd_pos :: nat

definition rd_Len :: "reader \<Rightarrow> nat" where
  "rd_Len r = length (rd_data r) - rd_pos r"

definition rd_read :: "nat \<Rightarrow> reader \<Rightarrow> (string \<times> reader) result" where
  "rd_read n r =
     (if n \<le> rd_Len r then Inr (take n (drop (rd_pos r) (rd_data r)), r\<lparr>rd_pos := rd_pos r + n\<rparr>)
      else Inl (Errorf ''unexpected EOF''))"

definition rd_skip :: "nat \<Rightarrow> reader \<Rightarrow> reader" where
  "rd_skip n r = r\<lparr>rd_pos := rd_pos r + n\<rparr>"

record entry2 =
  e2_Flags :: "32 word"
  e2_Key :: "32 word"
  e2_Value :: "32 word"
  e2_OSVersion :: "32 word"
  e2_HWCap :: "64 word"

definition entry2_of :: "string \<Rightarrow> entry2" where
  "entry2_of bs = \<lparr>e2_Flags = le32 bs, e2_Key = le32 (drop 4 bs), e2_Value = le32 (drop 8 bs),
                   e2_OSVersion = le32 (drop 12 bs), e2_HWCap = le64 (drop 16 bs)\<rparr>"

record ldcache =
  lc_libs :: string
  lc_entries :: "entry2 list"
  lc_root :: string

text \<open>
  The old format is skipped: its header (12 and 4 bytes), its entries of 12 bytes and the padding to
  a multiple of 8.
\<close>

definition skip_old :: "reader \<Rightarrow> reader result" where
  "skip_old r =
     (if take (length magicString1) (rd_data r) = magicString1
      then bindR (rd_read 16 r) (\<lambda>(header, r).
             let r = rd_skip (unat (le32 (drop 12 header)) * 12) r
             in Inr (rd_skip (nat ((- int (rd_pos r)) mod 8)) r))
      else Inr r)"

text \<open>The header has 48 bytes: the magic string, the version, the number of libraries, the rest unused.\<close>

definition ldcache_parse :: "string \<Rightarrow> string \<Rightarrow> ldcache result" where
  "ldcache_parse root data =
     (let r = \<lparr>rd_data = data, rd_pos = 0\<rparr> in
      if rd_Len r \<le> 16 then Inl errInvalidCache
      else bindR (skip_old r) (\<lambda>r.
        let libs = drop (length data - rd_Len r) data in
        bindR (rd_read 48 r) (\<lambda>(header, r).
          if take 17 header \<noteq> magicString2 \<or> take 3 (drop 17 header) \<noteq> magicVersion then Inl errInvalidCache
          else let n = unat (le32 (drop 20 header)) in
               bindR (rd_read (24 * n) r) (\<lambda>(bs, r).
                 Inr \<lparr>lc_libs = libs, lc_entries = map (\<lambda>i. entry2_of (drop (24 * i) bs)) [0..<n], lc_root = root\<rparr>))))"

definition ldcache_New :: "(string \<Rightarrow> string result) \<Rightarrow> string \<Rightarrow> ldcache result" where
  "ldcache_New read root = bindR (read (FJoin [root, ldcachePath])) (ldcache_parse root)"

subsection \<open>Entries\<close>

record ld_entry =
  le_libname :: string
  le_bits :: nat
  le_value :: string

definition bytesToString :: "string \<Rightarrow> string" where
  "bytesToString value =
     (let s = takeWhile (\<lambda>c. c \<noteq> CHR 0x00) value in if length s < length value then s else [])"

definition slice_from :: "string \<Rightarrow> 32 word \<Rightarrow> string result" where
  "slice_from bs i = (if unat i \<le> length bs then Inr (drop (unat i) bs) else Inl (Panic ''slice bounds out of range''))"

definition entry_bits :: "32 word \<Rightarrow> nat option" where
  "entry_bits flags =
     (if (flags AND flagTypeMask) AND flagTypeELF = 0 then None
      else let arch = flags AND flagArchMask in
           if arch \<in> set [flagArchX8664, flagArch_AARCH64_LIB64, flagArchPpc64le] then Some 64
           else if arch \<in> set [flagArchX32, flagArch_ARM_LIBHF, flagArchI386] then Some 32
           else None)"

text \<open>The length of the strings is converted to 32 bits for the comparison.\<close>

fun getEntries :: "string \<Rightarrow> entry2 list \<Rightarrow> ld_entry list result" where
  "getEntries libs [] = Inr []"
| "getEntries libs (e # es) =
     (case entry_bits (e2_Flags e) of
        None \<Rightarrow> getEntries libs es
      | Some bits \<Rightarrow>
          if e2_Key e > word_of_nat (length libs) \<or> e2_Value e > word_of_nat (length libs)
          then getEntries libs es
          else bindR (slice_from libs (e2_Key e)) (\<lambda>key.
               if bytesToString key = [] then getEntries libs es
               else bindR (slice_from libs (e2_Value e)) (\<lambda>value.
                    if bytesToString value = [] then getEntries libs es
                    else bindR (getEntries libs es) (\<lambda>rest.
                         Inr (\<lparr>le_libname = bytesToString key, le_bits = bits, le_value = bytesToString value\<rparr> # rest)))))"

definition ldcache_List :: "ldcache \<Rightarrow> (string list \<times> string list) result" where
  "ldcache_List c =
     bindR (getEntries (lc_libs c) (lc_entries c)) (\<lambda>es.
       let paths = unique_by snd (map (\<lambda>e. (le_bits e, FJoin [lc_root c, le_value e])) es)
       in Inr (map snd (filter (\<lambda>p. fst p = 32) paths), map snd (filter (\<lambda>p. fst p = 64) paths)))"

subsection \<open>No access is out of range\<close>

lemma unat_word_of_nat_le: "unat (word_of_nat n :: 'a::len word) \<le> n"
  by (simp add: unat_of_nat)

lemma slice_from_checked:
  "\<not> i > word_of_nat (length bs) \<Longrightarrow> slice_from bs i = Inr (drop (unat i) bs)"
  using unat_word_of_nat_le [of "length bs", where ?'a = 32]
  by (auto simp: slice_from_def word_less_nat_alt not_less)

definition valid_entry :: "string \<Rightarrow> entry2 \<Rightarrow> bool" where
  "valid_entry libs e \<longleftrightarrow>
     entry_bits (e2_Flags e) \<noteq> None \<and> e2_Key e \<le> word_of_nat (length libs) \<and> e2_Value e \<le> word_of_nat (length libs) \<and>
     bytesToString (drop (unat (e2_Key e)) libs) \<noteq> [] \<and> bytesToString (drop (unat (e2_Value e)) libs) \<noteq> []"

definition go_entry :: "string \<Rightarrow> entry2 \<Rightarrow> ld_entry" where
  "go_entry libs e = \<lparr>le_libname = bytesToString (drop (unat (e2_Key e)) libs),
     le_bits = (case entry_bits (e2_Flags e) of None \<Rightarrow> 0 | Some b \<Rightarrow> b),
     le_value = bytesToString (drop (unat (e2_Value e)) libs)\<rparr>"

lemma getEntries_eq: "getEntries libs es = Inr (map (go_entry libs) (filter (valid_entry libs) es))"
  by (induction es) (auto simp: slice_from_checked valid_entry_def go_entry_def not_less split: option.splits)

definition entry_path :: "ldcache \<Rightarrow> entry2 \<Rightarrow> string" where
  "entry_path c e = FJoin [lc_root c, bytesToString (drop (unat (e2_Value e)) (lc_libs c))]"

lemma entry_bits_32_64: "entry_bits f = Some b \<Longrightarrow> b = 32 \<or> b = 64"
  by (auto simp: entry_bits_def Let_def split: if_splits)

lemma filter_snd_disjoint:
  assumes "distinct (map snd xs)"
  shows "distinct (map snd (filter P xs) @ map snd (filter (\<lambda>x. \<not> P x) xs))"
proof -
  have "map snd (filter P xs) @ map snd (filter (\<lambda>x. \<not> P x) xs) = map snd (filter P xs @ filter (\<lambda>x. \<not> P x) xs)"
    by simp
  moreover have "mset (filter P xs @ filter (\<lambda>x. \<not> P x) xs) = mset xs"
    by (simp add: multiset_partition [symmetric])
  ultimately show ?thesis using assms by (metis mset_eq_imp_distinct_iff mset_map)
qed

text \<open>
  (C11) Listing the libraries of a cache never accesses the file out of range, whatever offsets the
  entries hold and even when the length of the file does not fit 32 bits.  The 64-bit and the 32-bit
  libraries are together exactly the paths of the valid ELF entries, no path is listed twice, and
  each list holds only entries of its architectures.
\<close>

theorem ldcache_list_in_bounds:
  "\<exists>libs32 libs64. ldcache_List c = Inr (libs32, libs64)
     \<and> distinct (libs32 @ libs64)
     \<and> set (libs32 @ libs64) = entry_path c ` {e \<in> set (lc_entries c). valid_entry (lc_libs c) e}
     \<and> set libs32 \<subseteq> entry_path c ` {e \<in> set (lc_entries c). entry_bits (e2_Flags e) = Some 32}
     \<and> set libs64 \<subseteq> entry_path c ` {e \<in> set (lc_entries c). entry_bits (e2_Flags e) = Some 64}"
proof -
  let ?es = "filter (valid_entry (lc_libs c)) (lc_entries c)"
  define key where "key e = (le_bits (go_entry (lc_libs c) e), entry_path c e)" for e
  have map_key: "map (\<lambda>e. (le_bits e, FJoin [lc_root c, le_value e])) (map (go_entry (lc_libs c)) ?es) = map key ?es"
    by (simp add: key_def entry_path_def go_entry_def)
  define paths where "paths = unique_by snd (map key ?es)"
  have bits: "fst (key e) = 32 \<and> entry_bits (e2_Flags e) = Some 32 \<or> fst (key e) = 64 \<and> entry_bits (e2_Flags e) = Some 64"
    if "e \<in> set ?es" for e
    using that by (auto simp: key_def valid_entry_def go_entry_def dest: entry_bits_32_64)
  have sub: "set paths \<subseteq> key ` set ?es" unfolding paths_def using set_seen_loop_subset by fastforce
  have "fst p = 64 \<longleftrightarrow> fst p \<noteq> 32" if "p \<in> set paths" for p
    using that sub bits by fastforce
  then have f64: "filter (\<lambda>p. fst p = 64) paths = filter (\<lambda>p. fst p \<noteq> 32) paths"
    by (intro filter_cong) auto
  have dist: "distinct (map snd paths)" unfolding paths_def by (rule distinct_seen_loop)
  have all: "snd ` set paths = entry_path c ` set ?es"
    unfolding paths_def using key_set_seen_loop [of snd "\<lambda>_. False" "map key ?es"]
    by (simp add: image_image key_def)
  have list: "ldcache_List c = Inr (map snd (filter (\<lambda>p. fst p = 32) paths), map snd (filter (\<lambda>p. fst p = 64) paths))"
    unfolding ldcache_List_def getEntries_eq bindR_Inr map_key Let_def paths_def by (rule refl)
  have part: "set (filter (\<lambda>p. fst p = 32) paths) \<union> set (filter (\<lambda>p. fst p \<noteq> 32) paths) = set paths" by auto
  have arch: "snd ` {p \<in> set paths. fst p = b} \<subseteq> entry_path c ` {e \<in> set (lc_entries c). entry_bits (e2_Flags e) = Some b}"
    if "b = 32 \<or> b = 64" for b
  proof
    fix x
    assume "x \<in> snd ` {p \<in> set paths. fst p = b}"
    then obtain e where e: "e \<in> set ?es" "fst (key e) = b" "x = snd (key e)" using sub by auto
    from bits [OF e(1)] e(2) that have "entry_bits (e2_Flags e) = Some b" by auto
    with e show "x \<in> entry_path c ` {e \<in> set (lc_entries c). entry_bits (e2_Flags e) = Some b}"
      by (auto simp: key_def)
  qed
  show ?thesis
  proof (intro exI conjI)
    show "ldcache_List c = Inr (map snd (filter (\<lambda>p. fst p = 32) paths), map snd (filter (\<lambda>p. fst p = 64) paths))" by (rule list)
    show "distinct (map snd (filter (\<lambda>p. fst p = 32) paths) @ map snd (filter (\<lambda>p. fst p = 64) paths))"
      unfolding f64 using dist by (rule filter_snd_disjoint)
    show "set (map snd (filter (\<lambda>p. fst p = 32) paths) @ map snd (filter (\<lambda>p. fst p = 64) paths)) =
        entry_path c ` {e \<in> set (lc_entries c). valid_entry (lc_libs c) e}"
      unfolding f64 set_append set_map image_Un [symmetric] part all by simp
  qed (use arch [of 32] arch [of 64] in simp_all)
qed

subsection \<open>Writing and parsing a cache\<close>

fun le_bytes :: "nat \<Rightarrow> nat \<Rightarrow> string" where
  "le_bytes 0 n = []"
| "le_bytes (Suc k) n = char_of (n mod 256) # le_bytes k (n div 256)"

lemma length_le_bytes [simp]: "length (le_bytes k n) = k"
  by (induction k arbitrary: n) auto

lemma le_val_le_bytes [simp]: "le_val (le_bytes k n) = n mod 256 ^ k"
proof (induction k arbitrary: n)
  case (Suc k)
  have "n mod 256 + 256 * (n div 256 mod 256 ^ k) = n mod (256 * 256 ^ k)"
    by (simp add: mod_mult2_eq)
  with Suc show ?case by simp
qed simp

lemma le32_le_bytes [simp]: "le32 (le_bytes 4 n @ bs) = word_of_nat n"
  by (simp add: le32_def word_of_nat_eq_iff take_bit_eq_mod)

lemma le64_le_bytes [simp]: "le64 (le_bytes 8 n @ bs) = word_of_nat n" "le64 (le_bytes 8 n) = word_of_nat n"
  by (simp_all add: le64_def word_of_nat_eq_iff take_bit_eq_mod)

definition entry2_bytes :: "entry2 \<Rightarrow> string" where
  "entry2_bytes e = le_bytes 4 (unat (e2_Flags e)) @ le_bytes 4 (unat (e2_Key e)) @ le_bytes 4 (unat (e2_Value e)) @
     le_bytes 4 (unat (e2_OSVersion e)) @ le_bytes 8 (unat (e2_HWCap e))"

lemma length_entry2_bytes [simp]: "length (entry2_bytes e) = 24"
  by (simp add: entry2_bytes_def)

lemma entry2_of_bytes [simp]: "entry2_of (entry2_bytes e @ bs) = e"
  by (simp add: entry2_of_def entry2_bytes_def)

text \<open>A cache in the new format: the header, the entries and the strings; and one preceded by the old format.\<close>

definition cache_bytes :: "entry2 list \<Rightarrow> string \<Rightarrow> string" where
  "cache_bytes es strings =
     magicString2 @ magicVersion @ le_bytes 4 (length es) @ le_bytes 4 (length strings) @ replicate 20 (CHR 0x00) @
     concat (map entry2_bytes es) @ strings"

definition old_bytes :: "nat \<Rightarrow> string \<Rightarrow> string" where
  "old_bytes n junk = magicString1 @ [CHR 0x00] @ le_bytes 4 n @ junk"

lemma length_concat_entries: "length (concat (map entry2_bytes es)) = 24 * length es"
  by (induction es) auto

lemma drop_entries: "i < length es \<Longrightarrow> \<exists>rest. drop (24 * i) (concat (map entry2_bytes es)) = entry2_bytes (es ! i) @ rest"
proof (induction es arbitrary: i)
  case (Cons e es)
  show ?case
  proof (cases i)
    case 0
    then show ?thesis by simp
  next
    case (Suc j)
    with Cons show ?thesis by simp
  qed
qed simp

lemma entries_of_bytes:
  "map (\<lambda>i. entry2_of (drop (24 * i) (concat (map entry2_bytes es)))) [0..<length es] = es"
proof (rule nth_equalityI)
  fix i
  assume "i < length (map (\<lambda>i. entry2_of (drop (24 * i) (concat (map entry2_bytes es)))) [0..<length es])"
  then have i: "i < length es" by simp
  from drop_entries [OF i] obtain rest where "drop (24 * i) (concat (map entry2_bytes es)) = entry2_bytes (es ! i) @ rest" ..
  with i show "map (\<lambda>i. entry2_of (drop (24 * i) (concat (map entry2_bytes es)))) [0..<length es] ! i = es ! i" by simp
qed simp

text \<open>Reading the new format at any position of the data.\<close>

definition parse_new :: "string \<Rightarrow> string \<Rightarrow> reader \<Rightarrow> ldcache result" where
  "parse_new root libs r =
     bindR (rd_read 48 r) (\<lambda>(header, r).
       if take 17 header \<noteq> magicString2 \<or> take 3 (drop 17 header) \<noteq> magicVersion then Inl errInvalidCache
       else let n = unat (le32 (drop 20 header)) in
            bindR (rd_read (24 * n) r) (\<lambda>(bs, r).
              Inr \<lparr>lc_libs = libs, lc_entries = map (\<lambda>i. entry2_of (drop (24 * i) bs)) [0..<n], lc_root = root\<rparr>))"

lemma parse_new_bytes:
  assumes "length es < 2 ^ 32" and "rd_pos r \<le> length (rd_data r)"
    and "drop (rd_pos r) (rd_data r) = cache_bytes es strings"
  shows "parse_new root libs r = Inr \<lparr>lc_libs = libs, lc_entries = es, lc_root = root\<rparr>"
proof -
  define header where "header = magicString2 @ magicVersion @ le_bytes 4 (length es) @ le_bytes 4 (length strings) @ replicate 20 (CHR 0x00)"
  have d: "drop (rd_pos r) (rd_data r) = header @ concat (map entry2_bytes es) @ strings"
    using assms(3) by (simp add: cache_bytes_def header_def)
  have lh: "length header = 48" by (simp add: header_def magicString2_def magicVersion_def)
  have len: "rd_Len r = 48 + 24 * length es + length strings"
    unfolding rd_Len_def using arg_cong [OF d, of length] by (simp add: lh length_concat_entries)
  have r1: "rd_read 48 r = Inr (header, r\<lparr>rd_pos := rd_pos r + 48\<rparr>)"
    using d len lh by (simp add: rd_read_def)
  have "drop (rd_pos r + 48) (rd_data r) = drop 48 (drop (rd_pos r) (rd_data r))" by (simp add: add.commute)
  then have d2: "drop (rd_pos r + 48) (rd_data r) = concat (map entry2_bytes es) @ strings"
    unfolding d using lh by simp
  have r2: "rd_read (24 * length es) (r\<lparr>rd_pos := rd_pos r + 48\<rparr>) =
      Inr (concat (map entry2_bytes es), r\<lparr>rd_pos := rd_pos r + 48 + 24 * length es\<rparr>)"
    using len d2 by (simp add: rd_read_def rd_Len_def length_concat_entries)
  have "take 17 header = magicString2" "take 3 (drop 17 header) = magicVersion"
    by (simp_all add: header_def magicString2_def magicVersion_def)
  moreover have "unat (le32 (drop 20 header)) = length es"
    using assms(1) by (simp add: header_def magicString2_def magicVersion_def unat_of_nat)
  ultimately show ?thesis by (simp add: parse_new_def r1 r2 entries_of_bytes)
qed

lemma padding_to_8: "nat ((- int k) mod 8) = (8 - k mod 8) mod 8"
proof -
  have "int k mod 8 = int (k mod 8)" by (simp add: zmod_int)
  then show ?thesis by (auto simp: zmod_zminus1_eq_if nat_diff_distrib)
qed

lemma ldcache_parse_new:
  "ldcache_parse root data =
     (if length data \<le> 16 then Inl errInvalidCache
      else bindR (skip_old \<lparr>rd_data = data, rd_pos = 0\<rparr>) (\<lambda>r. parse_new root (drop (length data - rd_Len r) data) r))"
  by (simp add: ldcache_parse_def parse_new_def rd_Len_def Let_def)

text \<open>
  (C10) A cache that is written is read back: parsing the bytes of a header with a list of entries and
  strings gives the entries, with their offsets relative to that header; and so it does when the file
  starts with a cache in the old format (of any number of entries) that is padded to 8 bytes.
\<close>

theorem ldcache_round_trip:
  assumes "length es < 2 ^ 32" and "n < 2 ^ 32" and "length junk = 12 * n" and "length pad = (8 - (16 + 12 * n) mod 8) mod 8"
  shows "ldcache_parse root (cache_bytes es strings) =
           Inr \<lparr>lc_libs = cache_bytes es strings, lc_entries = es, lc_root = root\<rparr>
       \<and> ldcache_parse root (old_bytes n junk @ pad @ cache_bytes es strings) =
           Inr \<lparr>lc_libs = cache_bytes es strings, lc_entries = es, lc_root = root\<rparr>"
proof
  let ?new = "cache_bytes es strings"
  have long: "16 < length ?new" by (simp add: cache_bytes_def magicString2_def magicVersion_def)
  have "skip_old \<lparr>rd_data = ?new, rd_pos = 0\<rparr> = Inr \<lparr>rd_data = ?new, rd_pos = 0\<rparr>"
    by (simp add: skip_old_def magicString1_def magicString2_def cache_bytes_def)
  with long parse_new_bytes [OF assms(1), of "\<lparr>rd_data = ?new, rd_pos = 0\<rparr>" strings]
  show "ldcache_parse root ?new = Inr \<lparr>lc_libs = ?new, lc_entries = es, lc_root = root\<rparr>"
    by (simp add: ldcache_parse_new rd_Len_def)
  let ?data = "old_bytes n junk @ pad @ ?new"
  let ?p = "16 + 12 * n + length pad"
  have lold: "length (old_bytes n junk) = 16 + 12 * n" using assms(3) by (simp add: old_bytes_def magicString1_def)
  have read: "rd_read 16 \<lparr>rd_data = ?data, rd_pos = 0\<rparr> =
      Inr (magicString1 @ [CHR 0x00] @ le_bytes 4 n, \<lparr>rd_data = ?data, rd_pos = 16\<rparr>)"
    by (simp add: rd_read_def rd_Len_def old_bytes_def magicString1_def)
  have padding: "nat ((- int (16 + 12 * n)) mod 8) = length pad"
    unfolding assms(4) by (rule padding_to_8)
  have "skip_old \<lparr>rd_data = ?data, rd_pos = 0\<rparr> = Inr \<lparr>rd_data = ?data, rd_pos = ?p\<rparr>"
  proof -
    have magic: "take (length magicString1) ?data = magicString1" by (simp add: old_bytes_def)
    have nlibs: "unat (le32 (drop 12 (magicString1 @ [CHR 0x00] @ le_bytes 4 n))) * 12 = 12 * n"
      using assms(2) le32_le_bytes [of n "[]"] by (simp add: magicString1_def unat_of_nat)
    show ?thesis
      unfolding skip_old_def reader.simps magic if_True read bindR_Inr prod.case simp_thms nlibs Let_def rd_skip_def padding
      by simp
  qed
  moreover have "drop ?p ?data = ?new" using lold by simp
  ultimately show "ldcache_parse root ?data = Inr \<lparr>lc_libs = ?new, lc_entries = es, lc_root = root\<rparr>"
    using parse_new_bytes [OF assms(1), of "\<lparr>rd_data = ?data, rd_pos = ?p\<rparr>" strings] lold long
    by (auto simp: ldcache_parse_new rd_Len_def)
qed

theorem ldcache_round_trip_witness:
  "ldcache_parse ''/'' (old_bytes 1 (replicate 12 (CHR ''x'')) @ replicate 4 (CHR 0x00) @ cache_bytes [] ''a'') =
     Inr \<lparr>lc_libs = cache_bytes [] ''a'', lc_entries = [], lc_root = ''/''\<rparr>"
  using ldcache_round_trip [of "[]" 1 "replicate 12 (CHR ''x'')" "replicate 4 (CHR 0x00)" "''/''" "''a''"] by simp

end
