(* ===== verification/Lookup.thy ===== *)
theory Lookup
  imports Runtime Go_Match Ldcache
begin

section \<open>Locating files\<close>

text \<open>
  \<open>pkg/lookup\<close> and \<open>pkg/lookup/symlinks\<close>: the locators for files, devices, directories, executables and
  libraries, and the combinators they are made of.  The file system is a parameter: matching of
  patterns, the information on files, and a finite map of symbolic links.
\<close>

record stat_info =
  si_IsDir :: bool
  si_Mode :: "32 word"
  si_CharDevice :: bool

text \<open>The working directory is given without its leading slash.\<close>

record lookup_fs =
  fs_glob :: "string \<Rightarrow> string list result"
  fs_stat :: "string \<Rightarrow> stat_info result"
  fs_lstat :: "string \<Rightarrow> stat_info result"
  fs_links :: "(string \<times> string) list"
  fs_EvalSymlinks :: "string \<Rightarrow> string result"
  fs_read :: "string \<Rightarrow> string result"
  fs_wd :: string
  fs_PATH :: string

subsection \<open>Search paths (\<open>path.go\<close>)\<close>

definition SplitList :: "string \<Rightarrow> string list" where
  "SplitList path = (if path = [] then [] else Split path '':'')"

definition NormalizePaths :: "string list \<Rightarrow> string list" where
  "NormalizePaths paths = concat (map SplitList paths)"

definition defaultPATH :: "string list" where
  "defaultPATH = [''/usr/local/sbin'', ''/usr/local/bin'', ''/usr/sbin'', ''/usr/bin'', ''/sbin'', ''/bin'']"

definition GetPaths :: "lookup_fs \<Rightarrow> string \<Rightarrow> string list" where
  "GetPaths fs root =
     (let envDirs = NormalizePaths [fs_PATH fs];
          dirs = envDirs @ filter (\<lambda>d. d \<notin> set envDirs) defaultPATH
      in if root \<noteq> [] \<and> root \<noteq> ''/'' then map (\<lambda>dir. FJoin [root, dir]) dirs @ dirs else dirs)"

definition GetPath :: "lookup_fs \<Rightarrow> string \<Rightarrow> string" where
  "GetPath fs root = StrJoin (GetPaths fs root) '':''"

subsection \<open>Errors and wrappers (\<open>locator.go\<close>, \<open>null.go\<close>, \<open>optional.go\<close>, \<open>merge.go\<close>)\<close>

definition ErrNotFound :: error where "ErrNotFound = Errorf ''not found''"

fun Is_ErrNotFound :: "error \<Rightarrow> bool" where
  "Is_ErrNotFound (Errorf m) = (Errorf m = ErrNotFound)"
| "Is_ErrNotFound (Wrap m e) = Is_ErrNotFound e"
| "Is_ErrNotFound (Joined es) = list_ex Is_ErrNotFound es"
| "Is_ErrNotFound (Panic m) = False"

definition notFound_NewError :: "string \<Rightarrow> error" where
  "notFound_NewError s = Wrap s ErrNotFound"

definition notFound_Locate :: locator where
  "notFound_Locate s = Inl (notFound_NewError s)"

definition AsOptional :: "locator \<Rightarrow> locator" where
  "AsOptional l pattern =
     (case l pattern of Inl e \<Rightarrow> if Is_ErrNotFound e then Inr [] else Inl e | Inr cs \<Rightarrow> Inr cs)"

definition asRequired :: "locator \<Rightarrow> locator" where
  "asRequired l pattern =
     bindR (l pattern) (\<lambda>candidates. if candidates = [] then Inl (notFound_NewError pattern) else Inr candidates)"

fun first_Locate :: "error list \<Rightarrow> locator list \<Rightarrow> locator" where
  "first_Locate allErrors [] pattern = (if allErrors = [] then Inr [] else Inl (Joined allErrors))"
| "first_Locate allErrors (l # ls) pattern =
     (case l pattern of
        Inl (Panic p) \<Rightarrow> Inl (Panic p)
      | Inl e \<Rightarrow> first_Locate (allErrors @ [e]) ls pattern
      | Inr candidates \<Rightarrow> if candidates \<noteq> [] then Inr candidates else first_Locate allErrors ls pattern)"

definition First :: "locator option list \<Rightarrow> locator" where
  "First locators = first_Locate [] (concat (map (\<lambda>l. case l of None \<Rightarrow> [] | Some x \<Rightarrow> [x]) locators))"

definition AsUnique :: "locator \<Rightarrow> locator" where
  "AsUnique l pattern = bindR (l pattern) (\<lambda>candidates. Inr (unique_by id candidates))"

subsection \<open>Files (\<open>factory.go\<close>, \<open>file.go\<close>, \<open>dir.go\<close>, \<open>device.go\<close>)\<close>

type_synonym file_filter = "string \<Rightarrow> error option"

record locator_factory =
  lf_root :: string
  lf_searchPaths :: "string list"
  lf_filter :: "file_filter option"
  lf_count :: int

type_synonym locator_option = "locator_factory \<Rightarrow> locator_factory"

definition WithRoot :: "string \<Rightarrow> locator_option" where
  "WithRoot root f = f\<lparr>lf_root := root\<rparr>"

definition WithSearchPaths :: "string list \<Rightarrow> locator_option" where
  "WithSearchPaths paths f = f\<lparr>lf_searchPaths := NormalizePaths paths\<rparr>"

definition WithFilter :: "file_filter \<Rightarrow> locator_option" where
  "WithFilter assert f = f\<lparr>lf_filter := Some assert\<rparr>"

definition WithCount :: "int \<Rightarrow> locator_option" where
  "WithCount cnt f = f\<lparr>lf_count := cnt\<rparr>"

definition assertFile :: "lookup_fs \<Rightarrow> file_filter" where
  "assertFile fs filename =
     (case fs_stat fs filename of
        Inl e \<Rightarrow> Some (Wrap (''error getting info for '' @ filename) e)
      | Inr info \<Rightarrow> if si_IsDir info then Some (Errorf (''specified path is a directory: '' @ filename)) else None)"

definition assertDirectory :: "lookup_fs \<Rightarrow> file_filter" where
  "assertDirectory fs filename =
     (case fs_stat fs filename of
        Inl e \<Rightarrow> Some (Wrap (''error getting info for '' @ filename) e)
      | Inr info \<Rightarrow> if \<not> si_IsDir info then Some (Errorf (''specified path is not a directory: '' @ filename)) else None)"

definition AssertCharDevice :: "lookup_fs \<Rightarrow> file_filter" where
  "AssertCharDevice fs path =
     (case fs_lstat fs path of
        Inl e \<Rightarrow> Some (Wrap ''error getting info'' e)
      | Inr info \<Rightarrow> if \<not> si_CharDevice info then Some (Errorf (path @ '' is not a char device'')) else None)"

definition NewFactory_lookup :: "lookup_fs \<Rightarrow> locator_option list \<Rightarrow> locator_factory" where
  "NewFactory_lookup fs opts =
     (let f = foldl (\<lambda>f opt. opt f) \<lparr>lf_root = [], lf_searchPaths = [], lf_filter = None, lf_count = 0\<rparr> opts
      in f\<lparr>lf_filter := Some (case lf_filter f of None \<Rightarrow> assertFile fs | Some g \<Rightarrow> g)\<rparr>)"

definition getSearchPrefixes :: "string \<Rightarrow> string list \<Rightarrow> string list" where
  "getSearchPrefixes root pfxs =
     (let uniquePrefixes = map (\<lambda>p. FJoin [root, p]) (unique_by id pfxs)
      in if uniquePrefixes = [] then [root] else uniquePrefixes)"

text \<open>The two loops of \<open>Locate\<close>; the boolean tells that the outer loop is left.\<close>

fun visit_candidates :: "file_filter \<Rightarrow> int \<Rightarrow> string list \<Rightarrow> string list \<Rightarrow> string list \<times> bool" where
  "visit_candidates flt cnt filenames [] = (filenames, False)"
| "visit_candidates flt cnt filenames (c # cs) =
     (if flt c \<noteq> None then visit_candidates flt cnt filenames cs
      else let filenames = filenames @ [c] in
           if cnt > 0 \<and> int (length filenames) = cnt then (filenames, True)
           else visit_candidates flt cnt filenames cs)"

fun visit_prefixes :: "lookup_fs \<Rightarrow> file_filter \<Rightarrow> int \<Rightarrow> string \<Rightarrow> string list \<Rightarrow> string list \<Rightarrow> string list" where
  "visit_prefixes fs flt cnt pattern filenames [] = filenames"
| "visit_prefixes fs flt cnt pattern filenames (p # ps) =
     (let candidates = (case fs_glob fs (FJoin [p, pattern]) of Inl e \<Rightarrow> [] | Inr cs \<Rightarrow> cs) in
      case visit_candidates flt cnt filenames candidates of
        (filenames, stop) \<Rightarrow>
          if stop then filenames else visit_prefixes fs flt cnt pattern filenames ps)"

definition file_Locate :: "lookup_fs \<Rightarrow> file_filter \<Rightarrow> int \<Rightarrow> string list \<Rightarrow> locator" where
  "file_Locate fs flt cnt pfxs pattern = Inr (visit_prefixes fs flt cnt pattern [] pfxs)"

definition factory_filter :: "lookup_fs \<Rightarrow> locator_factory \<Rightarrow> file_filter" where
  "factory_filter fs f = (case lf_filter f of None \<Rightarrow> assertFile fs | Some g \<Rightarrow> g)"

definition Factory_NewFileLocator :: "lookup_fs \<Rightarrow> locator_factory \<Rightarrow> locator" where
  "Factory_NewFileLocator fs f =
     asRequired (file_Locate fs (factory_filter fs f) (lf_count f) (getSearchPrefixes (lf_root f) (lf_searchPaths f)))"

definition NewFileLocator :: "lookup_fs \<Rightarrow> locator_option list \<Rightarrow> locator" where
  "NewFileLocator fs opts = Factory_NewFileLocator fs (NewFactory_lookup fs opts)"

definition NewCharDeviceLocator :: "lookup_fs \<Rightarrow> locator_option list \<Rightarrow> locator" where
  "NewCharDeviceLocator fs opts =
     NewFileLocator fs (opts @ [WithSearchPaths [''/'', ''/dev''], WithFilter (AssertCharDevice fs)])"

text \<open>The locator of \<open>discover.NewCharDeviceDiscoverer\<close>.\<close>

definition fs_NewCharDeviceDiscoverer :: "lookup_fs \<Rightarrow> string \<Rightarrow> string list \<Rightarrow> discover" where
  "fs_NewCharDeviceDiscoverer fs devRoot devices =
     NewCharDeviceDiscoverer (NewCharDeviceLocator fs [WithRoot devRoot]) devRoot devices"

definition NewDirectoryLocator :: "lookup_fs \<Rightarrow> locator_option list \<Rightarrow> locator" where
  "NewDirectoryLocator fs opts = NewFileLocator fs (opts @ [WithFilter (assertDirectory fs)])"

subsection \<open>Executables (\<open>executable.go\<close>)\<close>

definition assertExecutable :: "lookup_fs \<Rightarrow> file_filter" where
  "assertExecutable fs filename =
     (case assertFile fs filename of
        Some e \<Rightarrow> Some e
      | None \<Rightarrow>
          (case fs_stat fs filename of
             Inl e \<Rightarrow> Some e
           | Inr info \<Rightarrow>
               if and (si_Mode info) 0x49 = 0 then Some (Errorf (''specified file is not executable: '' @ filename)) else None))"

definition executable_Locate :: "lookup_fs \<Rightarrow> locator \<Rightarrow> locator" where
  "executable_Locate fs l pattern =
     (if Contains pattern ''/''
      then (case assertExecutable fs pattern of
              Some e \<Rightarrow> Inl (Wrap (''absolute path is not an executable file: '' @ pattern) e)
            | None \<Rightarrow> Inr [pattern])
      else l pattern)"

definition newExecutableLocator :: "lookup_fs \<Rightarrow> string \<Rightarrow> string list \<Rightarrow> locator" where
  "newExecutableLocator fs root paths =
     executable_Locate fs
       (NewFileLocator fs [WithRoot root, WithSearchPaths paths, WithFilter (assertExecutable fs), WithCount 1])"

definition NewExecutableLocator :: "lookup_fs \<Rightarrow> string \<Rightarrow> locator" where
  "NewExecutableLocator fs root = newExecutableLocator fs root (GetPaths fs root)"

subsection \<open>Symbolic links (\<open>symlinks/symlink.go\<close>, \<open>symlinks.go\<close>)\<close>

definition Abs_path :: "lookup_fs \<Rightarrow> string \<Rightarrow> string" where
  "Abs_path fs path = (if IsAbs path then Clean path else FJoin [slash # fs_wd fs, path])"

definition symlinks_Resolve :: "lookup_fs \<Rightarrow> string \<Rightarrow> string result" where
  "symlinks_Resolve fs filename =
     bindR (wrapR ''failed to get file info'' (fs_lstat fs filename)) (\<lambda>info.
       Inr (case map_of (fs_links fs) filename of None \<Rightarrow> filename | Some target \<Rightarrow> target))"

lemma FJoin_rooted: "IsAbs (FJoin ((slash # a) # es))"
proof -
  have "path_rooted (StrJoin ((slash # a) # es) ''/'')" by (cases es) simp_all
  then have "path_rooted (Clean (StrJoin ((slash # a) # es) ''/''))" by (rule Clean_rooted)
  then show ?thesis by (simp add: FJoin_def IsAbs_def path_rooted_def)
qed

lemma IsAbs_Abs_path: "IsAbs (Abs_path fs p)"
  using Clean_rooted [of p] FJoin_rooted [of "fs_wd fs" "[p]"]
  by (auto simp: Abs_path_def IsAbs_def path_rooted_def)

text \<open>
  The loop of \<open>ResolveChain\<close>.  It ends because every round visits another link, or a file that is not a
  link: then the next round sees the same absolute path again.
\<close>

definition chain_measure :: "lookup_fs \<Rightarrow> string list \<Rightarrow> string \<Rightarrow> nat" where
  "chain_measure fs seen filename =
     3 * card (fst ` set (fs_links fs) - set seen) +
     (if filename \<in> set seen \<or> filename \<in> fst ` set (fs_links fs) then 0 else if IsAbs filename then 1 else 2)"

definition chain_next :: "lookup_fs \<Rightarrow> string \<Rightarrow> string \<Rightarrow> string" where
  "chain_next fs filename target =
     (if \<not> IsAbs target then Abs_path fs (FJoin [Dir filename, target]) else target)"

lemma IsAbs_chain_next: "IsAbs (chain_next fs f t)"
  by (simp add: chain_next_def IsAbs_Abs_path)

lemma chain_decreases:
  assumes "symlinks_Resolve fs f = Inr t" and "f \<notin> set seen"
  shows "chain_measure fs (seen @ [f]) (chain_next fs f t) < chain_measure fs seen f"
proof (cases "f \<in> fst ` set (fs_links fs)")
  case True
  let ?K = "fst ` set (fs_links fs)"
  have "?K - set (seen @ [f]) = (?K - set seen) - {f}" by auto
  moreover have "f \<in> ?K - set seen" using True assms(2) by simp
  ultimately have "card (?K - set (seen @ [f])) < card (?K - set seen)"
    by (metis card_Diff1_less finite_Diff finite_imageI finite_set)
  with True assms(2) show ?thesis by (simp add: chain_measure_def)
next
  case False
  then have "map_of (fs_links fs) f = None" by (simp add: map_of_eq_None_iff)
  with assms(1) have t: "t = f" by (auto simp: symlinks_Resolve_def bindR_eq_Inr)
  have same: "fst ` set (fs_links fs) - set (seen @ [f]) = fst ` set (fs_links fs) - set seen" using False by auto
  show ?thesis
  proof (cases "IsAbs f")
    case True
    then show ?thesis using False assms(2) t unfolding chain_measure_def same by (simp add: chain_next_def)
  next
    case False
    then show ?thesis
      using \<open>f \<notin> fst ` set (fs_links fs)\<close> assms(2) IsAbs_chain_next [of fs f t]
      unfolding chain_measure_def same by simp
  qed
qed

function chain_loop :: "lookup_fs \<Rightarrow> string list \<Rightarrow> string \<Rightarrow> string list result" where
  "chain_loop fs chain filename =
     (case symlinks_Resolve fs filename of
        Inl e \<Rightarrow> Inl e
      | Inr target \<Rightarrow>
          if filename \<in> set chain then Inr chain
          else chain_loop fs (chain @ [filename]) (chain_next fs filename target))"
  by pat_completeness auto
termination chain_loop
  by (relation "measure (\<lambda>(fs, chain, f). chain_measure fs chain f)") (auto intro: chain_decreases)

declare chain_loop.simps [simp del]

definition ResolveChain :: "lookup_fs \<Rightarrow> string \<Rightarrow> string list result" where
  "ResolveChain fs filename = chain_loop fs [] filename"

definition symlink_Locate :: "lookup_fs \<Rightarrow> locator \<Rightarrow> locator" where
  "symlink_Locate fs l pattern =
     bindR (l pattern) (mapR (\<lambda>c. wrapR ''failed to resolve link'' (fs_EvalSymlinks fs c)))"

definition WithEvaluatedSymlinks :: "lookup_fs \<Rightarrow> locator \<Rightarrow> locator" where
  "WithEvaluatedSymlinks fs l = symlink_Locate fs l"

definition NewSymlinkLocator :: "lookup_fs \<Rightarrow> locator_option list \<Rightarrow> locator" where
  "NewSymlinkLocator fs opts = AsUnique (WithEvaluatedSymlinks fs (NewFileLocator fs opts))"

text \<open>Candidates and targets that were found before are skipped.\<close>

fun symlinkChain_loop :: "lookup_fs \<Rightarrow> string list \<Rightarrow> string list \<Rightarrow> string list result" where
  "symlinkChain_loop fs filenames [] = Inr filenames"
| "symlinkChain_loop fs filenames (c # cs) =
     (if c \<in> set filenames then symlinkChain_loop fs filenames cs
      else bindR (wrapR ''error resolving symlink chain'' (ResolveChain fs c)) (\<lambda>targets.
             symlinkChain_loop fs (filenames @ seen_loop id (\<lambda>t. t \<in> set filenames) targets) cs))"

definition NewSymlinkChainLocator :: "lookup_fs \<Rightarrow> locator_option list \<Rightarrow> locator" where
  "NewSymlinkChainLocator fs opts pattern =
     bindR (NewFileLocator fs opts pattern) (symlinkChain_loop fs [])"

subsection \<open>Libraries (\<open>ldcache.go\<close>, \<open>library.go\<close>)\<close>

definition ldcache_matcher :: "string \<Rightarrow> string \<Rightarrow> string \<Rightarrow> bool" where
  "ldcache_matcher root pattern input =
     (case (if Contains pattern ''/'' then filepath_Match (FJoin [root, pattern]) input
            else filepath_Match pattern (Base input)) of
        Inl e \<Rightarrow> False
      | Inr matches \<Rightarrow> matches)"

definition ldcacheLocator_Locate :: "string \<Rightarrow> string list \<Rightarrow> locator" where
  "ldcacheLocator_Locate root libraries pattern =
     (let matches = filter (ldcache_matcher root pattern) libraries in
      if length matches = 0 then Inl (Wrap pattern ErrNotFound) else Inr matches)"

text \<open>A library whose links cannot be resolved is left out.\<close>

definition newLdcacheLocator :: "lookup_fs \<Rightarrow> locator_factory \<Rightarrow> locator result" where
  "newLdcacheLocator fs f =
     (case ldcache_New (fs_read fs) (lf_root f) of
        Inl e \<Rightarrow> Inr notFound_Locate
      | Inr cache \<Rightarrow>
          bindR (ldcache_List cache) (\<lambda>(libs32, libs64).
            let libraries = concat (map (\<lambda>l. case ResolveChain fs l of Inl e \<Rightarrow> [] | Inr chain \<Rightarrow> chain) libs64)
            in Inr (AsUnique (WithEvaluatedSymlinks fs (ldcacheLocator_Locate (lf_root f) libraries)))))"

definition library_search_paths :: "string list" where
  "library_search_paths =
     [''/'', ''/usr/lib64'', ''/usr/lib/x86_64-linux-gnu'', ''/usr/lib/aarch64-linux-gnu'',
      ''/usr/lib/x86_64-linux-gnu/nvidia/current'', ''/usr/lib/aarch64-linux-gnu/nvidia/current'',
      ''/lib64'', ''/lib/x86_64-linux-gnu'', ''/lib/aarch64-linux-gnu'',
      ''/lib/x86_64-linux-gnu/nvidia/current'', ''/lib/aarch64-linux-gnu/nvidia/current'']"

definition NewLibraryLocator :: "lookup_fs \<Rightarrow> locator_option list \<Rightarrow> locator result" where
  "NewLibraryLocator fs opts =
     (let f = NewFactory_lookup fs opts in
      if length (lf_searchPaths f) > 0
      then Inr (NewSymlinkLocator fs [WithSearchPaths (lf_searchPaths f), WithRoot ''/''])
      else bindR (newLdcacheLocator fs f) (\<lambda>cacheLocator.
             Inr (First [Some (NewSymlinkLocator fs (opts @ [WithSearchPaths library_search_paths])), Some cacheLocator])))"

subsection \<open>Locators that find something or fail\<close>

text \<open>
  The contract that the users of a locator rely on when they take the first of the located files: a
  locator never succeeds with nothing.
\<close>

locale required_locator =
  fixes locate :: locator
  assumes nonempty: "locate p = Inr cs \<Longrightarrow> cs \<noteq> []"
begin

lemma resolves:
  "\<exists>r. resolveWithDefault locate path def = Inr r \<and>
     (if IsAbs path then r = path
      else r = def \<or> (\<exists>cs. locate (if path = [] then Base def else path) = Inr cs \<and> r = hd cs))"
proof (cases "IsAbs path")
  case False
  let ?p = "if path = [] then Base def else path"
  show ?thesis
  proof (cases "locate ?p")
    case (Inr cs)
    with nonempty [OF this] obtain t ts where "cs = t # ts" by (cases cs) auto
    with Inr False show ?thesis by (auto simp: resolveWithDefault_def Let_def)
  qed (use False in \<open>auto simp: resolveWithDefault_def Let_def\<close>)
qed (simp add: resolveWithDefault_def)

lemma finds_runtime:
  assumes "findRuntime locate candidates = Inr target"
  shows "\<exists>c cs. c \<in> set candidates \<and> locate c = Inr cs \<and> target = hd cs"
proof -
  have "find_runtime_loop locate candidates = Some target"
    using assms by (auto simp: findRuntime_def split: if_splits option.splits)
  then show ?thesis
    by (induction candidates) (fastforce split: sum.splits list.splits)+
qed

lemma no_runtime_iff:
  "(\<exists>e. findRuntime locate candidates = Inl e) \<longleftrightarrow> list_all (\<lambda>c. isl (locate c)) candidates"
proof -
  have "find_runtime_loop locate candidates = None \<longleftrightarrow> list_all (\<lambda>c. isl (locate c)) candidates"
  proof (induction candidates)
    case (Cons c cs)
    then show ?case by (auto split: sum.splits list.splits dest: nonempty)
  qed simp
  then show ?thesis by (auto simp: findRuntime_def split: option.splits)
qed

end

lemma required_asRequired: "required_locator (asRequired l)"
  by unfold_locales (auto simp: asRequired_def bindR_eq_Inr split: if_splits)

lemma required_AsUnique: "required_locator l \<Longrightarrow> required_locator (AsUnique l)"
  by (auto simp: required_locator_def AsUnique_def bindR_eq_Inr unique_by_nonempty)

lemma required_symlink: "required_locator l \<Longrightarrow> required_locator (symlink_Locate fs l)"
  by (fastforce simp: required_locator_def symlink_Locate_def bindR_eq_Inr mapR_Inr_iff)

lemma required_notFound: "required_locator notFound_Locate"
  by unfold_locales (simp add: notFound_Locate_def)

lemma required_ldcache: "required_locator (ldcacheLocator_Locate root libs)"
  by unfold_locales (auto simp: ldcacheLocator_Locate_def Let_def split: if_splits)

lemma first_Locate_nonempty:
  assumes "\<forall>l \<in> set ls. required_locator l" and "ls \<noteq> [] \<or> es \<noteq> []" and "first_Locate es ls p = Inr cs"
  shows "cs \<noteq> []"
  using assms
proof (induction ls arbitrary: es)
  case (Cons l ls)
  have l: "l p = Inr ds \<Longrightarrow> ds \<noteq> []" for ds using Cons.prems(1) by (auto simp: required_locator_def)
  show ?case
  proof (cases "l p")
    case (Inl e)
    then show ?thesis using Cons.prems Cons.IH [of "es @ [e]"] by (cases e) auto
  next
    case (Inr ds)
    with l Cons.prems show ?thesis by auto
  qed
qed auto

lemma required_First: "\<forall>l \<in> set ls. required_locator l \<Longrightarrow> ls \<noteq> [] \<Longrightarrow> required_locator (First (map Some ls))"
proof (rule required_locator.intro)
  fix p cs
  assume *: "\<forall>l \<in> set ls. required_locator l" "ls \<noteq> []" "First (map Some ls) p = Inr cs"
  have "concat (map (\<lambda>l. case l of None \<Rightarrow> [] | Some x \<Rightarrow> [x]) (map Some ls)) = ls" by (induction ls) auto
  with * have "first_Locate [] ls p = Inr cs" by (simp add: First_def)
  with * show "cs \<noteq> []" by (intro first_Locate_nonempty [of ls "[]" p]) auto
qed

interpretation files: required_locator "NewFileLocator fs opts" for fs opts
  by (simp add: NewFileLocator_def Factory_NewFileLocator_def required_asRequired)

interpretation links: required_locator "NewSymlinkLocator fs opts" for fs opts
  unfolding NewSymlinkLocator_def WithEvaluatedSymlinks_def
  by (intro required_AsUnique required_symlink files.required_locator_axioms)

interpretation executables: required_locator "NewExecutableLocator fs root" for fs root
proof
  fix p cs
  assume "NewExecutableLocator fs root p = Inr cs"
  then show "cs \<noteq> []"
    by (auto simp: NewExecutableLocator_def newExecutableLocator_def executable_Locate_def
        split: if_splits option.splits dest: files.nonempty)
qed

lemma required_newLdcacheLocator: "newLdcacheLocator fs f = Inr l \<Longrightarrow> required_locator l"
  by (auto simp: newLdcacheLocator_def bindR_eq_Inr WithEvaluatedSymlinks_def Let_def split: sum.splits
      intro: required_notFound required_AsUnique required_symlink required_ldcache)

lemma required_library: "NewLibraryLocator fs opts = Inr l \<Longrightarrow> required_locator l"
proof -
  assume l: "NewLibraryLocator fs opts = Inr l"
  show ?thesis
  proof (cases "length (lf_searchPaths (NewFactory_lookup fs opts)) > 0")
    case True
    with l show ?thesis by (auto simp: NewLibraryLocator_def Let_def links.required_locator_axioms)
  next
    case False
    with l obtain c where c: "newLdcacheLocator fs (NewFactory_lookup fs opts) = Inr c"
      and "l = First (map Some [NewSymlinkLocator fs (opts @ [WithSearchPaths library_search_paths]), c])"
      by (auto simp: NewLibraryLocator_def Let_def bindR_eq_Inr)
    with required_newLdcacheLocator [OF c] show ?thesis
      using required_First [of "[NewSymlinkLocator fs (opts @ [WithSearchPaths library_search_paths]), c]"]
        links.required_locator_axioms by simp
  qed
qed

text \<open>
  (C30) With the locator of executables that the toolkit uses, the paths in the configuration always
  resolve: updating the configuration of the runtime never fails and never panics, an absolute path
  is kept, and any other path becomes the default or the first executable that is found; and a
  low-level runtime is found exactly if one of the candidates can be located.
\<close>

theorem executables_resolve:
  "\<exists>cfg'. update_config (NewExecutableLocator fs root) mode cfg = Inr cfg'
     \<and> (if IsAbs (cfg_CTK_Path cfg) then cfg_CTK_Path cfg' = cfg_CTK_Path cfg
        else cfg_CTK_Path cfg' = ''/usr/bin/nvidia-ctk'' \<or>
          (\<exists>cs. NewExecutableLocator fs root (if cfg_CTK_Path cfg = [] then ''nvidia-ctk'' else cfg_CTK_Path cfg) = Inr cs
             \<and> cfg_CTK_Path cfg' = hd cs))
     \<and> ((\<exists>e. findRuntime (NewExecutableLocator fs root) candidates = Inl e) =
        list_all (\<lambda>c. isl (NewExecutableLocator fs root c)) candidates)"
proof -
  let ?l = "NewExecutableLocator fs root"
  let ?cfg = "if mode \<noteq> [] then set_mode mode cfg else cfg"
  have same: "cfg_CTK_Path ?cfg = cfg_CTK_Path cfg" by (simp add: set_mode_def)
  have base: "Base ''/usr/bin/nvidia-ctk'' = ''nvidia-ctk''" by code_simp
  obtain ctk where ctk: "ResolveNVIDIACTKPath ?l (cfg_CTK_Path ?cfg) = Inr ctk"
    and ctk_spec: "if IsAbs (cfg_CTK_Path cfg) then ctk = cfg_CTK_Path cfg
      else ctk = ''/usr/bin/nvidia-ctk'' \<or>
        (\<exists>cs. ?l (if cfg_CTK_Path cfg = [] then ''nvidia-ctk'' else cfg_CTK_Path cfg) = Inr cs \<and> ctk = hd cs)"
    using executables.resolves [of fs root "cfg_CTK_Path cfg" "''/usr/bin/nvidia-ctk''"]
    unfolding ResolveNVIDIACTKPath_def nvidiaCTKDefaultFilePath_def base same by blast
  obtain hook where hook: "ResolveNVIDIAContainerRuntimeHookPath ?l (hook_Path (cfg_Hook ?cfg)) = Inr hook"
    using executables.resolves [of fs root "hook_Path (cfg_Hook ?cfg)" nvidiaContainerRuntimeHookDefaultPath]
    by (auto simp: ResolveNVIDIAContainerRuntimeHookPath_def)
  have "update_config ?l mode cfg = Inr (?cfg\<lparr>cfg_CTK_Path := ctk, cfg_Hook := (cfg_Hook ?cfg)\<lparr>hook_Path := hook\<rparr>\<rparr>)"
    using ctk hook by (simp add: update_config_def Let_def)
  with ctk_spec executables.no_runtime_iff [of fs root candidates] show ?thesis by (intro exI conjI) auto
qed

subsection \<open>The search for files\<close>

definition accepted :: "lookup_fs \<Rightarrow> file_filter \<Rightarrow> string \<Rightarrow> string \<Rightarrow> string list" where
  "accepted fs flt pattern pfx =
     filter (\<lambda>c. flt c = None) (case fs_glob fs (FJoin [pfx, pattern]) of Inl e \<Rightarrow> [] | Inr cs \<Rightarrow> cs)"

definition up_to :: "int \<Rightarrow> 'a list \<Rightarrow> 'a list" where
  "up_to n xs = (if n > 0 then take (nat n) xs else xs)"

lemma visit_candidates_eq:
  assumes "cnt > 0 \<longrightarrow> int (length acc) < cnt"
  shows "visit_candidates flt cnt acc cs =
    (up_to cnt (acc @ filter (\<lambda>c. flt c = None) cs),
     cnt > 0 \<and> int (length (acc @ filter (\<lambda>c. flt c = None) cs)) \<ge> cnt)"
  using assms
proof (induction cs arbitrary: acc)
  case (Cons c cs)
  show ?case
  proof (cases "flt c = None \<and> cnt > 0 \<and> int (Suc (length acc)) = cnt")
    case True
    then have "nat cnt = length (acc @ [c])" by auto
    with True show ?thesis by (simp add: up_to_def)
  next
    case False
    with Cons show ?thesis by (auto simp: Let_def)
  qed
qed (auto simp: up_to_def)

lemma visit_prefixes_eq:
  assumes "cnt > 0 \<longrightarrow> int (length acc) < cnt"
  shows "visit_prefixes fs flt cnt pattern acc ps = up_to cnt (acc @ concat (map (accepted fs flt pattern) ps))"
  using assms
proof (induction ps arbitrary: acc)
  case (Cons p ps)
  let ?a = "acc @ accepted fs flt pattern p"
  have v: "visit_candidates flt cnt acc (case fs_glob fs (FJoin [p, pattern]) of Inl e \<Rightarrow> [] | Inr cs \<Rightarrow> cs) =
      (up_to cnt ?a, cnt > 0 \<and> int (length ?a) \<ge> cnt)"
    using visit_candidates_eq [OF Cons.prems] by (simp add: accepted_def)
  show ?case
  proof (cases "cnt > 0 \<and> int (length ?a) \<ge> cnt")
    case True
    then have "nat cnt \<le> length ?a" by auto
    with True v show ?thesis by (simp add: up_to_def Let_def)
  next
    case False
    then have "up_to cnt ?a = ?a" by (auto simp: up_to_def)
    moreover have "cnt > 0 \<longrightarrow> int (length ?a) < cnt" using False by auto
    ultimately show ?thesis using False v Cons.IH [of ?a] by (auto simp: Let_def)
  qed
qed (auto simp: up_to_def)

text \<open>
  (C12) A file locator returns exactly the first matches that its filter accepts: all of them, prefix by
  prefix in the order of the search paths, or the first \<open>count\<close> when a limit is set; and it is an error
  exactly if there is none.
\<close>

theorem file_locator_finds_first_matches:
  "Factory_NewFileLocator fs f pattern =
     (let found = concat (map (accepted fs (factory_filter fs f) pattern) (getSearchPrefixes (lf_root f) (lf_searchPaths f)))
      in if found = [] then Inl (Wrap pattern ErrNotFound)
         else Inr (if lf_count f > 0 then take (nat (lf_count f)) found else found))"
proof -
  let ?found = "concat (map (accepted fs (factory_filter fs f) pattern) (getSearchPrefixes (lf_root f) (lf_searchPaths f)))"
  have "file_Locate fs (factory_filter fs f) (lf_count f) (getSearchPrefixes (lf_root f) (lf_searchPaths f)) pattern =
      Inr (up_to (lf_count f) ?found)"
    unfolding file_Locate_def by (subst visit_prefixes_eq) auto
  moreover have "up_to (lf_count f) ?found = [] \<longleftrightarrow> ?found = []" by (auto simp: up_to_def)
  ultimately show ?thesis
    by (simp add: Factory_NewFileLocator_def asRequired_def notFound_NewError_def Let_def up_to_def)
qed

subsection \<open>Chains of links\<close>

definition chain_step :: "lookup_fs \<Rightarrow> string \<Rightarrow> string \<Rightarrow> bool" where
  "chain_step fs a b \<longleftrightarrow> (\<exists>t. symlinks_Resolve fs a = Inr t \<and> b = chain_next fs a t)"

lemma chain_loop_spec:
  assumes "chain_loop fs pre f = Inr chain" and "distinct pre" and "successively (chain_step fs) (pre @ [f])"
  shows "\<exists>rest. chain = pre @ rest \<and> (rest = [] \<longrightarrow> f \<in> set pre) \<and> (rest \<noteq> [] \<longrightarrow> hd rest = f) \<and> distinct chain \<and>
    successively (chain_step fs) chain \<and> (chain = [] \<or> (\<exists>g \<in> set chain. chain_step fs (last chain) g))"
  using assms
proof (induction fs pre f rule: chain_loop.induct)
  case (1 fs pre f)
  from "1.prems"(1) obtain t where t: "symlinks_Resolve fs f = Inr t"
    by (subst (asm) chain_loop.simps) (auto split: sum.splits)
  show ?case
  proof (cases "f \<in> set pre")
    case True
    with "1.prems"(1) t have "chain = pre" by (subst (asm) chain_loop.simps) simp
    moreover have "pre \<noteq> []" using True by auto
    then have "chain_step fs (last pre) f" "successively (chain_step fs) pre"
      using "1.prems"(3) by (auto simp: successively_append_iff)
    ultimately show ?thesis using True "1.prems"(2) by auto
  next
    case False
    have rec: "chain_loop fs (pre @ [f]) (chain_next fs f t) = Inr chain"
      using "1.prems"(1) t False by (subst (asm) chain_loop.simps) simp
    have "successively (chain_step fs) ((pre @ [f]) @ [chain_next fs f t])"
      using "1.prems"(3) t by (auto simp: successively_append_iff chain_step_def)
    from "1.IH" [OF t False rec _ this] "1.prems"(2) False show ?thesis by auto
  qed
qed

lemma chain_loop_length:
  "chain_loop fs pre f = Inr chain \<Longrightarrow> length chain \<le> length pre + chain_measure fs pre f"
proof (induction fs pre f rule: chain_loop.induct)
  case (1 fs pre f)
  from "1.prems" obtain t where t: "symlinks_Resolve fs f = Inr t"
    by (subst (asm) chain_loop.simps) (auto split: sum.splits)
  show ?case
  proof (cases "f \<in> set pre")
    case True
    with "1.prems" t show ?thesis by (subst (asm) chain_loop.simps) simp
  next
    case False
    have "chain_loop fs (pre @ [f]) (chain_next fs f t) = Inr chain"
      using "1.prems" t False by (subst (asm) chain_loop.simps) simp
    from "1.IH" [OF t False this] chain_decreases [OF t False] show ?thesis by simp
  qed
qed

text \<open>
  (C19) Resolving a chain of links always ends, also for cyclic links, and the chain is right: it
  starts with the file, every next element is where the link before it leads, nothing is visited
  twice, the last element leads back into the chain, and it has at most three elements per link of
  the file system and two more.  The chain of an absolute path that exists and is not a link is that
  path alone.
\<close>

theorem resolve_chain_correct:
  assumes "ResolveChain fs f = Inr chain"
  shows "chain \<noteq> [] \<and> hd chain = f \<and> distinct chain \<and> successively (chain_step fs) chain
    \<and> (\<exists>g \<in> set chain. chain_step fs (last chain) g)
    \<and> length chain \<le> 3 * length (fs_links fs) + 2
    \<and> (IsAbs f \<and> map_of (fs_links fs) f = None \<longrightarrow> chain = [f])"
proof -
  have c: "chain_loop fs [] f = Inr chain" using assms by (simp add: ResolveChain_def)
  from chain_loop_spec [OF c] have spec: "chain \<noteq> []" "hd chain = f" "distinct chain" "successively (chain_step fs) chain"
    "\<exists>g \<in> set chain. chain_step fs (last chain) g" by auto
  have "card (fst ` set (fs_links fs)) \<le> length (fs_links fs)"
    by (metis card_length length_map list.set_map)
  then have "chain_measure fs [] f \<le> 3 * length (fs_links fs) + 2" by (simp add: chain_measure_def)
  with chain_loop_length [OF c] have len: "length chain \<le> 3 * length (fs_links fs) + 2" by simp
  have "chain = [f]" if "IsAbs f" "map_of (fs_links fs) f = None"
  proof -
    from c obtain t where t: "symlinks_Resolve fs f = Inr t"
      by (subst (asm) chain_loop.simps) (auto split: sum.splits)
    then have "t = f" using that by (auto simp: symlinks_Resolve_def bindR_eq_Inr)
    then have "chain_next fs f t = f" using that by (simp add: chain_next_def)
    with c t have "chain_loop fs [f] f = Inr chain" by (subst (asm) chain_loop.simps) simp
    with t show ?thesis by (subst (asm) chain_loop.simps) simp
  qed
  with spec len show ?thesis by blast
qed

definition example_fs :: lookup_fs where
  "example_fs = \<lparr>fs_glob = (\<lambda>_. Inr []), fs_stat = (\<lambda>_. Inl (Errorf ''no'')),
     fs_lstat = (\<lambda>_. Inr \<lparr>si_IsDir = False, si_Mode = 0, si_CharDevice = False\<rparr>),
     fs_links = [(''/a/l'', ''m''), (''/a/m'', ''/a/l'')], fs_EvalSymlinks = Inr, fs_read = (\<lambda>_. Inl (Errorf ''no'')),
     fs_wd = [], fs_PATH = []\<rparr>"

theorem resolve_chain_correct_witness:
  "ResolveChain example_fs ''/a/l'' = Inr [''/a/l'', ''/a/m''] \<and> length [''/a/l'', ''/a/m''] \<le> 3 * length (fs_links example_fs) + 2"
proof -
  have "ResolveChain example_fs ''/a/l'' = Inr [''/a/l'', ''/a/m'']" by code_simp
  with resolve_chain_correct [OF this] show ?thesis by blast
qed

text \<open>
  For a relative path the comment of \<open>ResolveChain\<close> does not hold: a regular file is taken for a link to
  its own path in its own directory, and the chain goes on with another file (or fails).
\<close>

lemma relative_file_chain:
  "map_of (fs_links example_fs) ''lib/x'' = None \<and> ResolveChain example_fs ''lib/x'' = Inr [''lib/x'', ''/lib/lib/x'']"
  by code_simp

end
