(* ===== verification/Driver_Root.thy ===== *)
theory Driver_Root
  imports Lookup
begin

section \<open>The driver root\<close>

text \<open>
  \<open>internal/lookup/root\<close>: the root of a driver installation, with the version of the driver and the
  directory of its libraries, which are determined once and cached.
\<close>

record Driver =
  drv_Root :: string
  drv_DevRoot :: string
  drv_librarySearchPaths :: "string list"
  drv_configSearchPaths :: "string list"
  drv_version :: string
  drv_libDirectory :: string

record driver_options =
  do_Root :: string
  do_DevRoot :: string
  do_librarySearchPaths :: "string list"
  do_configSearchPaths :: "string list"
  do_versioner :: "(string \<times> error option) option"

definition WithDriverRoot :: "string \<Rightarrow> driver_options \<Rightarrow> driver_options" where
  "WithDriverRoot root opts = opts\<lparr>do_Root := root\<rparr>"

definition WithDevRoot :: "string \<Rightarrow> driver_options \<Rightarrow> driver_options" where
  "WithDevRoot root opts = opts\<lparr>do_DevRoot := root\<rparr>"

definition WithLibrarySearchPaths :: "string list \<Rightarrow> driver_options \<Rightarrow> driver_options" where
  "WithLibrarySearchPaths ps opts = opts\<lparr>do_librarySearchPaths := ps\<rparr>"

definition WithConfigSearchPaths :: "string list \<Rightarrow> driver_options \<Rightarrow> driver_options" where
  "WithConfigSearchPaths ps opts = opts\<lparr>do_configSearchPaths := ps\<rparr>"

definition WithVersioner :: "(string \<times> error option) option \<Rightarrow> driver_options \<Rightarrow> driver_options" where
  "WithVersioner v opts = opts\<lparr>do_versioner := v\<rparr>"

text \<open>What a versioner returns is used even if it reports an error.\<close>

definition Driver_New :: "(driver_options \<Rightarrow> driver_options) list \<Rightarrow> Driver" where
  "Driver_New opts =
     (let d = foldl (\<lambda>a f. f a) \<lparr>do_Root = [], do_DevRoot = [], do_librarySearchPaths = [],
                  do_configSearchPaths = [], do_versioner = None\<rparr> opts;
          devRoot = (if do_DevRoot d = [] then do_Root d else do_DevRoot d);
          version = (case do_versioner d of None \<Rightarrow> [] | Some (v, err) \<Rightarrow> v)
      in \<lparr>drv_Root = do_Root d, drv_DevRoot = devRoot, drv_librarySearchPaths = do_librarySearchPaths d,
          drv_configSearchPaths = do_configSearchPaths d, drv_version = version, drv_libDirectory = []\<rparr>)"

definition Driver_Libraries :: "lookup_fs \<Rightarrow> Driver \<Rightarrow> locator result" where
  "Driver_Libraries fs r =
     NewLibraryLocator fs [WithRoot (drv_Root r), WithSearchPaths (drv_librarySearchPaths r)]"

definition Driver_Files :: "lookup_fs \<Rightarrow> Driver \<Rightarrow> locator_option list \<Rightarrow> locator" where
  "Driver_Files fs r opts = NewFileLocator fs (opts @ [WithRoot (drv_Root r)])"

definition xdgDataDirs :: "string option \<Rightarrow> string list" where
  "xdgDataDirs dirs =
     (case dirs of
        Some d \<Rightarrow> if d \<noteq> [] then NormalizePaths [d] else [''/usr/local/share'', ''/usr/share'']
      | None \<Rightarrow> [''/usr/local/share'', ''/usr/share''])"

definition configSearchOptions :: "string option \<Rightarrow> Driver \<Rightarrow> locator_option list" where
  "configSearchOptions dirs r =
     (if length (drv_configSearchPaths r) > 0 then [WithRoot ''/'', WithSearchPaths (drv_configSearchPaths r)]
      else [WithRoot (drv_Root r), WithSearchPaths ([''/etc''] @ xdgDataDirs dirs)])"

definition Driver_Configs :: "lookup_fs \<Rightarrow> string option \<Rightarrow> Driver \<Rightarrow> locator" where
  "Driver_Configs fs dirs r = NewFileLocator fs (configSearchOptions dirs r)"

definition RelativeToRoot :: "Driver \<Rightarrow> string \<Rightarrow> string" where
  "RelativeToRoot r path =
     (if drv_Root r = [] \<or> drv_Root r = ''/'' then path
      else if \<not> IsAbs path then path
      else TrimPrefix path (drv_Root r))"

subsection \<open>Version and library directory\<close>

fun infer_loop :: "locator \<Rightarrow> string \<Rightarrow> error list \<Rightarrow> string list \<Rightarrow> (string \<times> string) result" where
  "infer_loop locate sfx errs [] = Inl (Joined errs)"
| "infer_loop locate sfx errs (lib # libs) =
     (case locate (lib @ sfx) of
        Inl (Panic p) \<Rightarrow> Inl (Panic p)
      | Inl e \<Rightarrow> infer_loop locate sfx (errs @ [Wrap ''failed to locate libcuda.so'' e]) libs
      | Inr [] \<Rightarrow> Inl (Panic ''index out of range'')
      | Inr (path # _) \<Rightarrow>
          let version = TrimPrefix (Base path) lib in
          if version = [] then infer_loop locate sfx (errs @ [Errorf (''failed to extract version from path '' @ path)]) libs
          else Inr (path, version))"

definition inferVersion :: "lookup_fs \<Rightarrow> Driver \<Rightarrow> (string \<times> string) result" where
  "inferVersion fs r =
     bindR (Driver_Libraries fs r) (\<lambda>locate.
       infer_loop locate (if drv_version r = [] then ''*.*'' else drv_version r) [] [''libcuda.so.'', ''libnvidia-ml.so.''])"

definition updateInfo :: "lookup_fs \<Rightarrow> Driver \<Rightarrow> Driver result" where
  "updateInfo fs r =
     bindR (inferVersion fs r) (\<lambda>(driverLibPath, version).
       if drv_version r \<noteq> [] \<and> drv_version r \<noteq> version
       then Inl (Errorf (''unexpected version detected: '' @ drv_version r @ '' != '' @ version))
       else Inr (r\<lparr>drv_version := version, drv_libDirectory := RelativeToRoot r (Dir driverLibPath)\<rparr>))"

text \<open>The driver is locked during a query; a failed query leaves it as it was.\<close>

definition Driver_Version :: "lookup_fs \<Rightarrow> Driver \<Rightarrow> string result \<times> Driver" where
  "Driver_Version fs r =
     (if drv_version r = []
      then case updateInfo fs r of Inl e \<Rightarrow> (Inl e, r) | Inr r' \<Rightarrow> (Inr (drv_version r'), r')
      else (Inr (drv_version r), r))"

definition GetDriverLibDirectory :: "lookup_fs \<Rightarrow> Driver \<Rightarrow> string result \<times> Driver" where
  "GetDriverLibDirectory fs r =
     (if drv_libDirectory r = []
      then case updateInfo fs r of Inl e \<Rightarrow> (Inl e, r) | Inr r' \<Rightarrow> (Inr (drv_libDirectory r'), r')
      else (Inr (drv_libDirectory r), r))"

definition library_dirs :: "string \<Rightarrow> string list \<Rightarrow> string list" where
  "library_dirs parent additionalDirs =
     parent # map (\<lambda>dir. if HasPrefix dir ''/'' then dir else FJoin [parent, dir]) additionalDirs"

definition DriverLibraryLocator :: "lookup_fs \<Rightarrow> Driver \<Rightarrow> string list \<Rightarrow> locator result \<times> Driver" where
  "DriverLibraryLocator fs r additionalDirs =
     (case GetDriverLibDirectory fs r of
        (Inl e, r') \<Rightarrow> (wrapR ''failed to get libcuda.so parent directory'' (Inl e), r')
      | (Inr parent, r') \<Rightarrow>
          (Inr (AsOptional (NewSymlinkLocator fs [WithRoot (drv_Root r'), WithSearchPaths (library_dirs parent additionalDirs)])), r'))"

subsection \<open>The version does not change\<close>

lemma infer_loop_version: "infer_loop locate sfx errs libs = Inr (path, version) \<Longrightarrow> version \<noteq> []"
  by (induction libs arbitrary: errs)
     (auto simp: Let_def split: sum.splits list.splits error.splits if_splits)

lemma infer_loop_required:
  assumes "required_locator locate" and "\<And>p m. locate p \<noteq> Inl (Panic m)"
  shows "infer_loop locate sfx errs libs \<noteq> Inl (Panic m)"
proof (induction libs arbitrary: errs)
  case (Cons lib libs)
  show ?case
  proof (cases "locate (lib @ sfx)")
    case (Inl e)
    then show ?thesis using assms(2) [of "lib @ sfx"] Cons by (cases e) auto
  next
    case (Inr cs)
    then have "cs \<noteq> []" using assms(1) by (auto simp: required_locator_def)
    with Inr Cons show ?thesis by (cases cs) (auto simp: Let_def)
  qed
qed simp

declare infer_loop.simps [simp del]

lemma updateInfo_Inr:
  assumes "updateInfo fs r = Inr r'"
  shows "drv_version r' \<noteq> [] \<and> (drv_version r \<noteq> [] \<longrightarrow> drv_version r' = drv_version r) \<and> drv_Root r' = drv_Root r"
  using assms by (auto simp: updateInfo_def inferVersion_def bindR_eq_Inr dest: infer_loop_version split: if_splits)

text \<open>
  A driver is queried again and again, by several users of the same value, while the files of the
  system may change between the queries.
\<close>

inductive driver_reach :: "Driver \<Rightarrow> Driver \<Rightarrow> bool" for r :: Driver where
  start: "driver_reach r r"
| version: "driver_reach r r' \<Longrightarrow> Driver_Version fs r' = (res, r'') \<Longrightarrow> driver_reach r r''"
| directory: "driver_reach r r' \<Longrightarrow> GetDriverLibDirectory fs r' = (res, r'') \<Longrightarrow> driver_reach r r''"

definition keeps_version :: "Driver \<Rightarrow> Driver \<Rightarrow> bool" where
  "keeps_version r r' \<longleftrightarrow> (drv_version r \<noteq> [] \<longrightarrow> drv_version r' = drv_version r) \<and> drv_Root r' = drv_Root r"

lemma keeps_version_trans: "keeps_version a b \<Longrightarrow> keeps_version b c \<Longrightarrow> keeps_version a c"
  by (auto simp: keeps_version_def)

lemma updateInfo_keeps: "updateInfo fs r = Inr r' \<Longrightarrow> keeps_version r r'"
  using updateInfo_Inr by (auto simp: keeps_version_def)

lemma query_keeps_version:
  "keeps_version r (snd (Driver_Version fs r))" "keeps_version r (snd (GetDriverLibDirectory fs r))"
proof -
  have "keeps_version r r" by (simp add: keeps_version_def)
  then show "keeps_version r (snd (Driver_Version fs r))" "keeps_version r (snd (GetDriverLibDirectory fs r))"
    by (cases "updateInfo fs r"; simp add: Driver_Version_def GetDriverLibDirectory_def updateInfo_keeps)+
qed

lemma reach_keeps_version: "driver_reach r r' \<Longrightarrow> keeps_version r r'"
proof (induction rule: driver_reach.induct)
  case (version r' fs res r'')
  with query_keeps_version(1) [of r' fs] show ?case by (auto intro: keeps_version_trans)
next
  case (directory r' fs res r'')
  with query_keeps_version(2) [of r' fs] show ?case by (auto intro: keeps_version_trans)
qed (simp add: keeps_version_def)

text \<open>
  Once the version of the driver has been reported, it stays: after any sequence of further
  queries for the version or the library directory, in whatever order and however the file system has
  changed, the same version is reported again, without another look at the files.
\<close>

lemma driver_version_stable:
  assumes "Driver_Version fs r = (Inr v, r')" and "driver_reach r' r''"
  shows "v \<noteq> [] \<and> Driver_Version fs' r'' = (Inr v, r'')"
proof -
  have v: "drv_version r' = v" "v \<noteq> []"
    using assms(1) by (auto simp: Driver_Version_def split: if_splits sum.splits dest: updateInfo_Inr)
  with reach_keeps_version [OF assms(2)] show ?thesis by (auto simp: Driver_Version_def keeps_version_def)
qed

definition libcuda_fs :: lookup_fs where
  "libcuda_fs = example_fs\<lparr>fs_glob := (\<lambda>p. Inr (if p = ''/usr/lib64/libcuda.so.*.*'' then [''/usr/lib64/libcuda.so.535.54''] else [])),
     fs_stat := (\<lambda>_. Inr \<lparr>si_IsDir = False, si_Mode = 0, si_CharDevice = False\<rparr>)\<rparr>"

end
