(* ===== verification/Runtime_Hook.thy ===== *)
theory Runtime_Hook
  imports Driver_Root
begin

section \<open>The NVIDIA Container Runtime Hook\<close>

text \<open>
  \<open>cmd/nvidia-container-runtime-hook\<close>: the prestart hook of the legacy mode.  It reads the configuration
  and the specification of a container and runs the \<open>nvidia-container-cli\<close> with the command line built
  here.  Its errors are panics, after which it exits with status 1.  The decoded JSON documents, the
  flags, the environment and the search for the command line tool are parameters.
\<close>

subsection \<open>The container (\<open>container_config.go\<close>)\<close>

record nvidiaConfig =
  nc_Devices :: "string list"
  nc_MigConfigDevices :: string
  nc_MigMonitorDevices :: string
  nc_ImexChannels :: "string list"
  nc_DriverCapabilities :: string
  nc_Requirements :: "string list"

text \<open>The capabilities are decoded in one of two ways, depending on the version of the specification.\<close>

record hook_process =
  hp_Env :: "string list"
  hp_Capabilities :: "(string list result \<times> oci_capabilities result) option"

record hook_spec =
  hs_Version :: "string option"
  hs_Process :: "hook_process option"
  hs_Root :: "string option"
  hs_Mounts :: "oci_mount list"

record HookState =
  hst_Pid :: int
  hst_Bundle :: string
  hst_BundlePath :: string

record containerConfig =
  cc_Pid :: int
  cc_Rootfs :: string
  cc_Image :: CUDA
  cc_Nvidia :: "nvidiaConfig option"

definition panicln :: "string \<Rightarrow> error" where
  "panicln m = Panic m"

definition loadSpec :: "(string \<Rightarrow> hook_spec result) \<Rightarrow> string \<Rightarrow> hook_spec result" where
  "loadSpec read path =
     (case read path of
        Inl e \<Rightarrow> Inl (panicln ''could not decode OCI spec'')
      | Inr spec \<Rightarrow>
          if hs_Version spec = None then Inl (panicln ''Version is empty in OCI spec'')
          else if hs_Process spec = None then Inl (panicln ''Process is empty in OCI spec'')
          else if hs_Root spec = None then Inl (panicln ''Root is empty in OCI spec'')
          else Inr spec)"

definition Spec_GetCapabilities :: "hook_spec option \<Rightarrow> string list result" where
  "Spec_GetCapabilities s =
     (case s of
        None \<Rightarrow> Inr []
      | Some s \<Rightarrow>
          (case hs_Process s of
             None \<Rightarrow> Inr []
           | Some p \<Rightarrow>
               (case hp_Capabilities p of
                  None \<Rightarrow> Inr []
                | Some (asList, asCaps) \<Rightarrow>
                    bindR (deref (hs_Version s)) (\<lambda>version.
                      let rc1cmp = semver_Compare (''v'' @ version) ''v1.0.0-rc1'';
                          rc5cmp = semver_Compare (''v'' @ version) ''v1.0.0-rc5''
                      in if (rc1cmp = 1 \<or> rc1cmp = 0) \<and> rc5cmp = - 1
                         then (case asList of Inl e \<Rightarrow> Inl (panicln ''could not decode Process.Capabilities in OCI spec'') | Inr caps \<Rightarrow> Inr caps)
                         else (case asCaps of
                                 Inl e \<Rightarrow> Inl (panicln ''could not decode Process.Capabilities in OCI spec'')
                               | Inr caps \<Rightarrow> Inr (OCISpecCapabilities_GetCapabilities caps))))))"

definition hook_isPrivileged :: "hook_spec \<Rightarrow> bool result" where
  "hook_isPrivileged s = bindR (Spec_GetCapabilities (Some s)) (\<lambda>caps. Inr (IsPrivileged (Some caps)))"

definition getMigDevices :: "CUDA \<Rightarrow> string \<Rightarrow> string option" where
  "getMigDevices i envvar = (if \<not> HasEnvvar i envvar then None else Some (Getenv i envvar))"

definition getMigConfigDevices :: "CUDA \<Rightarrow> string option" where
  "getMigConfigDevices i = getMigDevices i EnvVarNvidiaMigConfigDevices"

definition getMigMonitorDevices :: "CUDA \<Rightarrow> string option" where
  "getMigMonitorDevices i = getMigDevices i EnvVarNvidiaMigMonitorDevices"

definition getDriverCapabilities :: "Config \<Rightarrow> CUDA \<Rightarrow> bool \<Rightarrow> driver_capabilities result" where
  "getDriverCapabilities cfg i legacyImage =
     (let supported = NewDriverCapabilities [cfg_SupportedDriverCapabilities cfg];
          capabilities = caps_Intersection supported DefaultDriverCapabilities;
          capsEnvSpecified = HasEnvvar i EnvVarNvidiaDriverCapabilities;
          capsEnv = Getenv i EnvVarNvidiaDriverCapabilities
      in if \<not> capsEnvSpecified \<and> legacyImage then Inr supported
         else if capsEnvSpecified \<and> length capsEnv > 0
         then let envCapabilities = NewDriverCapabilities [capsEnv];
                  capabilities = caps_Intersection supported envCapabilities
              in if \<not> caps_IsAll envCapabilities \<and> card capabilities \<noteq> card envCapabilities
                 then Inl (panicln ''unsupported capabilities found'')
                 else Inr capabilities
         else Inr capabilities)"

definition or_empty :: "string option \<Rightarrow> string" where
  "or_empty s = (case s of None \<Rightarrow> [] | Some x \<Rightarrow> x)"

definition getNvidiaConfig :: "Config \<Rightarrow> CUDA \<Rightarrow> bool \<Rightarrow> nvidiaConfig option result" where
  "getNvidiaConfig cfg i privileged =
     bindR (VisibleDevices i) (\<lambda>devices.
       if length devices = 0 then Inr None
       else let migConfigDevices = or_empty (getMigConfigDevices i);
                migMonitorDevices = or_empty (getMigMonitorDevices i) in
         if \<not> privileged \<and> migConfigDevices \<noteq> []
         then Inl (panicln ''cannot set MIG_CONFIG_DEVICES in non privileged container'')
         else if \<not> privileged \<and> migMonitorDevices \<noteq> []
         then Inl (panicln ''cannot set MIG_MONITOR_DEVICES in non privileged container'')
         else bindR (getDriverCapabilities cfg i (IsLegacy i)) (\<lambda>caps.
              case GetRequirements i of
                Inl e \<Rightarrow> Inl (panicln ''failed to get requirements'')
              | Inr rqs \<Rightarrow>
                  Inr (Some \<lparr>nc_Devices = devices, nc_MigConfigDevices = migConfigDevices,
                             nc_MigMonitorDevices = migMonitorDevices, nc_ImexChannels = ImexChannelRequests i,
                             nc_DriverCapabilities = caps_String caps, nc_Requirements = rqs\<rparr>)))"

definition hook_image_options :: "Config \<Rightarrow> hook_process \<Rightarrow> hook_spec \<Rightarrow> bool \<Rightarrow> image_option list" where
  "hook_image_options cfg p s privileged =
     [WithEnv (hp_Env p), WithMounts (hs_Mounts s), WithPrivileged privileged,
      WithDisableRequire (cfg_DisableRequire cfg),
      WithAcceptDeviceListAsVolumeMounts (cfg_AcceptDeviceListAsVolumeMounts cfg),
      WithAcceptEnvvarUnprivileged (cfg_AcceptEnvvarUnprivileged cfg),
      WithPreferredVisibleDevicesEnvVars [cfg_SwarmResource cfg],
      WithIgnoreImexChannelRequests (IsEnabled (IgnoreImexChannelRequests (cfg_Features cfg)))]"

text \<open>A container configuration that was determined before is returned again.\<close>

definition getContainerConfig ::
  "(string \<Rightarrow> hook_spec result) \<Rightarrow> HookState result \<Rightarrow> Config \<Rightarrow> containerConfig option \<Rightarrow> containerConfig result" where
  "getContainerConfig read stdin cfg known =
     (case known of
        Some cc \<Rightarrow> Inr cc
      | None \<Rightarrow>
          (case stdin of
             Inl e \<Rightarrow> Inl (panicln ''could not decode container state'')
           | Inr h \<Rightarrow>
               let b = (if length (hst_Bundle h) = 0 then hst_BundlePath h else hst_Bundle h) in
               bindR (loadSpec read (FJoin [b, ''config.json''])) (\<lambda>s.
               bindR (hook_isPrivileged s) (\<lambda>privileged.
               bindR (deref (hs_Process s)) (\<lambda>p.
                 case image_New (hook_image_options cfg p s privileged) of
                   Inl e \<Rightarrow> Inl (panicln ''image'')
                 | Inr i \<Rightarrow>
                     bindR (deref (hs_Root s)) (\<lambda>rootfs.
                     bindR (getNvidiaConfig cfg i privileged) (\<lambda>nvidia.
                       Inr \<lparr>cc_Pid = hst_Pid h, cc_Rootfs = rootfs, cc_Image = i, cc_Nvidia = nvidia\<rparr>)))))))"

subsection \<open>The configuration of the hook (\<open>hook_config.go\<close>)\<close>

definition hook_getConfigFilePath :: "string \<Rightarrow> (string \<Rightarrow> string) \<Rightarrow> string \<times> bool" where
  "hook_getConfigFilePath configflag osGetenv =
     (if configflag \<noteq> [] then (configflag, True)
      else if osGetenv FilePathOverrideEnvVar \<noteq> [] then (osGetenv FilePathOverrideEnvVar, True)
      else (GetConfigFilePath osGetenv, False))"

definition loadConfig :: "'t toml_lib \<Rightarrow> toml_host \<Rightarrow> string \<Rightarrow> (string \<Rightarrow> string) \<Rightarrow> Config result" where
  "loadConfig lib h configflag osGetenv =
     (case hook_getConfigFilePath configflag osGetenv of (configFilePath, required) \<Rightarrow>
        case toml_New lib h [WithConfigFile configFilePath, WithRequired True] of
          Inr t \<Rightarrow> toml_Config lib h (Some t)
        | Inl e \<Rightarrow>
            if e = Errorf ''file does not exist'' \<and> \<not> required then Inr (host_default h)
            else Inl (Wrap ''couldn't open required configuration file'' e))"

definition getHookConfig :: "'t toml_lib \<Rightarrow> toml_host \<Rightarrow> string \<Rightarrow> (string \<Rightarrow> string) \<Rightarrow> Config result" where
  "getHookConfig lib h configflag osGetenv =
     bindR (wrapR ''failed to load config'' (loadConfig lib h configflag osGetenv)) (\<lambda>cfg.
       let cfg = (if cfg_SupportedDriverCapabilities cfg = ''all''
                  then cfg\<lparr>cfg_SupportedDriverCapabilities := caps_String SupportedDriverCapabilities\<rparr> else cfg);
           configuredCapabilities = NewDriverCapabilities [cfg_SupportedDriverCapabilities cfg]
       in if \<not> caps_IsSuperset SupportedDriverCapabilities configuredCapabilities
          then Inl (panicln ''Invalid value for config option'')
          else Inr cfg)"

definition nvidiaContainerCliCUDACompatModeFlags :: "Config \<Rightarrow> string list" where
  "nvidiaContainerCliCUDACompatModeFlags cfg =
     (let mode = modes_Legacy_CUDACompatMode (rt_Modes (cfg_Runtime cfg)) in
      if mode = CUDACompatModeLdconfig then [''--cuda-compat-mode=ldconfig'']
      else if mode = CUDACompatModeMount then [''--cuda-compat-mode=mount'']
      else if mode = CUDACompatModeDisabled \<or> mode = CUDACompatModeHook then [''--cuda-compat-mode=disabled'']
      else if \<not> IsEnabled (AllowCUDACompatLibsFromContainer (cfg_Features cfg)) then [''--cuda-compat-mode=disabled'']
      else [])"

definition assertModeIsLegacy :: "platform \<Rightarrow> Config \<Rightarrow> CUDA \<Rightarrow> unit result" where
  "assertModeIsLegacy platform cfg i =
     (if hook_SkipModeDetection (cfg_Hook cfg) then Inr ()
      else bindR (ResolveRuntimeMode (NewRuntimeModeResolver platform [WithImage i, WithDefaultMode LegacyRuntimeMode]) (cfg_mode cfg)) (\<lambda>mode.
             if mode = ''legacy'' then Inr ()
             else Inl (Errorf ''invoking the NVIDIA Container Runtime Hook directly is not supported'')))"

subsection \<open>The command line (\<open>capabilities.go\<close>, \<open>main.go\<close>)\<close>

definition capabilityToCLI :: "string \<Rightarrow> string result" where
  "capabilityToCLI c =
     (if c \<in> set [''compute'', ''compat32'', ''graphics'', ''utility'', ''video'', ''display'', ''ngx'']
      then Inr (''--'' @ c) else Inl (panicln ''unknown driver capability''))"

definition getCLIPath :: "(string \<Rightarrow> string \<Rightarrow> string result) \<Rightarrow> lookup_fs \<Rightarrow> ContainerCLIConfig \<Rightarrow> string result" where
  "getCLIPath lookPath fs cli =
     (if cli_Path cli \<noteq> [] then Inr (cli_Path cli)
      else (case lookPath (GetPath fs (cli_Root cli)) ''nvidia-container-cli'' of
              Inl e \<Rightarrow> Inl (panicln ''couldn't find binary nvidia-container-cli in PATH'')
            | Inr path \<Rightarrow> Inr path))"

fun cap_args :: "string list \<Rightarrow> string list result" where
  "cap_args [] = Inr []"
| "cap_args (c # cs) =
     (if length c = 0 then Inr []
      else bindR (capabilityToCLI c) (\<lambda>a. bindR (cap_args cs) (\<lambda>as. Inr (a # as))))"

definition opt_arg :: "bool \<Rightarrow> string \<Rightarrow> string list" where
  "opt_arg b a = (if b then [a] else [])"

text \<open>The process identifier is converted to an unsigned 64-bit number and printed in decimal.\<close>

fun dec_digits :: "nat \<Rightarrow> string" where
  "dec_digits n = (if n < 10 then [char_of (48 + n)] else dec_digits (n div 10) @ [char_of (48 + n mod 10)])"

definition FormatPid :: "int \<Rightarrow> string" where
  "FormatPid pid = dec_digits (nat (pid mod 2 ^ 64))"

definition global_args :: "bool \<Rightarrow> Config \<Rightarrow> string list" where
  "global_args debugflag cfg =
     (let cli = cfg_CLI cfg in
      opt_arg (cli_Root cli \<noteq> []) (''--root='' @ cli_Root cli) @
      opt_arg (cli_LoadKmods cli) ''--load-kmods'' @
      opt_arg (IsEnabled (DisableImexChannelCreation (cfg_Features cfg))) ''--no-create-imex-channels'' @
      opt_arg (cli_NoPivot cli) ''--no-pivot'' @
      (if debugflag then [''--debug=/dev/stderr''] else opt_arg (cli_Debug cli \<noteq> []) (''--debug='' @ cli_Debug cli)) @
      opt_arg (cli_Ldcache cli \<noteq> []) (''--ldcache='' @ cli_Ldcache cli) @
      opt_arg (cli_User cli \<noteq> []) (''--user='' @ cli_User cli))"

definition device_args :: "nvidiaConfig \<Rightarrow> string list" where
  "device_args nvidia =
     (let devicesString = StrJoin (nc_Devices nvidia) '',''; imexString = StrJoin (nc_ImexChannels nvidia) '','' in
      opt_arg (length devicesString > 0) (''--device='' @ devicesString) @
      opt_arg (length (nc_MigConfigDevices nvidia) > 0) (''--mig-config='' @ nc_MigConfigDevices nvidia) @
      opt_arg (length (nc_MigMonitorDevices nvidia) > 0) (''--mig-monitor='' @ nc_MigMonitorDevices nvidia) @
      opt_arg (length imexString > 0) (''--imex-channel='' @ imexString))"

definition prestart_args ::
  "bool \<Rightarrow> (string \<Rightarrow> bool) \<Rightarrow> Config \<Rightarrow> containerConfig \<Rightarrow> nvidiaConfig \<Rightarrow> string \<Rightarrow> string \<Rightarrow> string list result" where
  "prestart_args debugflag exists cfg container nvidia cliPath rootfs =
     bindR (cap_args (Split (nc_DriverCapabilities nvidia) '','')) (\<lambda>caps.
       let ldconfig = NormalizeLDConfigPath exists (cfg_CLI cfg) in
       Inr ([cliPath] @ global_args debugflag cfg @ [''configure''] @
            nvidiaContainerCliCUDACompatModeFlags cfg @
            opt_arg (ldconfig \<noteq> []) (''--ldconfig='' @ ldconfig) @
            opt_arg (cli_NoCgroups (cfg_CLI cfg)) ''--no-cgroups'' @
            device_args nvidia @ caps @
            map (\<lambda>req. ''--require='' @ req) (nc_Requirements nvidia) @
            [''--pid='' @ FormatPid (cc_Pid container)] @ [rootfs]))"

record 't hook_env =
  he_toml :: "'t toml_lib"
  he_tomlHost :: toml_host
  he_configflag :: string
  he_debugflag :: bool
  he_getenv :: "string \<Rightarrow> string"
  he_read :: "string \<Rightarrow> hook_spec result"
  he_stdin :: "HookState result"
  he_platform :: platform
  he_fs :: lookup_fs
  he_lookPath :: "string \<Rightarrow> string \<Rightarrow> string result"

text \<open>
  The prestart hook ends without doing anything (\<open>None\<close>), replaces itself by the command line tool with
  its arguments and the additional environment, or panics.
\<close>

definition doPrestart :: "'t hook_env \<Rightarrow> (string list \<times> string list) option result" where
  "doPrestart he =
     bindR (case getHookConfig (he_toml he) (he_tomlHost he) (he_configflag he) (he_getenv he) of
              Inl e \<Rightarrow> Inl (panicln ''error getting hook config'') | Inr cfg \<Rightarrow> Inr cfg) (\<lambda>cfg.
     bindR (getContainerConfig (he_read he) (he_stdin he) cfg None) (\<lambda>container.
       case cc_Nvidia container of
         None \<Rightarrow> Inr None
       | Some nvidia \<Rightarrow>
           bindR (case assertModeIsLegacy (he_platform he) cfg (cc_Image container) of
                    Inl e \<Rightarrow> Inl (panicln ''mode'') | Inr u \<Rightarrow> Inr u) (\<lambda>_.
           bindR (getCLIPath (he_lookPath he) (he_fs he) (cfg_CLI cfg)) (\<lambda>cliPath.
           bindR (prestart_args (he_debugflag he) (th_exists (he_tomlHost he)) cfg container nvidia cliPath
                    (Abs_path (he_fs he) (cc_Rootfs container))) (\<lambda>args.
             Inr (Some (args, cli_Environment (cfg_CLI cfg))))))))"

declare dec_digits.simps [simp del]

subsection \<open>Driver capabilities of the command line\<close>

lemma Supported_eq:
  "SupportedDriverCapabilities = {''compute'', ''compat32'', ''graphics'', ''utility'', ''video'', ''display'', ''ngx''}"
  "\<not> caps_IsAll SupportedDriverCapabilities"
proof -
  have "filter (\<lambda>t. t \<noteq> []) (map TrimSpace (concat (map (\<lambda>c. Split c '','') [''compute,compat32,graphics,utility,video,display,ngx'']))) =
      [''compute'', ''compat32'', ''graphics'', ''utility'', ''video'', ''display'', ''ngx'']" by code_simp
  then show eq: "SupportedDriverCapabilities = {''compute'', ''compat32'', ''graphics'', ''utility'', ''video'', ''display'', ''ngx''}"
    by (simp only: SupportedDriverCapabilities_def NewDriverCapabilities_def list.set)
  show "\<not> caps_IsAll SupportedDriverCapabilities" by (simp add: eq caps_IsAll_def)
qed

lemma capabilityToCLI_supported: "c \<in> SupportedDriverCapabilities \<Longrightarrow> capabilityToCLI c = Inr (''--'' @ c)"
  by (auto simp: Supported_eq capabilityToCLI_def)

lemma supported_name: "c \<in> SupportedDriverCapabilities \<Longrightarrow> c \<noteq> [] \<and> CHR '','' \<notin> set c"
  by (auto simp: Supported_eq)

lemma finite_NewDriverCapabilities [simp]: "finite (NewDriverCapabilities cs)"
  by (simp add: NewDriverCapabilities_def)

lemma cap_args_supported:
  "(\<And>c. c \<in> set cs \<Longrightarrow> c \<in> SupportedDriverCapabilities) \<Longrightarrow> cap_args cs = Inr (map (\<lambda>c. ''--'' @ c) cs)"
  by (induction cs) (auto simp: capabilityToCLI_supported dest: supported_name)

lemma cap_args_String:
  assumes "caps \<subseteq> SupportedDriverCapabilities"
  shows "cap_args (Split (caps_String caps) '','') = Inr (map (\<lambda>c. ''--'' @ c) (sorted_list_of_set caps))"
proof -
  have "finite SupportedDriverCapabilities" by (simp add: SupportedDriverCapabilities_def)
  then have fin: "finite caps" using assms by (rule rev_finite_subset)
  have all: "\<not> caps_IsAll caps" using assms Supported_eq(2) by (auto simp: caps_IsAll_def)
  show ?thesis
  proof (cases "caps = {}")
    case True
    then show ?thesis using all by (simp add: caps_String_def caps_List_def Split_char_notin)
  next
    case False
    have "Split (StrJoin (sorted_list_of_set caps) '','') '','' = sorted_list_of_set caps"
      using fin False assms supported_name by (intro Split_StrJoin_char) auto
    moreover have "cap_args (sorted_list_of_set caps) = Inr (map (\<lambda>c. ''--'' @ c) (sorted_list_of_set caps))"
      using fin assms by (intro cap_args_supported) auto
    ultimately show ?thesis using all by (simp add: caps_String_def caps_List_def)
  qed
qed

definition hook_config_valid :: "Config \<Rightarrow> bool" where
  "hook_config_valid cfg \<longleftrightarrow> NewDriverCapabilities [cfg_SupportedDriverCapabilities cfg] \<subseteq> SupportedDriverCapabilities"

lemma getHookConfig_valid: "getHookConfig lib h flag osGetenv = Inr cfg \<Longrightarrow> hook_config_valid cfg"
  using Supported_eq(2)
  by (auto simp: getHookConfig_def bindR_eq_Inr hook_config_valid_def caps_IsSuperset_def Let_def split: if_splits)

lemma getDriverCapabilities_subset:
  assumes "hook_config_valid cfg" and "getDriverCapabilities cfg i legacy = Inr caps"
  shows "caps \<subseteq> NewDriverCapabilities [cfg_SupportedDriverCapabilities cfg]"
proof -
  let ?s = "NewDriverCapabilities [cfg_SupportedDriverCapabilities cfg]"
  have "\<not> caps_IsAll ?s" using assms(1) Supported_eq(2) by (auto simp: hook_config_valid_def caps_IsAll_def)
  then have "caps_Intersection ?s x \<subseteq> ?s" for x by (auto simp: caps_Intersection_def)
  with assms(2) show ?thesis by (auto simp: getDriverCapabilities_def Let_def split: if_splits)
qed

lemma getNvidiaConfig_Some:
  assumes "getNvidiaConfig cfg i privileged = Inr (Some nv)"
  obtains caps where "VisibleDevices i = Inr (nc_Devices nv)" "nc_Devices nv \<noteq> []"
    "getDriverCapabilities cfg i (IsLegacy i) = Inr caps" "nc_DriverCapabilities nv = caps_String caps"
    "privileged \<or> nc_MigConfigDevices nv = [] \<and> nc_MigMonitorDevices nv = []"
    "nc_ImexChannels nv = ImexChannelRequests i" "GetRequirements i = Inr (nc_Requirements nv)"
  using assms
  by (cases "GetRequirements i") (auto simp: getNvidiaConfig_def bindR_eq_Inr Let_def split: if_splits)

text \<open>
  (C29) For a configuration that the hook accepts, the driver capabilities of a container are always
  flags that the command line tool knows: building them never panics, and they are the configured
  capabilities that the image (or the default) asks for.  An unprivileged container never gets MIG
  configuration or monitor devices.
\<close>

theorem hook_capabilities_known:
  assumes "getHookConfig lib h flag osGetenv = Inr cfg" and "getNvidiaConfig cfg i privileged = Inr (Some nv)"
  shows "(\<exists>caps. caps \<subseteq> NewDriverCapabilities [cfg_SupportedDriverCapabilities cfg] \<and> caps \<subseteq> SupportedDriverCapabilities
      \<and> cap_args (Split (nc_DriverCapabilities nv) '','') = Inr (map (\<lambda>c. ''--'' @ c) (sorted_list_of_set caps)))
    \<and> (\<not> privileged \<longrightarrow> nc_MigConfigDevices nv = [] \<and> nc_MigMonitorDevices nv = [])"
proof -
  have valid: "hook_config_valid cfg" using assms(1) by (rule getHookConfig_valid)
  from assms(2) obtain caps where caps: "getDriverCapabilities cfg i (IsLegacy i) = Inr caps"
    "nc_DriverCapabilities nv = caps_String caps" and mig: "privileged \<or> nc_MigConfigDevices nv = [] \<and> nc_MigMonitorDevices nv = []"
    by (rule getNvidiaConfig_Some)
  from getDriverCapabilities_subset [OF valid caps(1)] valid
  have "caps \<subseteq> NewDriverCapabilities [cfg_SupportedDriverCapabilities cfg]" "caps \<subseteq> SupportedDriverCapabilities"
    by (auto simp: hook_config_valid_def)
  with cap_args_String [OF this(2)] caps(2) mig show ?thesis by auto
qed

definition hook_toml :: "unit toml_lib" where
  "hook_toml = \<lparr>tl_Load = (\<lambda>_. Inr ()), tl_Marshal = (\<lambda>_. Inr []), tl_Unmarshal = (\<lambda>_ c. Inr c),
     tl_Get = (\<lambda>_ _. None), tl_Set = (\<lambda>_ _ _. ()), tl_SetCommented = (\<lambda>_ _ _. ()), tl_Delete = (\<lambda>_ _. Inr ())\<rparr>"

definition no_files :: toml_host where
  "no_files = \<lparr>th_exists = (\<lambda>_. False), th_release = None, th_open = (\<lambda>_. FileNotExist)\<rparr>"

definition video_image :: CUDA where
  "video_image = initial_CUDA\<lparr>env := [(''NVIDIA_VISIBLE_DEVICES'', ''0''), (''NVIDIA_DRIVER_CAPABILITIES'', ''video,compute'')]\<rparr>"

lemma example_hook_config:
  "\<exists>cfg. getHookConfig hook_toml no_files [] (\<lambda>_. []) = Inr cfg \<and> cfg = GetDefault (\<lambda>_. False) None"
proof -
  have sup: "\<not> (cfg_SupportedDriverCapabilities (GetDefault (\<lambda>_. False) None) = ''all'')"
    "caps_IsSuperset SupportedDriverCapabilities
       (NewDriverCapabilities [cfg_SupportedDriverCapabilities (GetDefault (\<lambda>_. False) None)])"
    by code_simp+
  have "loadConfig hook_toml no_files [] (\<lambda>_. []) = Inr (GetDefault (\<lambda>_. False) None)"
    by (simp add: loadConfig_def hook_getConfigFilePath_def toml_New_def loadConfigToml_def WithConfigFile_def
        WithRequired_def no_files_def GetConfigFilePath_def FJoin_def RelativeFilePath_def)
  with sup show ?thesis by (simp add: getHookConfig_def)
qed

theorem hook_capabilities_known_witness:
  "\<exists>nv caps. getNvidiaConfig (GetDefault (\<lambda>_. False) None) video_image False = Inr (Some nv) \<and>
     nc_DriverCapabilities nv = ''compute,video'' \<and>
     cap_args (Split (nc_DriverCapabilities nv) '','') = Inr (map (\<lambda>c. ''--'' @ c) (sorted_list_of_set caps))"
proof -
  have "map_sum (\<lambda>_. ()) (map_option nc_DriverCapabilities) (getNvidiaConfig (GetDefault (\<lambda>_. False) None) video_image False) =
      Inr (Some ''compute,video'')" by code_simp
  then obtain nv where nv: "getNvidiaConfig (GetDefault (\<lambda>_. False) None) video_image False = Inr (Some nv)"
    "nc_DriverCapabilities nv = ''compute,video''"
    by (cases "getNvidiaConfig (GetDefault (\<lambda>_. False) None) video_image False") auto
  obtain cfg where cfg: "getHookConfig hook_toml no_files [] (\<lambda>_. []) = Inr cfg" "cfg = GetDefault (\<lambda>_. False) None"
    using example_hook_config by blast
  from hook_capabilities_known [OF cfg(1), unfolded cfg(2), OF nv(1)] nv show ?thesis by blast
qed

subsection \<open>Containers that may not request devices\<close>

lemma hook_image_effect:
  assumes "image_New (hook_image_options cfg p s privileged) = Inr i"
  shows "annotationsPrefixes i = [] \<and> isPrivileged i = privileged \<and>
    acceptEnvvarUnprivileged i = cfg_AcceptEnvvarUnprivileged cfg \<and>
    acceptDeviceListAsVolumeMounts i = cfg_AcceptDeviceListAsVolumeMounts cfg"
  using assms
  by (auto simp: hook_image_options_def image_New_def bindR_eq_Inr image_build_def
      WithAcceptDeviceListAsVolumeMounts_def WithAcceptEnvvarUnprivileged_def WithDisableRequire_def
      WithPreferredVisibleDevicesEnvVars_def WithIgnoreImexChannelRequests_def
      WithEnv_def WithEnvMap_def WithMounts_def WithPrivileged_def initial_CUDA_def split: if_splits)

lemma case_result_Inr:
  "(case r of Inl e \<Rightarrow> Inl (g e) | Inr x \<Rightarrow> f x) = Inr y \<longleftrightarrow> (\<exists>x. r = Inr x \<and> f x = Inr y)"
  by (cases r) auto

lemma getContainerConfig_Nvidia:
  assumes "getContainerConfig read (Inr h) cfg None = Inr cc"
    and "read (FJoin [if length (hst_Bundle h) = 0 then hst_BundlePath h else hst_Bundle h, ''config.json'']) = Inr s"
  obtains privileged where "hook_isPrivileged s = Inr privileged"
    "getNvidiaConfig cfg (cc_Image cc) privileged = Inr (cc_Nvidia cc)"
    "annotationsPrefixes (cc_Image cc) = []" "isPrivileged (cc_Image cc) = privileged"
    "acceptEnvvarUnprivileged (cc_Image cc) = cfg_AcceptEnvvarUnprivileged cfg"
    "acceptDeviceListAsVolumeMounts (cc_Image cc) = cfg_AcceptDeviceListAsVolumeMounts cfg"
proof -
  from assms obtain privileged p i where priv: "hook_isPrivileged s = Inr privileged"
    and i: "image_New (hook_image_options cfg p s privileged) = Inr i" "cc_Image cc = i"
    and nv: "getNvidiaConfig cfg i privileged = Inr (cc_Nvidia cc)"
    by (auto simp: getContainerConfig_def loadSpec_def bindR_eq_Inr Let_def case_result_Inr split: if_splits)
  with hook_image_effect [OF i(1)] show thesis by (intro that [OF priv]) auto
qed

text \<open>
  (C6) In the legacy mode, too, an unprivileged container gets nothing that the configuration does not
  allow: if device requests of unprivileged containers and device lists as volume mounts are not
  accepted, the prestart hook never runs the command line tool for a container without
  \<open>CAP_SYS_ADMIN\<close>, whatever its environment and mounts are.
\<close>

theorem hook_ignores_unprivileged:
  assumes "getHookConfig (he_toml he) (he_tomlHost he) (he_configflag he) (he_getenv he) = Inr cfg"
    and "he_stdin he = Inr h"
    and "he_read he (FJoin [if length (hst_Bundle h) = 0 then hst_BundlePath h else hst_Bundle h, ''config.json'']) = Inr s"
    and "hook_isPrivileged s = Inr False"
    and "\<not> cfg_AcceptEnvvarUnprivileged cfg" and "\<not> cfg_AcceptDeviceListAsVolumeMounts cfg"
  shows "doPrestart he \<noteq> Inr (Some run)"
proof
  assume "doPrestart he = Inr (Some run)"
  with assms(1,2) obtain cc nv where cc: "getContainerConfig (he_read he) (Inr h) cfg None = Inr cc"
    and nv: "cc_Nvidia cc = Some nv"
    by (auto simp: doPrestart_def bindR_eq_Inr split: option.splits sum.splits)
  from cc assms(3) obtain privileged where p: "hook_isPrivileged s = Inr privileged"
    "getNvidiaConfig cfg (cc_Image cc) privileged = Inr (cc_Nvidia cc)"
    and i: "annotationsPrefixes (cc_Image cc) = []" "isPrivileged (cc_Image cc) = privileged"
    "acceptEnvvarUnprivileged (cc_Image cc) = cfg_AcceptEnvvarUnprivileged cfg"
    "acceptDeviceListAsVolumeMounts (cc_Image cc) = cfg_AcceptDeviceListAsVolumeMounts cfg"
    by (rule getContainerConfig_Nvidia)
  have "VisibleDevices (cc_Image cc) = Inr []"
    using i p(1) assms(4-) by (intro nothing_accepted_no_devices) auto
  with p(2) nv show False by (simp add: getNvidiaConfig_def)
qed

definition strict_toml :: "unit toml_lib" where
  "strict_toml = hook_toml\<lparr>tl_Unmarshal := (\<lambda>_ c. Inr (c\<lparr>cfg_AcceptEnvvarUnprivileged := False\<rparr>))\<rparr>"

definition asking_hook_spec :: hook_spec where
  "asking_hook_spec = \<lparr>hs_Version = Some ''1.0.0'', hs_Process = Some \<lparr>hp_Env = [''NVIDIA_VISIBLE_DEVICES=all''], hp_Capabilities = None\<rparr>,
     hs_Root = Some ''rootfs'', hs_Mounts = []\<rparr>"

definition strict_hook_env :: "unit hook_env" where
  "strict_hook_env = \<lparr>he_toml = strict_toml, he_tomlHost = no_files\<lparr>th_open := (\<lambda>_. FileContents [])\<rparr>, he_configflag = [],
     he_debugflag = False, he_getenv = (\<lambda>_. []), he_read = (\<lambda>_. Inr asking_hook_spec),
     he_stdin = Inr \<lparr>hst_Pid = 7, hst_Bundle = ''/b'', hst_BundlePath = []\<rparr>, he_platform = PlatformNVML,
     he_fs = example_fs, he_lookPath = (\<lambda>_ n. Inr (''/usr/bin/'' @ n))\<rparr>"

theorem hook_ignores_unprivileged_witness:
  "\<forall>run. doPrestart strict_hook_env \<noteq> Inr (Some run)"
proof
  fix run
  let ?cfg = "(GetDefault (\<lambda>_. False) None)\<lparr>cfg_AcceptEnvvarUnprivileged := False\<rparr>"
  have sup: "\<not> (cfg_SupportedDriverCapabilities ?cfg = ''all'')"
    "caps_IsSuperset SupportedDriverCapabilities (NewDriverCapabilities [cfg_SupportedDriverCapabilities ?cfg])"
    "config_assertValid ?cfg = None"
    by code_simp+
  have "loadConfig strict_toml (no_files\<lparr>th_open := (\<lambda>_. FileContents [])\<rparr>) [] (\<lambda>_. []) = Inr ?cfg"
    using sup(3) by (simp add: loadConfig_def hook_getConfigFilePath_def toml_New_def loadConfigToml_def WithConfigFile_def
        WithRequired_def no_files_def GetConfigFilePath_def FJoin_def RelativeFilePath_def loadConfigTomlFrom_def
        strict_toml_def hook_toml_def toml_Config_def configNoOverrides_def)
  then have cfg: "getHookConfig strict_toml (no_files\<lparr>th_open := (\<lambda>_. FileContents [])\<rparr>) [] (\<lambda>_. []) = Inr ?cfg"
    using sup by (simp add: getHookConfig_def)
  have "hook_isPrivileged asking_hook_spec = Inr False" by code_simp
  with cfg show "doPrestart strict_hook_env \<noteq> Inr (Some run)"
    by (intro hook_ignores_unprivileged [of _ ?cfg "\<lparr>hst_Pid = 7, hst_Bundle = ''/b'', hst_BundlePath = []\<rparr>" asking_hook_spec])
       (simp_all add: strict_hook_env_def GetDefault_def)
qed

end
