(* ===== verification/Tegra.thy ===== *)
theory Tegra
  imports Driver_Root Tegra_CSV "HOL-Library.AList"
begin

section \<open>Tegra systems\<close>

text \<open>
  The package \<open>internal/platform-support/tegra\<close>: mount specifications by type, the transformers that
  filter them, and the discoverer that is made from them.  A map from types to paths is an
  association list with distinct keys; an interface \<open>MountSpecPathsByTyper\<close> is the map it returns, a
  \<open>Transformer\<close> a function on such maps, and a nil interface is \<open>None\<close>.  Every map that is
  filtered in place is made anew by its caller.
\<close>

subsection \<open>Mount specifications by type (\<open>mount_specs.go\<close>)\<close>

type_synonym MountSpecPathsByType = "(string \<times> string list) list"
type_synonym mount_transformer = "MountSpecPathsByType \<Rightarrow> MountSpecPathsByType"

definition paths_of :: "MountSpecPathsByType \<Rightarrow> string \<Rightarrow> string list" where
  "paths_of m t = (case map_of m t of None \<Rightarrow> [] | Some ps \<Rightarrow> ps)"

definition append_paths :: "MountSpecPathsByType \<Rightarrow> string \<times> string list \<Rightarrow> MountSpecPathsByType" where
  "append_paths m e = AList.map_default (fst e) (snd e) (\<lambda>ps. ps @ snd e) m"

definition merge_typers :: "MountSpecPathsByType option list \<Rightarrow> MountSpecPathsByType" where
  "merge_typers collection =
     foldl (\<lambda>merged t. case t of None \<Rightarrow> merged | Some m \<Rightarrow> foldl append_paths merged m) [] collection"

definition tegra_Merge :: "MountSpecPathsByType option list \<Rightarrow> MountSpecPathsByType" where
  "tegra_Merge sources =
     foldl (\<lambda>targetsByType t. case t of None \<Rightarrow> targetsByType | Some m \<Rightarrow> foldl append_paths targetsByType m) [] sources"

definition allTransformers_Apply :: "mount_transformer option list \<Rightarrow> mount_transformer" where
  "allTransformers_Apply ts m = foldl (\<lambda>input t. case t of None \<Rightarrow> input | Some f \<Rightarrow> f input) m ts"

definition tegra_Transform :: "MountSpecPathsByType \<Rightarrow> mount_transformer option list \<Rightarrow> MountSpecPathsByType" where
  "tegra_Transform m ts = allTransformers_Apply ts m"

definition DeviceNodes_spec :: "string list \<Rightarrow> MountSpecPathsByType" where
  "DeviceNodes_spec dn = [(MountSpecDev, dn)]"

definition Symlinks_spec :: "string list \<Rightarrow> MountSpecPathsByType" where
  "Symlinks_spec s = [(MountSpecSym, s)]"

subsection \<open>Filters (\<open>filter.go\<close>)\<close>

definition ignore_pattern_matches :: "string \<Rightarrow> string \<Rightarrow> bool" where
  "ignore_pattern_matches name pattern =
     (case (if HasPrefix pattern ''**/'' then filepath_Match (TrimPrefix pattern ''**/'') (Base name)
            else filepath_Match pattern name) of
        Inl e \<Rightarrow> False | Inr matched \<Rightarrow> matched)"

definition ignoreSymlink_match :: "string list \<Rightarrow> string \<Rightarrow> bool" where
  "ignoreSymlink_match d name = list_ex (ignore_pattern_matches name) d"

definition ignoreSymlink_filter :: "string list \<Rightarrow> string list \<Rightarrow> string list" where
  "ignoreSymlink_filter d input = filter (\<lambda>name. \<not> ignoreSymlink_match d name) input"

definition IgnoreSymlinkMountSpecsByPattern :: "string list \<Rightarrow> mount_transformer" where
  "IgnoreSymlinkMountSpecsByPattern d m =
     (case map_of m MountSpecSym of
        None \<Rightarrow> m
      | Some syms \<Rightarrow> AList.update MountSpecSym (ignoreSymlink_filter d syms) m)"

definition basenamePattern_MatchString :: "string \<Rightarrow> string \<Rightarrow> bool" where
  "basenamePattern_MatchString d input =
     (case filepath_Match (TrimPrefix d ''**/'') (Base input) of Inl e \<Rightarrow> False | Inr matched \<Rightarrow> matched)"

definition pathPattern_MatchString :: "string \<Rightarrow> string \<Rightarrow> bool" where
  "pathPattern_MatchString d input =
     (if HasPrefix d ''**/'' then basenamePattern_MatchString d input
      else case filepath_Match d input of Inl e \<Rightarrow> False | Inr matched \<Rightarrow> matched)"

definition pathPatterns_MatchString :: "string list \<Rightarrow> string \<Rightarrow> bool" where
  "pathPatterns_MatchString d input = list_ex (\<lambda>pattern. pathPattern_MatchString pattern input) d"

type_synonym path_filter = "string list \<Rightarrow> string list"

definition matcherAsFilter_apply :: "(string \<Rightarrow> bool) \<Rightarrow> path_filter" where
  "matcherAsFilter_apply matches input = filter (\<lambda>path. \<not> matches path) input"

definition removeAll_apply :: path_filter where
  "removeAll_apply input = []"

definition filter_entry :: "MountSpecPathsByType \<Rightarrow> string \<times> path_filter \<Rightarrow> MountSpecPathsByType" where
  "filter_entry m e =
     (case e of (t, flt) \<Rightarrow>
        if length (paths_of m t) = 0 then m else AList.update t (flt (paths_of m t)) m)"

definition filterByMountSpecType_Apply :: "(string \<times> path_filter) list \<Rightarrow> mount_transformer" where
  "filterByMountSpecType_Apply p m = foldl filter_entry m p"

definition Without :: "MountSpecPathsByType \<Rightarrow> mount_transformer" where
  "Without p = filterByMountSpecType_Apply
     (map (\<lambda>(t, paths). (t, matcherAsFilter_apply (pathPatterns_MatchString paths))) p)"

definition OnlyDeviceNodes :: mount_transformer where
  "OnlyDeviceNodes = filterByMountSpecType_Apply
     [(MountSpecDir, removeAll_apply), (MountSpecLib, removeAll_apply), (MountSpecSym, removeAll_apply)]"

definition WithoutDeviceNodes :: mount_transformer where
  "WithoutDeviceNodes = filterByMountSpecType_Apply [(MountSpecDev, removeAll_apply)]"

text \<open>The regular expression \<open>^/dev/nvidia[0-9]+$\<close>.\<close>

definition regular_device_node :: "string \<Rightarrow> bool" where
  "regular_device_node path \<longleftrightarrow>
     HasPrefix path ''/dev/nvidia'' \<and>
     (let n = TrimPrefix path ''/dev/nvidia'' in n \<noteq> [] \<and> list_all is_digit n)"

definition WithoutRegularDeviceNodes :: mount_transformer where
  "WithoutRegularDeviceNodes =
     filterByMountSpecType_Apply [(MountSpecDev, matcherAsFilter_apply regular_device_node)]"

subsection \<open>Specifications from CSV files (\<open>csv.go\<close>)\<close>

definition loadCSVFile :: "(string \<Rightarrow> string result) \<Rightarrow> string \<Rightarrow> MountSpec list result" where
  "loadCSVFile read filename =
     bindR (wrapR ''failed to parse CSV file'' (csv_Parse read filename)) (\<lambda>targets.
       if length targets = 0 then Inl (Errorf ''CSV file is empty'') else Inr targets)"

definition targets_by_type :: "MountSpec list \<Rightarrow> MountSpecPathsByType" where
  "targets_by_type targets = foldl (\<lambda>m t. append_paths m (ms_Type t, [ms_Path t])) [] targets"

definition MountSpecsFromCSVFiles :: "(string \<Rightarrow> string result) \<Rightarrow> string list \<Rightarrow> MountSpecPathsByType" where
  "MountSpecsFromCSVFiles read csvFilePaths =
     merge_typers (concat (map (\<lambda>filename.
       case loadCSVFile read filename of Inl e \<Rightarrow> [] | Inr targets \<Rightarrow> [Some (targets_by_type targets)]) csvFilePaths))"

subsection \<open>Symbolic links (\<open>symlinks.go\<close>)\<close>

record symlinkHook =
  sh_hookCreator :: HookCreator
  sh_targets :: "string list"
  sh_symlinkChainLocator :: locator
  sh_resolveSymlink :: "string \<Rightarrow> string result"

definition getSymlinkCandidates :: "symlinkHook \<Rightarrow> string list" where
  "getSymlinkCandidates d = concat (map (located (sh_symlinkChainLocator d)) (sh_targets d))"

definition candidate_link :: "symlinkHook \<Rightarrow> string \<Rightarrow> string list" where
  "candidate_link d candidate =
     (case sh_resolveSymlink d candidate of
        Inl e \<Rightarrow> []
      | Inr target \<Rightarrow> if target = candidate then [] else [target @ ''::'' @ candidate])"

definition getCSVFileSymlinks :: "symlinkHook \<Rightarrow> string list" where
  "getCSVFileSymlinks d = unique_by id (concat (map (candidate_link d) (getSymlinkCandidates d)))"

definition symlinkHook_Hooks :: "symlinkHook \<Rightarrow> dsc_hook list result" where
  "symlinkHook_Hooks d = Hook_Hooks (Create (sh_hookCreator d) ''create-symlinks'' (getCSVFileSymlinks d))"

subsection \<open>The discoverer (\<open>options.go\<close>, \<open>csv.go\<close>, \<open>tegra.go\<close>)\<close>

text \<open>The callers always give a hook creator.\<close>

record tegra_options =
  to_driver :: "Driver option"
  to_hookCreator :: HookCreator
  to_librarySearchPaths :: "string list"
  to_symlinkLocator :: "locator option"
  to_symlinkChainLocator :: "locator option"
  to_resolveSymlink :: "(string \<Rightarrow> string result) option"
  to_mountSpecs :: "MountSpecPathsByType option list"

definition tegra_WithDriver :: "Driver \<Rightarrow> tegra_options \<Rightarrow> tegra_options" where
  "tegra_WithDriver driver opts = opts\<lparr>to_driver := Some driver\<rparr>"

definition tegra_WithHookCreator :: "HookCreator \<Rightarrow> tegra_options \<Rightarrow> tegra_options" where
  "tegra_WithHookCreator hc opts = opts\<lparr>to_hookCreator := hc\<rparr>"

definition tegra_WithLibrarySearchPaths :: "string list \<Rightarrow> tegra_options \<Rightarrow> tegra_options" where
  "tegra_WithLibrarySearchPaths ps opts = opts\<lparr>to_librarySearchPaths := ps\<rparr>"

definition tegra_WithMountSpecs :: "MountSpecPathsByType option list \<Rightarrow> tegra_options \<Rightarrow> tegra_options" where
  "tegra_WithMountSpecs ms opts = opts\<lparr>to_mountSpecs := ms\<rparr>"

record tegra_env =
  te_fs :: lookup_fs
  te_symlinks :: symlinks_env

definition createCSVSymlinkHooks ::
  "HookCreator \<Rightarrow> locator \<Rightarrow> (string \<Rightarrow> string result) \<Rightarrow> string list \<Rightarrow> discover" where
  "createCSVSymlinkHooks hc chainLocator resolve targets =
     dsc_None\<lparr>ds_Hooks := symlinkHook_Hooks
       \<lparr>sh_hookCreator = hc, sh_targets = targets, sh_symlinkChainLocator = chainLocator, sh_resolveSymlink = resolve\<rparr>\<rparr>"

definition newDiscovererFromMountSpecs ::
  "tegra_env \<Rightarrow> Driver \<Rightarrow> HookCreator \<Rightarrow> locator \<Rightarrow> locator \<Rightarrow> (string \<Rightarrow> string result) \<Rightarrow> MountSpecPathsByType \<Rightarrow> discover" where
  "newDiscovererFromMountSpecs te driver hc symlinkLocator chainLocator resolve targetsByType =
     (if length targetsByType = 0 then dsc_None
      else discover_Merge
        [Some (fs_NewCharDeviceDiscoverer (te_fs te) (drv_DevRoot driver) (paths_of targetsByType MountSpecDev)),
         Some (NewMounts (Some (NewDirectoryLocator (te_fs te) [WithRoot (drv_Root driver)])) (drv_Root driver)
                 (paths_of targetsByType MountSpecDir)),
         Some (WithDriverDotSoSymlinks (te_symlinks te)
                 (NewMounts (Some symlinkLocator) (drv_Root driver) (paths_of targetsByType MountSpecLib)) [] hc),
         Some (NewMounts (Some symlinkLocator) (drv_Root driver) (paths_of targetsByType MountSpecSym)),
         Some (createCSVSymlinkHooks hc chainLocator resolve (paths_of targetsByType MountSpecSym))])"

definition tegra_New :: "tegra_env \<Rightarrow> (tegra_options \<Rightarrow> tegra_options) list \<Rightarrow> discover result" where
  "tegra_New te opts =
     (let d = foldl (\<lambda>a f. f a)
            \<lparr>to_driver = None, to_hookCreator = AllDisabled, to_librarySearchPaths = [], to_symlinkLocator = None,
             to_symlinkChainLocator = None, to_resolveSymlink = None, to_mountSpecs = []\<rparr> opts
      in case to_driver d of
           None \<Rightarrow> Inl (Errorf ''a driver must be specified'')
         | Some driver \<Rightarrow>
             let symlinkLocator = (case to_symlinkLocator d of
                     None \<Rightarrow> NewSymlinkLocator (te_fs te)
                               [WithRoot (drv_Root driver), WithSearchPaths (to_librarySearchPaths d @ [''/''])]
                   | Some l \<Rightarrow> l);
                 chainLocator = (case to_symlinkChainLocator d of
                     None \<Rightarrow> NewSymlinkChainLocator (te_fs te) [WithRoot (drv_Root driver)] | Some l \<Rightarrow> l);
                 resolve = (case to_resolveSymlink d of None \<Rightarrow> symlinks_Resolve (te_fs te) | Some r \<Rightarrow> r)
             in Inr (discover_Merge
                  [Some (newDiscovererFromMountSpecs te driver (to_hookCreator d) symlinkLocator chainLocator resolve
                           (merge_typers (to_mountSpecs d))),
                   Some (NewMounts (Some (NewFileLocator (te_fs te) [])) [] [''/etc/nv_tegra_release''])]))"

subsection \<open>Paths of merged specifications\<close>

abbreviation keys_ok :: "MountSpecPathsByType \<Rightarrow> bool" where
  "keys_ok m \<equiv> distinct (map fst m)"

lemma paths_of_Nil [simp]: "paths_of [] t = []"
  by (simp add: paths_of_def)

lemma paths_of_Cons: "paths_of ((k, ps) # m) t = (if t = k then ps else paths_of m t)"
  by (simp add: paths_of_def)

lemma paths_of_absent: "t \<notin> fst ` set m \<Longrightarrow> paths_of m t = []"
  by (simp add: paths_of_def map_of_eq_None_iff [THEN iffD2])

lemma paths_of_append_paths: "paths_of (append_paths m e) t = paths_of m t @ (if t = fst e then snd e else [])"
  by (auto simp: paths_of_def append_paths_def map_of_map_default split: option.splits)

lemma keys_append_paths: "keys_ok m \<Longrightarrow> keys_ok (append_paths m e)"
  by (simp add: append_paths_def distinct_map_default)

lemma paths_of_foldl_append: "keys_ok es \<Longrightarrow> paths_of (foldl append_paths m es) t = paths_of m t @ paths_of es t"
proof (induction es arbitrary: m)
  case (Cons e es)
  then show ?case
    by (cases e) (auto simp: paths_of_append_paths paths_of_Cons paths_of_absent)
qed simp

lemma keys_foldl_append: "keys_ok m \<Longrightarrow> keys_ok (foldl append_paths m es)"
  by (induction es arbitrary: m) (simp_all add: keys_append_paths)

lemma merge_typers_snoc:
  "merge_typers (ts @ [t]) = (case t of None \<Rightarrow> merge_typers ts | Some m \<Rightarrow> foldl append_paths (merge_typers ts) m)"
  by (cases t) (simp_all add: merge_typers_def)

lemma merge_typers_paths:
  assumes "\<And>m. Some m \<in> set ts \<Longrightarrow> keys_ok m"
  shows "keys_ok (merge_typers ts)"
    and "paths_of (merge_typers ts) t = concat (map (\<lambda>x. case x of None \<Rightarrow> [] | Some m \<Rightarrow> paths_of m t) ts)"
proof -
  have "keys_ok (merge_typers ts) \<and>
      paths_of (merge_typers ts) t = concat (map (\<lambda>x. case x of None \<Rightarrow> [] | Some m \<Rightarrow> paths_of m t) ts)"
    using assms
  proof (induction ts rule: rev_induct)
    case Nil
    then show ?case by (simp add: merge_typers_def)
  next
    case (snoc x ts)
    then show ?case
      by (cases x) (auto simp: merge_typers_snoc keys_foldl_append paths_of_foldl_append)
  qed
  then show "keys_ok (merge_typers ts)"
    and "paths_of (merge_typers ts) t = concat (map (\<lambda>x. case x of None \<Rightarrow> [] | Some m \<Rightarrow> paths_of m t) ts)"
    by auto
qed

lemma tegra_Merge_eq: "tegra_Merge = merge_typers"
  by (intro ext) (simp add: tegra_Merge_def merge_typers_def)

lemma targets_by_type_paths:
  "keys_ok (targets_by_type ts)"
  "paths_of (targets_by_type ts) t = map ms_Path (filter (\<lambda>s. ms_Type s = t) ts)"
proof -
  have "keys_ok (targets_by_type ts) \<and> paths_of (targets_by_type ts) t = map ms_Path (filter (\<lambda>s. ms_Type s = t) ts)"
    by (induction ts rule: rev_induct)
      (auto simp: targets_by_type_def keys_append_paths paths_of_append_paths)
  then show "keys_ok (targets_by_type ts)"
    "paths_of (targets_by_type ts) t = map ms_Path (filter (\<lambda>s. ms_Type s = t) ts)" by auto
qed

text \<open>What the CSV files list: the parsed lines of all files that can be read, in the order of the files.\<close>

definition csv_targets :: "(string \<Rightarrow> string result) \<Rightarrow> string list \<Rightarrow> MountSpec list" where
  "csv_targets read files = concat (map (\<lambda>f. case read f of Inl e \<Rightarrow> [] | Inr contents \<Rightarrow> parseFromReader contents) files)"

lemma MountSpecsFromCSVFiles_paths:
  "keys_ok (MountSpecsFromCSVFiles read files)"
  "paths_of (MountSpecsFromCSVFiles read files) t = map ms_Path (filter (\<lambda>s. ms_Type s = t) (csv_targets read files))"
proof -
  let ?ts = "concat (map (\<lambda>filename. case loadCSVFile read filename of Inl e \<Rightarrow> [] | Inr targets \<Rightarrow> [Some (targets_by_type targets)]) files)"
  have ok: "keys_ok m" if "Some m \<in> set ?ts" for m
    using that by (auto simp: targets_by_type_paths split: sum.splits)
  show "keys_ok (MountSpecsFromCSVFiles read files)"
    unfolding MountSpecsFromCSVFiles_def using ok by (rule merge_typers_paths)
  have "concat (map (\<lambda>x. case x of None \<Rightarrow> [] | Some m \<Rightarrow> paths_of m t) ?ts) =
      map ms_Path (filter (\<lambda>s. ms_Type s = t) (csv_targets read files))"
    by (induction files)
      (auto simp: csv_targets_def loadCSVFile_def csv_Parse_def wrapR_def targets_by_type_paths bindR_def split: sum.splits error.splits)
  then show "paths_of (MountSpecsFromCSVFiles read files) t = map ms_Path (filter (\<lambda>s. ms_Type s = t) (csv_targets read files))"
    unfolding MountSpecsFromCSVFiles_def using merge_typers_paths(2) [of ?ts t, OF ok] by simp
qed

subsection \<open>Transformers filter paths\<close>

text \<open>
  The contract of the transformers: which paths of a type are kept does not depend on the other
  paths or types, and the keys of a map stay distinct.
\<close>

locale mount_filter =
  fixes T :: mount_transformer and keep :: "string \<Rightarrow> string \<Rightarrow> bool"
  assumes paths: "keys_ok m \<Longrightarrow> paths_of (T m) t = filter (keep t) (paths_of m t)"
    and keys: "keys_ok m \<Longrightarrow> keys_ok (T m)"
begin

lemma idempotent: "keys_ok m \<Longrightarrow> paths_of (T (T m)) t = paths_of (T m) t"
  by (simp add: paths keys)

lemma before: "keys_ok m \<Longrightarrow> set (paths_of (T m) t) \<subseteq> set (paths_of m t) \<inter> {p. keep t p}"
  by (auto simp: paths)

lemma commute:
  assumes "mount_filter U keep'" and "keys_ok m"
  shows "paths_of (T (U m)) t = paths_of (U (T m)) t"
  using assms by (simp add: paths keys mount_filter.paths mount_filter.keys conj_commute)

end

lemma mount_filter_id: "mount_filter (\<lambda>m. m) (\<lambda>t p. True)"
  by unfold_locales auto

lemma mount_filter_comp:
  "mount_filter T keep \<Longrightarrow> mount_filter U keep' \<Longrightarrow> mount_filter (\<lambda>m. U (T m)) (\<lambda>t p. keep t p \<and> keep' t p)"
  by (auto simp: mount_filter_def conj_commute)

lemma paths_of_update: "paths_of (AList.update k ps m) t = (if t = k then ps else paths_of m t)"
  by (simp add: paths_of_def update_conv')

lemma mount_filter_entry:
  assumes "\<And>ps. flt ps = filter keep ps"
  shows "mount_filter (\<lambda>m. filter_entry m (k, flt)) (\<lambda>t p. t = k \<longrightarrow> keep p)"
proof
  fix m :: MountSpecPathsByType and t
  assume m: "keys_ok m"
  show "paths_of (filter_entry m (k, flt)) t = filter (\<lambda>p. t = k \<longrightarrow> keep p) (paths_of m t)"
    by (cases "t = k") (auto simp: filter_entry_def paths_of_update assms)
  show "keys_ok (filter_entry m (k, flt))"
    using m by (simp add: filter_entry_def distinct_update)
qed

lemma mount_filter_by_type:
  "mount_filter (filterByMountSpecType_Apply (map (\<lambda>(k, P). (k, filter P)) p))
     (\<lambda>t x. list_all (\<lambda>(k, P). t = k \<longrightarrow> P x) p)"
proof (induction p)
  case Nil
  then show ?case using mount_filter_id by (simp add: filterByMountSpecType_Apply_def [abs_def])
next
  case (Cons e p)
  obtain k P where e: "e = (k, P)" by (cases e)
  from mount_filter_comp [OF mount_filter_entry [of "filter P" P k] Cons.IH] show ?case
    by (simp add: filterByMountSpecType_Apply_def [abs_def] e)
qed

lemma path_filters: "removeAll_apply = filter (\<lambda>x. False)" "matcherAsFilter_apply P = filter (\<lambda>x. \<not> P x)"
  by (auto simp: fun_eq_iff removeAll_apply_def matcherAsFilter_apply_def)

interpretation device_nodes: mount_filter OnlyDeviceNodes "\<lambda>t x. t \<notin> {MountSpecDir, MountSpecLib, MountSpecSym}"
  using mount_filter_by_type [of "map (\<lambda>t. (t, \<lambda>x. False)) [MountSpecDir, MountSpecLib, MountSpecSym]"]
  by (simp add: OnlyDeviceNodes_def path_filters conj_ac)

interpretation no_device_nodes: mount_filter WithoutDeviceNodes "\<lambda>t x. t \<noteq> MountSpecDev"
  using mount_filter_by_type [of "[(MountSpecDev, \<lambda>x. False)]"]
  by (simp add: WithoutDeviceNodes_def path_filters)

interpretation no_regular_nodes: mount_filter WithoutRegularDeviceNodes
  "\<lambda>t x. t = MountSpecDev \<longrightarrow> \<not> regular_device_node x"
  using mount_filter_by_type [of "[(MountSpecDev, \<lambda>x. \<not> regular_device_node x)]"]
  by (simp add: WithoutRegularDeviceNodes_def path_filters)

interpretation ignored_links: mount_filter "IgnoreSymlinkMountSpecsByPattern d"
  "\<lambda>t x. t = MountSpecSym \<longrightarrow> \<not> ignoreSymlink_match d x" for d
proof
  fix m :: MountSpecPathsByType and t
  assume m: "keys_ok m"
  show "paths_of (IgnoreSymlinkMountSpecsByPattern d m) t =
      filter (\<lambda>x. t = MountSpecSym \<longrightarrow> \<not> ignoreSymlink_match d x) (paths_of m t)"
    by (cases "t = MountSpecSym")
      (auto simp: IgnoreSymlinkMountSpecsByPattern_def paths_of_update ignoreSymlink_filter_def paths_of_def
        update_conv' split: option.splits)
  show "keys_ok (IgnoreSymlinkMountSpecsByPattern d m)"
    using m by (simp add: IgnoreSymlinkMountSpecsByPattern_def distinct_update split: option.splits)
qed

interpretation without_nodes: mount_filter "Without (DeviceNodes_spec ns)"
  "\<lambda>t x. t = MountSpecDev \<longrightarrow> \<not> pathPatterns_MatchString ns x" for ns
  using mount_filter_by_type [of "[(MountSpecDev, \<lambda>x. \<not> pathPatterns_MatchString ns x)]"]
  by (simp add: Without_def DeviceNodes_spec_def path_filters)

lemma tegra_Transform_simps [simp]:
  "tegra_Transform m [] = m"
  "tegra_Transform m (None # ts) = tegra_Transform m ts"
  "tegra_Transform m (Some T # ts) = tegra_Transform (T m) ts"
  by (simp_all add: tegra_Transform_def allTransformers_Apply_def)

subsection \<open>Links of the symlink hook\<close>

lemma located_iff: "c \<in> set (located L t) \<longleftrightarrow> (\<exists>chain. L t = Inr chain \<and> c \<in> set chain)"
  by (cases "L t") (simp_all add: located_def)

lemma candidate_link_iff:
  "l \<in> set (candidate_link d c) \<longleftrightarrow>
     (\<exists>target. sh_resolveSymlink d c = Inr target \<and> target \<noteq> c \<and> l = target @ ''::'' @ c)"
  by (cases "sh_resolveSymlink d c") (simp_all add: candidate_link_def)

text \<open>
  Every link that the hook creates is recorded once, and exactly the elements of the located chains
  that resolve to another path give one.
\<close>

lemma csv_symlinks:
  "distinct (getCSVFileSymlinks d)"
  "l \<in> set (getCSVFileSymlinks d) \<longleftrightarrow>
     (\<exists>t \<in> set (sh_targets d). \<exists>chain c target. sh_symlinkChainLocator d t = Inr chain \<and> c \<in> set chain \<and>
        sh_resolveSymlink d c = Inr target \<and> target \<noteq> c \<and> l = target @ ''::'' @ c)"
proof -
  show "distinct (getCSVFileSymlinks d)"
    using distinct_seen_loop [of id] by (simp add: getCSVFileSymlinks_def)
  have "set (getCSVFileSymlinks d) = set (concat (map (candidate_link d) (getSymlinkCandidates d)))"
    using key_set_seen_loop [of id "\<lambda>_. False" "concat (map (candidate_link d) (getSymlinkCandidates d))"]
    by (auto simp: getCSVFileSymlinks_def)
  then show "l \<in> set (getCSVFileSymlinks d) \<longleftrightarrow>
     (\<exists>t \<in> set (sh_targets d). \<exists>chain c target. sh_symlinkChainLocator d t = Inr chain \<and> c \<in> set chain \<and>
        sh_resolveSymlink d c = Inr target \<and> target \<noteq> c \<and> l = target @ ''::'' @ c)"
    by (simp add: getSymlinkCandidates_def located_iff Bex_def candidate_link_iff) blast
qed

end
