(* ===== verification/DGPU.thy ===== *)
theory DGPU
  imports Tegra Discover_Graphics
begin

section \<open>Device nodes of discrete GPUs\<close>

text \<open>
  \<open>internal/nvcaps\<close>: the capability device nodes of MIG devices, read from the file of MIG minors, and
  \<open>internal/platform-support/dgpu\<close>: the discoverers for a GPU and for a MIG device.  The answers of NVML
  and of the sandbox utilities library are parameters.
\<close>

subsection \<open>Numbers in text\<close>

text \<open>\<open>strconv.ParseInt(s, 10, 64)\<close> and \<open>strconv.Atoi\<close>: an optional sign, digits, and a range check.\<close>

definition Atoi :: "string \<Rightarrow> int result" where
  "Atoi s =
     (let neg = HasPrefix s ''-'';
          ds = (if neg \<or> HasPrefix s ''+'' then drop 1 s else s)
      in if ds = [] \<or> \<not> list_all is_digit ds then Inl (Errorf (''invalid syntax: '' @ s))
         else let n = int (digits_val ds); i = (if neg then - n else n) in
              if - (2 ^ 63) \<le> i \<and> i < 2 ^ 63 then Inr i else Inl (Errorf (''value out of range: '' @ s)))"

text \<open>The verb \<open>%d\<close> of \<open>fmt.Sscanf\<close>: spaces, an optional sign and digits; what is left is returned.\<close>

definition scan_d :: "string \<Rightarrow> (int \<times> string) option" where
  "scan_d s =
     (let t = strip_prefixes utf8_spaces s;
          sgn = (if HasPrefix t ''-'' \<or> HasPrefix t ''+'' then take 1 t else []);
          ds = takeWhile is_digit (drop (length sgn) t)
      in case Atoi (sgn @ ds) of
           Inl e \<Rightarrow> None
         | Inr i \<Rightarrow> Some (i, drop (length sgn + length ds) t))"

text \<open>
  The number of items that \<open>fmt.Sscanf\<close> stores for a format that alternates the given literals with
  \<open>%d\<close>.
\<close>

fun sscanf_ints :: "string list \<Rightarrow> string \<Rightarrow> nat" where
  "sscanf_ints [] s = 0"
| "sscanf_ints (lit # lits) s =
     (if HasPrefix s lit
      then case scan_d (drop (length lit) s) of
             None \<Rightarrow> 0
           | Some (i, rest) \<Rightarrow> Suc (sscanf_ints lits rest)
      else 0)"

subsection \<open>MIG capabilities (\<open>nvcaps.go\<close>)\<close>

type_synonym MigCaps = "(string \<times> int) list"

definition nvidiaCapabilitiesPath :: string where
  "nvidiaCapabilitiesPath = ''/proc/driver/nvidia/capabilities''"
definition nvcapsMigMinorsPath :: string where
  "nvcapsMigMinorsPath = ''/proc/driver/nvidia-caps/mig-minors''"

definition NewGPUInstanceCap :: "int \<Rightarrow> int \<Rightarrow> string" where
  "NewGPUInstanceCap gpu gi = ''gpu'' @ int_decimal gpu @ ''/gi'' @ int_decimal gi @ ''/access''"

definition NewComputeInstanceCap :: "int \<Rightarrow> int \<Rightarrow> int \<Rightarrow> string" where
  "NewComputeInstanceCap gpu gi ci =
     ''gpu'' @ int_decimal gpu @ ''/gi'' @ int_decimal gi @ ''/ci'' @ int_decimal ci @ ''/access''"

definition MigMinor_DevicePath :: "int \<Rightarrow> string" where
  "MigMinor_DevicePath m = ''/dev/nvidia-caps/nvidia-cap'' @ int_decimal m"

definition GetCapDevicePath :: "MigCaps \<Rightarrow> string \<Rightarrow> string result" where
  "GetCapDevicePath m cap =
     (case map_of m cap of
        None \<Rightarrow> Inl (Errorf (''invalid MIG capability path '' @ cap))
      | Some mnr \<Rightarrow> Inr (MigMinor_DevicePath mnr))"

definition MigCap_isValid :: "string \<Rightarrow> bool" where
  "MigCap_isValid cap =
     (if cap \<in> set [''config'', ''monitor''] then True
      else if sscanf_ints [''gpu'', ''/gi'', ''/ci''] cap = 3 then True
      else sscanf_ints [''gpu'', ''/gi''] cap = 2)"

definition processMigMinorsLine :: "string \<Rightarrow> (string \<times> int) result" where
  "processMigMinorsLine line =
     (let parts = Split line '' '' in
      if length parts \<noteq> 2 then Inl (Errorf (''error processing line: '' @ line))
      else if \<not> MigCap_isValid (parts ! 0) then Inl (Errorf (''invalid MIG minors line: '' @ line))
      else bindR (wrapR (''error reading MIG minor from '' @ line) (Atoi (parts ! 1))) (\<lambda>mnr.
             Inr (parts ! 0, mnr)))"

definition add_minor :: "MigCaps \<Rightarrow> string \<Rightarrow> MigCaps" where
  "add_minor m line =
     (case processMigMinorsLine line of Inl e \<Rightarrow> m | Inr (cap, mnr) \<Rightarrow> AList.update cap mnr m)"

definition processMinorsFile :: "string \<Rightarrow> MigCaps" where
  "processMinorsFile contents = foldl add_minor [] (scan_lines contents)"

text \<open>The outcome of opening a file: it does not exist, it cannot be opened, or it has contents.\<close>

datatype open_result = Open_NotExist | Open_Error error | Opened string

definition NewMigCaps :: "(string \<Rightarrow> open_result) \<Rightarrow> MigCaps option result" where
  "NewMigCaps osOpen =
     (case osOpen nvcapsMigMinorsPath of
        Open_NotExist \<Rightarrow> Inr None
      | Open_Error e \<Rightarrow> Inl (Wrap ''error opening MIG minors file'' e)
      | Opened contents \<Rightarrow> Inr (Some (processMinorsFile contents)))"

definition MigCap_ProcPath :: "string \<Rightarrow> string result" where
  "MigCap_ProcPath cap =
     (if cap \<in> set [''config'', ''monitor''] then Inr (FJoin [nvidiaCapabilitiesPath, ''mig/'' @ cap])
      else let parts = SplitN2 cap ''/'' in
           if length parts < 2 then Inl (Panic ''index out of range'')
           else Inr (FJoin [nvidiaCapabilitiesPath, StrJoin [parts ! 0, ''mig'', parts ! 1] ''/'']))"

subsection \<open>What NVML and the sandbox utilities answer\<close>

record gpu_device =
  gd_UUID :: "string result"
  gd_Index :: "int result"
  gd_Minor :: "int result"
  gd_PCIBusID :: "string result"
  gd_IsMigEnabled :: "bool result"
  gd_IsCoherent :: "bool result"

record mig_device =
  mg_UUID :: "string result"
  mg_Index :: "int result"
  mg_GpuInstanceId :: "int result"
  mg_ComputeInstanceId :: "int result"

record GpuFileInfo =
  fi_Path :: string
  fi_SubType :: int
  fi_Flags :: int

record sandboxutils =
  sb_Init :: "string \<Rightarrow> error option"
  sb_GetDriverVersion :: "string result"
  sb_GetGpuResource :: "string \<Rightarrow> GpuFileInfo list result"
  sb_GetFileContent :: "string \<Rightarrow> string result"

subsection \<open>The sandbox utilities discoverer (\<open>nvsandboxutils.go\<close>)\<close>

record nvsandboxutilsDGPU =
  ns_lib :: sandboxutils
  ns_uuid :: string
  ns_devRoot :: string
  ns_isMig :: bool
  ns_hookCreator :: HookCreator
  ns_deviceLinks :: "string list"

definition NV_DEV_NVIDIA :: int where "NV_DEV_NVIDIA = 0"
definition NV_DEV_DRI_CARD :: int where "NV_DEV_DRI_CARD = 1"
definition NV_DEV_DRI_RENDERD :: int where "NV_DEV_DRI_RENDERD = 2"
definition NV_DEV_DRI_CARD_SYMLINK :: int where "NV_DEV_DRI_CARD_SYMLINK = 3"
definition NV_DEV_DRI_RENDERD_SYMLINK :: int where "NV_DEV_DRI_RENDERD_SYMLINK = 4"
definition NV_DEV_NVIDIA_CAPS_NVIDIA_CAP :: int where "NV_DEV_NVIDIA_CAPS_NVIDIA_CAP = 10"
definition NV_FILE_FLAG_CONTENT :: int where "NV_FILE_FLAG_CONTENT = 4"

definition newNvsandboxutilsDGPUDiscoverer ::
  "sandboxutils option \<Rightarrow> Driver \<Rightarrow> bool \<Rightarrow> HookCreator \<Rightarrow> string result \<Rightarrow> nvsandboxutilsDGPU option result" where
  "newNvsandboxutilsDGPUDiscoverer lib driver isMig hc uuid =
     (case lib of
        None \<Rightarrow> Inr None
      | Some l \<Rightarrow>
          bindR (wrapR ''failed to get device UUID'' uuid) (\<lambda>u.
            Inr (Some \<lparr>ns_lib = l, ns_uuid = u, ns_devRoot = TrimSuffix (Clean (drv_DevRoot driver)) ''/dev'',
                       ns_isMig = isMig, ns_hookCreator = hc, ns_deviceLinks = []\<rparr>)))"

text \<open>One file of the list: it is a device, a link that is recorded, or it is skipped.\<close>

fun sandbox_devices ::
  "nvsandboxutilsDGPU \<Rightarrow> dsc_device list \<Rightarrow> GpuFileInfo list \<Rightarrow> dsc_device list result \<times> nvsandboxutilsDGPU" where
  "sandbox_devices d devices [] = (Inr devices, d)"
| "sandbox_devices d devices (info # infos) =
     (if fi_SubType info \<in> set [NV_DEV_DRI_CARD, NV_DEV_DRI_RENDERD] \<and> ns_isMig d then sandbox_devices d devices infos
      else if fi_SubType info \<in> set [NV_DEV_DRI_CARD, NV_DEV_DRI_RENDERD, NV_DEV_NVIDIA, NV_DEV_NVIDIA_CAPS_NVIDIA_CAP]
      then let containerPath = (if ns_devRoot d \<noteq> ''/'' then TrimPrefix (fi_Path info) (ns_devRoot d) else fi_Path info)
           in sandbox_devices d (devices @ [\<lparr>dd_HostPath = fi_Path info, dd_Path = containerPath\<rparr>]) infos
      else if fi_SubType info \<in> set [NV_DEV_DRI_CARD_SYMLINK, NV_DEV_DRI_RENDERD_SYMLINK]
              \<and> \<not> ns_isMig d \<and> fi_Flags info = NV_FILE_FLAG_CONTENT
      then (case sb_GetFileContent (ns_lib d) (fi_Path info) of
              Inl e \<Rightarrow> (Inl (Wrap ''failed to get symlink'' e), d)
            | Inr targetPath \<Rightarrow>
                sandbox_devices (d\<lparr>ns_deviceLinks := ns_deviceLinks d @ [targetPath @ ''::'' @ fi_Path info]\<rparr>) devices infos)
      else sandbox_devices d devices infos)"

definition sandbox_Devices :: "nvsandboxutilsDGPU \<Rightarrow> dsc_device list result \<times> nvsandboxutilsDGPU" where
  "sandbox_Devices d =
     (case sb_GetGpuResource (ns_lib d) (ns_uuid d) of
        Inl e \<Rightarrow> (Inl (Wrap ''failed to get GPU resource'' e), d)
      | Inr infos \<Rightarrow> sandbox_devices d [] infos)"

definition sandbox_Hooks :: "nvsandboxutilsDGPU \<Rightarrow> dsc_hook list result" where
  "sandbox_Hooks d =
     (if length (ns_deviceLinks d) = 0 then Inr []
      else Hook_Hooks (Create (ns_hookCreator d) ''create-symlinks'' (ns_deviceLinks d)))"

text \<open>
  The edits are made from the devices first and from the hooks after them, and the devices are
  cached: the hooks are made from the links that one query of the devices recorded.
\<close>

definition sandbox_discover :: "nvsandboxutilsDGPU \<Rightarrow> discover" where
  "sandbox_discover d =
     (case sandbox_Devices d of (devices, d') \<Rightarrow>
        dsc_None\<lparr>ds_Devices := devices, ds_Hooks := sandbox_Hooks d'\<rparr>)"

subsection \<open>By-path links (\<open>by-path-hooks.go\<close>)\<close>

record byPathHookDiscoverer =
  bp_devRoot :: string
  bp_hookCreator :: HookCreator
  bp_pciBusID :: string
  bp_deviceNodes :: discover

definition by_path_link :: "(string \<Rightarrow> string result) \<Rightarrow> byPathHookDiscoverer \<Rightarrow> string list \<Rightarrow> string \<Rightarrow> string list" where
  "by_path_link readlink d selectedDevices c =
     (let linkPath = FJoin [bp_devRoot d, c] in
      case readlink linkPath of
        Inl e \<Rightarrow> []
      | Inr device \<Rightarrow>
          let deviceNode = (if \<not> IsAbs device then FJoin [Dir linkPath, device] else device) in
          if deviceNode \<notin> set selectedDevices then [] else [device @ ''::'' @ linkPath])"

definition deviceNodeLinks :: "(string \<Rightarrow> string result) \<Rightarrow> byPathHookDiscoverer \<Rightarrow> string list result" where
  "deviceNodeLinks readlink d =
     bindR (wrapR ''failed to discover device nodes'' (ds_Devices (bp_deviceNodes d))) (\<lambda>devices.
       if length devices = 0 then Inr []
       else Inr (concat (map (by_path_link readlink d (map dd_HostPath devices))
                   [''/dev/dri/by-path/pci-'' @ bp_pciBusID d @ ''-card'',
                    ''/dev/dri/by-path/pci-'' @ bp_pciBusID d @ ''-render''])))"

definition byPath_Hooks :: "(string \<Rightarrow> string result) \<Rightarrow> byPathHookDiscoverer \<Rightarrow> dsc_hook list result" where
  "byPath_Hooks readlink d =
     bindR (wrapR ''failed to discover DRA device links'' (deviceNodeLinks readlink d)) (\<lambda>links.
       if length links = 0 then Inr []
       else Hook_Hooks (Create (bp_hookCreator d) ''create-symlinks'' links))"

subsection \<open>NVML discoverers (\<open>nvml.go\<close>, \<open>dgpu.go\<close>, \<open>options.go\<close>)\<close>

record dgpu_env =
  de_fs :: lookup_fs
  de_host :: host
  de_open :: "string \<Rightarrow> open_result"

record dgpu_options =
  dg_driver :: Driver
  dg_hookCreator :: HookCreator
  dg_isMigDevice :: bool
  dg_migCaps :: "MigCaps option"
  dg_migCapsError :: "error option"
  dg_sandboxutils :: "sandboxutils option"

text \<open>The driver is always given; the MIG capabilities are read unless they are given.\<close>

definition dgpu_new :: "dgpu_env \<Rightarrow> Driver \<Rightarrow> HookCreator \<Rightarrow> sandboxutils option \<Rightarrow> MigCaps option \<Rightarrow> dgpu_options" where
  "dgpu_new de driver hc lib caps =
     (let opts = \<lparr>dg_driver = driver, dg_hookCreator = hc, dg_isMigDevice = False, dg_migCaps = caps,
                  dg_migCapsError = None, dg_sandboxutils = lib\<rparr>
      in case caps of
           Some c \<Rightarrow> opts
         | None \<Rightarrow> (case NewMigCaps (de_open de) of
                      Inl e \<Rightarrow> opts\<lparr>dg_migCapsError := Some e\<rparr>
                    | Inr c \<Rightarrow> opts\<lparr>dg_migCaps := c\<rparr>))"

definition dgpu_getDevNodePath :: "gpu_device \<Rightarrow> string result" where
  "dgpu_getDevNodePath d =
     bindR (wrapR ''error getting GPU device minor number'' (gd_Minor d)) (\<lambda>mnr.
       Inr (''/dev/nvidia'' @ int_decimal mnr))"

definition newNvmlDGPUDiscoverer :: "dgpu_env \<Rightarrow> dgpu_options \<Rightarrow> gpu_device \<Rightarrow> discover result" where
  "newNvmlDGPUDiscoverer de opts d =
     bindR (wrapR ''error getting device node path'' (dgpu_getDevNodePath d)) (\<lambda>path.
     bindR (wrapR ''error getting PCI info for device'' (gd_PCIBusID d)) (\<lambda>pciBusID.
     bindR (wrapR ''failed to determine DRM devices'' (GetDeviceNodesByBusID (de_host de) pciBusID)) (\<lambda>drmDeviceNodes.
       let deviceNodes = fs_NewCharDeviceDiscoverer (de_fs de) (drv_DevRoot (dg_driver opts)) (path # drmDeviceNodes);
           byPathHooks = dsc_None\<lparr>ds_Hooks := byPath_Hooks (host_readlink (de_host de))
             \<lparr>bp_devRoot = drv_DevRoot (dg_driver opts), bp_hookCreator = dg_hookCreator opts,
              bp_pciBusID = pciBusID, bp_deviceNodes = deviceNodes\<rparr>\<rparr>
       in Inr (discover_Merge [Some deviceNodes, Some byPathHooks]))))"

definition getPlacementInfo :: "gpu_device \<Rightarrow> mig_device \<Rightarrow> (int \<times> int \<times> int) result" where
  "getPlacementInfo parent mig =
     bindR (wrapR ''error getting GPU minor'' (gd_Minor parent)) (\<lambda>gpu.
     bindR (wrapR ''error getting GPU Instance ID'' (mg_GpuInstanceId mig)) (\<lambda>gi.
     bindR (wrapR ''error getting Compute Instance ID'' (mg_ComputeInstanceId mig)) (\<lambda>ci.
       Inr (gpu, gi, ci))))"

definition newNvmlMigDiscoverer :: "dgpu_env \<Rightarrow> dgpu_options \<Rightarrow> gpu_device \<Rightarrow> mig_device \<Rightarrow> discover result" where
  "newNvmlMigDiscoverer de opts parent mig =
     (case dg_migCaps opts of
        None \<Rightarrow> Inl (Errorf ''error getting MIG capability device paths'')
      | Some caps \<Rightarrow>
          if dg_migCapsError opts \<noteq> None then Inl (Errorf ''error getting MIG capability device paths'')
          else bindR (wrapR ''error getting placement info'' (getPlacementInfo parent mig)) (\<lambda>(gpu, gi, ci).
               bindR (wrapR ''failed to get GI cap device path'' (GetCapDevicePath caps (NewGPUInstanceCap gpu gi))) (\<lambda>giPath.
               bindR (wrapR ''failed to get CI cap device path'' (GetCapDevicePath caps (NewComputeInstanceCap gpu gi ci))) (\<lambda>ciPath.
               bindR (dgpu_getDevNodePath parent) (\<lambda>parentPath.
                 Inr (fs_NewCharDeviceDiscoverer (de_fs de) (drv_DevRoot (dg_driver opts)) [parentPath, giPath, ciPath]))))))"

text \<open>
  The cache around the first valid discoverer gives every query the answer of its first query,
  so that the discoverer is that answer.
\<close>

definition first_of_discoverers :: "discover option result \<Rightarrow> discover result \<Rightarrow> discover result" where
  "first_of_discoverers sandbox nvml =
     (let errs = (case sandbox of Inl e \<Rightarrow> [e] | Inr d \<Rightarrow> []) @ (case nvml of Inl e \<Rightarrow> [e] | Inr d \<Rightarrow> []);
          discoverers = (case sandbox of Inr (Some d) \<Rightarrow> [Some d] | _ \<Rightarrow> []) @ (case nvml of Inl e \<Rightarrow> [] | Inr d \<Rightarrow> [Some d])
      in if length discoverers = 0 then Inl (Joined errs) else Inr (FirstValid discoverers))"

definition NewForDevice ::
  "dgpu_env \<Rightarrow> Driver \<Rightarrow> HookCreator \<Rightarrow> sandboxutils option \<Rightarrow> MigCaps option \<Rightarrow> gpu_device \<Rightarrow> discover result" where
  "NewForDevice de driver hc lib caps d =
     (let opts = dgpu_new de driver hc lib caps in
      first_of_discoverers
        (bindR (newNvsandboxutilsDGPUDiscoverer (dg_sandboxutils opts) driver (dg_isMigDevice opts) hc (gd_UUID d))
           (\<lambda>x. Inr (map_option sandbox_discover x)))
        (newNvmlDGPUDiscoverer de opts d))"

definition NewForMigDevice ::
  "dgpu_env \<Rightarrow> Driver \<Rightarrow> HookCreator \<Rightarrow> sandboxutils option \<Rightarrow> MigCaps option \<Rightarrow> gpu_device \<Rightarrow> mig_device \<Rightarrow> discover result" where
  "NewForMigDevice de driver hc lib caps d mig =
     (let opts = (dgpu_new de driver hc lib caps)\<lparr>dg_isMigDevice := True\<rparr> in
      first_of_discoverers
        (bindR (newNvsandboxutilsDGPUDiscoverer (dg_sandboxutils opts) driver (dg_isMigDevice opts) hc (mg_UUID mig))
           (\<lambda>x. Inr (map_option sandbox_discover x)))
        (newNvmlMigDiscoverer de opts d mig))"

subsection \<open>Reading numbers that were printed\<close>

lemma digit_not_sign: "is_digit c \<Longrightarrow> c \<noteq> CHR ''-'' \<and> c \<noteq> CHR ''+'' \<and> c \<noteq> CHR ''/'' \<and> c \<noteq> CHR '' ''"
  by (auto simp: is_digit_def less_eq_char_def)

lemma nat_decimal_nonempty [simp]: "nat_decimal n \<noteq> []"
  by (subst nat_decimal.simps) simp

lemma nat_decimal_hd: "is_digit (hd (nat_decimal n))"
  using digits_nat_decimal [of n] by (simp add: hd_in_set)

lemma nat_decimal_no_sign: "\<not> HasPrefix (nat_decimal n @ rest) ''-''" "\<not> HasPrefix (nat_decimal n @ rest) ''+''"
  using digit_not_sign [OF nat_decimal_hd [of n]] by (simp_all add: HasPrefix_single)

lemma set_int_decimal: "c \<in> set (int_decimal i) \<Longrightarrow> is_digit c \<or> c = CHR ''-''"
  using digits_nat_decimal by (auto simp: int_decimal_def split: if_splits)

lemma Atoi_int_decimal:
  assumes "- (2 ^ 63) \<le> i" "i < 2 ^ 63"
  shows "Atoi (int_decimal i) = Inr i"
proof -
  have all: "list_all is_digit (nat_decimal n)" for n using digits_nat_decimal by (simp add: list_all_iff)
  show ?thesis
    using assms nat_decimal_no_sign [of "nat i" "[]"]
    by (auto simp: Atoi_def int_decimal_def Let_def all digits_val_nat_decimal)
qed

lemma strip_spaces_id:
  assumes "s \<noteq> []" and "is_digit (hd s) \<or> hd s = CHR ''-''"
  shows "strip_prefixes utf8_spaces s = s"
proof (rule strip_prefixes_id)
  fix p
  assume "p \<in> set utf8_spaces" "p \<noteq> []"
  then show "\<not> HasPrefix s p"
    using assms by (cases s) (auto simp: utf8_spaces_def is_digit_def less_eq_char_def)
qed

lemma takeWhile_digits:
  "rest = [] \<or> \<not> is_digit (hd rest) \<Longrightarrow> takeWhile is_digit (nat_decimal n @ rest) = nat_decimal n"
  using digits_nat_decimal [of n] by (cases rest) (auto simp: takeWhile_append2)

lemma scan_d_int_decimal:
  assumes "- (2 ^ 63) \<le> i" "i < 2 ^ 63" and rest: "rest = [] \<or> \<not> is_digit (hd rest)"
  shows "scan_d (int_decimal i @ rest) = Some (i, rest)"
proof -
  have hd: "is_digit (hd (int_decimal i @ rest)) \<or> hd (int_decimal i @ rest) = CHR ''-''" "int_decimal i @ rest \<noteq> []"
    using nat_decimal_hd by (auto simp: int_decimal_def)
  show ?thesis
  proof (cases "i < 0")
    case True
    then have "int_decimal i = CHR ''-'' # nat_decimal (nat (- i))" by (simp add: int_decimal_def)
    with Atoi_int_decimal [OF assms(1,2)] takeWhile_digits [OF rest] show ?thesis
      using strip_spaces_id [OF hd(2,1)] by (simp add: scan_d_def Let_def)
  next
    case False
    then have "int_decimal i = nat_decimal (nat i)" by (simp add: int_decimal_def)
    with Atoi_int_decimal [OF assms(1,2)] takeWhile_digits [OF rest] nat_decimal_no_sign [of "nat i" rest] show ?thesis
      using strip_spaces_id [OF hd(2,1)] by (simp add: scan_d_def Let_def)
  qed
qed

subsection \<open>The file of MIG minors\<close>

text \<open>The capabilities that the driver lists, with identifiers that fit into a machine integer.\<close>

datatype mig_cap = Config_cap | Monitor_cap | GI_cap int int | CI_cap int int int

fun cap_name :: "mig_cap \<Rightarrow> string" where
  "cap_name Config_cap = ''config''"
| "cap_name Monitor_cap = ''monitor''"
| "cap_name (GI_cap gpu gi) = NewGPUInstanceCap gpu gi"
| "cap_name (CI_cap gpu gi ci) = NewComputeInstanceCap gpu gi ci"

definition int64 :: "int \<Rightarrow> bool" where
  "int64 i \<longleftrightarrow> - (2 ^ 63) \<le> i \<and> i < 2 ^ 63"

fun cap_ok :: "mig_cap \<Rightarrow> bool" where
  "cap_ok Config_cap = True"
| "cap_ok Monitor_cap = True"
| "cap_ok (GI_cap gpu gi) = (int64 gpu \<and> int64 gi)"
| "cap_ok (CI_cap gpu gi ci) = (int64 gpu \<and> int64 gi \<and> int64 ci)"

lemma scan_d_cap: "int64 i \<Longrightarrow> scan_d (int_decimal i @ CHR ''/'' # rest) = Some (i, CHR ''/'' # rest)"
  by (rule scan_d_int_decimal) (auto simp: int64_def is_digit_def less_eq_char_def)

lemma cap_name_valid: "cap_ok c \<Longrightarrow> MigCap_isValid (cap_name c)"
  by (cases c) (auto simp: MigCap_isValid_def NewGPUInstanceCap_def NewComputeInstanceCap_def scan_d_cap)

lemma cap_name_chars:
  "CHR '' '' \<notin> set (cap_name c)" "CHR 0x0A \<notin> set (cap_name c)" "cap_name c \<noteq> []"
  by (cases c; fastforce simp: NewGPUInstanceCap_def NewComputeInstanceCap_def is_digit_def less_eq_char_def
      dest: set_int_decimal)+

definition minors_line :: "mig_cap \<times> int \<Rightarrow> string" where
  "minors_line e = cap_name (fst e) @ '' '' @ int_decimal (snd e)"

lemma processMigMinorsLine_line:
  assumes "cap_ok c" "int64 m"
  shows "processMigMinorsLine (minors_line (c, m)) = Inr (cap_name c, m)"
proof -
  have "CHR '' '' \<notin> set (int_decimal m)" using digit_not_sign by (auto dest: set_int_decimal)
  then have "Split (minors_line (c, m)) '' '' = [cap_name c, int_decimal m]"
    by (simp add: minors_line_def Split_char_append cap_name_chars Split_char_notin)
  then show ?thesis
    using assms by (simp add: processMigMinorsLine_def cap_name_valid Atoi_int_decimal int64_def)
qed

lemma length_nat_decimal: "n < 10 ^ Suc k \<Longrightarrow> length (nat_decimal n) \<le> Suc k"
proof (induction k arbitrary: n)
  case 0
  then show ?case by (subst nat_decimal.simps) simp
next
  case (Suc k)
  then have "length (nat_decimal (n div 10)) \<le> Suc k" by (intro Suc.IH) (simp add: less_mult_imp_div_less)
  then show ?case by (subst nat_decimal.simps) simp
qed

lemma length_int_decimal: "int64 i \<Longrightarrow> length (int_decimal i) \<le> 20"
proof -
  assume "int64 i"
  then have "nat (- i) < 10 ^ Suc 18" "nat i < 10 ^ Suc 18" by (auto simp: int64_def)
  from length_nat_decimal [OF this(1)] length_nat_decimal [OF this(2)] show ?thesis
    by (simp add: int_decimal_def)
qed

lemma length_cap_name: "cap_ok c \<Longrightarrow> length (cap_name c) \<le> 100"
  by (cases c) (auto simp: NewGPUInstanceCap_def NewComputeInstanceCap_def dest!: length_int_decimal)

lemma length_minors_line: "cap_ok c \<Longrightarrow> int64 m \<Longrightarrow> int (length (minors_line (c, m))) < MaxScanTokenSize"
  by (auto simp: minors_line_def MaxScanTokenSize_def dest!: length_cap_name length_int_decimal)

lemma minors_line_chars: "CHR 0x0A \<notin> set (minors_line e)" "drop_cr (minors_line e) = minors_line e" "minors_line e \<noteq> []"
proof -
  have num: "c \<notin> set (int_decimal i)" if "c \<in> {CHR 0x0A, CHR 0x0D}" for c i
    using that by (auto simp: is_digit_def less_eq_char_def dest!: set_int_decimal)
  then show "CHR 0x0A \<notin> set (minors_line e)" by (simp add: minors_line_def cap_name_chars)
  have "int_decimal (snd e) \<noteq> []" by (simp add: int_decimal_def)
  then obtain s x where s: "int_decimal (snd e) = s @ [x]" by (cases "int_decimal (snd e)" rule: rev_cases) auto
  then have "x \<noteq> CHR 0x0D" using num [of "CHR 0x0D" "snd e"] by auto
  then show "drop_cr (minors_line e) = minors_line e"
    using s by (auto simp: drop_cr_def TrimSuffix_def HasSuffix_append minors_line_def)
  show "minors_line e \<noteq> []" by (simp add: minors_line_def)
qed

lemma append_slash_inj:
  assumes "CHR ''/'' \<notin> set a" "CHR ''/'' \<notin> set b"
  shows "a @ CHR ''/'' # u = b @ CHR ''/'' # v \<longleftrightarrow> a = b \<and> u = v"
proof
  assume eq: "a @ CHR ''/'' # u = b @ CHR ''/'' # v"
  from takeWhile_append_sep [OF assms(1), of u] takeWhile_append_sep [OF assms(2), of v] have "a = b"
    unfolding eq by simp
  with eq show "a = b \<and> u = v" by simp
qed simp

lemma no_slash: "CHR ''/'' \<notin> set (int_decimal i)"
  using digit_not_sign by (auto dest!: set_int_decimal)

lemma cap_name_inj: "cap_name c = cap_name d \<longleftrightarrow> c = d"
proof -
  have "CHR ''c'' \<notin> set (int_decimal i)" for i by (auto simp: is_digit_def less_eq_char_def dest!: set_int_decimal)
  then show ?thesis
    by (cases c; cases d) (auto simp: NewGPUInstanceCap_def NewComputeInstanceCap_def append_slash_inj no_slash int_decimal_inj)
qed

lemma foldl_add_minor:
  assumes "list_all (\<lambda>(c, m). cap_ok c \<and> int64 m) es"
  shows "map_of (foldl add_minor m0 (map minors_line es)) (cap_name c) =
    (case map_of (rev es) c of None \<Rightarrow> map_of m0 (cap_name c) | Some m \<Rightarrow> Some m)"
  using assms
proof (induction es arbitrary: m0)
  case (Cons e es)
  obtain d m where e: "e = (d, m)" by (cases e)
  with Cons.prems have "add_minor m0 (minors_line e) = AList.update (cap_name d) m m0"
    by (simp add: add_minor_def processMigMinorsLine_line)
  with Cons e show ?case
    by (auto simp: map_of_append map_add_def cap_name_inj update_conv' split: option.splits)
qed simp

text \<open>
  Reading the file of MIG minors gives what it lists: for every capability of a GPU or compute
  instance the device path of the minor number that the file gives it last, and an error for a
  capability that is not listed.  Minor numbers and identifiers are machine integers.
\<close>

lemma mig_minors_round_trip:
  assumes "list_all (\<lambda>(c, m). cap_ok c \<and> int64 m) es"
  shows "\<exists>caps. NewMigCaps (\<lambda>path. Opened (StrJoin (map minors_line es) [CHR 0x0A])) = Inr (Some caps) \<and>
    GetCapDevicePath caps (cap_name c) =
      (case map_of (rev es) c of
         None \<Rightarrow> Inl (Errorf (''invalid MIG capability path '' @ cap_name c))
       | Some m \<Rightarrow> Inr (''/dev/nvidia-caps/nvidia-cap'' @ int_decimal m))"
proof -
  have "scan_lines (StrJoin (map minors_line es) [CHR 0x0A]) = map minors_line es" if "es \<noteq> []"
  proof (rule scan_lines_StrJoin)
    show "last (map minors_line es) \<noteq> []" using that by (simp add: last_map minors_line_chars)
  qed (use that assms in \<open>auto simp: minors_line_chars length_minors_line list_all_iff\<close>)
  then have "processMinorsFile (StrJoin (map minors_line es) [CHR 0x0A]) = foldl add_minor [] (map minors_line es)"
    by (cases "es = []") (simp_all add: processMinorsFile_def scan_lines_def Split_char_notin)
  with foldl_add_minor [OF assms, of "[]" c] show ?thesis
    by (auto simp: NewMigCaps_def GetCapDevicePath_def MigMinor_DevicePath_def split: option.splits)
qed

subsection \<open>MIG devices are separated\<close>

lemma GetCapDevicePath_inj:
  assumes "distinct (map snd caps)" "GetCapDevicePath caps c = Inr p" "GetCapDevicePath caps d = Inr p"
  shows "c = d"
proof -
  from assms(2,3) obtain m n where m: "map_of caps c = Some m" "map_of caps d = Some n"
    and eq: "MigMinor_DevicePath m = MigMinor_DevicePath n"
    by (auto simp: GetCapDevicePath_def split: option.splits)
  then have "m = n" by (simp add: MigMinor_DevicePath_def int_decimal_inj)
  with m map_of_SomeD [OF m(1)] map_of_SomeD [OF m(2)] assms(1) show ?thesis
    by (fastforce simp: distinct_map inj_on_def)
qed

lemma dev_node_not_cap: "''/dev/nvidia'' @ int_decimal i \<noteq> MigMinor_DevicePath m"
proof
  assume "''/dev/nvidia'' @ int_decimal i = MigMinor_DevicePath m"
  then have "CHR ''c'' \<in> set (int_decimal i)" by (simp add: MigMinor_DevicePath_def)
  then show False by (auto simp: is_digit_def less_eq_char_def dest: set_int_decimal)
qed

text \<open>
  (C31) A MIG device is given the device node of its GPU, the capability of its GPU instance and the
  capability of its compute instance, and no hooks.  If the minors of the capabilities differ, no
  node among them is the capability of another compute instance.
\<close>

theorem mig_devices_isolated:
  assumes "newNvmlMigDiscoverer de opts parent mig = Inr d" and "dg_migCaps opts = Some caps"
    and "distinct (map snd caps)"
    and "getPlacementInfo parent mig = Inr (gpu, gi, ci)" and "(gpu', gi', ci') \<noteq> (gpu, gi, ci)"
    and "GetCapDevicePath caps (NewComputeInstanceCap gpu' gi' ci') = Inr other"
  shows "\<exists>giPath ciPath.
    GetCapDevicePath caps (NewGPUInstanceCap gpu gi) = Inr giPath \<and>
    GetCapDevicePath caps (NewComputeInstanceCap gpu gi ci) = Inr ciPath \<and>
    d = fs_NewCharDeviceDiscoverer (de_fs de) (drv_DevRoot (dg_driver opts))
          [''/dev/nvidia'' @ int_decimal gpu, giPath, ciPath] \<and>
    other \<notin> set [''/dev/nvidia'' @ int_decimal gpu, giPath, ciPath] \<and> ds_Hooks d = Inr []"
proof -
  have gpu: "gd_Minor parent = Inr gpu" using assms(4) by (auto simp: getPlacementInfo_def bindR_eq_Inr)
  from assms(1,2,4) gpu obtain giPath ciPath where paths:
    "GetCapDevicePath caps (NewGPUInstanceCap gpu gi) = Inr giPath"
    "GetCapDevicePath caps (NewComputeInstanceCap gpu gi ci) = Inr ciPath"
    and d: "d = fs_NewCharDeviceDiscoverer (de_fs de) (drv_DevRoot (dg_driver opts))
          [''/dev/nvidia'' @ int_decimal gpu, giPath, ciPath]"
    by (auto simp: newNvmlMigDiscoverer_def dgpu_getDevNodePath_def bindR_eq_Inr split: if_splits)
  have "other \<noteq> giPath" "other \<noteq> ciPath"
    using GetCapDevicePath_inj [OF assms(3) assms(6)] paths assms(5) cap_name_inj [of "CI_cap gpu' gi' ci'" "GI_cap gpu gi"]
      cap_name_inj [of "CI_cap gpu' gi' ci'" "CI_cap gpu gi ci"] by auto
  moreover have "other \<noteq> ''/dev/nvidia'' @ int_decimal gpu"
    using assms(6) dev_node_not_cap by (auto simp: GetCapDevicePath_def split: option.splits) metis
  moreover have "ds_Hooks d = Inr []"
    by (simp add: d fs_NewCharDeviceDiscoverer_def NewCharDeviceDiscoverer_def dsc_None_def)
  ultimately show ?thesis using paths d by simp
qed

definition example_gpu :: gpu_device where
  "example_gpu = \<lparr>gd_UUID = Inr ''GPU-0'', gd_Index = Inr 0, gd_Minor = Inr 0, gd_PCIBusID = Inr ''0000:01:00.0'',
     gd_IsMigEnabled = Inr True, gd_IsCoherent = Inr False\<rparr>"

definition example_mig :: mig_device where
  "example_mig = \<lparr>mg_UUID = Inr ''MIG-0'', mg_Index = Inr 0, mg_GpuInstanceId = Inr 1, mg_ComputeInstanceId = Inr 0\<rparr>"

definition example_caps :: MigCaps where
  "example_caps = [(''gpu0/gi1/access'', 3), (''gpu0/gi1/ci0/access'', 4), (''gpu0/gi2/ci0/access'', 7)]"

theorem mig_devices_isolated_witness:
  "\<exists>d. newNvmlMigDiscoverer \<lparr>de_fs = example_fs, de_host = \<lparr>host_glob = \<lambda>_. Inr [], host_read = \<lambda>_. Inr [], host_readlink = \<lambda>_. Inr []\<rparr>,
            de_open = \<lambda>_. Open_NotExist\<rparr>
          \<lparr>dg_driver = Driver_New [], dg_hookCreator = AllDisabled, dg_isMigDevice = True, dg_migCaps = Some example_caps,
           dg_migCapsError = None, dg_sandboxutils = None\<rparr> example_gpu example_mig = Inr d \<and>
     d = fs_NewCharDeviceDiscoverer example_fs [] [''/dev/nvidia0'', ''/dev/nvidia-caps/nvidia-cap3'', ''/dev/nvidia-caps/nvidia-cap4'']"
proof -
  let ?de = "\<lparr>de_fs = example_fs, de_host = \<lparr>host_glob = \<lambda>_. Inr [], host_read = \<lambda>_. Inr [], host_readlink = \<lambda>_. Inr []\<rparr>,
            de_open = \<lambda>_. Open_NotExist\<rparr>"
  let ?opts = "\<lparr>dg_driver = Driver_New [], dg_hookCreator = AllDisabled, dg_isMigDevice = True, dg_migCaps = Some example_caps,
           dg_migCapsError = None, dg_sandboxutils = None\<rparr>"
  have caps: "GetCapDevicePath example_caps (NewGPUInstanceCap 0 1) = Inr ''/dev/nvidia-caps/nvidia-cap3''"
    "GetCapDevicePath example_caps (NewComputeInstanceCap 0 1 0) = Inr ''/dev/nvidia-caps/nvidia-cap4''"
    "GetCapDevicePath example_caps (NewComputeInstanceCap 0 2 0) = Inr ''/dev/nvidia-caps/nvidia-cap7''"
    "distinct (map snd example_caps)" by code_simp+
  have place: "getPlacementInfo example_gpu example_mig = Inr (0, 1, 0)" by code_simp
  have zero: "int_decimal 0 = ''0''" by code_simp
  obtain d where d: "newNvmlMigDiscoverer ?de ?opts example_gpu example_mig = Inr d"
    using caps place by (simp add: newNvmlMigDiscoverer_def dgpu_getDevNodePath_def example_gpu_def)
  from mig_devices_isolated [OF d _ caps(4) place, of 0 2 0] caps(1,2,3) d show ?thesis
    by (simp add: zero Driver_New_def)
qed

end
