(* ===== verification/Nvcdi_Spec.thy ===== *)
theory Nvcdi_Spec
  imports DGPU Transform
begin

section \<open>Building CDI specifications\<close>

text \<open>
  \<open>pkg/nvcdi/namer.go\<close> and \<open>pkg/nvcdi/spec\<close>: the names of devices, and the builder that makes a
  specification from devices and common edits, simplifies it, adds a merged device and saves it.
  What the CDI library determines (the least version of a specification, writing a file) is a
  parameter.
\<close>

subsection \<open>Device names (\<open>namer.go\<close>)\<close>

type_synonym UUIDer = "string result"

datatype DeviceNamer = deviceNameIndex string string | deviceNameUUID

definition NewDeviceNamer :: "string \<Rightarrow> DeviceNamer result" where
  "NewDeviceNamer strategy =
     (if strategy = ''index'' then Inr (deviceNameIndex [] [])
      else if strategy = ''type-index'' then Inr (deviceNameIndex ''gpu'' ''mig'')
      else if strategy = ''uuid'' then Inr deviceNameUUID
      else Inl (Errorf (''invalid device name strategy: '' @ strategy)))"

fun GetDeviceName :: "DeviceNamer \<Rightarrow> int \<Rightarrow> UUIDer \<Rightarrow> string result" where
  "GetDeviceName (deviceNameIndex gpuPrefix migPrefix) i d = Inr (gpuPrefix @ int_decimal i)"
| "GetDeviceName deviceNameUUID i d = wrapR ''failed to get device UUID'' d"

fun GetMigDeviceName :: "DeviceNamer \<Rightarrow> int \<Rightarrow> UUIDer \<Rightarrow> int \<Rightarrow> UUIDer \<Rightarrow> string result" where
  "GetMigDeviceName (deviceNameIndex gpuPrefix migPrefix) i d j mig =
     Inr (migPrefix @ int_decimal i @ '':'' @ int_decimal j)"
| "GetMigDeviceName deviceNameUUID i d j mig = wrapR ''failed to get device UUID'' mig"

definition errUUIDUnsupported :: error where
  "errUUIDUnsupported = Errorf ''GetUUID is not supported''"

definition convert_GetUUID :: "string result option \<Rightarrow> string result" where
  "convert_GetUUID m = (case m of None \<Rightarrow> Inl errUUIDUnsupported | Some r \<Rightarrow> r)"

text \<open>Empty names are left out, and no name at all is an error.\<close>

definition GetDeviceNames :: "DeviceNamer list \<Rightarrow> int \<Rightarrow> UUIDer \<Rightarrow> string list result" where
  "GetDeviceNames l i d =
     bindR (mapR (\<lambda>namer. GetDeviceName namer i d) l) (\<lambda>ns.
       let names = filter (\<lambda>n. n \<noteq> []) ns in
       if length names = 0 then Inl (Errorf ''no names defined'') else Inr names)"

definition GetMigDeviceNames :: "DeviceNamer list \<Rightarrow> int \<Rightarrow> UUIDer \<Rightarrow> int \<Rightarrow> UUIDer \<Rightarrow> string list result" where
  "GetMigDeviceNames l i d j mig =
     bindR (mapR (\<lambda>namer. GetMigDeviceName namer i d j mig) l) (\<lambda>ns.
       let names = filter (\<lambda>n. n \<noteq> []) ns in
       if length names = 0 then Inl (Errorf ''no names defined'') else Inr names)"

subsection \<open>The builder (\<open>spec/api.go\<close>, \<open>spec/builder.go\<close>, \<open>spec/set-minimum-version.go\<close>)\<close>

definition DetectMinimumVersion :: string where "DetectMinimumVersion = ''DETECT_MINIMUM_VERSION''"
definition FormatJSON :: string where "FormatJSON = ''json''"
definition FormatYAML :: string where "FormatYAML = ''yaml''"

text \<open>The library: the current version of the format and the least version that a specification needs.\<close>

record cdi_library =
  cl_CurrentVersion :: string
  cl_MinimumRequiredVersion :: "CDISpec \<Rightarrow> string result"

record spec_builder =
  sb_raw :: "CDISpec option"
  sb_version :: string
  sb_vendor :: string
  sb_class :: string
  sb_deviceSpecs :: "Device list"
  sb_edits :: ContainerEdits
  sb_format :: string
  sb_mergedDeviceOptions :: "MergedDeviceOption list"
  sb_noSimplify :: bool
  sb_permissions :: "32 word"
  sb_minimumVersionOnSave :: bool

type_synonym spec_option = "spec_builder \<Rightarrow> spec_builder"

definition WithDeviceSpecs :: "Device list \<Rightarrow> spec_option" where
  "WithDeviceSpecs ds b = b\<lparr>sb_deviceSpecs := ds\<rparr>"
definition WithEdits :: "ContainerEdits \<Rightarrow> spec_option" where
  "WithEdits e b = b\<lparr>sb_edits := e\<rparr>"
definition WithVersion :: "string \<Rightarrow> spec_option" where
  "WithVersion v b = b\<lparr>sb_version := v\<rparr>"
definition WithVendor :: "string \<Rightarrow> spec_option" where
  "WithVendor v b = b\<lparr>sb_vendor := v\<rparr>"
definition WithClass :: "string \<Rightarrow> spec_option" where
  "WithClass c b = b\<lparr>sb_class := c\<rparr>"
definition WithFormat :: "string \<Rightarrow> spec_option" where
  "WithFormat f b = b\<lparr>sb_format := f\<rparr>"
definition WithNoSimplify :: "bool \<Rightarrow> spec_option" where
  "WithNoSimplify n b = b\<lparr>sb_noSimplify := n\<rparr>"
definition WithRawSpec :: "CDISpec option \<Rightarrow> spec_option" where
  "WithRawSpec raw b = b\<lparr>sb_raw := raw\<rparr>"
definition WithPermissions :: "32 word \<Rightarrow> spec_option" where
  "WithPermissions p b = b\<lparr>sb_permissions := p\<rparr>"
definition WithMergedDeviceOptions :: "MergedDeviceOption list \<Rightarrow> spec_option" where
  "WithMergedDeviceOptions opts b = b\<lparr>sb_mergedDeviceOptions := opts\<rparr>"

definition empty_builder :: spec_builder where
  "empty_builder = \<lparr>sb_raw = None, sb_version = [], sb_vendor = [], sb_class = [], sb_deviceSpecs = [],
     sb_edits = empty_edits, sb_format = [], sb_mergedDeviceOptions = [], sb_noSimplify = False,
     sb_permissions = 0, sb_minimumVersionOnSave = False\<rparr>"

definition or_default :: "string \<Rightarrow> string \<Rightarrow> string" where
  "or_default s d = (if s = [] then d else s)"

definition from_raw :: "spec_builder \<Rightarrow> spec_builder" where
  "from_raw s =
     (case sb_raw s of
        None \<Rightarrow> s
      | Some raw \<Rightarrow>
          (case ParseQualifier (cdi_Kind raw) of (vendor, class) \<Rightarrow>
             s\<lparr>sb_noSimplify := True, sb_vendor := or_default (sb_vendor s) vendor, sb_class := or_default (sb_class s) class,
               sb_version := (if sb_version s = [] \<or> sb_version s = DetectMinimumVersion then cdi_Version raw else sb_version s)\<rparr>))"

definition newBuilder :: "cdi_library \<Rightarrow> spec_option list \<Rightarrow> spec_builder" where
  "newBuilder lib opts =
     (let s = from_raw (foldl (\<lambda>s opt. opt s) empty_builder opts);
          s = (if sb_version s = [] \<or> sb_version s = DetectMinimumVersion
               then s\<lparr>sb_minimumVersionOnSave := True, sb_version := cl_CurrentVersion lib\<rparr> else s)
      in s\<lparr>sb_vendor := or_default (sb_vendor s) ''nvidia.com'', sb_class := or_default (sb_class s) ''gpu'',
           sb_format := or_default (sb_format s) FormatYAML,
           sb_permissions := (if sb_permissions s = 0 then 420 else sb_permissions s)\<rparr>)"

record spec =
  sp_Spec :: CDISpec
  sp_format :: string
  sp_permissions :: "32 word"
  sp_minimumVersionOnSave :: bool

definition Build :: "spec_builder \<Rightarrow> spec result" where
  "Build b =
     (let raw = (case sb_raw b of
                   Some raw \<Rightarrow> raw
                 | None \<Rightarrow> \<lparr>cdi_Version = sb_version b, cdi_Kind = sb_vendor b @ ''/'' @ sb_class b, cdi_Annotations = [],
                            cdi_Devices = sb_deviceSpecs b, cdi_Edits = sb_edits b\<rparr>);
          raw = (if cdi_Version raw = [] then raw\<lparr>cdi_Version := sb_version b\<rparr> else raw)
      in bindR (if sb_noSimplify b then Inr raw else wrapR ''failed to simplify spec'' (NewSimplifier raw)) (\<lambda>raw.
         bindR (if length (sb_mergedDeviceOptions b) > 0
                then bindR (wrapR ''failed to create merged device transformer'' (NewMergedDevice (sb_mergedDeviceOptions b))) (\<lambda>m.
                       wrapR ''failed to merge devices'' (mergedDevice_Transform m raw))
                else Inr raw) (\<lambda>raw.
           Inr \<lparr>sp_Spec = raw, sp_format = sb_format b, sp_permissions = sb_permissions b,
                sp_minimumVersionOnSave = sb_minimumVersionOnSave b\<rparr>)))"

definition setMinimumRequiredVersion_Transform :: "cdi_library \<Rightarrow> transformer" where
  "setMinimumRequiredVersion_Transform lib s =
     bindR (wrapR ''failed to get minimum required CDI spec version'' (cl_MinimumRequiredVersion lib s)) (\<lambda>v.
       Inr (s\<lparr>cdi_Version := v\<rparr>))"

subsection \<open>Saving (\<open>spec/spec.go\<close>)\<close>

definition spec_New :: "cdi_library \<Rightarrow> spec_option list \<Rightarrow> spec result" where
  "spec_New lib opts = Build (newBuilder lib opts)"

definition spec_extension :: "spec \<Rightarrow> string" where
  "spec_extension s =
     (if sp_format s = FormatJSON then ''.json'' else if sp_format s = FormatYAML then ''.yaml'' else ''.yaml'')"

definition normalizePath :: "string result \<Rightarrow> spec \<Rightarrow> string \<Rightarrow> string result" where
  "normalizePath getwd s path =
     (let path = (if Ext path \<noteq> ''.yaml'' \<and> Ext path \<noteq> ''.json'' then path @ spec_extension s else path) in
      if Clean (Dir path) = ''.''
      then bindR (wrapR ''failed to get current working directory'' getwd) (\<lambda>pwd. Inr (FJoin [pwd, path]))
      else Inr path)"

text \<open>
  The files that are written: their specification and permissions.  Writing through the cache of the
  CDI library, opening the directory and changing the permissions may fail.
\<close>

record spec_files =
  sf_write :: "string \<Rightarrow> CDISpec \<Rightarrow> error option"
  sf_createdMode :: "32 word"
  sf_openRoot :: "string \<Rightarrow> error option"
  sf_chmod :: "string \<Rightarrow> string \<Rightarrow> error option"

type_synonym spec_store = "(string \<times> CDISpec \<times> 32 word) list"

definition spec_Save ::
  "cdi_library \<Rightarrow> spec_files \<Rightarrow> string result \<Rightarrow> string \<Rightarrow> spec \<times> spec_store \<Rightarrow> (spec \<times> spec_store) \<times> error option" where
  "spec_Save lib sf getwd path st =
     (case (if sp_minimumVersionOnSave (fst st)
            then wrapR ''error applying transform'' (setMinimumRequiredVersion_Transform lib (sp_Spec (fst st)))
            else Inr (sp_Spec (fst st))) of
        Inl e \<Rightarrow> (st, Some e)
      | Inr raw \<Rightarrow>
          let s = (fst st)\<lparr>sp_Spec := raw\<rparr> in
          (case wrapR ''failed to normalize path'' (normalizePath getwd s path) of
             Inl e \<Rightarrow> ((s, snd st), Some e)
           | Inr path \<Rightarrow>
               let (specDir, filename) = FSplit path in
               (case sf_write sf path raw of
                  Some e \<Rightarrow> ((s, snd st), Some (Wrap ''failed to write spec'' e))
                | None \<Rightarrow>
                    let store = AList.update path (raw, sf_createdMode sf) (snd st) in
                    (case sf_openRoot sf specDir of
                       Some e \<Rightarrow> ((s, store), Some (Wrap ''failed to open root'' e))
                     | None \<Rightarrow>
                         (case sf_chmod sf specDir filename of
                            Some e \<Rightarrow> ((s, store), Some (Wrap ''failed to set permissions on spec file'' e))
                          | None \<Rightarrow> ((s, AList.update path (raw, sp_permissions s) store), None))))))"

end
