(* ===== verification/Nvcdi_Driver.thy ===== *)
theory Nvcdi_Driver
  imports Nvcdi_Spec Edits
begin

section \<open>Driver files for CDI specifications\<close>

text \<open>
  The discoverers of \<open>pkg/nvcdi\<close> for what all devices share (\<open>common-nvml.go\<close>, \<open>driver-nvml.go\<close>,
  \<open>driver-wsl.go\<close>, \<open>device-wsl.go\<close>, \<open>workarounds-device-folder-permissions.go\<close>), and the library record
  they belong to (\<open>lib.go\<close>).  Queries of the driver cache their answers, so that the driver is
  passed along.
\<close>

subsection \<open>The library (\<open>lib.go\<close>)\<close>

record nvml =
  nv_Init :: "error option"
  nv_SystemGetDriverVersion :: "string result"
  nv_SystemGetCudaDriverVersion :: "int result"
  nv_DeviceGetCount :: "int result"

record csvOptions =
  csv_Files :: "string list"
  csv_IgnorePatterns :: "string list"
  csv_CompatContainerRoot :: string

record nvcdilib =
  nl_sandboxutils :: "sandboxutils option"
  nl_deviceNamers :: "DeviceNamer list"
  nl_librarySearchPaths :: "string list"
  nl_csv :: csvOptions
  nl_driver :: Driver
  nl_featureFlags :: "string list"
  nl_hookCreator :: HookCreator
  nl_editsFactory :: edits_factory

text \<open>The system that the library reads.\<close>

record nvcdi_env =
  ne_fs :: lookup_fs
  ne_symlinks :: symlinks_env
  ne_host :: host
  ne_open :: "string \<Rightarrow> open_result"
  ne_deviceFromPath :: device_from_path
  ne_xdgDataDirs :: "string option"
  ne_goarch :: string
  ne_uname :: "string result"
  ne_dxcore_Init :: "error option"
  ne_DriverStorePaths :: "string list"

definition edits_from :: "nvcdi_env \<Rightarrow> nvcdilib \<Rightarrow> discover \<Rightarrow> ContainerEdits result" where
  "edits_from ne l d = FromDiscoverer (ne_deviceFromPath ne) (nl_editsFactory l) d"

definition feature_enabled :: "nvcdilib \<Rightarrow> string \<Rightarrow> bool" where
  "feature_enabled l f \<longleftrightarrow> f \<in> set (nl_featureFlags l)"

definition nvmllib_Version :: "nvml option \<Rightarrow> string result" where
  "nvmllib_Version l =
     (case l of
        None \<Rightarrow> Inl (Errorf ''nvml library not initialized'')
      | Some nv \<Rightarrow>
          (case nv_Init nv of
             Some e \<Rightarrow> Inl (Wrap ''failed to initialize nvml'' e)
           | None \<Rightarrow> wrapR ''failed to get driver version'' (nv_SystemGetDriverVersion nv)))"

definition nvsandboxutilslib_Version :: "sandboxutils option \<Rightarrow> string result" where
  "nvsandboxutilslib_Version l =
     (case l of
        None \<Rightarrow> Inl (Errorf ''libnvsandboxutils is not available'')
      | Some sb \<Rightarrow> (case sb_GetDriverVersion sb of Inl e \<Rightarrow> Inl (Errorf ''driver version'') | Inr v \<Rightarrow> Inr v))"

text \<open>\<open>internal/lookup/root/version.go\<close>: the first versioner that answers.\<close>

fun firstVersion_Version :: "error list \<Rightarrow> string result option list \<Rightarrow> string \<times> error option" where
  "firstVersion_Version errs [] = ([], if errs = [] then None else Some (Joined errs))"
| "firstVersion_Version errs (None # vs) = firstVersion_Version errs vs"
| "firstVersion_Version errs (Some (Inr v) # vs) = (v, None)"
| "firstVersion_Version errs (Some (Inl e) # vs) = firstVersion_Version (errs @ [e]) vs"

subsection \<open>Operations on the driver\<close>

type_synonym 'a driver_op = "Driver \<Rightarrow> 'a result \<times> Driver"

definition bindD :: "'a driver_op \<Rightarrow> ('a \<Rightarrow> 'b driver_op) \<Rightarrow> 'b driver_op" where
  "bindD m f d = (case m d of (Inl e, d') \<Rightarrow> (Inl e, d') | (Inr x, d') \<Rightarrow> f x d')"

definition liftD :: "'a result \<Rightarrow> 'a driver_op" where
  "liftD r d = (r, d)"

definition wrapD :: "string \<Rightarrow> 'a driver_op \<Rightarrow> 'a driver_op" where
  "wrapD m f d = (case f d of (r, d') \<Rightarrow> (wrapR m r, d'))"

subsection \<open>Driver libraries, firmware and binaries (\<open>driver-nvml.go\<close>)\<close>

definition getVersionLibs :: "nvcdi_env \<Rightarrow> string \<Rightarrow> string list driver_op" where
  "getVersionLibs ne version =
     bindD (wrapD ''failed to get driver library locator'' (\<lambda>d. DriverLibraryLocator (ne_fs ne) d [''vdpau''])) (\<lambda>libraries.
     bindD (liftD (wrapR ''failed to locate libraries for driver version'' (libraries (''*.so.'' @ version)))) (\<lambda>libs d.
       liftD (if drv_Root d = ''/'' \<or> drv_Root d = [] then Inr libs
              else Inr (map (\<lambda>lib. TrimPrefix lib (drv_Root d)) libs)) d))"

definition getVersionSuffixDriverLibraryMounts :: "nvcdi_env \<Rightarrow> string \<Rightarrow> discover driver_op" where
  "getVersionSuffixDriverLibraryMounts ne version =
     bindD (wrapD ''failed to get libraries for driver version'' (getVersionLibs ne version)) (\<lambda>paths d.
       liftD (Inr (NewMounts (Some (NewFileLocator (ne_fs ne) [WithRoot (drv_Root d)])) (drv_Root d) paths)) d)"

definition explicitLibraries :: "string list" where
  "explicitLibraries =
     [''libEGL.so'', ''libGL.so'', ''libGLESv1_CM.so'', ''libGLESv2.so'', ''libGLX.so'', ''libGLdispatch.so'',
      ''libOpenCL.so'', ''libOpenGL.so'', ''libnvidia-api.so'', ''libnvidia-egl-xcb.so'', ''libnvidia-egl-xlib.so'']"

definition getExplicitDriverLibraryMounts :: "nvcdi_env \<Rightarrow> nvcdilib \<Rightarrow> discover option driver_op" where
  "getExplicitDriverLibraryMounts ne l =
     (if \<not> feature_enabled l ''enable-explicit-driver-libraries'' then liftD (Inr None)
      else bindD (wrapD ''failed to get driver library locator'' (\<lambda>d. DriverLibraryLocator (ne_fs ne) d [])) (\<lambda>locate d.
             liftD (Inr (Some (NewMounts (Some locate) (drv_Root d) explicitLibraries))) d))"

definition library_discoverers :: "nvcdi_env \<Rightarrow> nvcdilib \<Rightarrow> string \<Rightarrow> discover \<Rightarrow> string \<Rightarrow> discover" where
  "library_discoverers ne l version libraries driverLibDirectory =
     discover_Merge
       [Some (WithDriverDotSoSymlinks (ne_symlinks ne) libraries [] (nl_hookCreator l)),
        Some (NewCUDACompatHookDiscoverer (nl_hookCreator l)
                (Some \<lparr>co_HostDriverVersion = version, co_HostCUDAVersion = [], co_CUDACompatContainerRoot = []\<rparr>)),
        Some (NewLDCacheUpdateHook libraries (nl_hookCreator l)),
        Some (Hook_discover (Create (nl_hookCreator l) DisableDeviceNodeModificationHook [])),
        Some (EnvVar_discover \<lparr>ev_Name = ''NVIDIA_CTK_LIBCUDA_DIR'', ev_Value = driverLibDirectory\<rparr>)]"

definition NewDriverLibraryDiscoverer :: "nvcdi_env \<Rightarrow> nvcdilib \<Rightarrow> string \<Rightarrow> discover driver_op" where
  "NewDriverLibraryDiscoverer ne l version =
     bindD (getVersionSuffixDriverLibraryMounts ne version) (\<lambda>versionSuffixLibraryMounts.
     bindD (getExplicitDriverLibraryMounts ne l) (\<lambda>explicitLibraryMounts.
     bindD (wrapD ''failed to get libcuda.so parent directory path'' (GetDriverLibDirectory (ne_fs ne))) (\<lambda>dir.
       liftD (Inr (library_discoverers ne l version
         (discover_Merge [Some versionSuffixLibraryMounts, explicitLibraryMounts]) dir)))))"

definition getCustomFirmwareClassPath :: "nvcdi_env \<Rightarrow> string" where
  "getCustomFirmwareClassPath ne =
     (case fs_read (ne_fs ne) ''/sys/module/firmware_class/parameters/path'' of Inl e \<Rightarrow> [] | Inr p \<Rightarrow> TrimSpace p)"

definition getFirmwareSearchPaths :: "nvcdi_env \<Rightarrow> string list result" where
  "getFirmwareSearchPaths ne =
     (let p = getCustomFirmwareClassPath ne in
      bindR (wrapR ''failed to get UTS_RELEASE'' (ne_uname ne)) (\<lambda>utsRelease.
        Inr ((if p \<noteq> [] then [p] else []) @
             [FJoin [''/lib/firmware/updates/'', utsRelease], ''/lib/firmware/updates/'',
              FJoin [''/lib/firmware/'', utsRelease], ''/lib/firmware/''])))"

definition newDriverFirmwareDiscoverer :: "nvcdi_env \<Rightarrow> string \<Rightarrow> string \<Rightarrow> discover result" where
  "newDriverFirmwareDiscoverer ne root version =
     bindR (wrapR ''failed to get firmware search paths'' (getFirmwareSearchPaths ne)) (\<lambda>paths.
       Inr (NewMounts (Some (NewFileLocator (ne_fs ne) [WithRoot root, WithSearchPaths paths])) root
              [FJoin [''nvidia'', version, ''gsp*.bin'']]))"

definition newDriverBinariesDiscoverer :: "nvcdi_env \<Rightarrow> string \<Rightarrow> discover" where
  "newDriverBinariesDiscoverer ne root =
     NewMounts (Some (NewExecutableLocator (ne_fs ne) root)) root
       [''nvidia-smi'', ''nvidia-debugdump'', ''nvidia-persistenced'', ''nvidia-cuda-mps-control'',
        ''nvidia-cuda-mps-server'', ''nvidia-imex'', ''nvidia-imex-ctl'']"

definition fs_NewIPCDiscoverer :: "lookup_fs \<Rightarrow> string \<Rightarrow> discover" where
  "fs_NewIPCDiscoverer fs root =
     NewIPCDiscoverer (NewFileLocator fs [WithRoot root, WithSearchPaths [''/run'', ''/var/run''], WithCount 1])
       (NewFileLocator fs [WithRoot root, WithCount 1]) root"

definition newDriverVersionDiscoverer :: "nvcdi_env \<Rightarrow> nvcdilib \<Rightarrow> discover driver_op" where
  "newDriverVersionDiscoverer ne l =
     bindD (wrapD ''failed to determine driver version'' (Driver_Version (ne_fs ne))) (\<lambda>version.
       if version = [] \<or> version = ''*.*'' then liftD (Inl (Errorf ''failed to determine driver version''))
       else
     bindD (wrapD ''failed to get libcuda.so parent path'' (GetDriverLibDirectory (ne_fs ne))) (\<lambda>_.
     bindD (wrapD ''failed to create discoverer for driver libraries'' (NewDriverLibraryDiscoverer ne l version)) (\<lambda>libraries d.
       liftD (bindR (wrapR ''failed to create discoverer for GSP firmware'' (newDriverFirmwareDiscoverer ne (drv_Root d) version)) (\<lambda>firmwares.
         Inr (discover_Merge
           [Some libraries, Some (fs_NewIPCDiscoverer (ne_fs ne) (drv_Root d)), Some firmwares,
            Some (newDriverBinariesDiscoverer ne (drv_Root d))]))) d)))"

subsection \<open>Common entities (\<open>common-nvml.go\<close>)\<close>

definition controlDeviceNodes :: "string list" where
  "controlDeviceNodes = [''/dev/nvidia-modeset'', ''/dev/nvidia-uvm-tools'', ''/dev/nvidia-uvm'', ''/dev/nvidiactl'']"

definition controlDeviceNodeDiscoverer :: "nvcdi_env \<Rightarrow> Driver \<Rightarrow> discover" where
  "controlDeviceNodeDiscoverer ne d = fs_NewCharDeviceDiscoverer (ne_fs ne) (drv_DevRoot d) controlDeviceNodes"

text \<open>The driver as the discoverers of graphics files see it, after the queries they make.\<close>

definition graphics_driver :: "nvcdi_env \<Rightarrow> Driver \<Rightarrow> driver_root \<times> Driver" where
  "graphics_driver ne d =
     (let (version, d1) = Driver_Version (ne_fs ne) d;
          (dir, d2) = (case version of Inl e \<Rightarrow> (Inl e, d1) | Inr v \<Rightarrow> GetDriverLibDirectory (ne_fs ne) d1);
          configs = Driver_Configs (ne_fs ne) (ne_xdgDataDirs ne) d
      in (\<lparr>dr_Root = drv_Root d, dr_Version = version, dr_LibDirectory = dir,
           dr_Libraries = (\<lambda>p. bindR (Driver_Libraries (ne_fs ne) d) (\<lambda>locate. locate p)),
           dr_Configs = configs, dr_FirstConfigsFiles = First [Some configs, Some (Driver_Files (ne_fs ne) d [])],
           dr_Files = (\<lambda>paths. Driver_Files (ne_fs ne) d [WithSearchPaths paths])\<rparr>, d2))"

definition newCommonNVMLDiscoverer :: "nvcdi_env \<Rightarrow> nvcdilib \<Rightarrow> discover driver_op" where
  "newCommonNVMLDiscoverer ne l d =
     (case graphics_driver ne d of (gd, d') \<Rightarrow>
        let graphicsMounts = (case NewGraphicsMountsDiscoverer (ne_goarch ne) gd (nl_hookCreator l) of
                                Inl e \<Rightarrow> None | Inr g \<Rightarrow> Some g)
        in bindD (wrapD ''failed to create discoverer for driver files'' (newDriverVersionDiscoverer ne l)) (\<lambda>driverFiles.
             liftD (Inr (discover_Merge [Some (controlDeviceNodeDiscoverer ne d), graphicsMounts, Some driverFiles]))) d')"

subsection \<open>Folders of nested device nodes (\<open>workarounds-device-folder-permissions.go\<close>)\<close>

definition allowed_folders :: "string list" where
  "allowed_folders = [''/dev/dri'', ''/dev/nvidia-caps'']"

fun subfolders_loop :: "string list \<Rightarrow> dsc_device list \<Rightarrow> string list" where
  "subfolders_loop folders [] = folders"
| "subfolders_loop folders (device # devices) =
     (let df = Dir (dd_Path device) in
      if df \<in> set folders then subfolders_loop folders devices
      else if df \<notin> set allowed_folders then subfolders_loop folders devices
      else let folders = folders @ [df] in
           if length folders = length allowed_folders then folders else subfolders_loop folders devices)"

definition getDeviceSubfolders :: "discover \<Rightarrow> string list result" where
  "getDeviceSubfolders devices =
     bindR (wrapR ''failed to get devices'' (ds_Devices devices)) (\<lambda>ds. Inr (subfolders_loop [] ds))"

definition newDeviceFolderPermissionHookDiscoverer :: "HookCreator \<Rightarrow> discover \<Rightarrow> discover" where
  "newDeviceFolderPermissionHookDiscoverer hc devices =
     dsc_None\<lparr>ds_Hooks := bindR (wrapR ''failed to get device subfolders'' (getDeviceSubfolders devices)) (\<lambda>folders.
       Hook_Hooks (Create hc ChmodHook folders))\<rparr>"

subsection \<open>WSL (\<open>driver-wsl.go\<close>, \<open>device-wsl.go\<close>)\<close>

definition requiredDriverStoreFiles :: "string list" where
  "requiredDriverStoreFiles =
     [''libcuda.so.1.1'', ''libcuda_loader.so'', ''libnvidia-ptxjitcompiler.so.1'', ''libnvidia-ml.so.1'',
      ''libnvidia-ml_loader.so'', ''libdxcore.so'', ''libnvdxgdmal.so.1'', ''nvcubins.bin'', ''nvidia-smi'']"

definition nvidiaSMISimlinkHook_Hooks :: "HookCreator \<Rightarrow> discover \<Rightarrow> dsc_hook list result" where
  "nvidiaSMISimlinkHook_Hooks hc mountsFrom =
     bindR (wrapR ''failed to discover mounts'' (ds_Mounts mountsFrom)) (\<lambda>mounts.
       case find (\<lambda>m. Base (dm_Path m) = ''nvidia-smi'') mounts of
         None \<Rightarrow> Inr []
       | Some m \<Rightarrow>
           if dm_Path m = [] then Inr []
           else Hook_Hooks (Create hc CreateSymlinksHook [dm_Path m @ ''::'' @ ''/usr/bin/nvidia-smi'']))"

definition newWSLDriverDiscoverer :: "nvcdi_env \<Rightarrow> nvcdilib \<Rightarrow> discover result" where
  "newWSLDriverDiscoverer ne l =
     (case ne_dxcore_Init ne of
        Some e \<Rightarrow> Inl (Wrap ''failed to initialize dxcore'' e)
      | None \<Rightarrow>
          if length (ne_DriverStorePaths ne) = 0 then Inl (Errorf ''no driver store paths found'')
          else let driverStoreMounts =
                     NewMounts (Some (NewFileLocator (ne_fs ne)
                       [WithSearchPaths (ne_DriverStorePaths ne @ [''/usr/lib/wsl/lib'']), WithCount 1]))
                       (drv_Root (nl_driver l)) requiredDriverStoreFiles
               in Inr (discover_Merge
                    [Some driverStoreMounts,
                     Some (dsc_None\<lparr>ds_Hooks := nvidiaSMISimlinkHook_Hooks (nl_hookCreator l) driverStoreMounts\<rparr>),
                     Some (NewLDCacheUpdateHook driverStoreMounts (nl_hookCreator l))]))"

definition newDXGDeviceDiscoverer :: "nvcdi_env \<Rightarrow> nvcdilib \<Rightarrow> discover" where
  "newDXGDeviceDiscoverer ne l = fs_NewCharDeviceDiscoverer (ne_fs ne) (drv_DevRoot (nl_driver l)) [''/dev/dxg'']"

end
