(* ===== verification/Nvcdi.thy ===== *)
theory Nvcdi
  imports Nvcdi_Driver
begin

section \<open>Generating CDI specifications\<close>

text \<open>
  The package \<open>pkg/nvcdi\<close>: device identifiers, the generators of the modes (NVML, MIG, CSV, WSL,
  management, IMEX, and the gated modes), the options of the library and its interface.  A device
  specification generator is the answer of its \<open>GetDeviceSpecs\<close>.  The answers of NVML are
  parameters and do not change while a specification is generated.
\<close>

subsection \<open>Identifiers (\<open>device.Identifier\<close> of go-nvlib, \<open>uuid.Parse\<close>)\<close>

definition is_hex :: "char \<Rightarrow> bool" where
  "is_hex c \<longleftrightarrow> is_digit c \<or> (CHR ''a'' \<le> c \<and> c \<le> CHR ''f'') \<or> (CHR ''A'' \<le> c \<and> c \<le> CHR ''F'')"

definition uuid_dashed :: "string \<Rightarrow> bool" where
  "uuid_dashed s \<longleftrightarrow>
     list_all (\<lambda>i. s ! i = CHR ''-'') [8, 13, 18, 23] \<and>
     list_all (\<lambda>i. is_hex (s ! i)) ([0..<8] @ [9..<13] @ [14..<18] @ [19..<23] @ [24..<36])"

definition uuid_Parse :: "string \<Rightarrow> bool" where
  "uuid_Parse s =
     (if length s = 36 then uuid_dashed s
      else if length s = 45 then map ascii_lower (take 9 s) = ''urn:uuid:'' \<and> uuid_dashed (drop 9 s)
      else if length s = 38 then uuid_dashed (drop 1 s)
      else if length s = 32 then list_all is_hex s
      else False)"

definition IsGpuIndex :: "string \<Rightarrow> bool" where
  "IsGpuIndex i = (case ParseUint i 64 of Inl e \<Rightarrow> False | Inr n \<Rightarrow> True)"

definition IsMigIndex :: "string \<Rightarrow> bool" where
  "IsMigIndex i = (let split = Split i '':'' in length split = 2 \<and> list_all IsGpuIndex split)"

definition IsGpuUUID :: "string \<Rightarrow> bool" where
  "IsGpuUUID i \<longleftrightarrow> HasPrefix i ''GPU-'' \<and> uuid_Parse (TrimPrefix i ''GPU-'')"

definition IsMigUUID :: "string \<Rightarrow> bool" where
  "IsMigUUID i \<longleftrightarrow>
     HasPrefix i ''MIG-'' \<and>
     (let suf = TrimPrefix i ''MIG-'' in
      uuid_Parse suf \<or>
      (let split = Split suf ''/'' in
       length split = 3 \<and> IsGpuUUID (split ! 0) \<and> list_all IsGpuIndex (drop 1 split)))"

definition IsUUID :: "string \<Rightarrow> bool" where
  "IsUUID i \<longleftrightarrow> IsGpuUUID i \<or> IsMigUUID i"

subsection \<open>Devices of NVML\<close>

datatype nvml_handle = GPU_handle gpu_device | MIG_handle gpu_device mig_device

fun handle_UUID :: "nvml_handle \<Rightarrow> string result" where
  "handle_UUID (GPU_handle d) = gd_UUID d"
| "handle_UUID (MIG_handle d m) = mg_UUID m"

fun handle_Index :: "nvml_handle \<Rightarrow> int result" where
  "handle_Index (GPU_handle d) = gd_Index d"
| "handle_Index (MIG_handle d m) = mg_Index m"

datatype pci_info = Pci_NotSupported | Pci_Error error | Pci int int int

record nvml_devices =
  vd_HandleByIndex :: "int \<Rightarrow> nvml_handle result"
  vd_HandleByUUID :: "string \<Rightarrow> nvml_handle result"
  vd_MigHandleByIndex :: "nvml_handle \<Rightarrow> int \<Rightarrow> nvml_handle result"
  vd_IsMigError :: "nvml_handle \<Rightarrow> error option"
  vd_Devices :: "(int \<times> gpu_device) list result"
  vd_MigDevices :: "(int \<times> gpu_device \<times> int \<times> mig_device) list result"
  vd_DeviceByUUID :: "string \<Rightarrow> gpu_device result"
  vd_MigDeviceByUUID :: "string \<Rightarrow> mig_device result"
  vd_PciInfo :: "nvml_handle \<Rightarrow> pci_info"
  vd_Name :: "nvml_handle \<Rightarrow> string result"
  vd_Names :: "string list result"

record nvml_system =
  ns_nvml :: nvml
  ns_devices :: nvml_devices

type_synonym DeviceSpecGenerator = "Device list result"

text \<open>\<open>wrapper.go\<close>: the specifications of all generators, in order; nil generators are left out.\<close>

fun GetDeviceSpecs :: "DeviceSpecGenerator option list \<Rightarrow> Device list result" where
  "GetDeviceSpecs [] = Inr []"
| "GetDeviceSpecs (None # gs) = GetDeviceSpecs gs"
| "GetDeviceSpecs (Some g # gs) = bindR g (\<lambda>ds. bindR (GetDeviceSpecs gs) (\<lambda>rest. Inr (ds @ rest)))"

subsection \<open>Full GPUs and MIG devices (\<open>full-gpu-nvml.go\<close>, \<open>mig-device-nvml.go\<close>)\<close>

definition dgpu_env_of :: "nvcdi_env \<Rightarrow> dgpu_env" where
  "dgpu_env_of ne = \<lparr>de_fs = ne_fs ne, de_host = ne_host ne, de_open = ne_open ne\<rparr>"

definition named_devices :: "string list \<Rightarrow> (string \<times> string) list \<Rightarrow> ContainerEdits \<Rightarrow> Device list" where
  "named_devices names anns e =
     map (\<lambda>name. \<lparr>dev_Name = name, dev_Annotations = anns, dev_Edits = e\<rparr>) names"

record fullGPU =
  fg_uuid :: string
  fg_index :: int
  fg_featureFlags :: "string list"
  fg_additionalDiscoverers :: "discover option list"

definition newFullGPUDiscoverer :: "nvcdi_env \<Rightarrow> nvcdilib \<Rightarrow> fullGPU \<Rightarrow> gpu_device \<Rightarrow> discover result" where
  "newFullGPUDiscoverer ne l g d =
     bindR (wrapR ''failed to create device discoverer''
              (NewForDevice (dgpu_env_of ne) (nl_driver l) (nl_hookCreator l) (nl_sandboxutils l) None d)) (\<lambda>deviceNodes.
       Inr (discover_Merge
              ([Some deviceNodes, Some (newDeviceFolderPermissionHookDiscoverer (nl_hookCreator l) deviceNodes)] @
               fg_additionalDiscoverers g)))"

definition fullGPU_getDeviceEdits :: "nvcdi_env \<Rightarrow> nvml_devices \<Rightarrow> nvcdilib \<Rightarrow> fullGPU \<Rightarrow> ContainerEdits result" where
  "fullGPU_getDeviceEdits ne vd l g =
     bindR (vd_DeviceByUUID vd (fg_uuid g)) (\<lambda>d.
     bindR (wrapR ''failed to create device discoverer'' (newFullGPUDiscoverer ne l g d)) (\<lambda>deviceDiscoverer.
       wrapR ''failed to create container edits for device'' (edits_from ne l deviceDiscoverer)))"

definition getDeviceAnnotations :: "nvml_devices \<Rightarrow> fullGPU \<Rightarrow> (string \<times> string) list result" where
  "getDeviceAnnotations vd g =
     (if ''enable-coherent-annotations'' \<notin> set (fg_featureFlags g) then Inr []
      else bindR (vd_DeviceByUUID vd (fg_uuid g)) (\<lambda>d.
           bindR (wrapR ''failed to check device coherence'' (gd_IsCoherent d)) (\<lambda>isCoherent.
             Inr [(''gpu.nvidia.com/coherent'', if isCoherent then ''true'' else ''false'')])))"

definition fullGPU_GetDeviceSpecs :: "nvcdi_env \<Rightarrow> nvml_devices \<Rightarrow> nvcdilib \<Rightarrow> fullGPU \<Rightarrow> DeviceSpecGenerator" where
  "fullGPU_GetDeviceSpecs ne vd l g =
     bindR (wrapR ''failed to get CDI device edits'' (fullGPU_getDeviceEdits ne vd l g)) (\<lambda>e.
     bindR (wrapR ''failed to get device names'' (GetDeviceNames (nl_deviceNamers l) (fg_index g) (Inr (fg_uuid g)))) (\<lambda>names.
       let anns = (case getDeviceAnnotations vd g of Inl e \<Rightarrow> [] | Inr a \<Rightarrow> a)
       in Inr (named_devices names anns e)))"

definition newFullGPUDeviceSpecGeneratorFromDevice :: "int \<Rightarrow> gpu_device \<Rightarrow> string list \<Rightarrow> fullGPU result" where
  "newFullGPUDeviceSpecGeneratorFromDevice index d featureFlags =
     bindR (wrapR ''failed to get device UUID'' (gd_UUID d)) (\<lambda>uuid.
       Inr \<lparr>fg_uuid = uuid, fg_index = index, fg_featureFlags = featureFlags, fg_additionalDiscoverers = []\<rparr>)"

definition newFullGPUDeviceSpecGeneratorFromNVMLDevice :: "string \<Rightarrow> nvml_handle \<Rightarrow> string list \<Rightarrow> fullGPU result" where
  "newFullGPUDeviceSpecGeneratorFromNVMLDevice uuid h featureFlags =
     bindR (wrapR ''failed to get device index'' (handle_Index h)) (\<lambda>index.
       Inr \<lparr>fg_uuid = uuid, fg_index = index, fg_featureFlags = featureFlags, fg_additionalDiscoverers = []\<rparr>)"

record migGPU =
  mi_parent :: fullGPU
  mi_index :: int
  mi_uuid :: string

definition newMIGDeviceSpecGeneratorFromDevice :: "int \<Rightarrow> gpu_device \<Rightarrow> int \<Rightarrow> mig_device \<Rightarrow> migGPU result" where
  "newMIGDeviceSpecGeneratorFromDevice i d j m =
     bindR (newFullGPUDeviceSpecGeneratorFromDevice i d []) (\<lambda>parent.
     bindR (wrapR ''failed to get MIG UUID'' (mg_UUID m)) (\<lambda>migUUID.
       Inr \<lparr>mi_parent = parent, mi_index = j, mi_uuid = migUUID\<rparr>))"

definition newMIGDeviceSpecGeneratorFromNVMLDevice :: "gpu_device \<Rightarrow> mig_device \<Rightarrow> migGPU result" where
  "newMIGDeviceSpecGeneratorFromNVMLDevice parent m =
     bindR (wrapR ''failed to get parent device index'' (gd_Index parent)) (\<lambda>parentIndex.
     bindR (wrapR ''failed to get MIG device index'' (mg_Index m)) (\<lambda>migIndex.
       newMIGDeviceSpecGeneratorFromDevice parentIndex parent migIndex m))"

definition mig_getDeviceEdits :: "nvcdi_env \<Rightarrow> nvml_devices \<Rightarrow> nvcdilib \<Rightarrow> migGPU \<Rightarrow> ContainerEdits result" where
  "mig_getDeviceEdits ne vd l g =
     bindR (vd_DeviceByUUID vd (fg_uuid (mi_parent g))) (\<lambda>d.
     bindR (vd_MigDeviceByUUID vd (mi_uuid g)) (\<lambda>m.
     bindR (wrapR ''failed to create device discoverer''
              (NewForMigDevice (dgpu_env_of ne) (nl_driver l) (nl_hookCreator l) (nl_sandboxutils l) None d m)) (\<lambda>deviceNodes.
       wrapR ''failed to create container edits for Compute Instance'' (edits_from ne l deviceNodes))))"

definition mig_GetDeviceSpecs :: "nvcdi_env \<Rightarrow> nvml_devices \<Rightarrow> nvcdilib \<Rightarrow> migGPU \<Rightarrow> DeviceSpecGenerator" where
  "mig_GetDeviceSpecs ne vd l g =
     bindR (wrapR ''failed to get CDI device edits'' (mig_getDeviceEdits ne vd l g)) (\<lambda>e.
     bindR (wrapR ''failed to get device names''
              (GetMigDeviceNames (nl_deviceNamers l) (fg_index (mi_parent g)) (Inr (fg_uuid (mi_parent g)))
                 (mi_index g) (Inr (mi_uuid g)))) (\<lambda>names.
       Inr (named_devices names [] e)))"

subsection \<open>NVML devices (\<open>lib-nvml.go\<close>)\<close>

text \<open>Initialization drops the sandbox utilities if they cannot be initialized.\<close>

definition nvmllib_init :: "nvml_system \<Rightarrow> nvcdilib \<Rightarrow> nvcdilib result" where
  "nvmllib_init nv l =
     (case nv_Init (ns_nvml nv) of
        Some e \<Rightarrow> Inl (Wrap ''failed to initialize NVML'' e)
      | None \<Rightarrow>
          (case nl_sandboxutils l of
             None \<Rightarrow> Inr l
           | Some sb \<Rightarrow> if sb_Init sb (drv_Root (nl_driver l)) \<noteq> None then Inr (l\<lparr>nl_sandboxutils := None\<rparr>) else Inr l))"

definition withInit :: "nvml_system \<Rightarrow> nvcdilib \<Rightarrow> (nvcdilib \<Rightarrow> DeviceSpecGenerator) \<Rightarrow> DeviceSpecGenerator" where
  "withInit nv l g = bindR (nvmllib_init nv l) g"

definition emptyDeviceSpecGenerator :: "string \<Rightarrow> DeviceSpecGenerator" where
  "emptyDeviceSpecGenerator d = Inr (named_devices [d] [] (empty_edits\<lparr>Env := [''NVCT_EMPTY_DEVICE='']\<rparr>))"

definition normalizeDeviceID :: "nvml_devices \<Rightarrow> string \<Rightarrow> string result" where
  "normalizeDeviceID vd i =
     (if IsUUID i then Inr i
      else if IsGpuIndex i
      then bindR (wrapR ''failed to convert device index to an int'' (Atoi i)) (\<lambda>idx.
           bindR (wrapR ''failed to get device handle from index'' (vd_HandleByIndex vd idx)) (\<lambda>h.
             wrapR ''failed to get device UUID'' (handle_UUID h)))
      else if IsMigIndex i
      then let split = SplitN2 i '':'' in
           bindR (wrapR ''failed to convert device index to an int'' (Atoi (split ! 0))) (\<lambda>gpuIdx.
           bindR (wrapR ''failed to convert device index to an int'' (Atoi (split ! 1))) (\<lambda>migIdx.
           bindR (wrapR ''failed to get parent device handle'' (vd_HandleByIndex vd gpuIdx)) (\<lambda>parent.
           bindR (wrapR ''failed to get MIG handle by index'' (vd_MigHandleByIndex vd parent migIdx)) (\<lambda>h.
             wrapR ''failed to get MIG UUID'' (handle_UUID h)))))
      else Inl (Errorf (''identifier is not a valid UUID or index: '' @ i)))"

definition normalizeDeviceIDs :: "nvml_devices \<Rightarrow> string list \<Rightarrow> string list result" where
  "normalizeDeviceIDs vd identifiers = mapR (normalizeDeviceID vd) identifiers"

datatype nvml_generator = Full_generator fullGPU | Mig_generator migGPU

fun nvml_generator_specs :: "nvcdi_env \<Rightarrow> nvml_devices \<Rightarrow> nvcdilib \<Rightarrow> nvml_generator \<Rightarrow> DeviceSpecGenerator" where
  "nvml_generator_specs ne vd l (Full_generator g) = fullGPU_GetDeviceSpecs ne vd l g"
| "nvml_generator_specs ne vd l (Mig_generator g) = mig_GetDeviceSpecs ne vd l g"

definition newDeviceSpecGeneratorFromNVMLDevice :: "nvml_devices \<Rightarrow> nvcdilib \<Rightarrow> string \<Rightarrow> nvml_handle \<Rightarrow> nvml_generator result" where
  "newDeviceSpecGeneratorFromNVMLDevice vd l uuid h =
     (case vd_IsMigError vd h of
        Some e \<Rightarrow> Inl (Errorf ''is MIG device'')
      | None \<Rightarrow>
          (case h of
             MIG_handle parent m \<Rightarrow> bindR (newMIGDeviceSpecGeneratorFromNVMLDevice parent m) (\<lambda>g. Inr (Mig_generator g))
           | GPU_handle d \<Rightarrow>
               bindR (newFullGPUDeviceSpecGeneratorFromNVMLDevice uuid h (nl_featureFlags l)) (\<lambda>g. Inr (Full_generator g))))"

text \<open>A GPU with MIG enabled is left out.\<close>

definition full_generator_of :: "nvcdilib \<Rightarrow> int \<times> gpu_device \<Rightarrow> nvml_generator list result" where
  "full_generator_of l x =
     bindR (gd_IsMigEnabled (snd x)) (\<lambda>isMigEnabled.
       if isMigEnabled then Inr []
       else bindR (newFullGPUDeviceSpecGeneratorFromDevice (fst x) (snd x) (nl_featureFlags l)) (\<lambda>g. Inr [Full_generator g]))"

definition mig_generator_of :: "int \<times> gpu_device \<times> int \<times> mig_device \<Rightarrow> nvml_generator result" where
  "mig_generator_of x =
     (case x of (i, d, j, m) \<Rightarrow> bindR (newMIGDeviceSpecGeneratorFromDevice i d j m) (\<lambda>g. Inr (Mig_generator g)))"

definition getDeviceSpecGeneratorsForAllDevices :: "nvml_devices \<Rightarrow> nvcdilib \<Rightarrow> nvml_generator list result" where
  "getDeviceSpecGeneratorsForAllDevices vd l =
     bindR (wrapR ''failed to get full GPU device editors'' (bindR (vd_Devices vd) (mapR (full_generator_of l)))) (\<lambda>full.
     bindR (wrapR ''failed to get MIG device editors'' (bindR (vd_MigDevices vd) (mapR mig_generator_of))) (\<lambda>migs.
       Inr (concat full @ migs)))"

definition generators_of_ids :: "nvml_devices \<Rightarrow> nvcdilib \<Rightarrow> string list \<Rightarrow> nvml_generator list result" where
  "generators_of_ids vd l ids =
     bindR (normalizeDeviceIDs vd ids) (mapR (\<lambda>uuid.
       bindR (wrapR ''failed to get device handle from UUID'' (vd_HandleByUUID vd uuid)) (\<lambda>h.
         newDeviceSpecGeneratorFromNVMLDevice vd l uuid h)))"

text \<open>The first of the names \<open>none\<close> and \<open>all\<close> decides; otherwise every identifier counts.\<close>

datatype nvml_request = No_device | All_devices | Devices_by_id

fun nvml_request_of :: "string list \<Rightarrow> nvml_request" where
  "nvml_request_of [] = Devices_by_id"
| "nvml_request_of (i # ids) =
     (if i = ''none'' then No_device else if i = ''all'' then All_devices else nvml_request_of ids)"

definition getDeviceSpecGeneratorsForIDs ::
  "nvcdi_env \<Rightarrow> nvml_devices \<Rightarrow> nvcdilib \<Rightarrow> string list \<Rightarrow> (nvcdilib \<Rightarrow> DeviceSpecGenerator) result" where
  "getDeviceSpecGeneratorsForIDs ne vd l ids =
     (case nvml_request_of ids of
        No_device \<Rightarrow> Inr (\<lambda>_. emptyDeviceSpecGenerator ''none'')
      | All_devices \<Rightarrow>
          bindR (getDeviceSpecGeneratorsForAllDevices vd l) (\<lambda>gs.
            Inr (\<lambda>l. GetDeviceSpecs (map (\<lambda>g. Some (nvml_generator_specs ne vd l g)) gs)))
      | Devices_by_id \<Rightarrow>
          bindR (generators_of_ids vd l ids) (\<lambda>gs.
            Inr (\<lambda>l. GetDeviceSpecs (map (\<lambda>g. Some (nvml_generator_specs ne vd l g)) gs))))"

definition nvml_DeviceSpecGenerators ::
  "nvcdi_env \<Rightarrow> nvml_system \<Rightarrow> nvcdilib \<Rightarrow> string list \<Rightarrow> DeviceSpecGenerator result" where
  "nvml_DeviceSpecGenerators ne nv l ids =
     bindR (nvmllib_init nv l) (\<lambda>l.
     bindR (getDeviceSpecGeneratorsForIDs ne (ns_devices nv) l ids) (\<lambda>dsgs.
       Inr (withInit nv l dsgs)))"

definition nvml_GetCommonEdits :: "nvcdi_env \<Rightarrow> nvcdilib \<Rightarrow> ContainerEdits result" where
  "nvml_GetCommonEdits ne l =
     bindR (wrapR ''failed to create discoverer for common entities'' (fst (newCommonNVMLDiscoverer ne l (nl_driver l)))) (\<lambda>common.
       edits_from ne l common)"

end
