(* ===== verification/Nvcdi_Lib.thy ===== *)
theory Nvcdi_Lib
  imports Nvcdi
begin

section \<open>The modes and the interface of the CDI library\<close>

text \<open>
  \<open>pkg/nvcdi\<close>: the modes WSL, management, IMEX and the gated modes, the CSV mode of Tegra systems,
  the options of the library, and the interface that joins devices and common edits to a
  specification (\<open>lib-csv.go\<close>, \<open>lib-imex.go\<close>, \<open>lib-wsl.go\<close>, \<open>management.go\<close>, \<open>gated.go\<close>, \<open>mode.go\<close>, \<open>options.go\<close>,
  \<open>lib.go\<close>, \<open>wrapper.go\<close>).
\<close>

subsection \<open>WSL and management (\<open>lib-wsl.go\<close>, \<open>management.go\<close>)\<close>

definition wsl_GetDeviceSpecs :: "nvcdi_env \<Rightarrow> nvcdilib \<Rightarrow> DeviceSpecGenerator" where
  "wsl_GetDeviceSpecs ne l =
     bindR (wrapR ''failed to create container edits for DXG device'' (edits_from ne l (newDXGDeviceDiscoverer ne l))) (\<lambda>e.
       Inr (named_devices [''all''] [] e))"

definition wsl_GetCommonEdits :: "nvcdi_env \<Rightarrow> nvcdilib \<Rightarrow> ContainerEdits result" where
  "wsl_GetCommonEdits ne l =
     bindR (wrapR ''failed to create discoverer for WSL driver'' (newWSLDriverDiscoverer ne l)) (edits_from ne l)"

definition nodeIsBlocked :: "string \<Rightarrow> bool" where
  "nodeIsBlocked path = list_ex (HasPrefix (Base path)) [''nvidia-fs'', ''nvidia-nvswitch'', ''nvidia-nvlink'']"

definition managementDiscoverer_Devices :: "discover \<Rightarrow> dsc_device list result" where
  "managementDiscoverer_Devices d =
     bindR (ds_Devices d) (\<lambda>devices. Inr (filter (\<lambda>x. \<not> nodeIsBlocked (dd_HostPath x)) devices))"

definition newManagementDeviceDiscoverer :: "nvcdi_env \<Rightarrow> nvcdilib \<Rightarrow> discover" where
  "newManagementDeviceDiscoverer ne l =
     (let deviceNodes = fs_NewCharDeviceDiscoverer (ne_fs ne) (drv_DevRoot (nl_driver l))
            [''/dev/nvidia*'', ''/dev/nvidia-caps/nvidia-cap*'', ''/dev/nvidia-modeset'', ''/dev/nvidia-uvm-tools'',
             ''/dev/nvidia-uvm'', ''/dev/nvidiactl'', ''/dev/nvidia-caps-imex-channels/channel*'']
      in discover_Merge
           [Some (deviceNodes\<lparr>ds_Devices := managementDiscoverer_Devices deviceNodes\<rparr>),
            Some (newDeviceFolderPermissionHookDiscoverer (nl_hookCreator l) deviceNodes)])"

definition management_GetDeviceSpecs :: "nvcdi_env \<Rightarrow> nvcdilib \<Rightarrow> DeviceSpecGenerator" where
  "management_GetDeviceSpecs ne l =
     bindR (wrapR ''failed to create edits from discoverer'' (edits_from ne l (newManagementDeviceDiscoverer ne l))) (\<lambda>e.
       if length (DeviceNodes e) = 0 then Inl (Errorf ''no NVIDIA device nodes found'')
       else Inr (named_devices [''all''] [] e))"

text \<open>The sandbox utilities have no part in the edits: failing to initialize them is ignored.\<close>

definition management_GetCommonEdits :: "nvcdi_env \<Rightarrow> nvcdilib \<Rightarrow> ContainerEdits result" where
  "management_GetCommonEdits ne l =
     (let l = (case nl_sandboxutils l of
                 None \<Rightarrow> l
               | Some sb \<Rightarrow> if sb_Init sb (drv_Root (nl_driver l)) \<noteq> None then l\<lparr>nl_sandboxutils := None\<rparr> else l)
      in bindR (wrapR ''failed to create driver library discoverer'' (fst (newDriverVersionDiscoverer ne l (nl_driver l)))) (\<lambda>driver.
           wrapR ''failed to create edits from discoverer'' (edits_from ne l driver)))"

subsection \<open>Gated modes (\<open>gated.go\<close>)\<close>

definition getModeDiscoverer :: "nvcdi_env \<Rightarrow> nvcdilib \<Rightarrow> string \<Rightarrow> discover result" where
  "getModeDiscoverer ne l mode =
     (let fs = ne_fs ne; devRoot = drv_DevRoot (nl_driver l); root = drv_Root (nl_driver l);
          charLocator = NewCharDeviceLocator fs [WithRoot devRoot] in
      if mode = ''gdrcopy'' then Inr (NewGDRCopyDiscoverer charLocator devRoot)
      else if mode = ''gds'' then Inr (NewGDSDiscoverer charLocator (NewDirectoryLocator fs [WithRoot root])
                                     (NewFileLocator fs [WithRoot root]) devRoot root)
      else if mode = ''mofed'' then Inr (NewMOFEDDiscoverer charLocator devRoot)
      else if mode = ''nvswitch'' then Inr (NewNvSwitchDiscoverer charLocator devRoot)
      else Inl (Errorf ''unrecognized mode''))"

definition gated_GetDeviceSpecs :: "nvcdi_env \<Rightarrow> nvcdilib \<Rightarrow> string \<Rightarrow> DeviceSpecGenerator" where
  "gated_GetDeviceSpecs ne l mode =
     bindR (wrapR ''failed to create discoverer for mode'' (getModeDiscoverer ne l mode)) (\<lambda>discoverer.
     bindR (wrapR ''failed to create container edits'' (edits_from ne l discoverer)) (\<lambda>e.
       Inr (named_devices [''all''] [] e)))"

definition gated_GetCommonEdits :: "nvcdi_env \<Rightarrow> nvcdilib \<Rightarrow> ContainerEdits result" where
  "gated_GetCommonEdits ne l = edits_from ne l dsc_None"

subsection \<open>IMEX channels (\<open>lib-imex.go\<close>)\<close>

definition imexChannel_GetDeviceSpecs :: "string \<Rightarrow> string \<Rightarrow> DeviceSpecGenerator" where
  "imexChannel_GetDeviceSpecs devRoot i =
     (let path = ''/dev/nvidia-caps-imex-channels/channel'' @ i;
          node = \<lparr>dn_Path = path, dn_HostPath = FJoin [devRoot, path], dn_Type = [], dn_Major = 0, dn_Minor = 0,
                  dn_FileMode = None, dn_Permissions = [], dn_UID = None, dn_GID = None\<rparr>
      in Inr (named_devices [i] [] (empty_edits\<lparr>DeviceNodes := [Some node]\<rparr>)))"

definition getAllChannelIDs :: "nvcdi_env \<Rightarrow> nvcdilib \<Rightarrow> string list result" where
  "getAllChannelIDs ne l =
     bindR (ds_Devices (fs_NewCharDeviceDiscoverer (ne_fs ne) (drv_DevRoot (nl_driver l))
              [''/dev/nvidia-caps-imex-channels/channel*''])) (\<lambda>channels.
       Inr (map (\<lambda>c. TrimPrefix (Base (dd_Path c)) ''channel'') channels))"

fun getChannelIDs :: "string list result \<Rightarrow> string list \<Rightarrow> string list \<Rightarrow> string list result" where
  "getChannelIDs allIDs channelIDs [] = Inr channelIDs"
| "getChannelIDs allIDs channelIDs (i # ids) =
     (let trimmed = TrimPrefix i ''channel'' in
      if trimmed = ''all'' then allIDs
      else bindR (wrapR (''invalid channel ID '' @ i) (ParseUint trimmed 64)) (\<lambda>_.
             getChannelIDs allIDs (channelIDs @ [trimmed]) ids))"

definition imex_DeviceSpecGenerators :: "nvcdi_env \<Rightarrow> nvcdilib \<Rightarrow> string list \<Rightarrow> DeviceSpecGenerator result" where
  "imex_DeviceSpecGenerators ne l ids =
     bindR (getChannelIDs (getAllChannelIDs ne l) [] ids) (\<lambda>channelIDs.
       Inr (GetDeviceSpecs (map (\<lambda>i. Some (imexChannel_GetDeviceSpecs (drv_DevRoot (nl_driver l)) i)) channelIDs)))"

definition imex_GetCommonEdits :: "nvcdi_env \<Rightarrow> nvcdilib \<Rightarrow> ContainerEdits result" where
  "imex_GetCommonEdits ne l = edits_from ne l dsc_None"

subsection \<open>CSV mode (\<open>lib-csv.go\<close>)\<close>

datatype csvGeneratorMode = Default_mode | iGPUGeneratorMode | dGPUGeneratorMode

definition deviceNodeMountSpecs :: "nvcdi_env \<Rightarrow> nvcdilib \<Rightarrow> csvGeneratorMode \<Rightarrow> MountSpecPathsByType" where
  "deviceNodeMountSpecs ne l mode =
     (let mountSpecs = tegra_Transform (MountSpecsFromCSVFiles (fs_read (ne_fs ne)) (csv_Files (nl_csv l))) [Some OnlyDeviceNodes]
      in case mode of
           dGPUGeneratorMode \<Rightarrow>
             tegra_Transform mountSpecs
               [Some WithoutRegularDeviceNodes,
                Some (Without (DeviceNodes_spec
                  [''/dev/nvidia-modeset'', ''/dev/nvidia-uvm-tools'', ''/dev/nvidia-uvm'', ''/dev/nvidiactl'']))]
         | iGPUGeneratorMode \<Rightarrow>
             tegra_Merge
               [Some (tegra_Transform mountSpecs [Some (Without (DeviceNodes_spec [''/dev/nvidia1'']))]),
                Some (DeviceNodes_spec [''/dev/nvidia2''])]
         | Default_mode \<Rightarrow> mountSpecs)"

definition tegra_env_of :: "nvcdi_env \<Rightarrow> tegra_env" where
  "tegra_env_of ne = \<lparr>te_fs = ne_fs ne, te_symlinks = ne_symlinks ne\<rparr>"

definition tegra_discoverer :: "nvcdi_env \<Rightarrow> nvcdilib \<Rightarrow> MountSpecPathsByType \<Rightarrow> discover result" where
  "tegra_discoverer ne l mountSpecs =
     tegra_New (tegra_env_of ne)
       [tegra_WithDriver (nl_driver l), tegra_WithHookCreator (nl_hookCreator l),
        tegra_WithLibrarySearchPaths (nl_librarySearchPaths l), tegra_WithMountSpecs [Some mountSpecs]]"

definition deviceNodeDiscoverer :: "nvcdi_env \<Rightarrow> nvcdilib \<Rightarrow> csvGeneratorMode \<Rightarrow> discover result" where
  "deviceNodeDiscoverer ne l mode = tegra_discoverer ne l (deviceNodeMountSpecs ne l mode)"

definition csvDevice_GetDeviceSpecs :: "nvcdi_env \<Rightarrow> nvcdilib \<Rightarrow> int \<Rightarrow> string \<Rightarrow> csvGeneratorMode \<Rightarrow> DeviceSpecGenerator" where
  "csvDevice_GetDeviceSpecs ne l index uuid mode =
     bindR (wrapR ''failed to create discoverer for device nodes from CSV files'' (deviceNodeDiscoverer ne l mode)) (\<lambda>d.
     bindR (wrapR ''failed to create container edits for CSV files'' (edits_from ne l d)) (\<lambda>e.
     bindR (wrapR ''failed to get device name'' (GetDeviceNames (nl_deviceNamers l) index (Inr uuid))) (\<lambda>names.
       Inr (named_devices names [] e))))"

definition purecsvDeviceSpecGenerators :: "nvcdi_env \<Rightarrow> nvcdilib \<Rightarrow> string list \<Rightarrow> DeviceSpecGenerator result" where
  "purecsvDeviceSpecGenerators ne l ids =
     (case find (\<lambda>i. i \<notin> set [''all'', ''0'']) ids of
        Some i \<Rightarrow> Inl (Errorf (''unsupported device id: '' @ i))
      | None \<Rightarrow> Inr (csvDevice_GetDeviceSpecs ne l 0 [] Default_mode))"

definition usePureCSVDeviceSpecGenerator :: "bool \<Rightarrow> nvml_system \<Rightarrow> nvcdilib \<Rightarrow> bool" where
  "usePureCSVDeviceSpecGenerator hasNvml nv l =
     (if feature_enabled l ''disable-multiple-csv-devices'' then True
      else if \<not> hasNvml then True
      else case nvmllib_init nv l of
             Inl e \<Rightarrow> True
           | Inr l' \<Rightarrow> (case nv_DeviceGetCount (ns_nvml nv) of Inl e \<Rightarrow> True | Inr numDevices \<Rightarrow> numDevices \<le> 1))"

definition getAllDeviceIndices :: "nvml_system \<Rightarrow> string list result" where
  "getAllDeviceIndices nv =
     bindR (wrapR ''faled to get device count'' (nv_DeviceGetCount (ns_nvml nv))) (\<lambda>numDevices.
       Inr (map int_decimal [0..numDevices - 1]))"

definition isIntegratedGPU :: "(string \<Rightarrow> bool) \<Rightarrow> nvml_devices \<Rightarrow> nvml_handle \<Rightarrow> bool result" where
  "isIntegratedGPU isIntegratedName vd h =
     (case vd_PciInfo vd h of
        Pci_NotSupported \<Rightarrow> bindR (wrapR ''failed to get device name'' (vd_Name vd h)) (\<lambda>name. Inr (isIntegratedName name))
      | Pci_Error e \<Rightarrow> Inl (Wrap ''failed to get PCI info'' e)
      | Pci domain bus device \<Rightarrow> Inr (domain = 0 \<and> bus = 1 \<and> device = 0))"

definition dGPUDeviceSpecGenerator ::
  "nvcdi_env \<Rightarrow> nvml_system \<Rightarrow> nvcdilib \<Rightarrow> int \<Rightarrow> string \<Rightarrow> DeviceSpecGenerator result" where
  "dGPUDeviceSpecGenerator ne nv l index uuid =
     (if index \<noteq> 1 then Inl (Errorf ''unexpected device index for dGPU'')
      else bindR (wrapR ''failed to create discoverer for devices nodes'' (deviceNodeDiscoverer ne l dGPUGeneratorMode)) (\<lambda>csvNodes.
           Inr (withInit nv l (\<lambda>l. fullGPU_GetDeviceSpecs ne (ns_devices nv) l
             \<lparr>fg_uuid = uuid, fg_index = index, fg_featureFlags = nl_featureFlags l,
              fg_additionalDiscoverers = [Some (controlDeviceNodeDiscoverer ne (nl_driver l)), Some csvNodes]\<rparr>))))"

definition iGPUDeviceSpecGenerator :: "nvcdi_env \<Rightarrow> nvcdilib \<Rightarrow> int \<Rightarrow> string \<Rightarrow> DeviceSpecGenerator result" where
  "iGPUDeviceSpecGenerator ne l index uuid =
     (if index \<noteq> 0 then Inl (Errorf ''unexpected device index for iGPU'')
      else Inr (csvDevice_GetDeviceSpecs ne l index uuid iGPUGeneratorMode))"

definition csvDeviceSpecGenerator ::
  "nvcdi_env \<Rightarrow> (string \<Rightarrow> bool) \<Rightarrow> nvml_system \<Rightarrow> nvcdilib \<Rightarrow> int \<Rightarrow> string \<Rightarrow> nvml_handle \<Rightarrow> DeviceSpecGenerator result" where
  "csvDeviceSpecGenerator ne isIntegratedName nv l index uuid h =
     (case isIntegratedGPU isIntegratedName (ns_devices nv) h of
        Inl e \<Rightarrow> Inl (Errorf ''is-integrated check failed for device'')
      | Inr isIntegrated \<Rightarrow>
          if isIntegrated then iGPUDeviceSpecGenerator ne l index uuid else dGPUDeviceSpecGenerator ne nv l index uuid)"

definition isOrinGPUID :: "string \<Rightarrow> bool" where
  "isOrinGPUID i = uuid_Parse i"

definition deviceSpecGeneratorForId ::
  "nvcdi_env \<Rightarrow> (string \<Rightarrow> bool) \<Rightarrow> nvml_system \<Rightarrow> nvcdilib \<Rightarrow> string \<Rightarrow> DeviceSpecGenerator result" where
  "deviceSpecGeneratorForId ne isIntegratedName nv l i =
     (if IsGpuUUID i \<or> isOrinGPUID i
      then bindR (wrapR ''failed to get device handle from UUID'' (vd_HandleByUUID (ns_devices nv) i)) (\<lambda>h.
           bindR (wrapR ''failed to get device index'' (handle_Index h)) (\<lambda>index.
             csvDeviceSpecGenerator ne isIntegratedName nv l index i h))
      else if IsGpuIndex i
      then bindR (wrapR ''failed to convert device index to an int'' (Atoi i)) (\<lambda>index.
           bindR (wrapR ''failed to get device handle from index'' (vd_HandleByIndex (ns_devices nv) index)) (\<lambda>h.
           bindR (wrapR ''failed to get UUID'' (handle_UUID h)) (\<lambda>uuid.
             csvDeviceSpecGenerator ne isIntegratedName nv l index uuid h)))
      else if IsMigUUID i \<or> IsMigIndex i
      then Inl (Errorf ''generating a CDI spec for a MIG id is not supported in CSV mode'')
      else Inl (Errorf (''identifier is not a valid UUID or index: '' @ i)))"

definition mixed_DeviceSpecGenerators ::
  "nvcdi_env \<Rightarrow> (string \<Rightarrow> bool) \<Rightarrow> nvml_system \<Rightarrow> nvcdilib \<Rightarrow> string list \<Rightarrow> DeviceSpecGenerator result" where
  "mixed_DeviceSpecGenerators ne isIntegratedName nv l ids =
     bindR (wrapR ''failed to initialize nvml'' (nvmllib_init nv l)) (\<lambda>l.
     bindR (if ''all'' \<in> set ids then wrapR ''failed to get device indices'' (getAllDeviceIndices nv) else Inr ids) (\<lambda>ids.
     bindR (mapR (\<lambda>i. wrapR ''failed to create device spec generator for device''
                        (deviceSpecGeneratorForId ne isIntegratedName nv l i)) ids) (\<lambda>gs.
       Inr (GetDeviceSpecs (map Some gs)))))"

definition csv_DeviceSpecGenerators ::
  "nvcdi_env \<Rightarrow> bool \<Rightarrow> (string \<Rightarrow> bool) \<Rightarrow> nvml_system \<Rightarrow> nvcdilib \<Rightarrow> string list \<Rightarrow> DeviceSpecGenerator result" where
  "csv_DeviceSpecGenerators ne hasNvml isIntegratedName nv l ids =
     (if usePureCSVDeviceSpecGenerator hasNvml nv l then purecsvDeviceSpecGenerators ne l ids
      else case mixed_DeviceSpecGenerators ne isIntegratedName nv l ids of
             Inl e \<Rightarrow> purecsvDeviceSpecGenerators ne l ids
           | Inr mixed \<Rightarrow> Inr mixed)"

definition hasOrinDevices :: "nvml_devices \<Rightarrow> bool" where
  "hasOrinDevices vd =
     (case vd_Names vd of Inl e \<Rightarrow> False | Inr names \<Rightarrow> list_ex (\<lambda>n. Contains n ''Orin (nvgpu)'') names)"

text \<open>Go's division truncates; the version is not negative.\<close>

definition getCUDAVersionString :: "nvml \<Rightarrow> string result" where
  "getCUDAVersionString nv =
     bindR (nv_SystemGetCudaDriverVersion nv) (\<lambda>v.
       Inr (int_decimal (v div 1000) @ ''.'' @ int_decimal (v mod 1000 div 10)))"

definition getEnableCUDACompatHookOptions ::
  "bool \<Rightarrow> nvml_system \<Rightarrow> nvcdilib \<Rightarrow> EnableCUDACompatHookOptions option result" where
  "getEnableCUDACompatHookOptions hasNvml nv l =
     (if \<not> hasNvml then Inr None
      else case nv_Init (ns_nvml nv) of
             Some e \<Rightarrow> Inl (Wrap ''failed to initialize NVML'' e)
           | None \<Rightarrow>
               bindR (wrapR ''failed to get host CUDA version'' (getCUDAVersionString (ns_nvml nv))) (\<lambda>hostCUDAVersion.
                 Inr (Some \<lparr>co_HostDriverVersion = [], co_HostCUDAVersion = hostCUDAVersion,
                            co_CUDACompatContainerRoot =
                              (if hasOrinDevices (ns_devices nv) then csv_CompatContainerRoot (nl_csv l) else [])\<rparr>)))"

definition cudaCompatDiscoverer :: "bool \<Rightarrow> nvml_system \<Rightarrow> nvcdilib \<Rightarrow> discover option" where
  "cudaCompatDiscoverer hasNvml nv l =
     (case getEnableCUDACompatHookOptions hasNvml nv l of
        Inl e \<Rightarrow> None
      | Inr None \<Rightarrow> None
      | Inr (Some c) \<Rightarrow> Some (NewCUDACompatHookDiscoverer (nl_hookCreator l) (Some c)))"

definition csv_driver_mountSpecs :: "nvcdi_env \<Rightarrow> nvcdilib \<Rightarrow> MountSpecPathsByType" where
  "csv_driver_mountSpecs ne l =
     tegra_Transform
       (tegra_Transform (MountSpecsFromCSVFiles (fs_read (ne_fs ne)) (csv_Files (nl_csv l))) [Some WithoutDeviceNodes])
       [Some (IgnoreSymlinkMountSpecsByPattern (csv_IgnorePatterns (nl_csv l)))]"

definition driverDiscoverer :: "nvcdi_env \<Rightarrow> bool \<Rightarrow> nvml_system \<Rightarrow> nvcdilib \<Rightarrow> discover result" where
  "driverDiscoverer ne hasNvml nv l =
     bindR (wrapR ''failed to create discoverer from CSV files''
              (tegra_discoverer ne l (csv_driver_mountSpecs ne l))) (\<lambda>d.
       Inr (discover_Merge [Some d, cudaCompatDiscoverer hasNvml nv l, Some (NewLDCacheUpdateHook d (nl_hookCreator l))]))"

definition csv_GetCommonEdits :: "nvcdi_env \<Rightarrow> bool \<Rightarrow> nvml_system \<Rightarrow> nvcdilib \<Rightarrow> ContainerEdits result" where
  "csv_GetCommonEdits ne hasNvml nv l =
     bindR (wrapR ''failed to create driver discoverer from CSV files'' (driverDiscoverer ne hasNvml nv l)) (edits_from ne l)"

subsection \<open>Modes (\<open>mode.go\<close>)\<close>

definition AllModes :: "string list" where
  "AllModes = [''auto'', ''csv'', ''gdrcopy'', ''gds'', ''imex'', ''management'', ''mofed'', ''nvml'', ''nvswitch'', ''wsl'']"

definition IsValidMode :: "string \<Rightarrow> bool" where
  "IsValidMode mode \<longleftrightarrow> mode \<in> set AllModes"

definition resolveMode :: "string \<Rightarrow> platform \<Rightarrow> string" where
  "resolveMode mode platform =
     (if mode \<noteq> ''auto'' then mode
      else case platform of
             PlatformNVML \<Rightarrow> ''nvml'' | PlatformTegra \<Rightarrow> ''csv'' | PlatformWSL \<Rightarrow> ''wsl'' | PlatformUnknown \<Rightarrow> ''nvml'')"

subsection \<open>Options (\<open>options.go\<close>)\<close>

text \<open>
  The libraries that are loaded unless they are given: NVML and the sandbox utilities from the path
  of a library file, and what the information library knows of the system.
\<close>

record nvcdi_libs =
  li_nvml :: "string option \<Rightarrow> nvml_system"
  li_sandboxutils :: "string option \<Rightarrow> sandboxutils"
  li_platform :: platform
  li_hasNvml :: bool
  li_isIntegratedName :: "string \<Rightarrow> bool"

record nvcdi_options =
  op_nvml :: "nvml_system option"
  op_sandboxutils :: "sandboxutils option"
  op_mode :: string
  op_deviceNamers :: "DeviceNamer list"
  op_driverRoot :: string
  op_devRoot :: string
  op_nvidiaCDIHookPath :: string
  op_ldconfigPath :: string
  op_configSearchPaths :: "string list"
  op_librarySearchPaths :: "string list"
  op_csv :: csvOptions
  op_vendor :: string
  op_class :: string
  op_mergedDeviceOptions :: "MergedDeviceOption list"
  op_featureFlags :: "string list"
  op_disabledHooks :: "string list"
  op_enabledHooks :: "string list"
  op_editsFactory :: "edits_factory option"

type_synonym nvcdi_option = "nvcdi_options \<Rightarrow> nvcdi_options"

definition nvcdi_WithDeviceNamers :: "DeviceNamer list \<Rightarrow> nvcdi_option" where
  "nvcdi_WithDeviceNamers ns opts = opts\<lparr>op_deviceNamers := ns\<rparr>"
definition nvcdi_WithDriverRoot :: "string \<Rightarrow> nvcdi_option" where
  "nvcdi_WithDriverRoot root opts = opts\<lparr>op_driverRoot := root\<rparr>"
definition nvcdi_WithDevRoot :: "string \<Rightarrow> nvcdi_option" where
  "nvcdi_WithDevRoot root opts = opts\<lparr>op_devRoot := root\<rparr>"
definition nvcdi_WithEditsFactory :: "edits_factory \<Rightarrow> nvcdi_option" where
  "nvcdi_WithEditsFactory f opts = opts\<lparr>op_editsFactory := Some f\<rparr>"
definition nvcdi_WithNVIDIACDIHookPath :: "string \<Rightarrow> nvcdi_option" where
  "nvcdi_WithNVIDIACDIHookPath path opts = opts\<lparr>op_nvidiaCDIHookPath := path\<rparr>"
definition nvcdi_WithNVIDIACTKPath :: "string \<Rightarrow> nvcdi_option" where
  "nvcdi_WithNVIDIACTKPath path = nvcdi_WithNVIDIACDIHookPath path"
definition nvcdi_WithLdconfigPath :: "string \<Rightarrow> nvcdi_option" where
  "nvcdi_WithLdconfigPath path opts = opts\<lparr>op_ldconfigPath := path\<rparr>"
definition nvcdi_WithNvmlLib :: "nvml_system \<Rightarrow> nvcdi_option" where
  "nvcdi_WithNvmlLib nv opts = opts\<lparr>op_nvml := Some nv\<rparr>"
definition nvcdi_WithMode :: "string \<Rightarrow> nvcdi_option" where
  "nvcdi_WithMode mode opts = opts\<lparr>op_mode := mode\<rparr>"
definition nvcdi_WithVendor :: "string \<Rightarrow> nvcdi_option" where
  "nvcdi_WithVendor vendor opts = opts\<lparr>op_vendor := vendor\<rparr>"
definition nvcdi_WithClass :: "string \<Rightarrow> nvcdi_option" where
  "nvcdi_WithClass class opts = opts\<lparr>op_class := class\<rparr>"
definition nvcdi_WithMergedDeviceOptions :: "MergedDeviceOption list \<Rightarrow> nvcdi_option" where
  "nvcdi_WithMergedDeviceOptions ms opts = opts\<lparr>op_mergedDeviceOptions := ms\<rparr>"
definition nvcdi_WithCSVFiles :: "string list \<Rightarrow> nvcdi_option" where
  "nvcdi_WithCSVFiles files opts = opts\<lparr>op_csv := (op_csv opts)\<lparr>csv_Files := files\<rparr>\<rparr>"
definition nvcdi_WithCSVIgnorePatterns :: "string list \<Rightarrow> nvcdi_option" where
  "nvcdi_WithCSVIgnorePatterns ps opts = opts\<lparr>op_csv := (op_csv opts)\<lparr>csv_IgnorePatterns := ps\<rparr>\<rparr>"
definition nvcdi_WithCSVCompatContainerRoot :: "string \<Rightarrow> nvcdi_option" where
  "nvcdi_WithCSVCompatContainerRoot root opts = opts\<lparr>op_csv := (op_csv opts)\<lparr>csv_CompatContainerRoot := root\<rparr>\<rparr>"
definition nvcdi_WithConfigSearchPaths :: "string list \<Rightarrow> nvcdi_option" where
  "nvcdi_WithConfigSearchPaths ps opts = opts\<lparr>op_configSearchPaths := ps\<rparr>"
definition nvcdi_WithLibrarySearchPaths :: "string list \<Rightarrow> nvcdi_option" where
  "nvcdi_WithLibrarySearchPaths ps opts = opts\<lparr>op_librarySearchPaths := ps\<rparr>"
definition nvcdi_WithDisabledHooks :: "string list \<Rightarrow> nvcdi_option" where
  "nvcdi_WithDisabledHooks hs opts = opts\<lparr>op_disabledHooks := op_disabledHooks opts @ hs\<rparr>"
definition nvcdi_WithEnabledHooks :: "string list \<Rightarrow> nvcdi_option" where
  "nvcdi_WithEnabledHooks hs opts = opts\<lparr>op_enabledHooks := op_enabledHooks opts @ hs\<rparr>"

text \<open>The first release of one feature flag had a typo that is still accepted.\<close>

definition nvcdi_WithFeatureFlags :: "string list \<Rightarrow> nvcdi_option" where
  "nvcdi_WithFeatureFlags fs opts =
     opts\<lparr>op_featureFlags := op_featureFlags opts @
       map (\<lambda>f. if f = ''disable-nvsandbox-utils'' then ''disable-nvsandboxutils'' else f) fs\<rparr>"

definition driverLibraryLocator :: "nvcdi_env \<Rightarrow> nvcdi_options \<Rightarrow> locator result" where
  "driverLibraryLocator ne opts =
     NewLibraryLocator (ne_fs ne) [WithRoot (op_driverRoot opts), WithSearchPaths (op_librarySearchPaths opts)]"

text \<open>The path of a library: a library that cannot be located is loaded from the default path.\<close>

definition library_path :: "nvcdi_env \<Rightarrow> nvcdi_options \<Rightarrow> string \<Rightarrow> string option result" where
  "library_path ne opts name =
     bindR (driverLibraryLocator ne opts) (\<lambda>locate.
       case locate name of
         Inl e \<Rightarrow> Inr None
       | Inr [] \<Rightarrow> Inl (Panic ''index out of range'')
       | Inr (p # _) \<Rightarrow> Inr (Some p))"

definition getNvmlLib :: "nvcdi_env \<Rightarrow> nvcdi_libs \<Rightarrow> nvcdi_options \<Rightarrow> nvml_system result" where
  "getNvmlLib ne li opts =
     (case op_nvml opts of
        Some nv \<Rightarrow> Inr nv
      | None \<Rightarrow> bindR (library_path ne opts ''libnvidia-ml.so.1'') (\<lambda>p. Inr (li_nvml li p)))"

definition getNvsandboxUtilsLib :: "nvcdi_env \<Rightarrow> nvcdi_libs \<Rightarrow> nvcdi_options \<Rightarrow> sandboxutils option result" where
  "getNvsandboxUtilsLib ne li opts =
     (if ''disable-nvsandboxutils'' \<in> set (op_featureFlags opts) then Inr None
      else case op_sandboxutils opts of
             Some sb \<Rightarrow> Inr (Some sb)
           | None \<Rightarrow>
               bindR (library_path ne opts ''libnvidia-sandboxutils.so.1'') (\<lambda>p.
                 let lib = li_sandboxutils li p in
                 if sb_Init lib (op_driverRoot opts) \<noteq> None then Inr None else Inr (Some lib)))"

definition default_options :: nvcdi_options where
  "default_options = \<lparr>op_nvml = None, op_sandboxutils = None, op_mode = ''auto'', op_deviceNamers = [],
     op_driverRoot = ''/'', op_devRoot = [], op_nvidiaCDIHookPath = ''/usr/bin/nvidia-cdi-hook'', op_ldconfigPath = [],
     op_configSearchPaths = [], op_librarySearchPaths = [],
     op_csv = \<lparr>csv_Files = [], csv_IgnorePatterns = [], csv_CompatContainerRoot = []\<rparr>,
     op_vendor = [], op_class = [], op_mergedDeviceOptions = [], op_featureFlags = [], op_disabledHooks = [],
     op_enabledHooks = [], op_editsFactory = None\<rparr>"

definition csv_defaults :: "csvOptions \<Rightarrow> csvOptions" where
  "csv_defaults c =
     c\<lparr>csv_Files := (if length (csv_Files c) = 0 then DefaultFileList else csv_Files c),
       csv_CompatContainerRoot := or_default (csv_CompatContainerRoot c) ''/usr/local/cuda/compat_orin''\<rparr>"

definition mode_defaults :: "nvcdi_option" where
  "mode_defaults opts =
     opts\<lparr>op_csv := (if op_mode opts = ''csv'' then csv_defaults (op_csv opts) else op_csv opts),
          op_disabledHooks := op_disabledHooks opts @
            (if op_mode opts = ''management'' then [EnableCudaCompatHook, DisableDeviceNodeModificationHook] else []),
          op_editsFactory := Some (case op_editsFactory opts of
              Some f \<Rightarrow> f
            | None \<Rightarrow> NewFactory [WithNoAdditionalGIDsForDeviceNodes
                        (''no-additional-gids-for-device-nodes'' \<in> set (op_featureFlags opts))])\<rparr>"

definition populateOptions :: "nvcdi_env \<Rightarrow> nvcdi_libs \<Rightarrow> nvcdi_option list \<Rightarrow> nvcdi_options result" where
  "populateOptions ne li os =
     (let opts = foldl (\<lambda>a f. f a) default_options os;
          opts = (if length (op_deviceNamers opts) = 0 then opts\<lparr>op_deviceNamers := [deviceNameIndex [] []]\<rparr> else opts);
          opts = (if op_devRoot opts = [] then opts\<lparr>op_devRoot := op_driverRoot opts\<rparr> else opts)
      in bindR (case op_sandboxutils opts of
                  Some sb \<Rightarrow> Inr (Some sb) | None \<Rightarrow> getNvsandboxUtilsLib ne li opts) (\<lambda>sb.
         bindR (getNvmlLib ne li opts) (\<lambda>nv.
           let opts = opts\<lparr>op_sandboxutils := sb, op_nvml := Some nv, op_mode := resolveMode (op_mode opts) (li_platform li)\<rparr>
           in Inr (mode_defaults opts))))"

definition getVendorOrDefault :: "nvcdi_options \<Rightarrow> string" where
  "getVendorOrDefault opts =
     (if op_vendor opts \<noteq> [] then op_vendor opts
      else if op_mode opts = ''management'' then ''management.nvidia.com'' else ''nvidia.com'')"

definition getClassOrDefault :: "nvcdi_options \<Rightarrow> string" where
  "getClassOrDefault opts =
     (if op_class opts \<noteq> [] then op_class opts
      else if op_mode opts = ''imex'' then ''imex-channel''
      else if op_mode opts \<in> set [''gdrcopy'', ''gds'', ''mofed'', ''nvswitch''] then op_mode opts
      else ''gpu'')"

subsection \<open>The interface (\<open>lib.go\<close>, \<open>wrapper.go\<close>)\<close>

definition getDriverOptions :: "nvcdi_options \<Rightarrow> (driver_options \<Rightarrow> driver_options) list" where
  "getDriverOptions opts =
     [WithDriverRoot (op_driverRoot opts), WithDevRoot (op_devRoot opts),
      WithLibrarySearchPaths (op_librarySearchPaths opts), WithConfigSearchPaths (op_configSearchPaths opts),
      WithVersioner (Some (firstVersion_Version []
        [Some (nvsandboxutilslib_Version (op_sandboxutils opts)),
         Some (nvmllib_Version (map_option ns_nvml (op_nvml opts)))]))]"

definition nvcdilib_of :: "nvcdi_options \<Rightarrow> nvcdilib" where
  "nvcdilib_of opts =
     \<lparr>nl_sandboxutils = op_sandboxutils opts, nl_deviceNamers = op_deviceNamers opts,
      nl_librarySearchPaths = op_librarySearchPaths opts, nl_csv = op_csv opts,
      nl_driver = Driver_New (getDriverOptions opts), nl_featureFlags = op_featureFlags opts,
      nl_hookCreator = NewHookCreator
        [WithNVIDIACDIHookPath (op_nvidiaCDIHookPath opts), WithEnabledHooks (op_enabledHooks opts),
         WithLdconfigPath (op_ldconfigPath opts), WithDisabledHooks (op_disabledHooks opts)],
      nl_editsFactory = (case op_editsFactory opts of None \<Rightarrow> EmptyFactory | Some f \<Rightarrow> f)\<rparr>"

record nvcdi_wrapper =
  w_DeviceSpecGenerators :: "string list \<Rightarrow> DeviceSpecGenerator result"
  w_GetCommonEdits :: "ContainerEdits result"
  w_vendor :: string
  w_class :: string
  w_mergedDeviceOptions :: "MergedDeviceOption list"

definition mode_factory ::
  "nvcdi_env \<Rightarrow> nvcdi_libs \<Rightarrow> nvml_system \<Rightarrow> nvcdilib \<Rightarrow> string \<Rightarrow>
   ((string list \<Rightarrow> DeviceSpecGenerator result) \<times> ContainerEdits result) result" where
  "mode_factory ne li nv l mode =
     (if mode = ''csv''
      then Inr (csv_DeviceSpecGenerators ne (li_hasNvml li) (li_isIntegratedName li) nv l,
                csv_GetCommonEdits ne (li_hasNvml li) nv l)
      else if mode = ''management'' then Inr (\<lambda>_. Inr (management_GetDeviceSpecs ne l), management_GetCommonEdits ne l)
      else if mode = ''nvml'' then Inr (nvml_DeviceSpecGenerators ne nv l, nvml_GetCommonEdits ne l)
      else if mode = ''wsl'' then Inr (\<lambda>_. Inr (wsl_GetDeviceSpecs ne l), wsl_GetCommonEdits ne l)
      else if mode \<in> set [''gdrcopy'', ''gds'', ''mofed'', ''nvswitch'']
      then Inr (\<lambda>_. Inr (gated_GetDeviceSpecs ne l mode), gated_GetCommonEdits ne l)
      else if mode = ''imex'' then Inr (imex_DeviceSpecGenerators ne l, imex_GetCommonEdits ne l)
      else Inl (Errorf (''unknown mode '' @ mode)))"

definition nvcdi_New :: "nvcdi_env \<Rightarrow> nvcdi_libs \<Rightarrow> nvcdi_option list \<Rightarrow> nvcdi_wrapper result" where
  "nvcdi_New ne li os =
     bindR (populateOptions ne li os) (\<lambda>opts.
     bindR (case op_nvml opts of None \<Rightarrow> Inl nil_deref | Some nv \<Rightarrow> Inr nv) (\<lambda>nv.
     bindR (mode_factory ne li nv (nvcdilib_of opts) (op_mode opts)) (\<lambda>(generators, common).
       Inr \<lparr>w_DeviceSpecGenerators = generators, w_GetCommonEdits = common,
            w_vendor = getVendorOrDefault opts, w_class = getClassOrDefault opts,
            w_mergedDeviceOptions = op_mergedDeviceOptions opts\<rparr>)))"

definition GetDeviceSpecsByID :: "nvcdi_wrapper \<Rightarrow> string list \<Rightarrow> Device list result" where
  "GetDeviceSpecsByID w devices =
     bindR (wrapR ''failed to construct device spec generators'' (w_DeviceSpecGenerators w devices)) (\<lambda>g. g)"

definition GetAllDeviceSpecs :: "nvcdi_wrapper \<Rightarrow> Device list result" where
  "GetAllDeviceSpecs w = GetDeviceSpecsByID w [''all'']"

definition GetCommonEdits :: "nvcdi_wrapper \<Rightarrow> ContainerEdits result" where
  "GetCommonEdits w =
     bindR (w_GetCommonEdits w) (\<lambda>e. Inr (e\<lparr>Env := Env e @ [EnvVarNvidiaVisibleDevices @ ''=void'']\<rparr>))"

definition GetSpec :: "cdi_library \<Rightarrow> nvcdi_wrapper \<Rightarrow> string list \<Rightarrow> spec result" where
  "GetSpec lib w devices =
     (let devices = (if length devices = 0 then [''all''] else devices) in
      bindR (GetDeviceSpecsByID w devices) (\<lambda>deviceSpecs.
      bindR (GetCommonEdits w) (\<lambda>e.
        spec_New lib [WithDeviceSpecs deviceSpecs, WithEdits e, WithVendor (w_vendor w), WithClass (w_class w),
                      WithMergedDeviceOptions (w_mergedDeviceOptions w)])))"

end
