(* ===== verification/Nvcdi_Correct.thy ===== *)
theory Nvcdi_Correct
  imports Nvcdi_Lib
begin

section \<open>Properties of generated specifications\<close>

text \<open>
  What the CDI library promises of the specifications that it generates: which devices they hold,
  what a container gets of each of them, and which device nodes the modes give away.
\<close>

subsection \<open>From devices and common edits to a specification\<close>

text \<open>The specification that \<open>GetSpec\<close> hands to the simplifier.\<close>

definition raw_spec :: "cdi_library \<Rightarrow> nvcdi_wrapper \<Rightarrow> Device list \<Rightarrow> ContainerEdits \<Rightarrow> CDISpec" where
  "raw_spec lib w ds e =
     \<lparr>cdi_Version = cl_CurrentVersion lib, cdi_Kind = w_vendor w @ ''/'' @ w_class w, cdi_Annotations = [],
      cdi_Devices = ds, cdi_Edits = e\<lparr>Env := Env e @ [''NVIDIA_VISIBLE_DEVICES=void'']\<rparr>\<rparr>"

lemma spec_options_builder:
  assumes "w_vendor w \<noteq> []" "w_class w \<noteq> []" "w_mergedDeviceOptions w = []"
  shows "spec_New lib [WithDeviceSpecs ds, WithEdits e, WithVendor (w_vendor w), WithClass (w_class w),
      WithMergedDeviceOptions (w_mergedDeviceOptions w)] =
    bindR (wrapR ''failed to simplify spec'' (NewSimplifier
      \<lparr>cdi_Version = cl_CurrentVersion lib, cdi_Kind = w_vendor w @ ''/'' @ w_class w, cdi_Annotations = [],
       cdi_Devices = ds, cdi_Edits = e\<rparr>)) (\<lambda>raw.
      Inr \<lparr>sp_Spec = raw, sp_format = ''yaml'', sp_permissions = 420, sp_minimumVersionOnSave = True\<rparr>)"
  using assms
  by (simp add: spec_New_def newBuilder_def Build_def from_raw_def empty_builder_def or_default_def
      WithDeviceSpecs_def WithEdits_def WithVendor_def WithClass_def WithMergedDeviceOptions_def FormatYAML_def Let_def)

lemma GetSpec_simplified:
  assumes "w_vendor w \<noteq> []" "w_class w \<noteq> []" "w_mergedDeviceOptions w = []"
    and "GetDeviceSpecsByID w (if ids = [] then [''all''] else ids) = Inr ds" and "w_GetCommonEdits w = Inr e"
  obtains spec' where "NewSimplifier (raw_spec lib w ds e) = Inr spec'"
    "GetSpec lib w ids = Inr \<lparr>sp_Spec = spec', sp_format = ''yaml'', sp_permissions = 420, sp_minimumVersionOnSave = True\<rparr>"
proof -
  obtain spec' where s: "NewSimplifier (raw_spec lib w ds e) = Inr spec'"
    using simplifier_total [of "raw_spec lib w ds e"] by auto
  moreover have "GetSpec lib w ids =
      Inr \<lparr>sp_Spec = spec', sp_format = ''yaml'', sp_permissions = 420, sp_minimumVersionOnSave = True\<rparr>"
    using assms(4,5) s
    by (cases ids) (simp_all add: GetSpec_def GetCommonEdits_def EnvVarNvidiaVisibleDevices_def raw_spec_def
        spec_options_builder [OF assms(1-3)])
  ultimately show thesis by (rule that)
qed

lemma options_nonempty: "getVendorOrDefault opts \<noteq> []" "getClassOrDefault opts \<noteq> []"
  by (auto simp: getVendorOrDefault_def getClassOrDefault_def)

lemma nvcdi_New_wrapper:
  assumes "nvcdi_New ne li os = Inr w"
  shows "w_vendor w \<noteq> []" "w_class w \<noteq> []"
  using assms by (auto simp: nvcdi_New_def bindR_eq_Inr options_nonempty split: option.splits)

text \<open>
  (C32) A generated specification gives a container what was discovered.  If a library made with some
  options generates devices and common edits whose entities are told apart by their serialised form,
  and no merged device is asked for, then \<open>GetSpec\<close> returns a specification with exactly the names
  of the generated devices, and using any of them gives the entities discovered for this device, the
  common ones, and the variable that keeps the runtime hook from acting again.
\<close>

theorem generated_spec_effect:
  assumes "nvcdi_New ne li os = Inr w" and "w_mergedDeviceOptions w = []"
    and "GetDeviceSpecsByID w (if ids = [] then [''all''] else ids) = Inr ds" and "w_GetCommonEdits w = Inr e"
    and "spec_valid (raw_spec lib w ds e)"
  shows "\<exists>s. GetSpec lib w ids = Inr s \<and>
    mset (map dev_Name (cdi_Devices (sp_Spec s))) = mset (map dev_Name ds) \<and>
    (\<forall>x \<in> set ds. \<exists>d \<in> set (cdi_Devices (sp_Spec s)). dev_Name d = dev_Name x \<and>
       entities (cdi_Edits (sp_Spec s)) \<union> entities (dev_Edits d) =
         insert (EnvE ''NVIDIA_VISIBLE_DEVICES=void'') (entities e \<union> entities (dev_Edits x)))"
proof -
  obtain spec' where s: "NewSimplifier (raw_spec lib w ds e) = Inr spec'"
    and g: "GetSpec lib w ids = Inr \<lparr>sp_Spec = spec', sp_format = ''yaml'', sp_permissions = 420, sp_minimumVersionOnSave = True\<rparr>"
    by (rule GetSpec_simplified [OF nvcdi_New_wrapper [OF assms(1)] assms(2,3,4)])
  have "entities (cdi_Edits (raw_spec lib w ds e)) = insert (EnvE ''NVIDIA_VISIBLE_DEVICES=void'') (entities e)"
    by (auto simp: raw_spec_def entities_def)
  with simplified_devices [OF assms(5) s] g show ?thesis
    by (simp add: raw_spec_def)
qed

text \<open>A system with one GPU, and a library that generates IMEX channels for it.\<close>

definition example_handle :: nvml_handle where
  "example_handle = GPU_handle (example_gpu\<lparr>gd_UUID := Inr ''GPU-00000000-0000-0000-0000-000000000000'', gd_IsMigEnabled := Inr False\<rparr>)"

definition example_vd :: nvml_devices where
  "example_vd =
     \<lparr>vd_HandleByIndex = (\<lambda>i. if i = 0 then Inr example_handle else Inl (Errorf ''not found'')),
      vd_HandleByUUID = (\<lambda>u. if u = ''GPU-00000000-0000-0000-0000-000000000000'' then Inr example_handle else Inl (Errorf ''not found'')),
      vd_MigHandleByIndex = (\<lambda>h i. Inl (Errorf ''not found'')), vd_IsMigError = (\<lambda>h. None), vd_Devices = Inr [], vd_MigDevices = Inr [],
      vd_DeviceByUUID = (\<lambda>u. Inl (Errorf ''not found'')), vd_MigDeviceByUUID = (\<lambda>u. Inl (Errorf ''not found'')),
      vd_PciInfo = (\<lambda>h. Pci 0 1 0), vd_Name = (\<lambda>h. Inr ''GPU''), vd_Names = Inr [''GPU'']\<rparr>"

definition example_nv :: nvml_system where
  "example_nv = \<lparr>ns_nvml = \<lparr>nv_Init = None, nv_SystemGetDriverVersion = Inr ''999.88.77'',
     nv_SystemGetCudaDriverVersion = Inr 12080, nv_DeviceGetCount = Inr 1\<rparr>, ns_devices = example_vd\<rparr>"

definition example_ne :: nvcdi_env where
  "example_ne = \<lparr>ne_fs = example_fs, ne_symlinks = \<lparr>se_getSoname = (\<lambda>_. Inr []), se_linkExists = (\<lambda>_. Inr False)\<rparr>,
     ne_host = \<lparr>host_glob = \<lambda>_. Inr [], host_read = \<lambda>_. Inr [], host_readlink = \<lambda>_. Inr []\<rparr>,
     ne_open = (\<lambda>_. Open_NotExist), ne_deviceFromPath = example_devices, ne_xdgDataDirs = None, ne_goarch = ''amd64'',
     ne_uname = Inr ''6.8.0'', ne_dxcore_Init = None, ne_DriverStorePaths = []\<rparr>"

definition example_li :: nvcdi_libs where
  "example_li = \<lparr>li_nvml = (\<lambda>_. example_nv),
     li_sandboxutils = (\<lambda>_. \<lparr>sb_Init = (\<lambda>_. Some (Errorf ''not found'')), sb_GetDriverVersion = Inr [],
       sb_GetGpuResource = (\<lambda>_. Inr []), sb_GetFileContent = (\<lambda>_. Inr [])\<rparr>),
     li_platform = PlatformNVML, li_hasNvml = True, li_isIntegratedName = (\<lambda>_. False)\<rparr>"

definition example_imex :: "nvcdi_option list" where
  "example_imex = [nvcdi_WithMode ''imex'', nvcdi_WithNvmlLib example_nv, nvcdi_WithFeatureFlags [''disable-nvsandboxutils'']]"

definition example_channel :: "string \<Rightarrow> Device" where
  "example_channel i = \<lparr>dev_Name = i, dev_Annotations = [], dev_Edits = empty_edits\<lparr>DeviceNodes :=
     [Some \<lparr>dn_Path = ''/dev/nvidia-caps-imex-channels/channel'' @ i, dn_HostPath = ''/dev/nvidia-caps-imex-channels/channel'' @ i,
            dn_Type = [], dn_Major = 0, dn_Minor = 0, dn_FileMode = None, dn_Permissions = [], dn_UID = None, dn_GID = None\<rparr>]\<rparr>\<rparr>"

definition example_imex_options :: nvcdi_options where
  "example_imex_options = default_options\<lparr>op_mode := ''imex'', op_nvml := Some example_nv, op_devRoot := ''/'',
     op_featureFlags := [''disable-nvsandboxutils''], op_deviceNamers := [deviceNameIndex [] []],
     op_editsFactory := Some (Factory False)\<rparr>"

lemma example_imex_populate: "populateOptions example_ne example_li example_imex = Inr example_imex_options"
  by (simp add: populateOptions_def example_imex_def nvcdi_WithMode_def nvcdi_WithNvmlLib_def
      nvcdi_WithFeatureFlags_def default_options_def getNvsandboxUtilsLib_def getNvmlLib_def resolveMode_def
      mode_defaults_def NewFactory_def WithNoAdditionalGIDsForDeviceNodes_def example_imex_options_def)

lemma example_channel_ids: "getChannelIDs r [] [''channel7'', ''3''] = Inr [''7'', ''3'']"
proof -
  have "TrimPrefix ''channel7'' ''channel'' = ''7''" "TrimPrefix ''3'' ''channel'' = ''3''"
    by code_simp+
  moreover have "ParseUint ''7'' 64 = Inr 7" "ParseUint ''3'' 64 = Inr 3"
    by (simp_all add: ParseUint_def digits_val_def digit_val_def is_digit_def less_eq_char_def)
  ultimately show ?thesis by simp
qed

lemma example_imex_library:
  obtains w where "nvcdi_New example_ne example_li example_imex = Inr w"
    "w_mergedDeviceOptions w = []" "w_vendor w = ''nvidia.com''" "w_class w = ''imex-channel''"
    "GetDeviceSpecsByID w [''channel7'', ''3''] = Inr [example_channel ''7'', example_channel ''3'']" "w_GetCommonEdits w = Inr empty_edits"
proof -
  let ?l = "nvcdilib_of example_imex_options"
  have "nl_editsFactory ?l = Factory False" "drv_DevRoot (nl_driver ?l) = ''/''"
    by (simp_all add: nvcdilib_of_def example_imex_options_def Driver_New_def getDriverOptions_def Let_def WithDriverRoot_def
        WithDevRoot_def WithLibrarySearchPaths_def WithConfigSearchPaths_def WithVersioner_def default_options_def)
  moreover have "imexChannel_GetDeviceSpecs ''/'' ''7'' = Inr [example_channel ''7'']"
    "imexChannel_GetDeviceSpecs ''/'' ''3'' = Inr [example_channel ''3'']" by code_simp+
  ultimately have "imex_DeviceSpecGenerators example_ne ?l [''channel7'', ''3''] = Inr (Inr [example_channel ''7'', example_channel ''3''])"
    "imex_GetCommonEdits example_ne ?l = Inr empty_edits"
    by (simp_all add: imex_DeviceSpecGenerators_def example_channel_ids imex_GetCommonEdits_def edits_from_def
        FromDiscoverer_def dsc_None_def factory_New_def del: getChannelIDs.simps)
  moreover have new: "nvcdi_New example_ne example_li example_imex =
      Inr \<lparr>w_DeviceSpecGenerators = imex_DeviceSpecGenerators example_ne ?l, w_GetCommonEdits = imex_GetCommonEdits example_ne ?l,
           w_vendor = ''nvidia.com'', w_class = ''imex-channel'', w_mergedDeviceOptions = []\<rparr>"
    by (simp add: nvcdi_New_def example_imex_populate mode_factory_def example_imex_options_def default_options_def
        getVendorOrDefault_def getClassOrDefault_def)
  ultimately show thesis by (intro that [OF new]) (simp_all add: GetDeviceSpecsByID_def)
qed

theorem generated_spec_effect_witness:
  "\<exists>w s. nvcdi_New example_ne example_li example_imex = Inr w \<and> GetSpec \<lparr>cl_CurrentVersion = ''1.0.0'', cl_MinimumRequiredVersion = (\<lambda>_. Inr ''0.5.0'')\<rparr> w [''channel7'', ''3''] = Inr s \<and>
     mset (map dev_Name (cdi_Devices (sp_Spec s))) = {#''7'', ''3''#}"
proof (rule example_imex_library)
  fix w
  assume w: "nvcdi_New example_ne example_li example_imex = Inr w"
    "w_mergedDeviceOptions w = []" "w_vendor w = ''nvidia.com''" "w_class w = ''imex-channel''"
    "GetDeviceSpecsByID w [''channel7'', ''3''] = Inr [example_channel ''7'', example_channel ''3'']" "w_GetCommonEdits w = Inr empty_edits"
  let ?lib = "\<lparr>cl_CurrentVersion = ''1.0.0'', cl_MinimumRequiredVersion = (\<lambda>_. Inr ''0.5.0'')\<rparr>"
  have "edits_valid (dev_Edits (example_channel ''7''))" "edits_valid (dev_Edits (example_channel ''3''))"
    "edits_valid (empty_edits\<lparr>Env := [''NVIDIA_VISIBLE_DEVICES=void'']\<rparr>)" by code_simp+
  then have "spec_valid (raw_spec ?lib w [example_channel ''7'', example_channel ''3''] empty_edits)"
    by (simp add: spec_valid_def raw_spec_def empty_edits_def)
  from generated_spec_effect [OF w(1,2) _ w(6) this, of "[''channel7'', ''3'']"] w(1,5)
  show ?thesis by (auto simp: example_channel_def)
qed

subsection \<open>Device nodes of Tegra systems\<close>

text \<open>The paths that the CSV files list as device nodes, in their order.\<close>

definition csv_device_nodes :: "nvcdi_env \<Rightarrow> nvcdilib \<Rightarrow> string list" where
  "csv_device_nodes ne l =
     map ms_Path (filter (\<lambda>s. ms_Type s = MountSpecDev) (csv_targets (fs_read (ne_fs ne)) (csv_Files (nl_csv l))))"

lemma csv_targets_types:
  "s \<in> set (csv_targets read files) \<Longrightarrow> ms_Type s \<in> {MountSpecDev, MountSpecDir, MountSpecLib, MountSpecSym}"
  by (auto simp: csv_targets_def parseFromReader_def MountSpecDev_def MountSpecDir_def MountSpecLib_def MountSpecSym_def
      MountSpec_valid_def split: sum.splits dest!: sym [THEN NewMountSpecFromLine_valid])

lemma only_device_nodes:
  "keys_ok (OnlyDeviceNodes (MountSpecsFromCSVFiles (fs_read (ne_fs ne)) (csv_Files (nl_csv l))))"
  "paths_of (OnlyDeviceNodes (MountSpecsFromCSVFiles (fs_read (ne_fs ne)) (csv_Files (nl_csv l)))) t =
     (if t = MountSpecDev then csv_device_nodes ne l else [])"
proof -
  let ?m = "MountSpecsFromCSVFiles (fs_read (ne_fs ne)) (csv_Files (nl_csv l))"
  have ok: "keys_ok ?m" by (rule MountSpecsFromCSVFiles_paths(1))
  then show "keys_ok (OnlyDeviceNodes ?m)" by (rule device_nodes.keys)
  have "MountSpecDev \<notin> {MountSpecDir, MountSpecLib, MountSpecSym}"
    by (simp add: MountSpecDev_def MountSpecDir_def MountSpecLib_def MountSpecSym_def)
  then show "paths_of (OnlyDeviceNodes ?m) t = (if t = MountSpecDev then csv_device_nodes ne l else [])"
    using csv_targets_types [of _ "fs_read (ne_fs ne)" "csv_Files (nl_csv l)"]
    by (auto simp: device_nodes.paths [OF ok] MountSpecsFromCSVFiles_paths(2) csv_device_nodes_def filter_empty_conv)
qed

lemma merge_two_typers: "keys_ok m \<Longrightarrow> keys_ok n \<Longrightarrow> paths_of (tegra_Merge [Some m, Some n]) t = paths_of m t @ paths_of n t"
  using merge_typers_paths(2) [of "[Some m, Some n]" t] by (auto simp: tegra_Merge_eq)

lemma control_patterns:
  "pathPatterns_MatchString [''/dev/nvidia-modeset'', ''/dev/nvidia-uvm-tools'', ''/dev/nvidia-uvm'', ''/dev/nvidiactl''] p \<longleftrightarrow>
     p \<in> set controlDeviceNodes"
  "pathPatterns_MatchString [''/dev/nvidia1''] p \<longleftrightarrow> p = ''/dev/nvidia1''"
  by (auto simp: pathPatterns_MatchString_def pathPattern_MatchString_def controlDeviceNodes_def filepath_Match_literal
      literal_def)

text \<open>
  (C33) Which device nodes a device of a Tegra system is given.  The generators look for device nodes
  of the CSV files only, never for libraries, directories or links.  A discrete GPU is not given the
  regular nodes and the control nodes of the files, which its own discoverer finds; an integrated GPU
  is given all of them but \<open>/dev/nvidia1\<close>, and \<open>/dev/nvidia2\<close>; the device of a system with a single
  GPU is given all of them.
\<close>

theorem csv_nodes_by_mode:
  "paths_of (deviceNodeMountSpecs ne l mode) t =
     (if t \<noteq> MountSpecDev then []
      else case mode of
             Default_mode \<Rightarrow> csv_device_nodes ne l
           | iGPUGeneratorMode \<Rightarrow> filter (\<lambda>p. p \<noteq> ''/dev/nvidia1'') (csv_device_nodes ne l) @ [''/dev/nvidia2'']
           | dGPUGeneratorMode \<Rightarrow>
               filter (\<lambda>p. \<not> regular_device_node p \<and> p \<notin> set controlDeviceNodes) (csv_device_nodes ne l))"
proof (cases mode)
  case Default_mode
  then show ?thesis by (simp add: deviceNodeMountSpecs_def only_device_nodes)
next
  case iGPUGeneratorMode
  have "paths_of (DeviceNodes_spec [''/dev/nvidia2'']) t = (if t = MountSpecDev then [''/dev/nvidia2''] else [])"
    by (simp add: DeviceNodes_spec_def paths_of_Cons)
  moreover have "keys_ok (DeviceNodes_spec [''/dev/nvidia2''])" by (simp add: DeviceNodes_spec_def)
  ultimately show ?thesis
    using iGPUGeneratorMode
    by (simp add: deviceNodeMountSpecs_def merge_two_typers without_nodes.keys control_patterns
        without_nodes.paths only_device_nodes)
next
  case dGPUGeneratorMode
  then show ?thesis
    by (simp add: deviceNodeMountSpecs_def without_nodes.paths no_regular_nodes.keys no_regular_nodes.paths
        only_device_nodes control_patterns conj_commute)
qed

subsection \<open>IMEX channels\<close>

definition channel_number :: "string \<Rightarrow> bool" where
  "channel_number i \<longleftrightarrow> i \<noteq> [] \<and> list_all is_digit i \<and> digits_val i < 2 ^ 64"

definition channel_device :: "string \<Rightarrow> string \<Rightarrow> Device" where
  "channel_device devRoot i = \<lparr>dev_Name = i, dev_Annotations = [], dev_Edits = empty_edits\<lparr>DeviceNodes :=
     [Some \<lparr>dn_Path = ''/dev/nvidia-caps-imex-channels/channel'' @ i,
            dn_HostPath = FJoin [devRoot, ''/dev/nvidia-caps-imex-channels/channel'' @ i],
            dn_Type = [], dn_Major = 0, dn_Minor = 0, dn_FileMode = None, dn_Permissions = [], dn_UID = None, dn_GID = None\<rparr>]\<rparr>\<rparr>"

lemma ParseUint_64: "ParseUint i 64 = (if channel_number i then Inr (digits_val i) else Inl (Errorf (
    (if i = [] \<or> \<not> list_all is_digit i then ''invalid syntax: '' else ''value out of range: '') @ i)))"
  by (auto simp: ParseUint_def channel_number_def)

lemma getChannelIDs_eq:
  "if \<not> list_all channel_number (takeWhile (\<lambda>i. i \<noteq> ''all'') (map (\<lambda>i. TrimPrefix i ''channel'') ids))
   then isl (getChannelIDs everything cs ids)
   else getChannelIDs everything cs ids =
     (if ''all'' \<in> set (map (\<lambda>i. TrimPrefix i ''channel'') ids) then everything
      else Inr (cs @ map (\<lambda>i. TrimPrefix i ''channel'') ids))"
  by (induction ids arbitrary: cs) (auto simp: ParseUint_64 Let_def split: if_splits)

lemma channel_specs:
  "GetDeviceSpecs (map (\<lambda>i. Some (imexChannel_GetDeviceSpecs devRoot i)) cs) = Inr (map (channel_device devRoot) cs)"
  by (induction cs) (auto simp: imexChannel_GetDeviceSpecs_def named_devices_def channel_device_def Let_def)

text \<open>
  The devices of IMEX channels.  Channels are requested by number, with or without the prefix
  \<open>channel\<close>: each number gives one device of that name with the node of this channel and nothing else,
  in the order of the request.  Anything else is an error, so that a request cannot name a node
  outside of the directory of channels; \<open>all\<close> gives the channels that are found and ends the check.
\<close>

lemma imex_devices:
  "let requested = map (\<lambda>i. TrimPrefix i ''channel'') ids; devRoot = drv_DevRoot (nl_driver l) in
   if \<not> list_all channel_number (takeWhile (\<lambda>i. i \<noteq> ''all'') requested) then isl (imex_DeviceSpecGenerators ne l ids)
   else imex_DeviceSpecGenerators ne l ids =
     (if ''all'' \<in> set requested
      then bindR (getAllChannelIDs ne l) (\<lambda>found. Inr (Inr (map (channel_device devRoot) found)))
      else Inr (Inr (map (channel_device devRoot) requested)))"
  using getChannelIDs_eq [of ids "getAllChannelIDs ne l" "[]"]
  by (auto simp: imex_DeviceSpecGenerators_def Let_def channel_specs isl_def split: if_splits)

subsection \<open>Modes\<close>

lemma populated_mode:
  "populateOptions ne li os = Inr opts \<Longrightarrow>
   op_mode opts = resolveMode (op_mode (foldl (\<lambda>a f. f a) default_options os)) (li_platform li) \<and> op_nvml opts \<noteq> None"
  by (auto simp: populateOptions_def bindR_eq_Inr mode_defaults_def Let_def split: if_splits)

lemma mode_factory_valid: "isl (mode_factory ne li nv l mode) \<longleftrightarrow> mode = ''auto'' \<or> \<not> IsValidMode mode"
  by (simp add: mode_factory_def IsValidMode_def AllModes_def)

lemma resolveMode_valid: "resolveMode mode p \<noteq> ''auto'' \<and> (IsValidMode (resolveMode mode p) \<longleftrightarrow> IsValidMode mode)"
  by (auto simp: resolveMode_def IsValidMode_def AllModes_def split: platform.splits)

text \<open>
  A library is made for every valid mode and for no other: unless a library file cannot be
  searched for, making it fails exactly if the mode that the options set is not one of the listed
  modes; the mode \<open>auto\<close> is resolved to one that has a generator, whatever the platform.
\<close>

lemma library_for_valid_modes:
  "isl (nvcdi_New ne li os) \<longleftrightarrow>
     isl (populateOptions ne li os) \<or> \<not> IsValidMode (op_mode (foldl (\<lambda>a f. f a) default_options os))"
proof (cases "populateOptions ne li os")
  case (Inr opts)
  from populated_mode [OF Inr] obtain nv where "op_nvml opts = Some nv"
    "op_mode opts = resolveMode (op_mode (foldl (\<lambda>a f. f a) default_options os)) (li_platform li)" by auto
  with Inr mode_factory_valid [of ne li nv "nvcdilib_of opts" "op_mode opts"]
    resolveMode_valid [of "op_mode (foldl (\<lambda>a f. f a) default_options os)" "li_platform li"]
  show ?thesis
    by (cases "mode_factory ne li nv (nvcdilib_of opts) (op_mode opts)") (auto simp: nvcdi_New_def)
qed (simp add: nvcdi_New_def)

subsection \<open>Names of devices\<close>

fun generator_name :: "string \<Rightarrow> string \<Rightarrow> nvml_generator \<Rightarrow> string" where
  "generator_name gp mp (Full_generator g) = gp @ int_decimal (fg_index g)"
| "generator_name gp mp (Mig_generator g) =
     mp @ int_decimal (fg_index (mi_parent g)) @ '':'' @ int_decimal (mi_index g)"

lemma nvml_generator_names:
  assumes "nl_deviceNamers l = [deviceNameIndex gp mp]" and "nvml_generator_specs ne vd l g = Inr ds"
  shows "map dev_Name ds = [generator_name gp mp g]"
  using assms
  by (cases g) (auto simp: fullGPU_GetDeviceSpecs_def mig_GetDeviceSpecs_def bindR_eq_Inr GetDeviceNames_def
      GetMigDeviceNames_def named_devices_def Let_def comp_def split: if_splits)

lemma all_generator_names:
  assumes "nl_deviceNamers l = [deviceNameIndex gp mp]"
    and "GetDeviceSpecs (map (\<lambda>g. Some (nvml_generator_specs ne vd l g)) gs) = Inr ds"
  shows "map dev_Name ds = map (generator_name gp mp) gs"
  using assms(2)
  by (induction gs arbitrary: ds) (auto simp: bindR_eq_Inr nvml_generator_names [OF assms(1)])

lemma full_generator_names:
  "mapR (full_generator_of l) ds = Inr gss \<Longrightarrow>
   subseq (map (generator_name gp mp) (concat gss)) (map (\<lambda>x. gp @ int_decimal (fst x)) ds)"
proof (induction ds arbitrary: gss)
  case (Cons x ds)
  then obtain gs gss' where g: "full_generator_of l x = Inr gs" "mapR (full_generator_of l) ds = Inr gss'" "gss = gs # gss'"
    by (auto simp: bindR_eq_Inr)
  moreover have "gs = [] \<or> (\<exists>g. gs = [Full_generator g] \<and> fg_index g = fst x)"
    using g(1) by (auto simp: full_generator_of_def newFullGPUDeviceSpecGeneratorFromDevice_def bindR_eq_Inr split: if_splits)
  ultimately show ?case using Cons.IH [OF g(2)] by auto
qed simp

lemma mig_generator_names:
  "mapR mig_generator_of ms = Inr gs \<Longrightarrow>
   map (generator_name gp mp) gs = map (\<lambda>(i, d, j, m). mp @ int_decimal i @ '':'' @ int_decimal j) ms"
  by (induction ms arbitrary: gs)
    (auto simp: bindR_eq_Inr mig_generator_of_def newMIGDeviceSpecGeneratorFromDevice_def
      newFullGPUDeviceSpecGeneratorFromDevice_def)

lemma no_colon: "CHR '':'' \<notin> set (int_decimal i)"
  using set_int_decimal [of "CHR '':''" i] by (auto simp: is_digit_def less_eq_char_def)

lemma index_name_inj: "int_decimal i @ '':'' @ int_decimal j = int_decimal i' @ '':'' @ int_decimal j' \<longleftrightarrow> i = i' \<and> j = j'"
proof
  assume eq: "int_decimal i @ '':'' @ int_decimal j = int_decimal i' @ '':'' @ int_decimal j'"
  let ?head = "takeWhile (\<lambda>c. c \<noteq> CHR '':'')"
  have head: "?head (int_decimal k @ CHR '':'' # t) = int_decimal k" for k t
    using no_colon [of k] by (subst takeWhile_append2) auto
  from eq have "int_decimal i = int_decimal i'" using head [of i "int_decimal j"] head [of i' "int_decimal j'"] by simp
  with eq show "i = i' \<and> j = j'" by (simp add: int_decimal_inj)
qed simp

text \<open>
  (C34) The devices of a specification for all GPUs have different names.  If NVML numbers the GPUs,
  and the MIG devices of each GPU, without repetition, the strategies \<open>index\<close> and \<open>type-index\<close> name
  every device that is generated differently; in particular no GPU is named like a MIG device.
\<close>

theorem device_names_distinct:
  assumes "NewDeviceNamer strategy = Inr (deviceNameIndex gp mp)" and "nl_deviceNamers l = [deviceNameIndex gp mp]"
    and "vd_Devices vd = Inr ds" "distinct (map fst ds)"
    and "vd_MigDevices vd = Inr ms" "distinct (map (\<lambda>(i, d, j, m). (i, j)) ms)"
    and "getDeviceSpecGeneratorsForAllDevices vd l = Inr gs"
    and "GetDeviceSpecs (map (\<lambda>g. Some (nvml_generator_specs ne vd l g)) gs) = Inr specs"
  shows "distinct (map dev_Name specs)"
proof -
  from assms(3,5,7) obtain gss migs where gss: "mapR (full_generator_of l) ds = Inr gss"
    and migs: "mapR mig_generator_of ms = Inr migs" and gs: "gs = concat gss @ migs"
    by (auto simp: getDeviceSpecGeneratorsForAllDevices_def bindR_eq_Inr)
  let ?full = "map (\<lambda>x. gp @ int_decimal (fst x)) ds"
  let ?mig = "map (\<lambda>(i, d, j, m). mp @ int_decimal i @ '':'' @ int_decimal j) ms"
  have sub: "subseq (map (generator_name gp mp) (concat gss)) ?full" by (rule full_generator_names [OF gss])
  have "inj_on (\<lambda>x. gp @ int_decimal (fst x)) (set ds)"
    using assms(4) by (auto simp: distinct_map inj_on_def int_decimal_inj)
  then have "distinct ?full" using assms(4) by (simp add: distinct_map)
  then have full: "distinct (map (generator_name gp mp) (concat gss))" using sub by (metis distinct_nthsI subseq_conv_nths)
  have "inj_on (\<lambda>(i, d, j, m). mp @ int_decimal i @ '':'' @ int_decimal j) (set ms)"
  proof (rule inj_onI)
    fix x y
    assume ms: "x \<in> set ms" "y \<in> set ms"
      and eq: "(\<lambda>(i, d, j, m). mp @ int_decimal i @ '':'' @ int_decimal j) x =
        (\<lambda>(i, d, j, m). mp @ int_decimal i @ '':'' @ int_decimal j) y"
    have "(\<lambda>(i, d, j, m). (i, j)) x = (\<lambda>(i, d, j, m). (i, j)) y"
      using eq index_name_inj by (cases x; cases y) simp
    with assms(6) ms show "x = y" unfolding distinct_map by (blast dest: inj_onD)
  qed
  with assms(6) have mig: "distinct ?mig" by (simp add: distinct_map)
  have "CHR '':'' \<notin> set gp" using assms(1) by (auto simp: NewDeviceNamer_def split: if_splits)
  then have colon: "CHR '':'' \<notin> set (gp @ int_decimal k)" for k using no_colon by simp
  have "gp @ int_decimal k \<noteq> mp @ int_decimal i @ '':'' @ int_decimal j" for i j k
    using colon [of k] by (metis in_set_conv_decomp append.assoc append_Cons append_Nil)
  then have "set ?full \<inter> set ?mig = {}" by auto
  moreover have "set (map (generator_name gp mp) (concat gss)) \<subseteq> set ?full"
    using sub by (metis set_nths_subset subseq_conv_nths)
  ultimately have "set (map (generator_name gp mp) (concat gss)) \<inter> set ?mig = {}" by blast
  then have "distinct (map (generator_name gp mp) gs)"
    using full mig by (simp add: gs mig_generator_names [OF migs])
  then show ?thesis by (simp add: all_generator_names [OF assms(2,8)])
qed

text \<open>Two GPUs, the second one split into two MIG devices.\<close>

definition example_two_gpus :: nvml_devices where
  "example_two_gpus = example_vd
     \<lparr>vd_Devices := Inr [(0, example_gpu\<lparr>gd_IsMigEnabled := Inr False\<rparr>), (1, example_gpu)],
      vd_MigDevices := Inr [(1, example_gpu, 0, example_mig), (1, example_gpu, 1, example_mig)],
      vd_DeviceByUUID := (\<lambda>u. Inr example_gpu), vd_MigDeviceByUUID := (\<lambda>u. Inr example_mig)\<rparr>"

definition example_lib :: nvcdilib where
  "example_lib = \<lparr>nl_sandboxutils = None, nl_deviceNamers = [deviceNameIndex [] []], nl_librarySearchPaths = [],
     nl_csv = \<lparr>csv_Files = [], csv_IgnorePatterns = [], csv_CompatContainerRoot = []\<rparr>, nl_driver = Driver_New [],
     nl_featureFlags = [], nl_hookCreator = AllDisabled, nl_editsFactory = EmptyFactory\<rparr>"

definition example_mig_ne :: nvcdi_env where
  "example_mig_ne = example_ne\<lparr>ne_open := (\<lambda>_. Opened ''gpu0/gi1/access 3\<newline>gpu0/gi1/ci0/access 4'')\<rparr>"

lemma example_generators:
  obtains gs specs where "getDeviceSpecGeneratorsForAllDevices example_two_gpus example_lib = Inr gs"
    "GetDeviceSpecs (map (\<lambda>g. Some (nvml_generator_specs example_mig_ne example_two_gpus example_lib g)) gs) = Inr specs"
    "map dev_Name specs = [''0'', ''1:0'', ''1:1'']"
proof -
  let ?specs = "map (\<lambda>n. \<lparr>dev_Name = n, dev_Annotations = [], dev_Edits = empty_edits\<rparr>) [''0'', ''1:0'', ''1:1'']"
  have "bindR (getDeviceSpecGeneratorsForAllDevices example_two_gpus example_lib) (\<lambda>gs.
      GetDeviceSpecs (map (\<lambda>g. Some (nvml_generator_specs example_mig_ne example_two_gpus example_lib g)) gs)) = Inr ?specs"
    by code_simp
  then show thesis using that by (auto simp: bindR_eq_Inr)
qed

theorem device_names_distinct_witness:
  "\<exists>gs specs. getDeviceSpecGeneratorsForAllDevices example_two_gpus example_lib = Inr gs \<and>
     GetDeviceSpecs (map (\<lambda>g. Some (nvml_generator_specs example_mig_ne example_two_gpus example_lib g)) gs) = Inr specs \<and>
     map dev_Name specs = [''0'', ''1:0'', ''1:1''] \<and> distinct (map dev_Name specs)"
proof (rule example_generators)
  fix gs specs
  assume "getDeviceSpecGeneratorsForAllDevices example_two_gpus example_lib = Inr gs"
    "GetDeviceSpecs (map (\<lambda>g. Some (nvml_generator_specs example_mig_ne example_two_gpus example_lib g)) gs) = Inr specs"
    "map dev_Name specs = [''0'', ''1:0'', ''1:1'']"
  then show ?thesis
    using device_names_distinct [of "''index''" "[]" "[]" example_lib example_two_gpus _ _ gs example_mig_ne specs]
    by (auto simp: NewDeviceNamer_def example_lib_def example_two_gpus_def)
qed

end
