(* ===== verification/Cdi_Hooks.thy ===== *)
theory Cdi_Hooks
  imports OCI "HOL-Library.Word"
begin

section \<open>CDI hooks\<close>

text \<open>
  The hooks of \<open>cmd/nvidia-cdi-hook\<close> that change files of a container: \<open>create-symlinks\<close>, \<open>chmod\<close> and
  \<open>disable-device-node-modification\<close>.  The files that the hooks see are explicit state.  Where the
  kernel follows the links in the parents of a path (\<open>real\<close>), and where the library of the engine
  resolves a path inside a root (\<open>follow\<close>, \<open>symlink.FollowSymlinkInScope\<close>), are parameters.
\<close>

unbundle bit_operations_syntax

subsection \<open>The container root\<close>

definition hook_containerRoot ::
  "('f \<Rightarrow> container_state result) \<Rightarrow> ('f \<Rightarrow> string option result) \<Rightarrow> 'f os \<Rightarrow> 'f \<Rightarrow> string \<Rightarrow> string result" where
  "hook_containerRoot readState readSpec w stdin containerSpec =
     bindR (wrapR ''failed to load container state'' (LoadContainerState readState w stdin containerSpec)) (\<lambda>s.
       wrapR ''failed to determined container root'' (GetContainerRoot readSpec w s))"

subsection \<open>Files and links (\<open>pkg/lookup/symlinks\<close>)\<close>

datatype node = Dir_node | File_node | Link_node string

type_synonym tree = "string \<Rightarrow> node option"

record links_env =
  le_real :: "tree \<Rightarrow> string \<Rightarrow> string"
  le_follow :: "tree \<Rightarrow> string \<Rightarrow> string \<Rightarrow> string result"
  le_lstatError :: "tree \<Rightarrow> string \<Rightarrow> error option"
  le_mkdirError :: "tree \<Rightarrow> string \<Rightarrow> error option"
  le_removeError :: "tree \<Rightarrow> string \<Rightarrow> error option"
  le_symlinkError :: "tree \<Rightarrow> string \<Rightarrow> error option"

text \<open>\<open>os.Lstat\<close>: an error, a missing file, or a file.\<close>

definition hook_Lstat :: "links_env \<Rightarrow> tree \<Rightarrow> string \<Rightarrow> node option result" where
  "hook_Lstat le t p =
     (case le_lstatError le t p of Some e \<Rightarrow> Inl e | None \<Rightarrow> Inr (t (le_real le t p)))"

text \<open>\<open>symlinks.Resolve\<close>: \<open>None\<close> is the error \<open>os.ErrNotExist\<close>.\<close>

definition hook_Resolve :: "links_env \<Rightarrow> tree \<Rightarrow> string \<Rightarrow> string option result" where
  "hook_Resolve le t filename =
     bindR (wrapR ''failed to get file info'' (hook_Lstat le t filename)) (\<lambda>info.
       Inr (case info of
              None \<Rightarrow> None
            | Some (Link_node target) \<Rightarrow> Some target
            | Some _ \<Rightarrow> Some filename))"

definition ForceCreate :: "links_env \<Rightarrow> string \<Rightarrow> string \<Rightarrow> tree \<Rightarrow> tree \<times> error option" where
  "ForceCreate le target link t =
     (case wrapR ''failed to get file info'' (hook_Lstat le t link) of
        Inl e \<Rightarrow> (t, Some e)
      | Inr info \<Rightarrow>
          (case (if info = None then None else le_removeError le t link) of
             Some e \<Rightarrow> (t, Some (Wrap ''failed to remove existing file'' e))
           | None \<Rightarrow>
               let t' = (if info = None then t else t(le_real le t link := None)) in
               (case le_symlinkError le t' link of
                  Some e \<Rightarrow> (t', Some e)
                | None \<Rightarrow> (t'(le_real le t' link \<mapsto> Link_node target), None))))"

text \<open>\<open>os.MkdirAll\<close> on a path whose parents are no links: the missing directories are made, from the top.\<close>

definition ancestors :: "string \<Rightarrow> string list" where
  "ancestors p = map (\<lambda>n. path_of (take n (parts_of p))) [1..<Suc (length (parts_of p))]"

definition MkdirAll :: "links_env \<Rightarrow> string \<Rightarrow> tree \<Rightarrow> tree \<times> error option" where
  "MkdirAll le p t =
     (case le_mkdirError le t p of
        Some e \<Rightarrow> (t, Some e)
      | None \<Rightarrow> (foldl (\<lambda>t q. if t q = None then t(q \<mapsto> Dir_node) else t) t (ancestors p), None))"

subsection \<open>create-symlinks\<close>

definition linkExists :: "links_env \<Rightarrow> tree \<Rightarrow> string \<Rightarrow> string \<Rightarrow> bool result" where
  "linkExists le t target link =
     bindR (wrapR ''failed to resolve existing symlink'' (hook_Resolve le t link)) (\<lambda>currentTarget.
       Inr (currentTarget = Some target))"

definition createLink :: "links_env \<Rightarrow> string \<Rightarrow> string \<Rightarrow> string \<Rightarrow> tree \<Rightarrow> tree \<times> error option" where
  "createLink le containerRoot targetPath link t =
     (let linkPath = FJoin [containerRoot, link] in
      case wrapR ''failed to check if link exists'' (linkExists le t targetPath linkPath) of
        Inl e \<Rightarrow> (t, Some e)
      | Inr True \<Rightarrow> (t, None)
      | Inr False \<Rightarrow>
          (case wrapR ''failed to follow path for link'' (le_follow le t (Dir linkPath) containerRoot) of
             Inl e \<Rightarrow> (t, Some e)
           | Inr resolvedLinkParent \<Rightarrow>
               let resolvedLinkPath = FJoin [resolvedLinkParent, Base linkPath] in
               (case MkdirAll le (Dir resolvedLinkPath) t of
                  (t', Some e) \<Rightarrow> (t', Some (Wrap ''failed to create directory'' e))
                | (t', None) \<Rightarrow>
                    (case ForceCreate le targetPath resolvedLinkPath t' of
                       (t'', Some e) \<Rightarrow> (t'', Some (Wrap ''failed to create symlink'' e))
                     | (t'', None) \<Rightarrow> (t'', None)))))"

fun createLinks :: "links_env \<Rightarrow> string \<Rightarrow> string list \<Rightarrow> string list \<Rightarrow> tree \<Rightarrow> tree \<times> error option" where
  "createLinks le containerRoot created [] t = (t, None)"
| "createLinks le containerRoot created (l # links) t =
     (if l \<in> set created then createLinks le containerRoot created links t
      else case Split l ''::'' of
             [target, link] \<Rightarrow>
               (case createLink le containerRoot target link t of
                  (t', Some e) \<Rightarrow> (t', Some (Wrap ''failed to create link'' e))
                | (t', None) \<Rightarrow> createLinks le containerRoot (l # created) links t')
           | _ \<Rightarrow> (t, Some (Errorf (''invalid symlink specification '' @ l))))"

definition create_symlinks_run :: "links_env \<Rightarrow> string result \<Rightarrow> string list \<Rightarrow> tree \<Rightarrow> tree \<times> error option" where
  "create_symlinks_run le containerRoot links t =
     (case containerRoot of Inl e \<Rightarrow> (t, Some e) | Inr root \<Rightarrow> createLinks le root [] links t)"

subsection \<open>chmod\<close>

text \<open>The bits of Go's \<open>fs.FileMode\<close>.\<close>

definition mode_bits :: "32 word" where
  "mode_bits = 0x1FF OR 2 ^ 23 OR 2 ^ 22 OR 2 ^ 20"

definition is_octal :: "char \<Rightarrow> bool" where
  "is_octal c \<longleftrightarrow> CHR ''0'' \<le> c \<and> c \<le> CHR ''7''"

definition octal_val :: "string \<Rightarrow> nat" where
  "octal_val s = foldl (\<lambda>n c. 8 * n + digit_val c) 0 s"

definition ParseUint_octal :: "string \<Rightarrow> nat result" where
  "ParseUint_octal s =
     (if s = [] \<or> \<not> list_all is_octal s then Inl (Errorf (''invalid syntax: '' @ s))
      else if octal_val s < 2 ^ 32 then Inr (octal_val s) else Inl (Errorf (''value out of range: '' @ s)))"

definition chmod_validateFlags :: "string \<Rightarrow> string list \<Rightarrow> 32 word result" where
  "chmod_validateFlags modeStr paths =
     (if TrimSpace modeStr = [] then Inl (Errorf ''a non-empty mode must be specified'')
      else bindR (wrapR ''failed to parse mode as octal'' (ParseUint_octal modeStr)) (\<lambda>modeInt.
        if \<exists>p \<in> set paths. TrimSpace p = [] then Inl (Errorf ''paths must not be empty'') else Inr (of_nat modeInt)))"

text \<open>
  The modes that \<open>os.Stat\<close> reports, by path; \<open>os.Chmod\<close> sets the bits that the system knows.  Permission
  errors are told apart.
\<close>

datatype chmod_error = Chmod_Permission | Chmod_Other error

record chmod_fs =
  cf_modes :: "string \<Rightarrow> 32 word option"
  cf_chmodError :: "string \<Rightarrow> chmod_error option"

definition os_Chmod :: "32 word \<Rightarrow> 32 word \<Rightarrow> 32 word" where
  "os_Chmod desired old = (old AND NOT mode_bits) OR (desired AND mode_bits)"

definition chmod_getPaths :: "chmod_fs \<Rightarrow> string \<Rightarrow> string list \<Rightarrow> 32 word \<Rightarrow> string list" where
  "chmod_getPaths fs root paths desiredMode =
     filter (\<lambda>path. case cf_modes fs path of
                      None \<Rightarrow> False
                    | Some m \<Rightarrow> (m AND mode_bits) XOR desiredMode \<noteq> 0)
       (map (\<lambda>f. FJoin [root, f]) paths)"

definition chmod_one :: "32 word \<Rightarrow> chmod_fs \<times> error option \<Rightarrow> string \<Rightarrow> chmod_fs \<times> error option" where
  "chmod_one mode s path =
     (case cf_chmodError (fst s) path of
        Some Chmod_Permission \<Rightarrow> (fst s, None)
      | Some (Chmod_Other e) \<Rightarrow> (fst s, Some e)
      | None \<Rightarrow> ((fst s)\<lparr>cf_modes := (cf_modes (fst s))(path := map_option (os_Chmod mode) (cf_modes (fst s) path))\<rparr>, None))"

definition chmod_run :: "string result \<Rightarrow> string list \<Rightarrow> 32 word \<Rightarrow> chmod_fs \<Rightarrow> chmod_fs \<times> error option" where
  "chmod_run containerRoot paths mode fs =
     (case containerRoot of
        Inl e \<Rightarrow> (fs, Some e)
      | Inr root \<Rightarrow>
          if root = [] then (fs, Some (Errorf ''empty container root detected''))
          else foldl (chmod_one mode) (fs, None) (chmod_getPaths fs root paths mode))"

subsection \<open>Paths inside a root\<close>

definition inside_root :: "string list \<Rightarrow> string \<Rightarrow> bool" where
  "inside_root rs p \<longleftrightarrow> (\<exists>qs. qs \<noteq> [] \<and> list_all name_part qs \<and> p = path_of (rs @ qs))"

lemma Clean_rooted_names:
  assumes "path_rooted p"
  obtains ps where "list_all name_part ps" "Clean p = path_of ps"
proof (cases rule: Clean_cases [of p])
  case (abs parts)
  then have "list_all name_part parts" by (auto simp: clean_out_def list_all_iff)
  with abs show thesis by (intro that) (simp_all add: path_of_def)
qed (use assms in auto)

lemma FJoin_rooted_names:
  assumes "list_all name_part rs"
  obtains ps where "list_all name_part ps" "FJoin [path_of rs, q] = path_of ps"
proof -
  have "FJoin [path_of rs, q] = Clean (path_of rs @ slash # q)" by (simp add: FJoin_def path_of_def)
  moreover have "path_rooted (path_of rs @ slash # q)" by (simp add: path_of_def)
  ultimately show thesis using that by (metis Clean_rooted_names)
qed

lemma path_of_snoc: "path_of (ps @ [c]) = (if ps = [] then slash # c else path_of ps @ slash # c)"
  by (induction ps) (auto simp: path_of_def StrJoin_Cons)

lemma Base_path_of: "list_all name_part (ps @ [c]) \<Longrightarrow> Base (path_of (ps @ [c])) = c"
  using Base_file [of c "[]"] Base_file [of c "path_of ps"] by (auto simp: path_of_snoc name_part_def)

lemma Dir_path_of: "list_all name_part (ps @ [c]) \<Longrightarrow> Dir (path_of (ps @ [c])) = path_of ps"
proof -
  assume names: "list_all name_part (ps @ [c])"
  then have c: "slash \<notin> set c" by (simp add: name_part_def)
  show ?thesis
  proof (cases "ps = []")
    case True
    have "Clean ''/'' = ''/''" by code_simp
    with True FSplit_append [OF c, of "[]"] show ?thesis by (simp add: Dir_def path_of_snoc path_of_def)
  next
    case False
    have "Clean (path_of ps @ ''/'') = path_of ps"
      using Clean_parts_of [of "path_of ps @ ''/''"] parts_of_append [of "path_of ps" "[]"] names
      by (simp add: parts_of_path_of) (simp add: path_of_def)
    with False FSplit_append [OF c, of "path_of ps"] show ?thesis by (simp add: Dir_def path_of_snoc)
  qed
qed

lemma path_of_inj: "list_all name_part ps \<Longrightarrow> list_all name_part qs \<Longrightarrow> path_of ps = path_of qs \<longleftrightarrow> ps = qs"
  by (metis parts_of_path_of)

lemma ancestors_path_of:
  "list_all name_part ps \<Longrightarrow> ancestors (path_of ps) = map (\<lambda>n. path_of (take n ps)) [1..<Suc (length ps)]"
  by (simp add: ancestors_def parts_of_path_of)

lemma ancestor_inside:
  assumes "list_all name_part (rs @ qs)" and "p \<in> set (ancestors (path_of (rs @ qs)))"
  shows "inside_root rs p \<or> (\<exists>n. 1 \<le> n \<and> n \<le> length rs \<and> p = path_of (take n rs))"
proof -
  obtain n where n: "1 \<le> n" "p = path_of (take n (rs @ qs))"
    using assms by (auto simp: ancestors_path_of)
  show ?thesis
  proof (cases "n \<le> length rs")
    case True
    with n show ?thesis by auto
  next
    case False
    show ?thesis
    proof (cases "qs = []")
      case True
      with n False have "p = path_of (take (length rs) rs)" by simp
      moreover have "1 \<le> length rs \<or> rs = []" by (cases rs) auto
      ultimately show ?thesis using True n False assms(2) by (auto simp: ancestors_def path_of_def)
    next
      case q: False
      then have "take (n - length rs) qs \<noteq> []" "list_all name_part (take (n - length rs) qs)"
        using False assms(1) by (auto simp: list_all_iff dest: in_set_takeD)
      with n False have "inside_root rs p"
        unfolding inside_root_def by (intro exI [of _ "take (n - length rs) qs"]) simp
      then show ?thesis ..
    qed
  qed
qed

subsection \<open>Links are made inside of the container\<close>

text \<open>
  What is relied on of \<open>FollowSymlinkInScope\<close>: a path that does not start with the root is an error; the
  path that it returns is the root or lies inside of it, and it has no links in it, so that the
  kernel finds a file in that directory where its path says; new directories and the file itself do
  not change that.
\<close>

definition no_new_links :: "tree \<Rightarrow> tree \<Rightarrow> string \<Rightarrow> bool" where
  "no_new_links t t' x \<longleftrightarrow> (\<forall>p. p \<noteq> x \<longrightarrow> t' p = t p \<or> (t p = None \<and> t' p = Some Dir_node))"

definition resolves_in_scope :: "links_env \<Rightarrow> string list \<Rightarrow> bool" where
  "resolves_in_scope le rs \<longleftrightarrow>
     (\<forall>t p q. le_follow le t p (path_of rs) = Inr q \<longrightarrow>
        HasPrefix p (path_of rs) \<and> (\<exists>qs. list_all name_part qs \<and> q = path_of (rs @ qs)) \<and>
        (\<forall>t' c. name_part c \<longrightarrow> no_new_links t t' (FJoin [q, c]) \<longrightarrow> le_real le t' (FJoin [q, c]) = FJoin [q, c]))"

definition root_exists :: "tree \<Rightarrow> string list \<Rightarrow> bool" where
  "root_exists t rs \<longleftrightarrow> (\<forall>n. 1 \<le> n \<and> n \<le> length rs \<longrightarrow> t (path_of (take n rs)) \<noteq> None)"

lemma foldl_mkdir:
  "foldl (\<lambda>t q. if t q = None then t(q \<mapsto> Dir_node) else t) t ps x =
     (if t x = None \<and> x \<in> set ps then Some Dir_node else t x)"
  by (induction ps arbitrary: t) auto

lemma MkdirAll_changes:
  assumes "MkdirAll le p t = (t', e)"
  shows "t' x = t x \<or> (t x = None \<and> t' x = Some Dir_node \<and> x \<in> set (ancestors p))"
  using assms by (auto simp: MkdirAll_def foldl_mkdir split: option.splits if_splits)

lemma ForceCreate_changes:
  assumes "ForceCreate le target x t = (t', e)" and "le_real le t x = x" "le_real le (t(x := None)) x = x"
  shows "p \<noteq> x \<Longrightarrow> t' p = t p" and "e = None \<Longrightarrow> t' x = Some (Link_node target)"
  using assms by (auto simp: ForceCreate_def Let_def split: sum.splits option.splits if_splits)

lemma no_new_links_mkdir: "MkdirAll le p t = (t', e) \<Longrightarrow> no_new_links t t' x"
  using MkdirAll_changes [of le p t t' e] unfolding no_new_links_def by blast

lemma mkdir_confined:
  assumes "list_all name_part (rs @ qs)" and "root_exists t rs" and "MkdirAll le (path_of (rs @ qs)) t = (t', e)"
  shows "t' p = t p \<or> inside_root rs p"
  using MkdirAll_changes [OF assms(3), of p] ancestor_inside [OF assms(1), of p] assms(2)
  unfolding root_exists_def by blast

lemma resolved_link:
  assumes "resolves_in_scope le rs" "list_all name_part rs" "rs \<noteq> []" "list_all name_part ps"
    and "le_follow le t (Dir (path_of ps)) (path_of rs) = Inr q"
  shows "\<exists>qs c. FJoin [q, Base (path_of ps)] = path_of (rs @ qs @ [c]) \<and> list_all name_part (qs @ [c]) \<and>
    (\<forall>t'. no_new_links t t' (path_of (rs @ qs @ [c])) \<longrightarrow> le_real le t' (path_of (rs @ qs @ [c])) = path_of (rs @ qs @ [c]))"
proof -
  from assms(1,5) obtain qs where pre: "HasPrefix (Dir (path_of ps)) (path_of rs)"
    and q: "q = path_of (rs @ qs)" "list_all name_part qs"
    and real: "\<And>t' c. name_part c \<Longrightarrow> no_new_links t t' (FJoin [q, c]) \<Longrightarrow> le_real le t' (FJoin [q, c]) = FJoin [q, c]"
    unfolding resolves_in_scope_def by blast
  have "ps \<noteq> []"
  proof
    assume "ps = []"
    have "Dir ''/'' = ''/''" by code_simp
    with pre assms(3) StrJoin_head [of rs] assms(2) show False
      using \<open>ps = []\<close> by (auto simp: path_of_def HasPrefix_append name_part_def list_all_iff)
  qed
  then obtain as c where ps: "ps = as @ [c]" by (metis rev_exhaust)
  then have c: "Base (path_of ps) = c" "name_part c" using Base_path_of [of as c] assms(4) by simp_all
  then have "parts_of c = [c]" by (simp add: parts_of_def Split_char_notin name_part_def)
  then have "FJoin [q, c] = path_of (rs @ qs @ [c])"
    using FJoin_path_of [of "rs @ qs" c] q assms(2) c(2) by simp
  with c q(2) real [OF c(2)] show ?thesis by (intro exI [of _ qs] exI [of _ c]) simp
qed

lemma createLink_confined:
  assumes scope: "resolves_in_scope le rs" and rs: "list_all name_part rs" "rs \<noteq> []" and "root_exists t rs"
    and run: "createLink le (path_of rs) target link t = (t', e)"
  shows "t' p = t p \<or> inside_root rs p"
proof -
  obtain ps where linkPath: "FJoin [path_of rs, link] = path_of ps" "list_all name_part ps"
    by (rule FJoin_rooted_names [OF rs(1)])
  consider "t' = t" | q t1 where "le_follow le t (Dir (path_of ps)) (path_of rs) = Inr q"
      "MkdirAll le (Dir (FJoin [q, Base (path_of ps)])) t = (t1, None)"
      "\<exists>e. ForceCreate le target (FJoin [q, Base (path_of ps)]) t1 = (t', e)"
    | q e' where "le_follow le t (Dir (path_of ps)) (path_of rs) = Inr q"
      "MkdirAll le (Dir (FJoin [q, Base (path_of ps)])) t = (t', Some e')"
    using run by (auto simp: createLink_def linkPath(1) Let_def split: sum.splits bool.splits prod.splits option.splits)
  then show ?thesis
  proof cases
    case (2 q t1)
    from resolved_link [OF scope rs linkPath(2) 2(1)] obtain qs c where
      x: "FJoin [q, Base (path_of ps)] = path_of (rs @ qs @ [c])" "list_all name_part (qs @ [c])"
      and real: "\<And>t'. no_new_links t t' (path_of (rs @ qs @ [c])) \<Longrightarrow> le_real le t' (path_of (rs @ qs @ [c])) = path_of (rs @ qs @ [c])"
      by metis
    let ?x = "path_of (rs @ qs @ [c])"
    from 2(2) have "MkdirAll le (path_of (rs @ qs)) t = (t1, None)"
      using Dir_path_of [of "rs @ qs" c] x rs by simp
    then have mk: "t1 p = t p \<or> inside_root rs p" and new: "no_new_links t t1 ?x" "no_new_links t (t1(?x := None)) ?x"
      using mkdir_confined [of rs qs t le t1 None p] assms(4) x(2) rs no_new_links_mkdir [of le "path_of (rs @ qs)" t t1 None ?x]
      by (auto simp: no_new_links_def)
    from 2(3) obtain e1 where "ForceCreate le target ?x t1 = (t', e1)" using x(1) by auto
    from ForceCreate_changes(1) [OF this real [OF new(1)] real [OF new(2)], of p] have "p = ?x \<or> t' p = t1 p" by blast
    moreover have "inside_root rs ?x" using x(2) unfolding inside_root_def by (intro exI [of _ "qs @ [c]"]) simp
    ultimately show ?thesis using mk by auto
  next
    case (3 q e')
    from resolved_link [OF scope rs linkPath(2) 3(1)] obtain qs c where
      x: "FJoin [q, Base (path_of ps)] = path_of (rs @ qs @ [c])" "list_all name_part (qs @ [c])" by metis
    then have "MkdirAll le (path_of (rs @ qs)) t = (t', Some e')"
      using 3(2) Dir_path_of [of "rs @ qs" c] rs by simp
    with mkdir_confined [of rs qs t le t' "Some e'" p] x(2) rs assms(4) show ?thesis by simp
  qed simp
qed

lemma root_exists_kept:
  assumes "list_all name_part rs" and "root_exists t rs" and "\<And>p. t' p = t p \<or> inside_root rs p"
  shows "root_exists t' rs"
  unfolding root_exists_def
proof (intro allI impI)
  fix n
  assume n: "1 \<le> n \<and> n \<le> length rs"
  have "\<not> inside_root rs (path_of (take n rs))"
  proof
    assume "inside_root rs (path_of (take n rs))"
    then obtain qs where qs: "qs \<noteq> []" "list_all name_part qs" "path_of (take n rs) = path_of (rs @ qs)"
      by (auto simp: inside_root_def)
    moreover have "list_all name_part (take n rs)" using assms(1) by (auto simp: list_all_iff dest: in_set_takeD)
    ultimately have "take n rs = rs @ qs" using assms(1) by (subst (asm) path_of_inj) simp_all
    with qs(1) show False by (metis append_take_drop_id append_is_Nil_conv append_self_conv append.assoc)
  qed
  with assms(2,3) n show "t' (path_of (take n rs)) \<noteq> None" unfolding root_exists_def by metis
qed

lemma createLinks_confined:
  assumes "resolves_in_scope le rs" "list_all name_part rs" "rs \<noteq> []"
  shows "root_exists t rs \<Longrightarrow> createLinks le (path_of rs) created links t = (t', e) \<Longrightarrow> t' p = t p \<or> inside_root rs p"
proof (induction links arbitrary: t created)
  case (Cons l links)
  note step = createLink_confined [OF assms Cons.prems(1)]
  consider "t' = t" | "createLinks le (path_of rs) created links t = (t', e)"
    | target link e1 where "createLink le (path_of rs) target link t = (t', Some e1)"
    | target link t1 where "createLink le (path_of rs) target link t = (t1, None)"
        "createLinks le (path_of rs) (l # created) links t1 = (t', e)"
    using Cons.prems(2) by (auto split: if_splits list.splits prod.splits option.splits)
  then show ?case
  proof cases
    case (4 target link t1)
    have "root_exists t1 rs" by (rule root_exists_kept [OF assms(2) Cons.prems(1) step [OF 4(1)]])
    from Cons.IH [OF this 4(2)] step [OF 4(1), of p] show ?thesis by auto
  qed (use Cons.IH Cons.prems(1) step in blast)+
qed simp

text \<open>
  (C22) The hook \<open>create-symlinks\<close> changes nothing outside of the container.  Whatever links it is asked
  to make, with \<open>..\<close> in their paths or through links of the container, and whether it succeeds or
  stops at an error: every file that differs afterwards lies inside of the root of the container.
\<close>

theorem symlinks_confined:
  assumes "resolves_in_scope le rs" "list_all name_part rs" "rs \<noteq> []" and "root_exists t rs"
    and "create_symlinks_run le (Inr (path_of rs)) links t = (t', e)" and "t' p \<noteq> t p"
  shows "inside_root rs p"
  using createLinks_confined [OF assms(1,2,3,4), of "[]" links t' e p] assms(5,6)
  by (simp add: create_symlinks_run_def)

text \<open>A host without links.\<close>

definition plain_env :: links_env where
  "plain_env = \<lparr>le_real = (\<lambda>t p. p),
     le_follow = (\<lambda>t p root. if HasPrefix p root \<and> take (length (parts_of root)) (parts_of p) = parts_of root \<and>
                               list_all name_part (parts_of p) \<and> p = path_of (parts_of p)
                             then Inr p else Inl (Errorf ''not in root'')),
     le_lstatError = (\<lambda>t p. None), le_mkdirError = (\<lambda>t p. None), le_removeError = (\<lambda>t p. None), le_symlinkError = (\<lambda>t p. None)\<rparr>"

lemma plain_env_scope: "list_all name_part rs \<Longrightarrow> resolves_in_scope plain_env rs"
  unfolding resolves_in_scope_def plain_env_def
  by (auto simp: parts_of_path_of list_all_iff dest: in_set_dropD intro!: exI [of _ "drop (length rs) (parts_of _)"]
      split: if_splits) (metis append_take_drop_id)

definition example_root :: tree where
  "example_root = [''/c'' \<mapsto> Dir_node, ''/etc'' \<mapsto> Dir_node]"

theorem symlinks_confined_witness:
  "\<exists>t'. create_symlinks_run plain_env (Inr ''/c'') [''libcuda.so.1::/lib/libcuda.so''] example_root = (t', None) \<and>
     t' ''/c/lib/libcuda.so'' = Some (Link_node ''libcuda.so.1'') \<and> inside_root [''c''] ''/c/lib/libcuda.so''"
proof -
  let ?run = "create_symlinks_run plain_env (Inr (path_of [''c''])) [''libcuda.so.1::/lib/libcuda.so''] example_root"
  have c: "path_of [''c''] = ''/c''" "list_all name_part [''c'']" by code_simp+
  have r: "snd ?run = None" "fst ?run ''/c/lib/libcuda.so'' = Some (Link_node ''libcuda.so.1'')"
    "example_root ''/c/lib/libcuda.so'' = None" by code_simp+
  have "root_exists example_root [''c'']"
    using c(1) by (auto simp: root_exists_def example_root_def le_Suc_eq)
  from symlinks_confined [OF plain_env_scope [OF c(2)] c(2) _ this, of "[''libcuda.so.1::/lib/libcuda.so'']" "fst ?run" None
      "''/c/lib/libcuda.so''"] r
  have "inside_root [''c''] ''/c/lib/libcuda.so''" by (simp add: prod_eq_iff)
  then show ?thesis using r by (intro exI [of _ "fst ?run"]) (simp add: prod_eq_iff c(1))
qed

text \<open>
  The check for an existing link follows the links of the container on the host: here \<open>/c/lib\<close> leads
  the kernel to \<open>/usr/lib\<close> of the host, where a link to the target exists, so that nothing is made in
  the container.
\<close>

definition leaving_env :: links_env where
  "leaving_env = plain_env
     \<lparr>le_real := (\<lambda>t p. if p = ''/c/lib/libcuda.so'' then ''/usr/lib/libcuda.so'' else p),
      le_follow := (\<lambda>t p root. if p = ''/c/lib'' then Inr ''/c/usr/lib'' else Inr root)\<rparr>"

definition leaving_tree :: tree where
  "leaving_tree = [''/c'' \<mapsto> Dir_node, ''/c/lib'' \<mapsto> Link_node ''/usr/lib'', ''/usr/lib/libcuda.so'' \<mapsto> Link_node ''libcuda.so.1'']"

lemma link_check_leaves_root:
  "let (t', e) = createLink leaving_env ''/c'' ''libcuda.so.1'' ''/lib/libcuda.so'' leaving_tree
   in e = None \<and> t' ''/c/usr/lib/libcuda.so'' = None"
  by code_simp

subsection \<open>What chmod changes\<close>

definition chmod_failure :: "chmod_fs \<Rightarrow> string \<Rightarrow> error option" where
  "chmod_failure fs p = (case cf_chmodError fs p of Some (Chmod_Other e) \<Rightarrow> Some e | _ \<Rightarrow> None)"

lemma os_Chmod_idem: "os_Chmod m (os_Chmod m x) = os_Chmod m x"
  by (rule bit_word_eqI) (auto simp: os_Chmod_def bit_simps)

lemma chmod_one_effect:
  assumes "chmod_one mode (fs, e) q = (fs', e')"
  shows "cf_chmodError fs' = cf_chmodError fs" "e' = chmod_failure fs q" "chmod_failure fs' = chmod_failure fs"
    "cf_modes fs' p = (if p = q \<and> cf_chmodError fs q = None then map_option (os_Chmod mode) (cf_modes fs p) else cf_modes fs p)"
  using assms by (auto simp: chmod_one_def chmod_failure_def fun_eq_iff split: option.splits chmod_error.splits)

lemma chmod_fold:
  "foldl (chmod_one mode) (fs, e) ps = (fs', e') \<Longrightarrow>
     e' = (if ps = [] then e else chmod_failure fs (last ps)) \<and>
     cf_modes fs' p = (if p \<in> set ps \<and> cf_chmodError fs p = None then map_option (os_Chmod mode) (cf_modes fs p) else cf_modes fs p)"
proof (induction ps arbitrary: fs e)
  case (Cons q ps)
  obtain fs1 e1 where s: "chmod_one mode (fs, e) q = (fs1, e1)" by (cases "chmod_one mode (fs, e) q")
  with Cons.prems Cons.IH [of fs1 e1] chmod_one_effect [OF s] show ?case
    by (auto simp: option.map_comp comp_def os_Chmod_idem)
qed simp


subsection \<open>disable-device-node-modification\<close>

definition nvidiaDriverParamsPath :: string where
  "nvidiaDriverParamsPath = ''/proc/driver/nvidia/params''"

text \<open>The loop over the lines; \<open>None\<close> is the early return of a file that needs no change.\<close>

fun params_loop :: "string \<Rightarrow> bool \<Rightarrow> string list \<Rightarrow> (string \<times> bool) option" where
  "params_loop modified requiresModification [] = Some (modified, requiresModification)"
| "params_loop modified requiresModification (line # lines) =
     (if HasPrefix line ''ModifyDeviceFiles: ''
      then if line = ''ModifyDeviceFiles: 0'' then None
           else if line = ''ModifyDeviceFiles: 1''
           then params_loop (modified @ ''ModifyDeviceFiles: 0'' @ [CHR 0x0A]) True lines
           else params_loop (modified @ line @ [CHR 0x0A]) requiresModification lines
      else params_loop (modified @ line @ [CHR 0x0A]) requiresModification lines)"

text \<open>The scanner reports an error if it met a line that does not fit into its buffer.\<close>

definition scan_error :: "string \<Rightarrow> bool" where
  "scan_error s \<longleftrightarrow> \<not> list_all (\<lambda>l. int (length l) < MaxScanTokenSize) (Split s [CHR 0x0A])"

definition getModifiedParamsFileContentsFromReader :: "string \<Rightarrow> string result" where
  "getModifiedParamsFileContentsFromReader r =
     (case params_loop [] False (scan_lines r) of
        None \<Rightarrow> Inr []
      | Some (modified, requiresModification) \<Rightarrow>
          if scan_error r then Inl (Errorf ''failed to read params file'')
          else if \<not> requiresModification then Inr [] else Inr modified)"

datatype params_file = Params_missing | Params_error error | Params_contents string

definition getModifiedNVIDIAParamsContents :: "params_file \<Rightarrow> string result" where
  "getModifiedNVIDIAParamsContents f =
     (case f of
        Params_missing \<Rightarrow> Inr []
      | Params_error e \<Rightarrow> Inl (Wrap ''failed to load params file'' e)
      | Params_contents r \<Rightarrow> wrapR ''failed to get modfied params file contents'' (getModifiedParamsFileContentsFromReader r))"

text \<open>
  System calls in the root of a container, in their order: the paths are paths in the container, each
  resolved in its root.  A call that fails ends the sequence.
\<close>

datatype root_call =
    Root_MkdirAll string
  | Root_MountTmpfs string nat
  | Root_CreateFile string
  | Root_WriteFile string string
  | Root_BindReadOnly string string

fun run_calls :: "('c \<Rightarrow> error option) \<Rightarrow> (string \<times> 'c) list \<Rightarrow> 'c list \<times> error option" where
  "run_calls fails [] = ([], None)"
| "run_calls fails ((what, c) # cs) =
     (case fails c of
        Some e \<Rightarrow> ([], Some (Wrap what e))
      | None \<Rightarrow> (case run_calls fails cs of (done, r) \<Rightarrow> (c # done, r)))"

definition createParamsFileInContainer ::
  "(root_call \<Rightarrow> error option) \<Rightarrow> string \<Rightarrow> string \<Rightarrow> root_call list \<times> error option" where
  "createParamsFileInContainer fails uuid contents =
     (let scratch = ''/run/nvidia-ctk-hook'' @ uuid; params = FJoin [scratch, ''nvct-params''] in
      run_calls fails
        [(''error creating hook scratch folder'', Root_MkdirAll scratch),
         (''failed to create tmpfs mount for params file'', Root_MountTmpfs scratch (length contents)),
         (''error creating modified params file'', Root_CreateFile params),
         (''failed to write temporary params file'', Root_WriteFile params contents),
         (''failed to mount modified params file'', Root_BindReadOnly params nvidiaDriverParamsPath)])"

definition disable_run ::
  "params_file \<Rightarrow> string result \<Rightarrow> (string \<Rightarrow> error option) \<Rightarrow> (root_call \<Rightarrow> error option) \<Rightarrow> string \<Rightarrow>
   root_call list \<times> error option" where
  "disable_run params containerRoot openRoot fails uuid =
     (case wrapR ''failed to get modified params file contents'' (getModifiedNVIDIAParamsContents params) of
        Inl e \<Rightarrow> ([], Some e)
      | Inr contents \<Rightarrow>
          if length contents = 0 then ([], None)
          else case containerRoot of
                 Inl e \<Rightarrow> ([], Some e)
               | Inr root \<Rightarrow>
                   (case openRoot root of
                      Some e \<Rightarrow> ([], Some (Wrap ''failed to open root'' e))
                    | None \<Rightarrow> createParamsFileInContainer fails uuid contents))"

definition disabled_params :: "string list \<Rightarrow> string" where
  "disabled_params ls =
     concat (map (\<lambda>l. (if l = ''ModifyDeviceFiles: 1'' then ''ModifyDeviceFiles: 0'' else l) @ [CHR 0x0A]) ls)"

lemma params_loop_eq:
  "params_loop m r ls =
     (if ''ModifyDeviceFiles: 0'' \<in> set ls then None
      else Some (m @ disabled_params ls, r \<or> ''ModifyDeviceFiles: 1'' \<in> set ls))"
  by (induction ls arbitrary: m r) (auto simp: disabled_params_def)

lemma run_calls_prefix:
  "run_calls fails cs = (done, e) \<Longrightarrow>
   \<exists>n. done = map snd (take n cs) \<and> (case e of None \<Rightarrow> n = length cs | Some e' \<Rightarrow> n < length cs \<and> fails (snd (cs ! n)) \<noteq> None)"
proof (induction cs arbitrary: "done" e)
  case (Cons c cs)
  show ?case
  proof (cases "fails (snd c)")
    case None
    with Cons.prems obtain d where "run_calls fails cs = (d, e)" "done = snd c # d"
      by (cases c) (auto split: prod.splits)
    with Cons.IH obtain n where "done = map snd (take (Suc n) (c # cs))"
      "case e of None \<Rightarrow> n = length cs | Some e' \<Rightarrow> n < length cs \<and> fails (snd (cs ! n)) \<noteq> None" by fastforce
    then show ?thesis by (intro exI [of _ "Suc n"]) (auto split: option.splits)
  next
    case (Some x)
    with Cons.prems show ?thesis by (intro exI [of _ 0]) (cases c; auto)
  qed
qed simp

text \<open>
  When and how the driver parameters are replaced in a container.  The hook acts exactly if the
  parameters of the host have a line that allows device nodes to be modified and none that forbids
  it; then the only difference of the file that is mounted read-only over the parameters in the
  container is that these lines forbid it.  The mount is the last of its system calls: if any of them
  fails, the hook reports an error.
\<close>

lemma params_disabled:
  "let ls = scan_lines r; scratch = ''/run/nvidia-ctk-hook'' @ uuid; params = FJoin [scratch, ''nvct-params''] in
   disable_run (Params_contents r) (Inr root) (\<lambda>_. None) fails uuid =
     (if ''ModifyDeviceFiles: 0'' \<in> set ls then ([], None)
      else if scan_error r
      then ([], Some (Wrap ''failed to get modified params file contents''
                 (Wrap ''failed to get modfied params file contents'' (Errorf ''failed to read params file''))))
      else if ''ModifyDeviceFiles: 1'' \<notin> set ls then ([], None)
      else run_calls fails
        [(''error creating hook scratch folder'', Root_MkdirAll scratch),
         (''failed to create tmpfs mount for params file'', Root_MountTmpfs scratch (length (disabled_params ls))),
         (''error creating modified params file'', Root_CreateFile params),
         (''failed to write temporary params file'', Root_WriteFile params (disabled_params ls)),
         (''failed to mount modified params file'', Root_BindReadOnly params nvidiaDriverParamsPath)])"
proof -
  have "disabled_params ls \<noteq> []" if "''ModifyDeviceFiles: 1'' \<in> set ls" for ls
    using that by (auto simp: disabled_params_def)
  then show ?thesis
    by (simp add: disable_run_def getModifiedNVIDIAParamsContents_def getModifiedParamsFileContentsFromReader_def
        params_loop_eq Let_def createParamsFileInContainer_def)
qed

end
