(* ===== verification/Cuda_Compat.thy ===== *)
theory Cuda_Compat
  imports Cdi_Hooks Semver DGPU
begin

section \<open>CUDA forward compatibility\<close>

text \<open>
  The hook \<open>enable-cuda-compat\<close> (\<open>cmd/nvidia-cdi-hook/cudacompat\<close>): it decides, from the version of the
  host driver or of CUDA on the host, whether a container uses the compatibility libraries that it
  brings, and writes a configuration file of the dynamic linker if so.  The note that states the
  version of the libraries is read at the level of its bytes; the sections of an ELF file
  (\<open>debug/elf\<close>) and the decoding of the note's JSON text are parameters.
\<close>

unbundle bit_operations_syntax

subsection \<open>The ELF note (\<open>cuda-elf-header.go\<close>)\<close>

record elf_section =
  es_Name :: string
  es_isNote :: bool
  es_Data :: "string result"
  es_Addralign :: "64 word"

record elf_file =
  ef_littleEndian :: bool
  ef_Sections :: "elf_section list"

datatype elf_open = Elf_NotExist | Elf_Error error | Elf_File elf_file

record compatElfHeader =
  ch_CUDAVersion :: string

record elf32_Nhdr =
  nh_NameSize :: "32 word"
  nh_DescSize :: "32 word"
  nh_DescType :: "32 word"

definition nhdr_sizeof :: nat where "nhdr_sizeof = 12"

definition read_u32 :: "bool \<Rightarrow> string \<Rightarrow> 32 word" where
  "read_u32 little bs = of_nat (le_val (if little then bs else rev bs))"

text \<open>\<open>binary.Read\<close> of a header: too few bytes are an error.\<close>

definition read_Nhdr :: "bool \<Rightarrow> string \<Rightarrow> elf32_Nhdr result" where
  "read_Nhdr little data =
     (if length data < nhdr_sizeof then Inl (Errorf ''unexpected EOF'')
      else Inr \<lparr>nh_NameSize = read_u32 little (take 4 data), nh_DescSize = read_u32 little (take 4 (drop 4 data)),
                nh_DescType = read_u32 little (take 4 (drop 8 data))\<rparr>)"

definition alignUp :: "32 word \<Rightarrow> 64 word \<Rightarrow> nat" where
  "alignUp sz to = unat ((sz + ucast to - 1) AND NOT (ucast to - 1))"

text \<open>Slicing beyond the data is a run-time panic.\<close>

definition elf_trim :: "string \<Rightarrow> nat \<Rightarrow> nat \<Rightarrow> string result" where
  "elf_trim data from len =
     (if from + len > length data then Inl (Panic ''slice bounds out of range'')
      else Inr (Trim (take len (drop from data)) [CHR 0x00]))"

definition getCUDAFwdCompatibilitySection :: "elf_file \<Rightarrow> elf_section option" where
  "getCUDAFwdCompatibilitySection lib =
     find (\<lambda>s. es_isNote s \<and> es_Name s = ''.note.cuda.fwd_compatibility'') (ef_Sections lib)"

definition compat_note ::
  "(string \<Rightarrow> compatElfHeader result) \<Rightarrow> bool \<Rightarrow> 64 word \<Rightarrow> string \<Rightarrow> compatElfHeader option result" where
  "compat_note unmarshal little align data =
     bindR (wrapR ''failed to read data header'' (read_Nhdr little data)) (\<lambda>note.
       if nh_NameSize note = 0 \<or> nh_DescSize note = 0 then Inr None
       else bindR (elf_trim data nhdr_sizeof (alignUp (nh_NameSize note) align)) (\<lambda>name.
         if name \<noteq> ''NVIDIA Corporation'' then Inr None
         else bindR (elf_trim data (nhdr_sizeof + alignUp (nh_NameSize note) align) (unat (nh_DescSize note))) (\<lambda>description.
           bindR (wrapR ''could not unmarshal JSON data'' (unmarshal description)) (\<lambda>h. Inr (Some h)))))"

definition GetCUDACompatElfHeader ::
  "(string \<Rightarrow> compatElfHeader result) \<Rightarrow> elf_open \<Rightarrow> compatElfHeader option result" where
  "GetCUDACompatElfHeader unmarshal lib =
     (case lib of
        Elf_NotExist \<Rightarrow> Inr None
      | Elf_Error e \<Rightarrow> Inl (Wrap ''failed to load elf info'' e)
      | Elf_File f \<Rightarrow>
          (case getCUDAFwdCompatibilitySection f of
             None \<Rightarrow> Inr None
           | Some s \<Rightarrow> bindR (es_Data s) (compat_note unmarshal (ef_littleEndian f) (es_Addralign s))))"

definition normalizeVersion :: "string \<Rightarrow> string" where
  "normalizeVersion v = ''v'' @ TrimPrefix v ''v''"

definition cudaVersion_UseCompat :: "string \<Rightarrow> string \<Rightarrow> bool" where
  "cudaVersion_UseCompat containerVersion hostVersion \<longleftrightarrow>
     containerVersion \<noteq> [] \<and> hostVersion \<noteq> [] \<and>
     semver_Compare (normalizeVersion containerVersion) (normalizeVersion hostVersion) > 0"

definition header_UseCompat :: "compatElfHeader option \<Rightarrow> string \<Rightarrow> bool" where
  "header_UseCompat h hostCUDAVersion =
     (case h of None \<Rightarrow> False | Some h \<Rightarrow> cudaVersion_UseCompat (ch_CUDAVersion h) hostCUDAVersion)"

subsection \<open>The container root (\<open>container-root.go\<close>)\<close>

datatype compat_stat = Stat_NotExist | Stat_Error error | Stat_Symlink | Stat_Dir | Stat_File

record compat_fs =
  cp_follow :: "string \<Rightarrow> string \<Rightarrow> string result"
  cp_Stat :: "string \<Rightarrow> compat_stat"
  cp_Lstat :: "string \<Rightarrow> compat_stat"
  cp_Glob :: "string \<Rightarrow> string list result"
  cp_elf :: "string \<Rightarrow> elf_open"
  cp_unmarshal :: "string \<Rightarrow> compatElfHeader result"

definition compat_resolve :: "compat_fs \<Rightarrow> string \<Rightarrow> string \<Rightarrow> string result" where
  "compat_resolve fs r path = cp_follow fs (Clean (FJoin [r, path])) r"

definition hasPath :: "compat_fs \<Rightarrow> string \<Rightarrow> string \<Rightarrow> bool" where
  "hasPath fs r path =
     (case compat_resolve fs r path of Inl e \<Rightarrow> False | Inr resolved \<Rightarrow> cp_Stat fs resolved \<noteq> Stat_NotExist)"

definition glob_file :: "compat_fs \<Rightarrow> string \<Rightarrow> string list result" where
  "glob_file fs m =
     (case cp_Lstat fs m of
        Stat_NotExist \<Rightarrow> Inl (Errorf ''no such file or directory'')
      | Stat_Error e \<Rightarrow> Inl e
      | Stat_Symlink \<Rightarrow> Inr []
      | Stat_Dir \<Rightarrow> Inr []
      | Stat_File \<Rightarrow> Inr [m])"

definition globFiles :: "compat_fs \<Rightarrow> string \<Rightarrow> string \<Rightarrow> string list result" where
  "globFiles fs r pattern =
     bindR (compat_resolve fs r pattern) (\<lambda>patternPath.
     bindR (cp_Glob fs patternPath) (\<lambda>matches.
     bindR (mapR (glob_file fs) matches) (\<lambda>files. Inr (concat files))))"

subsection \<open>The hook (\<open>cudacompat.go\<close>)\<close>

record compat_options =
  cc_cudaCompatContainerRoot :: string
  cc_hostDriverVersion :: string
  cc_hostCudaVersion :: string

definition extractMajorVersion :: "string \<Rightarrow> int result" where
  "extractMajorVersion version =
     (if version = [] then Inr 0 else Atoi (hd (SplitN2 version ''.'')))"

text \<open>An error of reading the header is ignored; a panic is not.\<close>

definition useCompatLibraries :: "compat_fs \<Rightarrow> string \<Rightarrow> string \<Rightarrow> string \<Rightarrow> bool result" where
  "useCompatLibraries fs libcudaCompatPath hostDriverVersion hostCUDAVersion =
     (if hostCUDAVersion \<noteq> []
      then (case GetCUDACompatElfHeader (cp_unmarshal fs) (cp_elf fs libcudaCompatPath) of
              Inl (Panic p) \<Rightarrow> Inl (Panic p)
            | Inl e \<Rightarrow> Inr False
            | Inr h \<Rightarrow> Inr (header_UseCompat h hostCUDAVersion))
      else if hostDriverVersion = [] then Inr False
      else bindR (wrapR ''failed to extract major version'' (extractMajorVersion hostDriverVersion)) (\<lambda>driverMajor.
           bindR (wrapR ''failed to extract major version''
                    (extractMajorVersion (TrimPrefix (Base libcudaCompatPath) ''libcuda.so.''))) (\<lambda>compatMajor.
             Inr (driverMajor < compatMajor))))"

definition getContainerForwardCompatDir :: "compat_fs \<Rightarrow> string \<Rightarrow> compat_options \<Rightarrow> string result" where
  "getContainerForwardCompatDir fs root opts =
     (if cc_hostDriverVersion opts = [] \<and> cc_hostCudaVersion opts = [] then Inr []
      else if \<not> hasPath fs root (cc_cudaCompatContainerRoot opts) then Inr []
      else case globFiles fs root (FJoin [cc_cudaCompatContainerRoot opts, ''libcuda.so.*.*'']) of
             Inl e \<Rightarrow> Inr []
           | Inr libs \<Rightarrow>
               (case libs of
                  [lib] \<Rightarrow>
                    bindR (useCompatLibraries fs lib (cc_hostDriverVersion opts) (cc_hostCudaVersion opts)) (\<lambda>use.
                      Inr (if use then TrimPrefix (Dir lib) root else []))
                | _ \<Rightarrow> Inr []))"

text \<open>
  The configuration file: the directory is resolved in the root of the container, the name of the file
  is chosen by the system, and directories are written once.
\<close>

datatype conf_call =
    Conf_MkdirAll string
  | Conf_CreateTemp string string
  | Conf_Write string
  | Conf_Chmod "32 word"

definition conf_lines :: "string list \<Rightarrow> string" where
  "conf_lines dirs = concat (map (\<lambda>d. d @ [CHR 0x0A]) (unique_by id dirs))"

definition compat_createLdsoconfdFile ::
  "compat_fs \<Rightarrow> (conf_call \<Rightarrow> error option) \<Rightarrow> string \<Rightarrow> string \<Rightarrow> string list \<Rightarrow> conf_call list \<times> error option" where
  "compat_createLdsoconfdFile fs fails root pattern dirs =
     (if length dirs = 0 then ([], None)
      else case compat_resolve fs root ''/etc/ld.so.conf.d'' of
             Inl e \<Rightarrow> ([], Some e)
           | Inr ldsoconfdDir \<Rightarrow>
               run_calls fails
                 [(''failed to create ld.so.conf.d'', Conf_MkdirAll ldsoconfdDir),
                  (''failed to create config file'', Conf_CreateTemp ldsoconfdDir pattern),
                  (''failed to update config file'', Conf_Write (conf_lines dirs)),
                  (''failed to chmod config file'', Conf_Chmod 0x1A4)])"

definition cudacompat_run ::
  "compat_fs \<Rightarrow> (conf_call \<Rightarrow> error option) \<Rightarrow> string result \<Rightarrow> compat_options \<Rightarrow> conf_call list \<times> error option" where
  "cudacompat_run fs fails containerRoot opts =
     (if cc_hostDriverVersion opts = [] \<and> cc_hostCudaVersion opts = [] then ([], None)
      else case containerRoot of
             Inl e \<Rightarrow> ([], Some e)
           | Inr root \<Rightarrow>
               (case wrapR ''failed to get container forward compat directory'' (getContainerForwardCompatDir fs root opts) of
                  Inl e \<Rightarrow> ([], Some e)
                | Inr dir \<Rightarrow> if dir = [] then ([], None)
                            else compat_createLdsoconfdFile fs fails root ''00-compat-*.conf'' [dir]))"

subsection \<open>Notes that are read back\<close>

text \<open>The note that the libraries carry: header, name and padding, description.\<close>

definition note_bytes :: "string \<Rightarrow> string" where
  "note_bytes desc = le_bytes 4 19 @ le_bytes 4 (length desc) @ le_bytes 4 1 @ ''NVIDIA Corporation'' @ [CHR 0x00, CHR 0x00] @ desc"

lemma read_u32_le: "read_u32 True (le_bytes 4 n) = of_nat n"
  by (simp add: read_u32_def word_of_nat_eq_iff take_bit_eq_mod)

lemma note_name: "alignUp 19 4 = 20"
  by (simp add: alignUp_def)

lemma trimmed_name: "Trim (''NVIDIA Corporation'' @ [CHR 0x00, CHR 0x00]) [CHR 0x00] = ''NVIDIA Corporation''"
  by code_simp

lemma read_note_header:
  assumes "12 \<le> length data" and "take 12 data = take 12 (note_bytes desc)"
  shows "read_Nhdr True data = Inr \<lparr>nh_NameSize = 19, nh_DescSize = of_nat (length desc), nh_DescType = 1\<rparr>"
proof -
  have h: "take 12 (note_bytes desc) = le_bytes 4 19 @ le_bytes 4 (length desc) @ le_bytes 4 1"
    by (simp add: note_bytes_def)
  have "take 4 data = take 4 (take 12 data)" "take 4 (drop 4 data) = take 4 (drop 4 (take 12 data))"
    "take 4 (drop 8 data) = take 4 (drop 8 (take 12 data))"
    by (simp_all add: drop_take min_def)
  then have "take 4 data = le_bytes 4 19" "take 4 (drop 4 data) = le_bytes 4 (length desc)" "take 4 (drop 8 data) = le_bytes 4 1"
    by (simp_all add: assms(2) h)
  with assms(1) show ?thesis by (simp add: read_Nhdr_def nhdr_sizeof_def read_u32_le)
qed

text \<open>
  (C36) The note of the compatibility libraries is read back, and a truncated one is a crash.  A note
  in the layout of the libraries gives the header decoded from its description.  Cut anywhere after
  its first twelve bytes, it makes the hook panic: the sizes in the header are not compared with the
  length of the section before it is sliced.
\<close>

theorem compat_note_round_trip:
  assumes "desc \<noteq> []" "hd desc \<noteq> CHR 0x00" "last desc \<noteq> CHR 0x00" and "length desc < 2 ^ 32"
    and "12 \<le> k" "k < length (note_bytes desc)"
  shows "compat_note unmarshal True 4 (note_bytes desc) =
      bindR (wrapR ''could not unmarshal JSON data'' (unmarshal desc)) (\<lambda>h. Inr (Some h)) \<and>
    compat_note unmarshal True 4 (take k (note_bytes desc)) = Inl (Panic ''slice bounds out of range'')"
proof
  have u: "unat (of_nat (length desc) :: 32 word) = length desc"
    using assms(4) by (simp add: unsigned_of_nat take_bit_nat_eq_self)
  then have nz: "(of_nat (length desc) :: 32 word) \<noteq> 0" using assms(1) by (metis length_0_conv unat_0)
  have split: "note_bytes desc = (le_bytes 4 19 @ le_bytes 4 (length desc) @ le_bytes 4 1) @
      (''NVIDIA Corporation'' @ [CHR 0x00, CHR 0x00]) @ desc" by (simp add: note_bytes_def)
  have name: "take 20 (drop 12 (note_bytes desc)) = ''NVIDIA Corporation'' @ [CHR 0x00, CHR 0x00]" "drop 32 (note_bytes desc) = desc"
    by (simp_all add: note_bytes_def)
  have len: "length (note_bytes desc) = 32 + length desc" by (simp add: note_bytes_def)
  have "Trim desc [CHR 0x00] = desc"
    using assms(1-3) by (simp add: Trim_def TrimLeft_no_cut TrimRight_no_cut)
  then show "compat_note unmarshal True 4 (note_bytes desc) =
      bindR (wrapR ''could not unmarshal JSON data'' (unmarshal desc)) (\<lambda>h. Inr (Some h))"
    using read_note_header [of "note_bytes desc" desc] name trimmed_name nz
    by (simp add: compat_note_def len elf_trim_def nhdr_sizeof_def note_name u)
  have hd: "read_Nhdr True (take k (note_bytes desc)) = Inr \<lparr>nh_NameSize = 19, nh_DescSize = of_nat (length desc), nh_DescType = 1\<rparr>"
    using assms(5,6) by (intro read_note_header) (simp_all add: min_def)
  have "k < 32 \<or> take 20 (drop 12 (take k (note_bytes desc))) = ''NVIDIA Corporation'' @ [CHR 0x00, CHR 0x00]"
    using name(1) by (cases "k < 32") (simp_all add: drop_take min_def)
  then show "compat_note unmarshal True 4 (take k (note_bytes desc)) = Inl (Panic ''slice bounds out of range'')"
    using hd nz assms(5,6) trimmed_name by (auto simp: compat_note_def elf_trim_def nhdr_sizeof_def note_name u len min_def)
qed

theorem compat_note_round_trip_witness:
  "compat_note (\<lambda>d. Inr \<lparr>ch_CUDAVersion = d\<rparr>) True 4 (note_bytes ''12.8'') = Inr (Some \<lparr>ch_CUDAVersion = ''12.8''\<rparr>) \<and>
   compat_note (\<lambda>d. Inr \<lparr>ch_CUDAVersion = d\<rparr>) True 4 (take 16 (note_bytes ''12.8'')) = Inl (Panic ''slice bounds out of range'')"
  using compat_note_round_trip [of "''12.8''" 16 "\<lambda>d. Inr \<lparr>ch_CUDAVersion = d\<rparr>"] by (simp add: note_bytes_def)

subsection \<open>Compatibility libraries are used if they are newer\<close>

definition compat_newer :: "compat_fs \<Rightarrow> compat_options \<Rightarrow> string \<Rightarrow> bool" where
  "compat_newer fs opts lib =
     (if cc_hostCudaVersion opts \<noteq> []
      then case GetCUDACompatElfHeader (cp_unmarshal fs) (cp_elf fs lib) of
             Inr (Some h) \<Rightarrow> ch_CUDAVersion h \<noteq> [] \<and>
               semver_Compare (normalizeVersion (ch_CUDAVersion h)) (normalizeVersion (cc_hostCudaVersion opts)) > 0
           | _ \<Rightarrow> False
      else case (extractMajorVersion (cc_hostDriverVersion opts), extractMajorVersion (TrimPrefix (Base lib) ''libcuda.so.'')) of
             (Inr m, Inr k) \<Rightarrow> m < k
           | _ \<Rightarrow> False)"

lemma useCompatLibraries_newer:
  "useCompatLibraries fs lib (cc_hostDriverVersion opts) (cc_hostCudaVersion opts) = Inr True \<Longrightarrow> compat_newer fs opts lib"
  by (auto simp: useCompatLibraries_def compat_newer_def header_UseCompat_def cudaVersion_UseCompat_def bindR_eq_Inr
      split: if_splits sum.splits error.splits option.splits)

text \<open>
  (C24) Compatibility libraries of a container are used only if they are newer than the driver.  If the
  hook does anything at all, the container has exactly one compatibility library, and it is newer: by
  the CUDA version of its note if the CUDA version of the host is given, by the major version of the
  driver in its name otherwise.  What is written is the directory of this library, in the directory
  that \<open>/etc/ld.so.conf.d\<close> resolves to inside of the container.
\<close>

theorem compat_only_if_newer:
  assumes "cudacompat_run fs fails (Inr root) opts = (calls, e)" and "calls \<noteq> []"
  shows "\<exists>lib dir. globFiles fs root (FJoin [cc_cudaCompatContainerRoot opts, ''libcuda.so.*.*'']) = Inr [lib] \<and>
    compat_newer fs opts lib \<and> compat_resolve fs root ''/etc/ld.so.conf.d'' = Inr dir \<and>
    set calls \<subseteq> {Conf_MkdirAll dir, Conf_CreateTemp dir ''00-compat-*.conf'',
                  Conf_Write (TrimPrefix (Dir lib) root @ [CHR 0x0A]), Conf_Chmod 0x1A4}"
proof -
  from assms obtain d where d: "getContainerForwardCompatDir fs root opts = Inr d" "d \<noteq> []"
    and run: "compat_createLdsoconfdFile fs fails root ''00-compat-*.conf'' [d] = (calls, e)"
    by (auto simp: cudacompat_run_def split: if_splits sum.splits)
  from d obtain lib where lib: "globFiles fs root (FJoin [cc_cudaCompatContainerRoot opts, ''libcuda.so.*.*'']) = Inr [lib]"
    "useCompatLibraries fs lib (cc_hostDriverVersion opts) (cc_hostCudaVersion opts) = Inr True" "d = TrimPrefix (Dir lib) root"
    by (auto simp: getContainerForwardCompatDir_def bindR_eq_Inr split: if_splits sum.splits list.splits)
  from run assms(2) obtain dir where dir: "compat_resolve fs root ''/etc/ld.so.conf.d'' = Inr dir"
    and calls: "run_calls fails
                 [(''failed to create ld.so.conf.d'', Conf_MkdirAll dir),
                  (''failed to create config file'', Conf_CreateTemp dir ''00-compat-*.conf''),
                  (''failed to update config file'', Conf_Write (conf_lines [d])),
                  (''failed to chmod config file'', Conf_Chmod 0x1A4)] = (calls, e)"
    by (auto simp: compat_createLdsoconfdFile_def split: sum.splits)
  from run_calls_prefix [OF calls] have "set calls \<subseteq>
      {Conf_MkdirAll dir, Conf_CreateTemp dir ''00-compat-*.conf'', Conf_Write (conf_lines [d]), Conf_Chmod 0x1A4}"
    by (auto dest!: in_set_takeD)
  moreover have "conf_lines [d] = d @ [CHR 0x0A]" by (simp add: conf_lines_def)
  ultimately show ?thesis using lib useCompatLibraries_newer [OF lib(2)] dir by auto
qed

definition example_compat :: compat_fs where
  "example_compat = \<lparr>cp_follow = (\<lambda>p root. Inr p), cp_Stat = (\<lambda>p. Stat_Dir), cp_Lstat = (\<lambda>p. Stat_File),
     cp_Glob = (\<lambda>p. Inr [''/c/usr/local/cuda/compat/libcuda.so.570.86'']),
     cp_elf = (\<lambda>p. Elf_NotExist), cp_unmarshal = (\<lambda>d. Inr \<lparr>ch_CUDAVersion = d\<rparr>)\<rparr>"

definition example_compat_options :: compat_options where
  "example_compat_options = \<lparr>cc_cudaCompatContainerRoot = ''/usr/local/cuda/compat'', cc_hostDriverVersion = ''535.54.03'',
     cc_hostCudaVersion = []\<rparr>"

theorem compat_only_if_newer_witness:
  "cudacompat_run example_compat (\<lambda>_. None) (Inr ''/c'') example_compat_options =
     ([Conf_MkdirAll ''/c/etc/ld.so.conf.d'', Conf_CreateTemp ''/c/etc/ld.so.conf.d'' ''00-compat-*.conf'',
       Conf_Write (''/usr/local/cuda/compat'' @ [CHR 0x0A]), Conf_Chmod 0x1A4], None) \<and>
   compat_newer example_compat example_compat_options ''/c/usr/local/cuda/compat/libcuda.so.570.86''"
proof -
  let ?calls = "[Conf_MkdirAll ''/c/etc/ld.so.conf.d'', Conf_CreateTemp ''/c/etc/ld.so.conf.d'' ''00-compat-*.conf'',
       Conf_Write (''/usr/local/cuda/compat'' @ [CHR 0x0A]), Conf_Chmod 0x1A4]"
  have "Atoi ''535'' = Inr 535" "Atoi ''570'' = Inr 570"
    by (simp_all add: Atoi_def digits_val_def digit_val_def is_digit_def less_eq_char_def)
  moreover have "hd (SplitN2 ''535.54.03'' ''.'') = ''535''" "hd (SplitN2 ''570.86'' ''.'') = ''570''"
    "TrimPrefix (Base ''/c/usr/local/cuda/compat/libcuda.so.570.86'') ''libcuda.so.'' = ''570.86''"
    by code_simp+
  ultimately have use: "useCompatLibraries example_compat ''/c/usr/local/cuda/compat/libcuda.so.570.86'' ''535.54.03'' [] = Inr True"
    by (simp add: useCompatLibraries_def extractMajorVersion_def)
  have glob: "globFiles example_compat ''/c'' (FJoin [''/usr/local/cuda/compat'', ''libcuda.so.*.*'']) =
      Inr [''/c/usr/local/cuda/compat/libcuda.so.570.86'']"
    "hasPath example_compat ''/c'' ''/usr/local/cuda/compat''"
    by (simp_all add: globFiles_def compat_resolve_def example_compat_def glob_file_def hasPath_def)
  have dirs: "TrimPrefix (Dir ''/c/usr/local/cuda/compat/libcuda.so.570.86'') ''/c'' = ''/usr/local/cuda/compat''"
    "Clean (FJoin [''/c'', ''/etc/ld.so.conf.d'']) = ''/c/etc/ld.so.conf.d''" by code_simp+
  then have resolved: "compat_resolve example_compat ''/c'' ''/etc/ld.so.conf.d'' = Inr ''/c/etc/ld.so.conf.d''"
    by (simp only: compat_resolve_def example_compat_def compat_fs.simps)
  have run: "cudacompat_run example_compat (\<lambda>_. None) (Inr ''/c'') example_compat_options = (?calls, None)"
    using glob use dirs(1) resolved
    by (simp add: cudacompat_run_def getContainerForwardCompatDir_def example_compat_options_def
        compat_createLdsoconfdFile_def conf_lines_def)
  from compat_only_if_newer [OF this] glob(1) run show ?thesis by (auto simp: example_compat_options_def)
qed

end
