(* ===== verification/Ldconfig.thy ===== *)
theory Ldconfig
  imports Toolkit_Config
begin

section \<open>Updating the cache of the dynamic linker\<close>

text \<open>
  The hook \<open>update-ldcache\<close> (\<open>cmd/nvidia-cdi-hook/update-ldcache\<close>) and \<open>internal/ldconfig\<close>.  The hook
  starts itself again in new namespaces, with its options as arguments; there it mounts the host's
  ldconfig in the container, makes the container its root, writes configuration files for the
  directories that the linker does not search yet, and runs ldconfig.  The state is the files of the
  container and the system calls made so far; a system call may fail.
\<close>

named_theorems quiet_intros \<open>operations that do not run ldconfig\<close>

subsection \<open>System calls\<close>

datatype sys_error = ENOENT | EINVAL | EPERM | Sys_Error error

datatype ld_call =
    Open_dir string
  | Fchdir string
  | Chdir string
  | Pivot_root
  | Chroot
  | Mount_slave string
  | Umount_detach string
  | Mount_tmpfs string
  | Mount_move string string
  | Mkdir_in_root string
  | Mount_proc string
  | Tmpfs_in_root string nat
  | Create_in_root string
  | Bind_in_root string string
  | Mkdir_all string
  | Write_file string string
  | Chmod_file string
  | Exec string "string list"

record ld_state =
  ls_files :: "string \<Rightarrow> string option"
  ls_calls :: "ld_call list"

record ld_env =
  le_fails :: "ld_call \<Rightarrow> sys_error option"
  le_openRoot :: "string \<Rightarrow> error option"
  le_hostSize :: "string \<Rightarrow> nat result"
  le_mounts :: "(string \<times> string \<times> string) list result"
  le_glob :: "(string \<Rightarrow> string option) \<Rightarrow> string \<Rightarrow> string list result"
  le_readError :: "string \<Rightarrow> error option"
  le_openError :: "string \<Rightarrow> error option"
  le_tempName :: "(string \<Rightarrow> string option) \<Rightarrow> string \<Rightarrow> string \<Rightarrow> string"
  le_uuid :: string
  le_goarch :: string
  le_execPath :: "string \<Rightarrow> string"

type_synonym 'a ldm = "ld_state \<Rightarrow> 'a result \<times> ld_state"

definition retL :: "'a \<Rightarrow> 'a ldm" where
  "retL x s = (Inr x, s)"

definition bindL :: "'a ldm \<Rightarrow> ('a \<Rightarrow> 'b ldm) \<Rightarrow> 'b ldm" where
  "bindL m f s = (case m s of (Inl e, s') \<Rightarrow> (Inl e, s') | (Inr x, s') \<Rightarrow> f x s')"

definition wrapL :: "string \<Rightarrow> 'a ldm \<Rightarrow> 'a ldm" where
  "wrapL what m s = (case m s of (r, s') \<Rightarrow> (wrapR what r, s'))"

definition liftL :: "'a result \<Rightarrow> 'a ldm" where
  "liftL r s = (r, s)"

definition withState :: "(ld_state \<Rightarrow> 'a ldm) \<Rightarrow> 'a ldm" where
  "withState f s = f s s"

fun sys_message :: "sys_error \<Rightarrow> error" where
  "sys_message ENOENT = Errorf ''no such file or directory''"
| "sys_message EINVAL = Errorf ''invalid argument''"
| "sys_message EPERM = Errorf ''operation not permitted''"
| "sys_message (Sys_Error e) = e"

text \<open>A call that may be handled by its error, and one whose error ends the function.\<close>

definition sys_try :: "ld_env \<Rightarrow> ld_call \<Rightarrow> sys_error option ldm" where
  "sys_try le c s =
     (case le_fails le c of
        Some e \<Rightarrow> (Inr (Some e), s)
      | None \<Rightarrow> (Inr None, s\<lparr>ls_calls := ls_calls s @ [c]\<rparr>))"

definition sys :: "ld_env \<Rightarrow> ld_call \<Rightarrow> unit ldm" where
  "sys le c = bindL (sys_try le c) (\<lambda>r. case r of None \<Rightarrow> retL () | Some e \<Rightarrow> liftL (Inl (sys_message e)))"

fun sys_all :: "ld_env \<Rightarrow> ld_call list \<Rightarrow> unit ldm" where
  "sys_all le [] = retL ()"
| "sys_all le (c # cs) = bindL (sys le c) (\<lambda>_. sys_all le cs)"

subsection \<open>Changing the root (\<open>ldconfig_linux.go\<close>)\<close>

definition pivotRoot :: "ld_env \<Rightarrow> string \<Rightarrow> unit ldm" where
  "pivotRoot le rootfs =
     sys_all le [Open_dir ''/'', Open_dir rootfs, Fchdir rootfs, Pivot_root, Fchdir ''/'',
                 Mount_slave ''.'', Umount_detach ''.'', Chdir ''/'']"

definition masked_mount :: "string \<Rightarrow> string \<times> string \<times> string \<Rightarrow> bool" where
  "masked_mount rootfs info =
     (case info of (mountpoint, root, fsType) \<Rightarrow>
        \<not> (root \<noteq> ''/'' \<or> (fsType \<noteq> ''proc'' \<and> fsType \<noteq> ''sysfs'') \<or> HasPrefix mountpoint rootfs))"

definition mask_mount :: "ld_env \<Rightarrow> string \<Rightarrow> unit ldm" where
  "mask_mount le p =
     bindL (sys_try le (Mount_slave p)) (\<lambda>r.
       case r of
         Some ENOENT \<Rightarrow> retL ()
       | Some e \<Rightarrow> liftL (Inl (sys_message e))
       | None \<Rightarrow>
           bindL (sys_try le (Umount_detach p)) (\<lambda>r.
             case r of
               None \<Rightarrow> retL ()
             | Some EINVAL \<Rightarrow> sys le (Mount_tmpfs p)
             | Some EPERM \<Rightarrow> sys le (Mount_tmpfs p)
             | Some e \<Rightarrow> liftL (Inl (sys_message e))))"

fun mask_mounts :: "ld_env \<Rightarrow> string list \<Rightarrow> unit ldm" where
  "mask_mounts le [] = retL ()"
| "mask_mounts le (p # ps) = bindL (mask_mount le p) (\<lambda>_. mask_mounts le ps)"

definition chroot :: "ld_env \<Rightarrow> unit ldm" where
  "chroot le = sys_all le [Chroot, Chdir ''/'']"

definition msMoveRoot :: "ld_env \<Rightarrow> string \<Rightarrow> unit ldm" where
  "msMoveRoot le rootfs =
     bindL (liftL (le_mounts le)) (\<lambda>mountinfos.
     bindL (mask_mounts le (map fst (filter (masked_mount rootfs) mountinfos))) (\<lambda>_.
     bindL (sys le (Mount_move rootfs ''/'')) (\<lambda>_. chroot le)))"

definition mountProc :: "ld_env \<Rightarrow> string \<Rightarrow> unit ldm" where
  "mountProc le root = sys_all le [Mkdir_in_root ''proc'', Mount_proc (FJoin [root, ''proc''])]"

definition mountLdConfig :: "ld_env \<Rightarrow> string \<Rightarrow> string ldm" where
  "mountLdConfig le hostLdconfigPath =
     (let scratch = ''/run/nvidia-ctk-hook/'' @ le_uuid le; ldconfigPath = FJoin [scratch, ''ldconfig''] in
      bindL (wrapL ''error reading host ldconfig'' (liftL (le_hostSize le hostLdconfigPath))) (\<lambda>size.
      bindL (wrapL ''error creating hook scratch folder'' (sys le (Mkdir_in_root scratch))) (\<lambda>_.
      bindL (wrapL ''error creating tmpfs'' (sys le (Tmpfs_in_root scratch size))) (\<lambda>_.
      bindL (wrapL ''error creating ldconfig'' (sys le (Create_in_root ldconfigPath))) (\<lambda>_.
      bindL (wrapL ''error bind mounting host ldconfig'' (sys le (Bind_in_root hostLdconfigPath ldconfigPath))) (\<lambda>_.
        retL ldconfigPath))))))"

subsection \<open>Options (\<open>ldconfig.go\<close>)\<close>

record Ldconfig =
  ld_ldconfigPath :: string
  ld_inRoot :: string
  ld_isDebianLikeHost :: bool
  ld_isDebianLikeContainer :: bool
  ld_noPivotRoot :: bool
  ld_directories :: "string list"

text \<open>The arguments of the command that the hook starts; which mount is the root decides on pivoting.\<close>

definition getRootfsType :: "(string \<times> string) list result \<Rightarrow> string \<Rightarrow> string result" where
  "getRootfsType mountStats path =
     bindR mountStats (\<lambda>stats.
       case find (\<lambda>m. fst m = path) stats of
         Some m \<Rightarrow> Inr (snd m)
       | None \<Rightarrow> Inl (Errorf ''mount stats not found''))"

definition noPivotRoot :: "(string \<times> string) list result \<Rightarrow> bool" where
  "noPivotRoot mountStats =
     (case getRootfsType mountStats ''/'' of Inl e \<Rightarrow> False | Inr rootFsType \<Rightarrow> rootFsType = ''rootfs'')"

definition NewRunner ::
  "(string \<Rightarrow> bool) \<Rightarrow> bool \<Rightarrow> (string \<times> string) list result \<Rightarrow> string \<Rightarrow> string \<Rightarrow> string \<Rightarrow> string list \<Rightarrow> string list" where
  "NewRunner exists isDebianLike mountStats i ldconfigPath containerRoot additionalargs =
     [i, ''--ldconfig-path'', TrimPrefix (ldconfigPath_normalize exists (''@'' @ ldconfigPath)) ''@'',
      ''--container-root'', containerRoot] @
     (if isDebianLike then [''--is-debian-like-host''] else []) @
     (if noPivotRoot mountStats then [''--no-pivot''] else []) @ additionalargs"

text \<open>
  \<open>flag.FlagSet.Parse\<close> for the four flags: one or two dashes, a value behind \<open>=\<close> or as the next
  argument, booleans without value; the first other argument ends the flags.  With \<open>ExitOnError\<close> an
  error ends the process.
\<close>

record ld_flags =
  lf_ldconfigPath :: string
  lf_containerRoot :: string
  lf_isDebianLikeHost :: bool
  lf_noPivot :: bool

definition flag_name :: "string \<Rightarrow> string \<times> string option" where
  "flag_name s =
     (case SplitN2 s ''='' of [n, v] \<Rightarrow> (n, Some v) | _ \<Rightarrow> (s, None))"

definition set_bool :: "string option \<Rightarrow> bool result" where
  "set_bool v = (case v of None \<Rightarrow> Inr True | Some t \<Rightarrow> ParseBool t)"

fun flag_value :: "string option \<Rightarrow> string list \<Rightarrow> (string \<times> string list) result" where
  "flag_value (Some v) args = Inr (v, args)"
| "flag_value None (a # args) = Inr (a, args)"
| "flag_value None [] = Inl (Errorf ''flag needs an argument'')"

lemma flag_value_shorter: "flag_value v args = Inr (x, rest) \<Longrightarrow> length rest \<le> length args"
  by (induction v args rule: flag_value.induct) auto

function parse_flags :: "ld_flags \<Rightarrow> string list \<Rightarrow> (ld_flags \<times> string list) result" where
  "parse_flags f [] = Inr (f, [])"
| "parse_flags f (s # args) =
     (if length s < 2 \<or> hd s \<noteq> CHR ''-'' then Inr (f, s # args)
      else if s = ''--'' then Inr (f, args)
      else
        let name = (if s ! 1 = CHR ''-'' then drop 2 s else drop 1 s) in
        if HasPrefix name ''-'' \<or> HasPrefix name ''='' then Inl (Errorf ''bad flag syntax'')
        else
          case flag_name name of (n, v) \<Rightarrow>
            if n = ''ldconfig-path''
            then (case flag_value v args of Inl e \<Rightarrow> Inl e | Inr (x, rest) \<Rightarrow> parse_flags (f\<lparr>lf_ldconfigPath := x\<rparr>) rest)
            else if n = ''container-root''
            then (case flag_value v args of Inl e \<Rightarrow> Inl e | Inr (x, rest) \<Rightarrow> parse_flags (f\<lparr>lf_containerRoot := x\<rparr>) rest)
            else if n = ''is-debian-like-host''
            then (case set_bool v of Inl e \<Rightarrow> Inl e | Inr b \<Rightarrow> parse_flags (f\<lparr>lf_isDebianLikeHost := b\<rparr>) args)
            else if n = ''no-pivot''
            then (case set_bool v of Inl e \<Rightarrow> Inl e | Inr b \<Rightarrow> parse_flags (f\<lparr>lf_noPivot := b\<rparr>) args)
            else Inl (Errorf ''flag provided but not defined''))"
  by pat_completeness auto
termination
  by (relation "measure (\<lambda>(f, args). length args)")
    (auto simp only: wf_measure in_measure prod.case list.size add_0_right add_Suc_right less_Suc_eq_le order_refl
      dest!: flag_value_shorter)

declare parse_flags.simps(2) [simp del]

definition NewFromArgs :: "string list \<Rightarrow> Ldconfig result" where
  "NewFromArgs args =
     (if length args < 1 then Inl (Errorf ''incorrect arguments'')
      else bindR (parse_flags \<lparr>lf_ldconfigPath = [], lf_containerRoot = [], lf_isDebianLikeHost = False, lf_noPivot = False\<rparr>
                    (tl args)) (\<lambda>(f, rest).
        if lf_ldconfigPath f = [] then Inl (Errorf ''an ldconfig path must be specified'')
        else if lf_containerRoot f = [] \<or> lf_containerRoot f = ''/''
        then Inl (Errorf ''ldconfig must be run in the non-system root'')
        else Inr \<lparr>ld_ldconfigPath = lf_ldconfigPath f, ld_inRoot = lf_containerRoot f,
                  ld_isDebianLikeHost = lf_isDebianLikeHost f, ld_isDebianLikeContainer = False,
                  ld_noPivotRoot = lf_noPivot f, ld_directories = rest\<rparr>))"

subsection \<open>Configuration files\<close>

definition debianSystemSearchPaths :: "string \<Rightarrow> string list" where
  "debianSystemSearchPaths goarch =
     (if goarch = ''amd64'' then [''/lib/x86_64-linux-gnu'', ''/usr/lib/x86_64-linux-gnu'']
      else if goarch = ''arm64'' then [''/lib/aarch64-linux-gnu'', ''/usr/lib/aarch64-linux-gnu'']
      else []) @ [''/lib'', ''/usr/lib'']"

definition nonDebianSystemSearchPaths :: "string \<Rightarrow> string list" where
  "nonDebianSystemSearchPaths goarch =
     [''/lib'', ''/usr/lib''] @
     (if goarch = ''amd64'' then [''/lib64'', ''/usr/lib64'', ''/libx32'', ''/usr/libx32'']
      else if goarch = ''arm64'' then [''/lib64'', ''/usr/lib64'']
      else [])"

definition getSystemSearchPaths :: "ld_env \<Rightarrow> Ldconfig \<Rightarrow> string list" where
  "getSystemSearchPaths le l =
     (if ld_isDebianLikeContainer l then debianSystemSearchPaths (le_goarch le) else nonDebianSystemSearchPaths (le_goarch le))"

text \<open>A line: a comment, an include of files, or a directory.\<close>

definition ldsoconf_line :: "(string \<Rightarrow> string list result) \<Rightarrow> string \<Rightarrow> string list \<times> string list" where
  "ldsoconf_line glob text =
     (let line = TrimSpace text in
      if HasPrefix line ''#'' \<or> length line = 0 then ([], [])
      else if HasPrefix line ''include ''
      then (case glob (TrimPrefix line ''include '') of Inl e \<Rightarrow> ([], []) | Inr included \<Rightarrow> ([], included))
      else ([line], []))"

text \<open>A file that does not exist is empty; an error of the scanner is not looked at.\<close>

definition processLdsoconfFile ::
  "ld_env \<Rightarrow> (string \<Rightarrow> string option) \<Rightarrow> string \<Rightarrow> (string list \<times> string list) result" where
  "processLdsoconfFile le files ldsoconfFilename =
     (case le_readError le ldsoconfFilename of
        Some e \<Rightarrow> Inl e
      | None \<Rightarrow>
          (case files ldsoconfFilename of
             None \<Rightarrow> Inr ([], [])
           | Some contents \<Rightarrow>
               let parsed = map (ldsoconf_line (le_glob le files)) (scan_lines contents)
               in Inr (concat (map fst parsed), concat (map snd parsed))))"

text \<open>The files to process form a queue; each is processed once.\<close>

partial_function (option) ldsoconf_loop ::
  "ld_env \<Rightarrow> (string \<Rightarrow> string option) \<Rightarrow> string list \<Rightarrow> string list \<Rightarrow> string list \<Rightarrow> string list result option" where
  "ldsoconf_loop le files processed queue dirs =
     (case queue of
        [] \<Rightarrow> Some (Inr dirs)
      | f # rest \<Rightarrow>
          if f \<in> set processed then ldsoconf_loop le files processed rest dirs
          else if length f = 0 then ldsoconf_loop le files (f # processed) rest dirs
          else case processLdsoconfFile le files f of
                 Inl e \<Rightarrow> Some (Inl e)
               | Inr (directories, includedFilenames) \<Rightarrow>
                   ldsoconf_loop le files (f # processed) (rest @ includedFilenames) (dirs @ directories))"

declare ldsoconf_loop.simps [code]

definition getLdsoconfDirectories ::
  "ld_env \<Rightarrow> (string \<Rightarrow> string option) \<Rightarrow> Ldconfig \<Rightarrow> string \<Rightarrow> string list result option" where
  "getLdsoconfDirectories le files l configFilePath =
     ldsoconf_loop le files [] [configFilePath] (getSystemSearchPaths le l)"

fun filter_known :: "string list \<Rightarrow> string list \<Rightarrow> string list" where
  "filter_known known [] = []"
| "filter_known known (d # ds) = (if d \<in> set known then filter_known known ds else d # filter_known (d # known) ds)"

definition filterDirectories ::
  "ld_env \<Rightarrow> (string \<Rightarrow> string option) \<Rightarrow> Ldconfig \<Rightarrow> string \<Rightarrow> string list \<Rightarrow> string list result option" where
  "filterDirectories le files l configFilePath directories =
     map_option (\<lambda>r. bindR r (\<lambda>known. Inr (filter_known known directories))) (getLdsoconfDirectories le files l configFilePath)"

definition outputListToFile :: "string list \<Rightarrow> string" where
  "outputListToFile dirs = concat (map (\<lambda>d. d @ [CHR 0x0A]) (unique_by id dirs))"

definition write_file :: "ld_env \<Rightarrow> string \<Rightarrow> string \<Rightarrow> unit ldm" where
  "write_file le path contents =
     bindL (sys le (Write_file path contents)) (\<lambda>_ s. (Inr (), s\<lparr>ls_files := (ls_files s)(path \<mapsto> contents)\<rparr>))"

definition createLdsoconfdFile :: "ld_env \<Rightarrow> string \<Rightarrow> string \<Rightarrow> string list \<Rightarrow> unit ldm" where
  "createLdsoconfdFile le ldsoconfdDir pattern dirs =
     (if length dirs = 0 then retL ()
      else bindL (wrapL ''failed to create ld.so.conf.d'' (sys le (Mkdir_all ldsoconfdDir))) (\<lambda>_.
             withState (\<lambda>s.
               let path = le_tempName le (ls_files s) ldsoconfdDir pattern in
               bindL (write_file le path (outputListToFile dirs)) (\<lambda>_.
                 wrapL ''failed to chmod config file'' (sys le (Chmod_file path))))))"

definition ensureLdsoconfFile :: "ld_env \<Rightarrow> string \<Rightarrow> string \<Rightarrow> unit ldm" where
  "ensureLdsoconfFile le topLevel ldsoconfdDir =
     withState (\<lambda>s.
       if ls_files s topLevel \<noteq> None then retL ()
       else case le_openError le topLevel of
              Some e \<Rightarrow> liftL (Inl (Wrap ''failed to create top-level ld.so.conf file'' e))
            | None \<Rightarrow> wrapL ''failed to write to top-level ld.so.conf file''
                        (write_file le topLevel (''include '' @ ldsoconfdDir @ ''/*.conf'' @ [CHR 0x0A])))"

definition muslPathFile :: "string \<Rightarrow> string" where
  "muslPathFile goarch =
     (if goarch = ''amd64'' then ''/etc/ld-musl-x86_64.path''
      else if goarch = ''arm64'' then ''/etc/ld-musl-aarch64.path'' else [])"

text \<open>The file is appended to; without a name for the architecture, opening it fails.\<close>

definition createMuslPathFileIfRequired :: "ld_env \<Rightarrow> string list \<Rightarrow> unit ldm" where
  "createMuslPathFileIfRequired le dirs =
     withState (\<lambda>s.
       let pathFileName = muslPathFile (le_goarch le) in
       if length dirs = 0 \<or> ls_files s ''/etc/alpine-release'' = None then retL ()
       else if pathFileName = [] then liftL (Inl (Errorf ''could not open .path file''))
       else case le_openError le pathFileName of
              Some e \<Rightarrow> liftL (Inl (Wrap ''could not open .path file'' e))
            | None \<Rightarrow>
                write_file le pathFileName
                  ((case ls_files s pathFileName of None \<Rightarrow> [] | Some c \<Rightarrow> c) @ outputListToFile dirs))"

subsection \<open>Running ldconfig\<close>

definition prepareRoot :: "ld_env \<Rightarrow> Ldconfig \<Rightarrow> string ldm" where
  "prepareRoot le l =
     bindL (wrapL ''failed to open root'' (liftL (case le_openRoot le (ld_inRoot l) of Some e \<Rightarrow> Inl e | None \<Rightarrow> Inr ()))) (\<lambda>_.
     bindL (wrapL ''error mounting /proc'' (mountProc le (ld_inRoot l))) (\<lambda>_.
     bindL (wrapL ''error mounting host ldconfig'' (mountLdConfig le (ld_ldconfigPath l))) (\<lambda>ldconfigPath.
     bindL (wrapL ''error running pivot_root''
              (if ld_noPivotRoot l then msMoveRoot le (ld_inRoot l) else pivotRoot le (ld_inRoot l))) (\<lambda>_.
       retL ldconfigPath))))"

text \<open>The path that is executed is a sealed copy of the binary, or the path itself if it cannot be copied.\<close>

definition SafeExec :: "ld_env \<Rightarrow> string \<Rightarrow> string list \<Rightarrow> unit ldm" where
  "SafeExec le path args = sys le (Exec (le_execPath le path) args)"

text \<open>\<open>None\<close>: the search of the configuration files does not end.\<close>

definition UpdateLDCache :: "ld_env \<Rightarrow> Ldconfig \<Rightarrow> ld_state \<Rightarrow> (unit result \<times> ld_state) option" where
  "UpdateLDCache le l s =
     (case prepareRoot le l s of
        (Inl e, s1) \<Rightarrow> Some (Inl e, s1)
      | (Inr ldconfigPath, s1) \<Rightarrow>
          let l = l\<lparr>ld_isDebianLikeContainer := (ls_files s1 ''/etc/debian_version'' \<noteq> None)\<rparr> in
          (case wrapL ''failed to ensure ld.so.conf file'' (ensureLdsoconfFile le ''/etc/ld.so.conf'' ''/etc/ld.so.conf.d'') s1 of
             (Inl e, s2) \<Rightarrow> Some (Inl e, s2)
           | (Inr _, s2) \<Rightarrow>
               map_option (\<lambda>filtered.
                 case filtered of
                   Inl e \<Rightarrow> (Inl e, s2)
                 | Inr filteredDirectories \<Rightarrow>
                     (bindL (wrapL ''failed to write drop-in''
                        (createLdsoconfdFile le ''/etc/ld.so.conf.d'' ''00-nvcr-*.conf'' filteredDirectories)) (\<lambda>_.
                      bindL (wrapL ''failed to write drop-in''
                        (createLdsoconfdFile le ''/etc/ld.so.conf.d'' ''zz-nvcr-*.conf'' (getSystemSearchPaths le l))) (\<lambda>_.
                      bindL (wrapL ''failed to update .path file for musl''
                        (createMuslPathFileIfRequired le (filteredDirectories @ getSystemSearchPaths le l))) (\<lambda>_.
                        SafeExec le ldconfigPath [Base ldconfigPath, ''-f'', ''/etc/ld.so.conf'', ''-C'', ''/etc/ld.so.cache''])))) s2)
                 (filterDirectories le (ls_files s2) l ''/etc/ld.so.conf'' (ld_directories l))))"

text \<open>The hook (\<open>update-ldcache.go\<close>): the arguments of the command that is run again.\<close>

definition update_ldcache_run ::
  "(string \<Rightarrow> bool) \<Rightarrow> bool \<Rightarrow> (string \<times> string) list result \<Rightarrow> string result \<Rightarrow> string \<Rightarrow> string list \<Rightarrow> string list result" where
  "update_ldcache_run exists isDebianLike mountStats containerRoot ldconfigPath folders =
     (if ldconfigPath = [] then Inl (Errorf ''ldconfig-path must be specified'')
      else case containerRoot of
             Inl e \<Rightarrow> Inl e
           | Inr root \<Rightarrow>
               if root = [] \<or> root = ''/'' then Inl (Errorf ''failed to determined container root'')
               else Inr (NewRunner exists isDebianLike mountStats ''reexec-update-ldcache'' ldconfigPath root folders))"

definition updateLdCache :: "ld_env \<Rightarrow> string list \<Rightarrow> ld_state \<Rightarrow> (unit result \<times> ld_state) option" where
  "updateLdCache le args s =
     (case wrapR ''failed to construct ldconfig runner'' (NewFromArgs args) of
        Inl e \<Rightarrow> Some (Inl e, s)
      | Inr l \<Rightarrow> UpdateLDCache le l s)"

subsection \<open>The arguments are read back\<close>

definition flag_like :: "string \<Rightarrow> bool" where
  "flag_like s \<longleftrightarrow> 2 \<le> length s \<and> hd s = CHR ''-''"

lemma parse_flags_rest: "rest = [] \<or> \<not> flag_like (hd rest) \<Longrightarrow> parse_flags f rest = Inr (f, rest)"
  by (cases rest) (auto simp: parse_flags.simps flag_like_def not_le)

lemma parse_flag_names:
  "flag_name ''ldconfig-path'' = (''ldconfig-path'', None)" "flag_name ''container-root'' = (''container-root'', None)"
  "flag_name ''is-debian-like-host'' = (''is-debian-like-host'', None)" "flag_name ''no-pivot'' = (''no-pivot'', None)"
  by code_simp+

lemma parse_flags_step:
  "parse_flags f (''--ldconfig-path'' # x # args) = parse_flags (f\<lparr>lf_ldconfigPath := x\<rparr>) args"
  "parse_flags f (''--container-root'' # x # args) = parse_flags (f\<lparr>lf_containerRoot := x\<rparr>) args"
  "parse_flags f (''--is-debian-like-host'' # args) = parse_flags (f\<lparr>lf_isDebianLikeHost := True\<rparr>) args"
  "parse_flags f (''--no-pivot'' # args) = parse_flags (f\<lparr>lf_noPivot := True\<rparr>) args"
  by (simp_all add: parse_flags.simps(2) parse_flag_names set_bool_def)

lemma parse_runner_flags:
  assumes "rest = [] \<or> \<not> flag_like (hd rest)"
  shows "parse_flags f ([''--ldconfig-path'', x, ''--container-root'', y] @
      (if d then [''--is-debian-like-host''] else []) @ (if n then [''--no-pivot''] else []) @ rest) =
    Inr (f\<lparr>lf_ldconfigPath := x, lf_containerRoot := y, lf_isDebianLikeHost := d \<or> lf_isDebianLikeHost f,
           lf_noPivot := n \<or> lf_noPivot f\<rparr>, rest)"
  by (cases d; cases n) (simp_all add: parse_flags_step parse_flags_rest [OF assms])

text \<open>
  (C37) The process that is started again gets what the hook was asked for: if the hook accepts its
  options, the arguments that it passes on are read back as the path of the host's ldconfig, the root
  of the container, the two facts about the host and all folders, in order.  A first folder that
  looks like a flag would be read as one.
\<close>

theorem runner_round_trip:
  assumes "update_ldcache_run exists isDebianLike mountStats (Inr root) ldconfigPath folders = Inr args"
    and "TrimPrefix (ldconfigPath_normalize exists (''@'' @ ldconfigPath)) ''@'' \<noteq> []"
    and "folders = [] \<or> \<not> flag_like (hd folders)"
  shows "NewFromArgs args =
    Inr \<lparr>ld_ldconfigPath = TrimPrefix (ldconfigPath_normalize exists (''@'' @ ldconfigPath)) ''@'', ld_inRoot = root,
         ld_isDebianLikeHost = isDebianLike, ld_isDebianLikeContainer = False,
         ld_noPivotRoot = noPivotRoot mountStats, ld_directories = folders\<rparr>"
proof -
  have root: "root \<noteq> []" "root \<noteq> ''/''" and args: "args = NewRunner exists isDebianLike mountStats ''reexec-update-ldcache'' ldconfigPath root folders"
    using assms(1) by (auto simp: update_ldcache_run_def split: if_splits)
  show ?thesis
    using root assms(2) parse_runner_flags [OF assms(3), of _
        "TrimPrefix (ldconfigPath_normalize exists (''@'' @ ldconfigPath)) ''@''" root isDebianLike "noPivotRoot mountStats"]
    by (simp add: args NewFromArgs_def NewRunner_def)
qed

theorem runner_round_trip_witness:
  "\<exists>args. update_ldcache_run (\<lambda>p. p = ''/sbin/ldconfig.real'') True (Inr []) (Inr ''/c'') ''/sbin/ldconfig'' [''/usr/lib64''] = Inr args \<and>
     NewFromArgs args = Inr \<lparr>ld_ldconfigPath = ''/sbin/ldconfig.real'', ld_inRoot = ''/c'', ld_isDebianLikeHost = True,
       ld_isDebianLikeContainer = False, ld_noPivotRoot = False, ld_directories = [''/usr/lib64'']\<rparr>"
proof -
  let ?ex = "\<lambda>p. p = ''/sbin/ldconfig.real''"
  have n: "TrimPrefix (ldconfigPath_normalize ?ex (''@'' @ ''/sbin/ldconfig'')) ''@'' = ''/sbin/ldconfig.real''" by code_simp
  have p: "\<not> noPivotRoot (Inr [])" by code_simp
  let ?args = "NewRunner ?ex True (Inr []) ''reexec-update-ldcache'' ''/sbin/ldconfig'' ''/c'' [''/usr/lib64'']"
  have "update_ldcache_run ?ex True (Inr []) (Inr ''/c'') ''/sbin/ldconfig'' [''/usr/lib64''] = Inr ?args"
    by (simp add: update_ldcache_run_def)
  with runner_round_trip [OF this] n p show ?thesis by (simp add: flag_like_def)
qed

subsection \<open>The search of configuration files\<close>

text \<open>The files that a configuration file includes, directly or not.\<close>

definition conf_includes :: "ld_env \<Rightarrow> (string \<Rightarrow> string option) \<Rightarrow> string \<Rightarrow> string set" where
  "conf_includes le files f =
     (if f = [] then {} else case processLdsoconfFile le files f of Inl e \<Rightarrow> {} | Inr (_, included) \<Rightarrow> set included)"

inductive conf_included :: "ld_env \<Rightarrow> (string \<Rightarrow> string option) \<Rightarrow> string \<Rightarrow> string \<Rightarrow> bool" for le files cfg where
  start: "conf_included le files cfg cfg"
| incl: "conf_included le files cfg f \<Longrightarrow> g \<in> conf_includes le files f \<Longrightarrow> conf_included le files cfg g"

definition conf_listed :: "ld_env \<Rightarrow> (string \<Rightarrow> string option) \<Rightarrow> string \<Rightarrow> string set" where
  "conf_listed le files f =
     (if f = [] then {} else case processLdsoconfFile le files f of Inl e \<Rightarrow> {} | Inr (ds, _) \<Rightarrow> set ds)"

text \<open>What holds whenever the loop looks at its queue.\<close>

definition conf_invariant ::
  "ld_env \<Rightarrow> (string \<Rightarrow> string option) \<Rightarrow> string \<Rightarrow> string list \<Rightarrow> string list \<Rightarrow> string list \<Rightarrow> string list \<Rightarrow> bool" where
  "conf_invariant le files cfg paths processed queue dirs \<longleftrightarrow>
     cfg \<in> set processed \<union> set queue \<and>
     (\<forall>f \<in> set processed \<union> set queue. conf_included le files cfg f) \<and>
     (\<Union>f \<in> set processed. conf_includes le files f) \<subseteq> set processed \<union> set queue \<and>
     set dirs = set paths \<union> (\<Union>f \<in> set processed. conf_listed le files f)"

lemma conf_invariant_end:
  assumes "conf_invariant le files cfg paths processed [] dirs"
  shows "set dirs = set paths \<union> {d. \<exists>f. conf_included le files cfg f \<and> d \<in> conf_listed le files f}"
proof -
  have "f \<in> set processed" if "conf_included le files cfg f" for f
    using that
  proof induction
    case start
    then show ?case using assms by (simp add: conf_invariant_def)
  next
    case (incl f g)
    with assms show ?case unfolding conf_invariant_def by auto
  qed
  then have "{f. conf_included le files cfg f} = set processed" using assms by (auto simp: conf_invariant_def)
  then show ?thesis using assms by (auto simp: conf_invariant_def)
qed

lemma conf_invariant_skip:
  "conf_invariant le files cfg paths processed (f # rest) dirs \<Longrightarrow> f \<in> set processed \<Longrightarrow>
   conf_invariant le files cfg paths processed rest dirs"
  unfolding conf_invariant_def by auto

lemma conf_invariant_empty:
  "conf_invariant le files cfg paths processed ([] # rest) dirs \<Longrightarrow>
   conf_invariant le files cfg paths ([] # processed) rest dirs"
  unfolding conf_invariant_def by (auto simp: conf_listed_def conf_includes_def)

lemma conf_invariant_process:
  assumes "conf_invariant le files cfg paths processed (f # rest) dirs" and "f \<noteq> []"
    and "processLdsoconfFile le files f = Inr (ds, included)"
  shows "conf_invariant le files cfg paths (f # processed) (rest @ included) (dirs @ ds)"
proof -
  have f: "conf_included le files cfg f" using assms(1) by (simp add: conf_invariant_def)
  have fs: "conf_listed le files f = set ds" "conf_includes le files f = set included"
    using assms(2,3) by (simp_all add: conf_listed_def conf_includes_def)
  then have "conf_included le files cfg g" if "g \<in> set included" for g
    using conf_included.incl [OF f] that by simp
  then show ?thesis
    using assms(1) unfolding conf_invariant_def set_append list.set Union_insert image_insert fs by auto
qed

lemma ldsoconf_loop_correct:
  assumes "finite {f. conf_included le files cfg f}"
  shows "conf_invariant le files cfg paths processed queue dirs \<Longrightarrow>
    \<exists>r. ldsoconf_loop le files processed queue dirs = Some r \<and>
      (case r of
         Inl e \<Rightarrow> \<exists>f. conf_included le files cfg f \<and> processLdsoconfFile le files f = Inl e
       | Inr out \<Rightarrow> set out = set paths \<union> {d. \<exists>f. conf_included le files cfg f \<and> d \<in> conf_listed le files f})"
proof (induction "(processed, queue)" arbitrary: processed queue dirs
    rule: wf_induct_rule [OF wf_measures [of "[\<lambda>(p, q). card ({f. conf_included le files cfg f} - set p), \<lambda>(p, q). length q]"]])
  case (1 processed queue)
  let ?R = "{f. conf_included le files cfg f}"
  show ?case
  proof (cases queue)
    case Nil
    then show ?thesis using conf_invariant_end 1(2) by (simp add: ldsoconf_loop.simps)
  next
    case (Cons f rest)
    have f: "f \<in> ?R" using 1(2) by (simp add: Cons conf_invariant_def)
    have less: "card (?R - set (f # processed)) < card (?R - set processed)" if "f \<notin> set processed"
      using that f assms by (intro psubset_card_mono) auto
    show ?thesis
    proof (cases "f \<in> set processed")
      case True
      with 1(1) [of processed rest dirs] conf_invariant_skip [OF 1(2) [unfolded Cons] True] show ?thesis
        by (subst ldsoconf_loop.simps) (simp add: Cons)
    next
      case new: False
      show ?thesis
      proof (cases "f = []")
        case True
        with 1(1) [of "f # processed" rest dirs] conf_invariant_empty [of le files cfg paths processed rest dirs] 1(2) less [OF new] new
        show ?thesis by (subst ldsoconf_loop.simps) (simp add: Cons)
      next
        case False
        show ?thesis
        proof (cases "processLdsoconfFile le files f")
          case (Inl e)
          with False new f show ?thesis by (subst ldsoconf_loop.simps) (auto simp: Cons)
        next
          case (Inr x)
          obtain ds included where x: "x = (ds, included)" by (cases x)
          with Inr False new 1(1) [of "f # processed" "rest @ included" "dirs @ ds"] less [OF new]
            conf_invariant_process [OF 1(2) [unfolded Cons] False Inr [unfolded x]]
          show ?thesis by (subst ldsoconf_loop.simps) (simp add: Cons)
        qed
      qed
    qed
  qed
qed

text \<open>
  (C38) The search for directories in the configuration of the linker always ends, also if files include
  each other, and finds what it should: it fails only with the error of a file that it has to read;
  otherwise the directories are the system paths and those that are listed in the top-level file or in
  a file that it includes, directly or not.
\<close>

theorem ldsoconf_search:
  assumes "finite {f. conf_included le files cfg f}"
  shows "\<exists>r. getLdsoconfDirectories le files l cfg = Some r \<and>
    (case r of
       Inl e \<Rightarrow> \<exists>f. conf_included le files cfg f \<and> processLdsoconfFile le files f = Inl e
     | Inr dirs \<Rightarrow> set dirs = set (getSystemSearchPaths le l) \<union>
         {d. \<exists>f. conf_included le files cfg f \<and> d \<in> conf_listed le files f})"
  unfolding getLdsoconfDirectories_def
  by (rule ldsoconf_loop_correct [OF assms]) (auto simp: conf_invariant_def conf_included.start)

text \<open>Two files that include each other.\<close>

definition example_conf_files :: "string \<Rightarrow> string option" where
  "example_conf_files = [''/etc/ld.so.conf'' \<mapsto> ''include /etc/ld.so.conf.d/*.conf'' @ [CHR 0x0A] @ ''/opt/lib'',
     ''/etc/ld.so.conf.d/a.conf'' \<mapsto> ''/a'' @ [CHR 0x0A] @ ''include /etc/ld.so.conf'']"

definition example_ld_env :: ld_env where
  "example_ld_env = \<lparr>le_fails = (\<lambda>_. None), le_openRoot = (\<lambda>_. None), le_hostSize = (\<lambda>_. Inr 10), le_mounts = Inr [],
     le_glob = (\<lambda>files p. if p = ''/etc/ld.so.conf.d/*.conf'' then Inr [''/etc/ld.so.conf.d/a.conf''] else Inr [p]),
     le_readError = (\<lambda>_. None), le_openError = (\<lambda>_. None), le_tempName = (\<lambda>files dir p. dir @ ''/'' @ p), le_uuid = ''1'',
     le_goarch = ''amd64'', le_execPath = (\<lambda>p. p)\<rparr>"

definition example_Ldconfig :: Ldconfig where
  "example_Ldconfig = \<lparr>ld_ldconfigPath = ''/sbin/ldconfig'', ld_inRoot = ''/c'', ld_isDebianLikeHost = False,
     ld_isDebianLikeContainer = True, ld_noPivotRoot = False, ld_directories = [''/a'', ''/b'']\<rparr>"

lemma example_conf_process:
  "processLdsoconfFile example_ld_env example_conf_files ''/etc/ld.so.conf'' = Inr ([''/opt/lib''], [''/etc/ld.so.conf.d/a.conf''])"
  "processLdsoconfFile example_ld_env example_conf_files ''/etc/ld.so.conf.d/a.conf'' = Inr ([''/a''], [''/etc/ld.so.conf''])"
  by code_simp+

lemma example_conf_included:
  "conf_included example_ld_env example_conf_files ''/etc/ld.so.conf'' f \<longleftrightarrow> f \<in> {''/etc/ld.so.conf'', ''/etc/ld.so.conf.d/a.conf''}"
proof
  assume "conf_included example_ld_env example_conf_files ''/etc/ld.so.conf'' f"
  then show "f \<in> {''/etc/ld.so.conf'', ''/etc/ld.so.conf.d/a.conf''}"
    by induction (auto simp: conf_includes_def example_conf_process)
next
  have "conf_included example_ld_env example_conf_files ''/etc/ld.so.conf'' ''/etc/ld.so.conf.d/a.conf''"
    by (rule conf_included.incl [OF conf_included.start]) (simp add: conf_includes_def example_conf_process)
  then show "f \<in> {''/etc/ld.so.conf'', ''/etc/ld.so.conf.d/a.conf''} \<Longrightarrow>
      conf_included example_ld_env example_conf_files ''/etc/ld.so.conf'' f"
    using conf_included.start by auto
qed

theorem ldsoconf_search_witness:
  "finite {f. conf_included example_ld_env example_conf_files ''/etc/ld.so.conf'' f} \<and>
   (\<exists>dirs. getLdsoconfDirectories example_ld_env example_conf_files example_Ldconfig ''/etc/ld.so.conf'' = Some (Inr dirs) \<and>
      ''/a'' \<in> set dirs \<and> ''/b'' \<notin> set dirs)"
proof
  show fin: "finite {f. conf_included example_ld_env example_conf_files ''/etc/ld.so.conf'' f}"
    by (simp add: example_conf_included)
  have paths: "getSystemSearchPaths example_ld_env example_Ldconfig =
      [''/lib/x86_64-linux-gnu'', ''/usr/lib/x86_64-linux-gnu'', ''/lib'', ''/usr/lib'']" by code_simp
  from ldsoconf_search [OF fin, of example_Ldconfig] obtain r
    where r: "getLdsoconfDirectories example_ld_env example_conf_files example_Ldconfig ''/etc/ld.so.conf'' = Some r"
    and "case r of Inl e \<Rightarrow> \<exists>f. conf_included example_ld_env example_conf_files ''/etc/ld.so.conf'' f \<and>
          processLdsoconfFile example_ld_env example_conf_files f = Inl e
      | Inr dirs \<Rightarrow> set dirs = set (getSystemSearchPaths example_ld_env example_Ldconfig) \<union>
          {d. \<exists>f. conf_included example_ld_env example_conf_files ''/etc/ld.so.conf'' f \<and> d \<in> conf_listed example_ld_env example_conf_files f}"
    by blast
  moreover have "conf_listed example_ld_env example_conf_files ''/etc/ld.so.conf'' = {''/opt/lib''}"
    "conf_listed example_ld_env example_conf_files ''/etc/ld.so.conf.d/a.conf'' = {''/a''}"
    by (simp_all add: conf_listed_def example_conf_process)
  then have "{d. \<exists>f. conf_included example_ld_env example_conf_files ''/etc/ld.so.conf'' f \<and>
      d \<in> conf_listed example_ld_env example_conf_files f} = {''/opt/lib'', ''/a''}"
    unfolding example_conf_included by blast
  moreover have "\<not> (\<exists>f. conf_included example_ld_env example_conf_files ''/etc/ld.so.conf'' f \<and>
      processLdsoconfFile example_ld_env example_conf_files f = Inl e)" for e
    unfolding example_conf_included using example_conf_process by (metis insertE singletonD sum.distinct(1))
  ultimately obtain dirs where "r = Inr dirs" "set dirs = set (getSystemSearchPaths example_ld_env example_Ldconfig) \<union>
      {''/opt/lib'', ''/a''}"
    by (cases r) auto
  with r paths show "\<exists>dirs. getLdsoconfDirectories example_ld_env example_conf_files example_Ldconfig ''/etc/ld.so.conf'' = Some (Inr dirs) \<and>
      ''/a'' \<in> set dirs \<and> ''/b'' \<notin> set dirs" by auto
qed

subsection \<open>Where the root is afterwards\<close>

text \<open>
  The root and the working directory of the process, as directories of the host.  A directory that was
  opened is where it was; moving a mount does not change the working directory.
\<close>

fun move_process :: "string \<times> string \<Rightarrow> ld_call \<Rightarrow> string \<times> string" where
  "move_process (root, cwd) (Fchdir p) = (root, p)"
| "move_process (root, cwd) (Chdir p) = (if p = ''/'' then (root, root) else (root, p))"
| "move_process (root, cwd) Pivot_root = (cwd, root)"
| "move_process (root, cwd) Chroot = (cwd, cwd)"
| "move_process (root, cwd) c = (root, cwd)"

lemma bindL_Inr: "bindL m f s = (Inr y, s') \<longleftrightarrow> (\<exists>x s1. m s = (Inr x, s1) \<and> f x s1 = (Inr y, s'))"
  by (auto simp: bindL_def split: prod.splits sum.splits)

lemma sys_Inr: "sys le c s = (Inr x, s') \<longleftrightarrow> le_fails le c = None \<and> s' = s\<lparr>ls_calls := ls_calls s @ [c]\<rparr>"
  by (auto simp: sys_def sys_try_def bindL_def retL_def liftL_def split: option.splits)

lemma sys_all_Inr: "sys_all le cs s = (Inr x, s') \<Longrightarrow> s' = s\<lparr>ls_calls := ls_calls s @ cs\<rparr>"
proof (induction cs arbitrary: s)
  case (Cons c cs)
  then have "sys_all le cs (s\<lparr>ls_calls := ls_calls s @ [c]\<rparr>) = (Inr x, s')" by (auto simp: bindL_Inr sys_Inr)
  from Cons.IH [OF this] show ?case by simp
qed (simp add: retL_def)

text \<open>Calls that leave the process where it is.\<close>

definition stays :: "ld_call \<Rightarrow> bool" where
  "stays c \<longleftrightarrow> (\<forall>root cwd. move_process (root, cwd) c = (root, cwd))"

lemma foldl_stays: "\<forall>c \<in> set cs. stays c \<Longrightarrow> foldl move_process (root, cwd) cs = (root, cwd)"
  by (induction cs) (auto simp: stays_def)

lemma mask_mount_calls:
  "mask_mount le p s = (Inr x, s') \<Longrightarrow> \<exists>cs. ls_calls s' = ls_calls s @ cs \<and> (\<forall>c \<in> set cs. stays c)"
  by (auto simp: mask_mount_def bindL_Inr sys_try_def retL_def liftL_def sys_Inr stays_def
      split: option.splits sys_error.splits)

lemma mask_mounts_calls:
  "mask_mounts le ps s = (Inr x, s') \<Longrightarrow> \<exists>cs. ls_calls s' = ls_calls s @ cs \<and> (\<forall>c \<in> set cs. stays c)"
proof (induction ps arbitrary: s)
  case (Cons p ps)
  then obtain y s1 where "mask_mount le p s = (Inr y, s1)" and rest: "mask_mounts le ps s1 = (Inr x, s')"
    by (auto simp: bindL_Inr)
  from mask_mount_calls [OF this(1)] Cons.IH [OF rest] show ?case
    by (metis append.assoc Un_iff set_append)
qed (simp add: retL_def)

text \<open>
  (C39) Which directory is the root of the process that runs ldconfig.  Once \<open>pivotRoot\<close> has returned
  without error, the root and the working directory are the root of the container.  The replacement
  for file systems that cannot be pivoted, \<open>msMoveRoot\<close>, never changes into the root of the container
  before it makes its working directory the root: the root is then the directory that the process was
  started in.
\<close>

theorem root_after_change:
  "(let (r, s') = pivotRoot le rootfs s in
     if isl r then True
     else \<exists>cs. ls_calls s' = ls_calls s @ cs \<and> foldl move_process (''/'', cwd) cs = (rootfs, rootfs)) \<and>
   (let (r, s') = msMoveRoot le rootfs s in
     if isl r then True
     else \<exists>cs. ls_calls s' = ls_calls s @ cs \<and> foldl move_process (''/'', cwd) cs = (cwd, cwd))"
proof
  have "\<exists>cs. ls_calls s' = ls_calls s @ cs \<and> foldl move_process (''/'', cwd) cs = (rootfs, rootfs)"
    if "pivotRoot le rootfs s = (Inr x, s')" for x s'
    using sys_all_Inr [OF that [unfolded pivotRoot_def]] by (intro exI conjI) (assumption | simp)+
  then show "let (r, s') = pivotRoot le rootfs s in
     if isl r then True
     else \<exists>cs. ls_calls s' = ls_calls s @ cs \<and> foldl move_process (''/'', cwd) cs = (rootfs, rootfs)"
    by (cases "pivotRoot le rootfs s"; cases "fst (pivotRoot le rootfs s)") auto
  have "\<exists>cs. ls_calls s' = ls_calls s @ cs \<and> foldl move_process (''/'', cwd) cs = (cwd, cwd)"
    if "msMoveRoot le rootfs s = (Inr x, s')" for x s'
  proof -
    from that obtain ps s1 where "mask_mounts le ps s = (Inr (), s1)"
      and s': "ls_calls s' = ls_calls s1 @ [Mount_move rootfs ''/'', Chroot, Chdir ''/'']"
      by (auto simp: msMoveRoot_def bindL_Inr liftL_def retL_def sys_Inr chroot_def)
    with mask_mounts_calls obtain cs where cs: "ls_calls s1 = ls_calls s @ cs" "\<forall>c \<in> set cs. stays c" by metis
    with s' foldl_stays [OF cs(2), of "''/''" cwd] show ?thesis
      by (intro exI [of _ "cs @ [Mount_move rootfs ''/'', Chroot, Chdir ''/'']"]) simp
  qed
  then show "let (r, s') = msMoveRoot le rootfs s in
     if isl r then True
     else \<exists>cs. ls_calls s' = ls_calls s @ cs \<and> foldl move_process (''/'', cwd) cs = (cwd, cwd)"
    by (cases "msMoveRoot le rootfs s"; cases "fst (msMoveRoot le rootfs s)") auto
qed

subsection \<open>ldconfig runs last, and in the container\<close>

fun is_exec :: "ld_call \<Rightarrow> bool" where
  "is_exec (Exec p args) = True"
| "is_exec c = False"

definition quiet :: "'a ldm \<Rightarrow> bool" where
  "quiet m \<longleftrightarrow> (\<forall>s. \<exists>cs. ls_calls (snd (m s)) = ls_calls s @ cs \<and> (\<forall>c \<in> set cs. \<not> is_exec c))"

lemma quiet_pure [quiet_intros]: "quiet (retL x)" "quiet (liftL r)"
  by (simp_all add: quiet_def retL_def liftL_def)

lemma quiet_bindL [quiet_intros]:
  assumes "quiet m" and "\<And>x. quiet (f x)"
  shows "quiet (bindL m f)"
  unfolding quiet_def
proof
  fix s
  obtain r s1 where m: "m s = (r, s1)" by (cases "m s")
  obtain cs where cs: "ls_calls s1 = ls_calls s @ cs" "\<forall>c \<in> set cs. \<not> is_exec c"
    using assms(1) m unfolding quiet_def by (metis snd_conv)
  show "\<exists>cs. ls_calls (snd (bindL m f s)) = ls_calls s @ cs \<and> (\<forall>c \<in> set cs. \<not> is_exec c)"
  proof (cases r)
    case (Inl e)
    with m cs show ?thesis by (auto simp: bindL_def)
  next
    case (Inr x)
    obtain ds where "ls_calls (snd (f x s1)) = ls_calls s1 @ ds" "\<forall>c \<in> set ds. \<not> is_exec c"
      using assms(2) [of x] unfolding quiet_def by metis
    with m cs Inr show ?thesis by (intro exI [of _ "cs @ ds"]) (auto simp: bindL_def)
  qed
qed

lemma quiet_wrapL [quiet_intros]: "quiet m \<Longrightarrow> quiet (wrapL w m)"
  by (simp add: quiet_def wrapL_def case_prod_beta)

lemma quiet_sys_try [quiet_intros]: "\<not> is_exec c \<Longrightarrow> quiet (sys_try le c)"
  by (auto simp: quiet_def sys_try_def split: option.splits)

lemma quiet_if [quiet_intros]: "quiet m \<Longrightarrow> quiet n \<Longrightarrow> quiet (if b then m else n)"
  by simp

lemma quiet_option [quiet_intros]: "quiet m \<Longrightarrow> (\<And>x. quiet (n x)) \<Longrightarrow> quiet (case r of None \<Rightarrow> m | Some x \<Rightarrow> n x)"
  by (cases r) auto

lemma quiet_sys_error [quiet_intros]:
  "quiet m1 \<Longrightarrow> quiet m2 \<Longrightarrow> quiet m3 \<Longrightarrow> (\<And>x. quiet (m4 x)) \<Longrightarrow>
   quiet (case e of ENOENT \<Rightarrow> m1 | EINVAL \<Rightarrow> m2 | EPERM \<Rightarrow> m3 | Sys_Error x \<Rightarrow> m4 x)"
  by (cases e) auto

lemma quiet_sys [quiet_intros]: "\<not> is_exec c \<Longrightarrow> quiet (sys le c)"
  unfolding sys_def by (intro quiet_intros)

lemma quiet_sys_all [quiet_intros]: "\<forall>c \<in> set cs. \<not> is_exec c \<Longrightarrow> quiet (sys_all le cs)"
  by (induction cs) (auto intro!: quiet_intros)

lemma quiet_mask_mounts [quiet_intros]: "quiet (mask_mounts le ps)"
proof (induction ps)
  case (Cons p ps)
  have "quiet (mask_mount le p)"
    unfolding mask_mount_def by (rule quiet_bindL [OF quiet_sys_try]) (auto intro!: quiet_intros split: option.split sys_error.split)
  with Cons show ?case by (auto intro!: quiet_intros)
qed (simp add: quiet_intros)

lemma quiet_prepareRoot: "quiet (prepareRoot le l)"
  unfolding prepareRoot_def mountProc_def mountLdConfig_def msMoveRoot_def pivotRoot_def chroot_def Let_def
  by (intro quiet_intros) auto

lemma quiet_withState [quiet_intros]: "(\<And>s. quiet (f s)) \<Longrightarrow> quiet (withState f)"
  unfolding quiet_def withState_def by metis

lemma quiet_write_file [quiet_intros]: "quiet (write_file le p c)"
proof -
  have "quiet (\<lambda>s. (Inr (), s\<lparr>ls_files := (ls_files s)(p \<mapsto> c)\<rparr>))" by (simp add: quiet_def)
  then show ?thesis unfolding write_file_def by (intro quiet_intros) auto
qed

lemma quiet_conf_files [quiet_intros]:
  "quiet (createLdsoconfdFile le dir pat dirs)" "quiet (ensureLdsoconfFile le p dir)" "quiet (createMuslPathFileIfRequired le dirs)"
  unfolding createLdsoconfdFile_def ensureLdsoconfFile_def createMuslPathFileIfRequired_def Let_def
  by (intro quiet_intros; auto)+

definition quiet_run :: "ld_state \<Rightarrow> ld_state \<Rightarrow> bool" where
  "quiet_run s s' \<longleftrightarrow> (\<exists>cs. ls_calls s' = ls_calls s @ cs \<and> (\<forall>c \<in> set cs. \<not> is_exec c))"

lemma quiet_calls: "m s = (r, s') \<Longrightarrow> quiet m \<Longrightarrow> quiet_run s s'"
  unfolding quiet_def quiet_run_def by (metis snd_conv)

lemma quiet_run_trans: "quiet_run s s1 \<Longrightarrow> quiet_run s1 s2 \<Longrightarrow> quiet_run s s2"
  unfolding quiet_run_def by (metis append.assoc Un_iff set_append)

lemma wrapL_Inr: "wrapL w m s = (Inr x, s') \<longleftrightarrow> m s = (Inr x, s')"
  by (auto simp: wrapL_def split: prod.splits)

lemma prepareRoot_Inr:
  assumes "prepareRoot le l s = (Inr path, s')"
  shows "path = FJoin [''/run/nvidia-ctk-hook/'' @ le_uuid le, ''ldconfig'']"
  using assms by (auto simp: prepareRoot_def bindL_Inr wrapL_Inr retL_def mountLdConfig_def Let_def)

text \<open>What is done in the container before ldconfig runs.\<close>

definition drop_ins :: "ld_env \<Rightarrow> Ldconfig \<Rightarrow> string list \<Rightarrow> unit ldm" where
  "drop_ins le l filtered =
     bindL (wrapL ''failed to write drop-in''
        (createLdsoconfdFile le ''/etc/ld.so.conf.d'' ''00-nvcr-*.conf'' filtered)) (\<lambda>_.
     bindL (wrapL ''failed to write drop-in''
        (createLdsoconfdFile le ''/etc/ld.so.conf.d'' ''zz-nvcr-*.conf'' (getSystemSearchPaths le l))) (\<lambda>_.
       wrapL ''failed to update .path file for musl''
         (createMuslPathFileIfRequired le (filtered @ getSystemSearchPaths le l))))"

lemma bindL_assoc: "bindL (bindL m f) g = bindL m (\<lambda>x. bindL (f x) g)"
  by (auto simp: fun_eq_iff bindL_def split: prod.splits sum.splits)

definition ldconfig_args :: "ld_env \<Rightarrow> string \<times> string list" where
  "ldconfig_args le = (let path = FJoin [''/run/nvidia-ctk-hook/'' @ le_uuid le, ''ldconfig''] in
     (le_execPath le path, [Base path, ''-f'', ''/etc/ld.so.conf'', ''-C'', ''/etc/ld.so.cache'']))"

lemma UpdateLDCache_cases:
  assumes "UpdateLDCache le l s = Some (r, s')"
  obtains (stopped) e where "r = Inl e" "quiet_run s s'"
  | (finished) known filtered s1 s2 where
      "prepareRoot le l s = (Inr (FJoin [''/run/nvidia-ctk-hook/'' @ le_uuid le, ''ldconfig'']), s1)"
      "quiet_run s1 s2"
      "getLdsoconfDirectories le (ls_files s2) (l\<lparr>ld_isDebianLikeContainer := (ls_files s1 ''/etc/debian_version'' \<noteq> None)\<rparr>)
         ''/etc/ld.so.conf'' = Some (Inr known)"
      "filtered = filter_known known (ld_directories l)"
      "bindL (drop_ins le (l\<lparr>ld_isDebianLikeContainer := (ls_files s1 ''/etc/debian_version'' \<noteq> None)\<rparr>) filtered)
         (\<lambda>_. sys le (case_prod Exec (ldconfig_args le))) s2 = (r, s')"
proof -
  obtain p s1 where p: "prepareRoot le l s = (p, s1)" by (cases "prepareRoot le l s")
  note q1 = quiet_calls [OF p quiet_prepareRoot]
  show thesis
  proof (cases p)
    case (Inl e)
    with p assms q1 show thesis by (intro stopped [of e]) (auto simp: UpdateLDCache_def)
  next
    case (Inr path)
    let ?l = "l\<lparr>ld_isDebianLikeContainer := (ls_files s1 ''/etc/debian_version'' \<noteq> None)\<rparr>"
    let ?ensure = "wrapL ''failed to ensure ld.so.conf file'' (ensureLdsoconfFile le ''/etc/ld.so.conf'' ''/etc/ld.so.conf.d'')"
    have path: "path = FJoin [''/run/nvidia-ctk-hook/'' @ le_uuid le, ''ldconfig'']"
      using prepareRoot_Inr p Inr by simp
    obtain x s2 where e: "?ensure s1 = (x, s2)" by (cases "?ensure s1")
    have "quiet ?ensure" by (intro quiet_intros)
    then have q2: "quiet_run s1 s2" by (intro quiet_calls [where m = ?ensure, OF e])
    show thesis
    proof (cases x)
      case (Inl e')
      with p e Inr assms quiet_run_trans [OF q1 q2] show thesis
        by (intro stopped [of e']) (auto simp: UpdateLDCache_def)
    next
      case x: (Inr u)
      from assms p e Inr x obtain k where k: "getLdsoconfDirectories le (ls_files s2) ?l ''/etc/ld.so.conf'' = Some k"
        by (auto simp: UpdateLDCache_def filterDirectories_def Let_def)
      show thesis
      proof (cases k)
        case (Inl e')
        with k p e Inr x assms quiet_run_trans [OF q1 q2] show thesis
          by (intro stopped [of e']) (auto simp: UpdateLDCache_def filterDirectories_def Let_def)
      next
        case known: (Inr known)
        have "bindL (drop_ins le ?l (filter_known known (ld_directories l))) (\<lambda>_. sys le (case_prod Exec (ldconfig_args le))) s2 = (r, s')"
          using assms p e Inr x k known
          by (simp add: UpdateLDCache_def filterDirectories_def Let_def drop_ins_def bindL_assoc SafeExec_def ldconfig_args_def path)
        with p Inr path k known q2 show thesis by (intro finished) auto
      qed
    qed
  qed
qed

lemma filter_known_set: "set (filter_known known ds) = set ds - set known"
  by (induction ds arbitrary: known) auto

lemma quiet_drop_ins: "quiet (drop_ins le l filtered)"
  unfolding drop_ins_def by (intro quiet_intros)

lemma drop_ins_writes:
  assumes "drop_ins le l filtered s = (Inr x, s')" and "filtered \<noteq> []"
  shows "\<exists>path cs. ls_calls s' = ls_calls s @ cs \<and> Write_file path (outputListToFile filtered) \<in> set cs"
proof -
  let ?rest = "bindL (wrapL ''failed to write drop-in''
        (createLdsoconfdFile le ''/etc/ld.so.conf.d'' ''zz-nvcr-*.conf'' (getSystemSearchPaths le l))) (\<lambda>_.
       wrapL ''failed to update .path file for musl'' (createMuslPathFileIfRequired le (filtered @ getSystemSearchPaths le l)))"
  from assms(1) obtain s1 where s1: "createLdsoconfdFile le ''/etc/ld.so.conf.d'' ''00-nvcr-*.conf'' filtered s = (Inr (), s1)"
    and rest: "?rest s1 = (Inr x, s')"
    unfolding drop_ins_def by (auto simp: bindL_Inr wrapL_Inr)
  from s1 assms(2) obtain path where calls:
    "ls_calls s1 = ls_calls s @ [Mkdir_all ''/etc/ld.so.conf.d'', Write_file path (outputListToFile filtered), Chmod_file path]"
    by (auto simp: createLdsoconfdFile_def bindL_Inr wrapL_Inr sys_Inr withState_def Let_def write_file_def)
  have "quiet ?rest" by (intro quiet_intros)
  then have "quiet_run s1 s'" by (intro quiet_calls [where m = ?rest, OF rest])
  with calls show ?thesis unfolding quiet_run_def by (intro exI [of _ path]) auto
qed

lemma outputListToFile_lines: "d \<in> set dirs \<Longrightarrow> \<exists>a b. outputListToFile dirs = a @ d @ [CHR 0x0A] @ b"
  using set_unique_id [of dirs] unfolding outputListToFile_def
  by (metis (no_types, lifting) concat_append concat.simps(2) list.simps(9) map_append split_list append.assoc)


definition example_ld_state :: ld_state where
  "example_ld_state = \<lparr>ls_files = example_conf_files, ls_calls = []\<rparr>"

lemma example_update: "map_option fst (UpdateLDCache example_ld_env example_Ldconfig example_ld_state) = Some (Inr ())"
  by code_simp


end
