(* ===== verification/Toml_Tree.thy ===== *)
theory Toml_Tree
  imports Go_Path "HOL-Library.AList" "HOL-Library.Sublist"
begin

text \<open>
  Trees of TOML values (\<open>pkg/config/toml\<close>), with the operations of the TOML library by paths of keys
  that the configuration of container engines uses, and the sources they are loaded from.  The text of
  a tree is a parameter.  A map of Go is an association list, of which only the values and the number of
  keys are observed.
\<close>

subsection \<open>Trees\<close>

text \<open>
  \<open>LArray\<close> is a list read from a text (\<open>[]interface{}\<close>), \<open>LStrings\<close> a list of strings that the program put
  into a tree (\<open>[]string\<close>); \<open>Subs\<close> is an array of tables.
\<close>

datatype toml_leaf =
    LString string
  | LBool bool
  | LInt int
  | LStrings "string list"
  | LOther string
  | LArray "toml_leaf list"

datatype toml_node = Leaf toml_leaf | Sub toml | Subs "toml list"
and toml = Tree (tree_values: "(string \<times> toml_node) list")

definition NewEmpty :: toml where
  "NewEmpty = Tree []"

definition tree_get :: "toml \<Rightarrow> string \<Rightarrow> toml_node option" where
  "tree_get t k = map_of (tree_values t) k"

definition tree_put :: "string \<Rightarrow> toml_node \<Rightarrow> toml \<Rightarrow> toml" where
  "tree_put k v t = Tree (AList.update k v (tree_values t))"

definition tree_remove :: "string \<Rightarrow> toml \<Rightarrow> toml" where
  "tree_remove k t = Tree (AList.delete k (tree_values t))"

definition Keys :: "toml \<Rightarrow> string list" where
  "Keys t = map fst (AList.clearjunk (tree_values t))"

lemma tree_get_simps [simp]:
  "tree_get NewEmpty k = None"
  "tree_get (tree_put k v t) l = (if l = k then Some v else tree_get t l)"
  "tree_get (tree_remove k t) l = (if l = k then None else tree_get t l)"
  by (simp_all add: NewEmpty_def tree_get_def tree_put_def tree_remove_def update_conv' delete_conv')

lemma set_Keys: "set (Keys t) = {k. tree_get t k \<noteq> None}"
  by (auto simp: Keys_def tree_get_def dom_clearjunk map_of_eq_None_iff)

lemma distinct_Keys: "distinct (Keys t)"
  by (simp add: Keys_def distinct_clearjunk)

text \<open>Paths go on in tables and in the last table of an array of tables.\<close>

definition next_tree :: "toml_node \<Rightarrow> toml option" where
  "next_tree n = (case n of Leaf _ \<Rightarrow> None | Sub t \<Rightarrow> Some t | Subs ts \<Rightarrow> if ts = [] then None else Some (last ts))"

fun GetPath :: "toml \<Rightarrow> string list \<Rightarrow> toml_node option" where
  "GetPath t [] = Some (Sub t)"
| "GetPath t [k] = tree_get t k"
| "GetPath t (k # k' # ks) =
     (case tree_get t k of
        None \<Rightarrow> None
      | Some n \<Rightarrow> (case next_tree n of None \<Rightarrow> None | Some s \<Rightarrow> GetPath s (k' # ks)))"

definition HasPath :: "toml \<Rightarrow> string list \<Rightarrow> bool" where
  "HasPath t keys \<longleftrightarrow> GetPath t keys \<noteq> None"

text \<open>
  Missing tables on the way are made.  A value that is no table is skipped: the rest of the path is
  then followed from the table that holds the value.
\<close>

fun SetPath :: "toml \<Rightarrow> string list \<Rightarrow> toml_node \<Rightarrow> toml" where
  "SetPath t [] v = t"
| "SetPath t [k] v = tree_put k v t"
| "SetPath t (k # k' # ks) v =
     (case tree_get t k of
        None \<Rightarrow> tree_put k (Sub (SetPath NewEmpty (k' # ks) v)) t
      | Some (Sub s) \<Rightarrow> tree_put k (Sub (SetPath s (k' # ks) v)) t
      | Some (Subs ts) \<Rightarrow>
          if ts = [] then tree_put k (Subs [SetPath NewEmpty (k' # ks) v]) t
          else tree_put k (Subs (butlast ts @ [SetPath (last ts) (k' # ks) v])) t
      | Some (Leaf _) \<Rightarrow> SetPath t (k' # ks) v)"

text \<open>Deleting in an array of tables is an error, unless the array is only passed on the way.\<close>

fun delete_path :: "toml \<Rightarrow> string list \<Rightarrow> toml option" where
  "delete_path t [] = None"
| "delete_path t [k] = Some (tree_remove k t)"
| "delete_path t (k # k' # ks) =
     (case tree_get t k of
        Some (Sub s) \<Rightarrow> map_option (\<lambda>s'. tree_put k (Sub s') t) (delete_path s (k' # ks))
      | Some (Subs ts) \<Rightarrow>
          if ts = [] \<or> ks = [] then None
          else map_option (\<lambda>s'. tree_put k (Subs (butlast ts @ [s'])) t) (delete_path (last ts) (k' # ks))
      | _ \<Rightarrow> None)"

definition DeletePath :: "toml \<Rightarrow> string list \<Rightarrow> toml \<times> error option" where
  "DeletePath t keys =
     (case delete_path t keys of None \<Rightarrow> (t, Some (Errorf ''no such key to delete'')) | Some t' \<Rightarrow> (t', None))"

abbreviation deleted :: "toml \<Rightarrow> string list \<Rightarrow> toml" where
  "deleted t keys \<equiv> fst (DeletePath t keys)"

text \<open>A value that is not a table makes the program panic.\<close>

definition GetSubtreeByPath :: "toml \<Rightarrow> string list \<Rightarrow> toml option result" where
  "GetSubtreeByPath t keys =
     (case GetPath t keys of
        None \<Rightarrow> Inr None
      | Some (Sub s) \<Rightarrow> Inr (Some s)
      | Some _ \<Rightarrow> Inl (Panic ''invalid subtree type''))"

abbreviation toml_string :: "toml \<Rightarrow> string list \<Rightarrow> string option" where
  "toml_string t keys \<equiv> (case GetPath t keys of Some (Leaf (LString s)) \<Rightarrow> Some s | _ \<Rightarrow> None)"

subsection \<open>What the operations by path do\<close>

text \<open>The tables that a path runs through exist or can be made.\<close>

fun table_path :: "toml \<Rightarrow> string list \<Rightarrow> bool" where
  "table_path t [] \<longleftrightarrow> True"
| "table_path t [k] \<longleftrightarrow> True"
| "table_path t (k # k' # ks) \<longleftrightarrow>
     (case tree_get t k of None \<Rightarrow> True | Some (Sub s) \<Rightarrow> table_path s (k' # ks) | Some _ \<Rightarrow> False)"

text \<open>Neither path is a prefix of the other.\<close>

fun diverge :: "string list \<Rightarrow> string list \<Rightarrow> bool" where
  "diverge (k # ks) (l # ls) \<longleftrightarrow> k \<noteq> l \<or> diverge ks ls"
| "diverge _ _ \<longleftrightarrow> False"

lemma table_path_Empty [simp]: "table_path NewEmpty ks"
  by (cases "(NewEmpty, ks)" rule: table_path.cases) auto

lemma GetPath_Empty [simp]: "GetPath NewEmpty ks = (if ks = [] then Some (Sub NewEmpty) else None)"
  by (cases "(NewEmpty, ks)" rule: GetPath.cases) auto

lemma next_tree_simps [simp]:
  "next_tree (Leaf l) = None" "next_tree (Sub t) = Some t"
  by (simp_all add: next_tree_def)

lemma GetPath_Cons:
  "ks \<noteq> [] \<Longrightarrow> GetPath t (k # ks) = (case tree_get t k of None \<Rightarrow> None | Some n \<Rightarrow>
     (case next_tree n of None \<Rightarrow> None | Some s \<Rightarrow> GetPath s ks))"
  by (cases ks) auto

lemma GetPath_SetPath_same [simp]:
  "table_path t ks \<Longrightarrow> ks \<noteq> [] \<Longrightarrow> GetPath (SetPath t ks v) ks = Some v"
  by (induction t ks v rule: SetPath.induct) (auto split: option.splits toml_node.splits)

lemma GetPath_SetPath_below:
  "table_path t ks \<Longrightarrow> ks \<noteq> [] \<Longrightarrow> ls \<noteq> [] \<Longrightarrow> GetPath (SetPath t ks (Sub s)) (ks @ ls) = GetPath s ls"
  by (induction t ks "Sub s" rule: SetPath.induct)
    (auto simp: GetPath_Cons split: option.splits toml_node.splits)

lemma GetPath_put_other: "diverge [k] ls \<Longrightarrow> GetPath (tree_put k v t) ls = GetPath t ls"
  by (cases "(t, ls)" rule: GetPath.cases) auto

lemma GetPath_remove_other: "diverge [k] ls \<Longrightarrow> GetPath (tree_remove k t) ls = GetPath t ls"
  by (cases "(t, ls)" rule: GetPath.cases) auto

lemma GetPath_put_Sub:
  "ls \<noteq> [] \<Longrightarrow> GetPath (tree_put k (Sub s) t) (l # ls) = (if l = k then GetPath s ls else GetPath t (l # ls))"
  by (simp add: GetPath_Cons)

lemma diverge_Nil [simp]: "\<not> diverge ks []"
  by (cases ks) auto

lemma GetPath_SetPath_other:
  "diverge ks ls \<Longrightarrow> table_path t ks \<Longrightarrow> GetPath (SetPath t ks v) ls = GetPath t ls"
proof (induction t ks v arbitrary: ls rule: SetPath.induct)
  case (3 t k k' ks v)
  then obtain l ls' where ls: "ls = l # ls'" by (cases ls) auto
  show ?case
  proof (cases "l = k")
    case True
    then have "ls' \<noteq> []" "diverge (k' # ks) ls'" using 3 ls by auto
    with True 3 ls show ?thesis by (auto simp: GetPath_Cons split: option.splits toml_node.splits)
  next
    case False
    then have "diverge [k] ls" using ls by simp
    with "3.prems"(2) show ?thesis by (auto simp: GetPath_put_other split: option.splits toml_node.splits)
  qed
next
  case (2 t k v)
  then show ?case by (simp add: GetPath_put_other)
qed simp

lemma deleted_simps:
  "deleted t [k] = tree_remove k t"
  "deleted t (k # k' # ks) = (case tree_get t k of Some (Sub s) \<Rightarrow>
      if delete_path s (k' # ks) = None then t else tree_put k (Sub (deleted s (k' # ks))) t
    | Some (Subs ts) \<Rightarrow> if ts = [] \<or> ks = [] \<or> delete_path (last ts) (k' # ks) = None then t
        else tree_put k (Subs (butlast ts @ [deleted (last ts) (k' # ks)])) t
    | _ \<Rightarrow> t)"
  by (auto simp: DeletePath_def split: option.splits toml_node.splits)

lemma GetPath_deleted_same [simp]: "table_path t ks \<Longrightarrow> ks \<noteq> [] \<Longrightarrow> GetPath (deleted t ks) ks = None"
proof (induction t ks rule: table_path.induct)
  case (3 t k k' ks)
  then show ?case
    by (cases "tree_get t k") (auto simp: deleted_simps(2) DeletePath_def split: toml_node.splits option.splits)
qed (auto simp: deleted_simps)

lemma GetPath_deleted_below:
  "table_path t ks \<Longrightarrow> ks \<noteq> [] \<Longrightarrow> GetPath (deleted t ks) (ks @ ls) = None"
proof (induction t ks rule: table_path.induct)
  case (2 t k)
  then show ?case by (cases ls) (auto simp: deleted_simps GetPath_Cons)
next
  case (3 t k k' ks)
  then show ?case
    by (cases "tree_get t k")
      (auto simp: deleted_simps(2) DeletePath_def GetPath_Cons split: toml_node.splits option.splits)
qed auto

lemma GetPath_deleted_other:
  "diverge ks ls \<Longrightarrow> table_path t ks \<Longrightarrow> GetPath (deleted t ks) ls = GetPath t ls"
proof (induction t ks arbitrary: ls rule: table_path.induct)
  case (2 t k)
  then show ?case by (simp add: deleted_simps GetPath_remove_other)
next
  case (3 t k k' ks)
  then obtain l ls' where ls: "ls = l # ls'" by (cases ls) auto
  show ?case
  proof (cases "l = k")
    case True
    then have "ls' \<noteq> []" "diverge (k' # ks) ls'" using 3 ls by auto
    with True 3 ls show ?thesis
      by (cases "tree_get t k") (auto simp: deleted_simps(2) GetPath_Cons split: toml_node.splits)
  next
    case False
    then have "diverge [k] ls" using ls by simp
    with 3(3) show ?thesis
      by (cases "tree_get t k") (auto simp: deleted_simps(2) GetPath_put_other split: toml_node.splits)
  qed
qed auto

lemma table_path_Cons:
  "ks \<noteq> [] \<Longrightarrow> table_path t (k # ks) \<longleftrightarrow>
     (case tree_get t k of None \<Rightarrow> True | Some (Sub s) \<Rightarrow> table_path s ks | Some _ \<Rightarrow> False)"
  by (cases ks) auto

lemma table_path_single [simp]: "table_path t [k] \<longleftrightarrow> True"
  by simp

lemma table_path_SetPath:
  "table_path t ks \<Longrightarrow> table_path t ls \<Longrightarrow> \<not> strict_prefix ks ls \<Longrightarrow> table_path (SetPath t ks v) ls"
proof (induction t ks v arbitrary: ls rule: SetPath.induct)
  case (2 t k v)
  then show ?case by (cases "(t, ls)" rule: table_path.cases) auto
next
  case (3 t k k' ks v)
  show ?case
  proof (cases ls)
    case (Cons l ls')
    show ?thesis
    proof (cases "ls' = []")
      case False
      have "table_path s ls'" if "tree_get t k = Some (Sub s)" "l = k" for s
        using "3.prems"(2) False that Cons by (auto simp: table_path_Cons)
      with 3 Cons False show ?thesis
        by (cases "l = k") (auto simp: table_path_Cons split: option.splits toml_node.splits)
    qed (simp add: Cons)
  qed simp
qed simp

lemma table_path_SetPath_below:
  "table_path t ks \<Longrightarrow> ks \<noteq> [] \<Longrightarrow> ls \<noteq> [] \<Longrightarrow> table_path (SetPath t ks (Sub s)) (ks @ ls) \<longleftrightarrow> table_path s ls"
  by (induction t ks "Sub s" rule: SetPath.induct)
    (auto simp: table_path_Cons split: option.splits toml_node.splits)

lemma table_path_deleted: "table_path t ks \<Longrightarrow> table_path t ls \<Longrightarrow> table_path (deleted t ks) ls"
proof (induction t ks arbitrary: ls rule: table_path.induct)
  case (1 t)
  then show ?case by (simp add: DeletePath_def)
next
  case (2 t k)
  then show ?case by (cases "(t, ls)" rule: table_path.cases) (auto simp: deleted_simps)
next
  case (3 t k k' ks)
  show ?case
  proof (cases ls)
    case (Cons l ls')
    show ?thesis
    proof (cases "ls' = []")
      case False
      have "table_path s ls'" if "tree_get t k = Some (Sub s)" "l = k" for s
        using "3.prems"(2) False that Cons by (auto simp: table_path_Cons)
      with 3 Cons False show ?thesis
        by (cases "l = k"; cases "tree_get t k") (auto simp: deleted_simps(2) table_path_Cons split: toml_node.splits)
    qed (simp add: Cons)
  qed simp
qed

lemma table_path_append1: "table_path t (p @ q) \<Longrightarrow> table_path t p"
  by (induction t p rule: table_path.induct) (auto split: option.splits toml_node.splits)

lemma table_path_last: "table_path t (p @ [x]) \<Longrightarrow> table_path t (p @ [y])"
  by (induction t p rule: table_path.induct) (auto split: option.splits toml_node.splits)

lemma table_path_prefix: "table_path t q \<Longrightarrow> prefix p q \<Longrightarrow> table_path t p"
  by (auto simp: prefix_def intro: table_path_append1)

lemma table_path_append_Sub:
  "GetPath t p = Some (Sub s) \<Longrightarrow> table_path t (p @ q) \<Longrightarrow> table_path s q"
proof (induction t p rule: table_path.induct)
  case (2 t k)
  then show ?case by (cases "q = []") (auto simp: table_path_Cons)
qed (auto split: option.splits toml_node.splits)

lemma GetPath_append_Sub:
  "table_path t p \<Longrightarrow> GetPath t p = Some (Sub s) \<Longrightarrow> GetPath t (p @ q) = GetPath s q"
proof (induction t p rule: table_path.induct)
  case (2 t k)
  then show ?case by (cases "q = []") (auto simp: GetPath_Cons)
qed (auto split: option.splits toml_node.splits)

lemma Keys_Nil: "Keys t = [] \<longleftrightarrow> t = NewEmpty"
proof
  assume "Keys t = []"
  then have "set (Keys t) = {}" by simp
  then have "fst ` set (tree_values t) = {}" by (simp add: Keys_def dom_clearjunk)
  then show "t = NewEmpty" by (cases t) (simp add: NewEmpty_def)
qed (simp add: Keys_def NewEmpty_def)

lemma diverge_iff: "diverge p q \<longleftrightarrow> \<not> prefix p q \<and> \<not> prefix q p"
  by (induction p q rule: diverge.induct) auto

text \<open>Taking out an empty table is only seen from the paths that lead to it.\<close>

lemma GetPath_prune:
  assumes "table_path t p" "GetPath t p = Some (Sub NewEmpty)" "\<not> prefix ls p"
  shows "GetPath (deleted t p) ls = GetPath t ls"
proof (cases "prefix p ls")
  case True
  then obtain q where q: "ls = p @ q" by (auto simp: prefix_def)
  with assms(3) have "q \<noteq> []" by auto
  show ?thesis
  proof (cases "p = []")
    case True
    then show ?thesis by (simp add: DeletePath_def)
  next
    case False
    with GetPath_deleted_below [OF assms(1)] GetPath_append_Sub [OF assms(1,2), of q] \<open>q \<noteq> []\<close> show ?thesis by (simp add: q)
  qed
next
  case False
  with assms(3) have "diverge p ls" by (simp add: diverge_iff)
  with GetPath_deleted_other assms(1) show ?thesis by blast
qed

subsection \<open>Files, texts and sources\<close>

text \<open>
  The contents of files and what was printed are the state.  The texts of trees, the output of commands
  and the failures of the file system are parameters; a directory is a file that cannot be read.
\<close>

record conf_host =
  ch_files :: "string \<Rightarrow> string option"
  ch_stdout :: "string list"

record conf_env =
  ce_Load :: "string \<Rightarrow> toml result"
  ce_Marshal :: "toml \<Rightarrow> string result"
  ce_command :: "string \<Rightarrow> string list \<Rightarrow> string result"
  ce_readError :: "string \<Rightarrow> error option"
  ce_mkdirError :: "string \<Rightarrow> error option"
  ce_createError :: "string \<Rightarrow> error option"
  ce_removeError :: "string \<Rightarrow> error option"

text \<open>A copy is made through the text of a tree; it is nil if the text cannot be read.\<close>

definition toml_text :: "conf_env \<Rightarrow> toml \<Rightarrow> string" where
  "toml_text env t = (case ce_Marshal env t of Inl _ \<Rightarrow> [] | Inr s \<Rightarrow> s)"

definition toml_Copy :: "conf_env \<Rightarrow> toml \<Rightarrow> toml option" where
  "toml_Copy env t = (case ce_Load env (toml_text env t) of Inl _ \<Rightarrow> None | Inr t' \<Rightarrow> Some t')"

text \<open>Writing a configuration file (\<open>pkg/config/raw.go\<close>): an empty one is removed.\<close>

definition Raw_Write :: "conf_env \<Rightarrow> string \<Rightarrow> string \<Rightarrow> conf_host \<Rightarrow> nat result \<times> conf_host" where
  "Raw_Write env path output h =
     (if path = [] then (Inr (length output), h\<lparr>ch_stdout := ch_stdout h @ [output]\<rparr>)
      else if length output = 0
      then (case (if ch_files h path = None then Some (Errorf ''no such file or directory'') else ce_removeError env path) of
              Some e \<Rightarrow> (Inl (Wrap ''unable to remove empty file'' e), h)
            | None \<Rightarrow> (Inr 0, h\<lparr>ch_files := (ch_files h)(path := None)\<rparr>))
      else case ce_mkdirError env (Dir path) of
             Some e \<Rightarrow> (Inl (Wrap ''unable to create directory'' e), h)
           | None \<Rightarrow>
               (case ce_createError env path of
                  Some e \<Rightarrow> (Inl (Wrap ''unable to open for writing'' e), h)
                | None \<Rightarrow> (Inr (length output), h\<lparr>ch_files := (ch_files h)(path \<mapsto> output)\<rparr>)))"

definition toml_Save :: "conf_env \<Rightarrow> toml \<Rightarrow> string \<Rightarrow> conf_host \<Rightarrow> nat result \<times> conf_host" where
  "toml_Save env t path h =
     (case ce_Marshal env t of
        Inl e \<Rightarrow> (Inl (Wrap ''unable to convert to TOML'' e), h)
      | Inr output \<Rightarrow> Raw_Write env path output h)"

datatype loader =
    Loader_empty
  | Loader_cli string "string list"
  | Loader_file string
  | Loader_string string
  | Loader_first "loader option list"

fun FromCommandLine :: "string list \<Rightarrow> loader" where
  "FromCommandLine [] = Loader_empty"
| "FromCommandLine (cmd # args) = Loader_cli cmd args"

definition FromFile :: "string \<Rightarrow> loader" where
  "FromFile path = (if path = [] then Loader_empty else Loader_file path)"

definition FromString :: "string \<Rightarrow> loader" where
  "FromString contents = (if contents = [] then Loader_empty else Loader_string contents)"

definition LoadFirst :: "loader option list \<Rightarrow> loader" where
  "LoadFirst loaders = Loader_first loaders"

definition LoadFile :: "conf_env \<Rightarrow> (string \<Rightarrow> string option) \<Rightarrow> string \<Rightarrow> toml result" where
  "LoadFile env files path =
     (case files path of
        None \<Rightarrow> Inr NewEmpty
      | Some text \<Rightarrow> (case ce_readError env path of Some e \<Rightarrow> Inl e | None \<Rightarrow> ce_Load env text))"

definition cli_Load :: "conf_env \<Rightarrow> string \<Rightarrow> string list \<Rightarrow> toml result" where
  "cli_Load env cmd args = bindR (wrapR ''failed to run command'' (ce_command env cmd args)) (ce_Load env)"

text \<open>The sources are tried in turn; without any source, the tree is nil and there is no error.\<close>

fun loader_Load :: "conf_env \<Rightarrow> (string \<Rightarrow> string option) \<Rightarrow> loader \<Rightarrow> toml option result"
and firstOf_Load :: "conf_env \<Rightarrow> (string \<Rightarrow> string option) \<Rightarrow> error option \<Rightarrow> loader option list \<Rightarrow> toml option result" where
  "loader_Load env files Loader_empty = Inr (Some NewEmpty)"
| "loader_Load env files (Loader_cli cmd args) = map_sum id Some (cli_Load env cmd args)"
| "loader_Load env files (Loader_file path) = map_sum id Some (LoadFile env files path)"
| "loader_Load env files (Loader_string contents) = map_sum id Some (ce_Load env contents)"
| "loader_Load env files (Loader_first loaders) = firstOf_Load env files None loaders"
| "firstOf_Load env files errs [] = (case errs of None \<Rightarrow> Inr None | Some e \<Rightarrow> Inl e)"
| "firstOf_Load env files errs (None # ls) = firstOf_Load env files errs ls"
| "firstOf_Load env files errs (Some l # ls) =
     (case loader_Load env files l of
        Inl e \<Rightarrow> firstOf_Load env files (Some (Joined (case errs of None \<Rightarrow> [e] | Some es \<Rightarrow> [es, e]))) ls
      | Inr t \<Rightarrow> Inr t)"

end
