(* ===== verification/Engine_Config.thy ===== *)
theory Engine_Config
  imports Toml_Tree
begin

text \<open>
  The configuration of container engines (\<open>pkg/config/engine\<close>): Docker, CRI-O and containerd.  A
  configuration is a document to which runtimes are added and from which they are removed; it may be
  read from one place and written to another.
\<close>

subsection \<open>Low-level runtimes (\<open>engine.go\<close>)\<close>

definition isValidDefault :: "string \<Rightarrow> bool" where
  "isValidDefault s \<longleftrightarrow> s \<noteq> [] \<and> \<not> HasPrefix s ''nvidia''"

definition GetLowLevelRuntimes :: "string \<Rightarrow> string list" where
  "GetLowLevelRuntimes defaultRuntime =
     (if isValidDefault defaultRuntime then [defaultRuntime] else []) @ [''runc'', ''crun'']"

text \<open>A runtime whose configuration cannot be read is skipped; a panic is not caught.\<close>

fun binary_paths_loop :: "(string \<Rightarrow> string result) \<Rightarrow> string list \<Rightarrow> string list \<Rightarrow> string list result" where
  "binary_paths_loop cfg seen [] = Inr []"
| "binary_paths_loop cfg seen (r # rs) =
     (case cfg r of
        Inl (Panic p) \<Rightarrow> Inl (Panic p)
      | Inl _ \<Rightarrow> binary_paths_loop cfg seen rs
      | Inr binaryPath \<Rightarrow>
          if binaryPath = [] \<or> binaryPath \<in> set seen then binary_paths_loop cfg seen rs
          else bindR (binary_paths_loop cfg (binaryPath # seen) rs) (\<lambda>bs. Inr (binaryPath # bs)))"

definition GetBinaryPathsForRuntimes :: "string \<Rightarrow> (string \<Rightarrow> string result) \<Rightarrow> string list result" where
  "GetBinaryPathsForRuntimes defaultRuntime cfg = binary_paths_loop cfg [] (GetLowLevelRuntimes defaultRuntime)"

definition UpdateActionSet :: string where "UpdateActionSet = ''set''"
definition UpdateActionUnset :: string where "UpdateActionUnset = ''unset''"

subsection \<open>Docker (\<open>docker/docker.go\<close>)\<close>

text \<open>
  Values of a decoded JSON document, and two kinds of Go values that only the program itself puts into a
  document: \<open>[]string\<close> and \<open>map[string]bool\<close>.
\<close>

datatype jval =
    JNull
  | JBool bool
  | JNum string
  | JStr string
  | JArr "jval list"
  | JObj "(string \<times> jval) list"
  | GoStrings "string list"
  | GoBools "(string \<times> bool) list"

type_synonym docker_config = "(string \<times> jval) list"

definition docker_GetBinaryPath :: "(string \<times> jval) list \<Rightarrow> string" where
  "docker_GetBinaryPath r = (case map_of r ''path'' of Some (JStr p) \<Rightarrow> p | _ \<Rightarrow> [])"

definition docker_AddRuntime :: "string \<Rightarrow> string \<Rightarrow> bool \<Rightarrow> docker_config \<Rightarrow> docker_config \<times> error option" where
  "docker_AddRuntime name path setAsDefault c =
     (case (case map_of c ''runtimes'' of None \<Rightarrow> Some [] | Some (JObj rs) \<Rightarrow> Some rs | Some _ \<Rightarrow> None) of
        None \<Rightarrow> (c, Some (Panic ''interface conversion''))
      | Some runtimes \<Rightarrow>
          let runtimes = AList.update name (JObj [(''path'', JStr path), (''args'', GoStrings [])]) runtimes;
              config = AList.update ''runtimes'' (JObj runtimes) c in
          (if setAsDefault then AList.update ''default-runtime'' (JStr name) config else config, None))"

definition docker_DefaultRuntime :: "docker_config \<Rightarrow> string" where
  "docker_DefaultRuntime c = (case map_of c ''default-runtime'' of Some (JStr r) \<Rightarrow> r | _ \<Rightarrow> [])"

definition docker_EnableCDI :: "docker_config \<Rightarrow> docker_config" where
  "docker_EnableCDI c =
     (let features = (case map_of c ''features'' of Some (GoBools fs) \<Rightarrow> fs | _ \<Rightarrow> []) in
      AList.update ''features'' (GoBools (AList.update ''cdi'' True features)) c)"

definition docker_unsetDefault :: "string \<Rightarrow> docker_config \<Rightarrow> docker_config \<times> error option" where
  "docker_unsetDefault name c =
     (case map_of c ''default-runtime'' of
        None \<Rightarrow> (c, None)
      | Some (JStr defaultRuntime) \<Rightarrow>
          (if defaultRuntime = name then AList.update ''default-runtime'' (JStr ''runc'') c else c, None)
      | Some _ \<Rightarrow> (c, Some (Panic ''interface conversion'')))"

definition docker_RemoveRuntime :: "string \<Rightarrow> docker_config \<Rightarrow> docker_config \<times> error option" where
  "docker_RemoveRuntime name c =
     (case docker_unsetDefault name c of
        (c, Some e) \<Rightarrow> (c, Some e)
      | (c, None) \<Rightarrow>
          (case map_of c ''runtimes'' of
             None \<Rightarrow> (c, None)
           | Some (JObj rs) \<Rightarrow>
               let runtimes = AList.delete name rs in
               (if AList.clearjunk runtimes = [] then AList.delete ''runtimes'' c
                else AList.update ''runtimes'' (JObj runtimes) c, None)
           | Some _ \<Rightarrow> (c, Some (Panic ''interface conversion''))))"

definition docker_UpdateDefaultRuntime :: "string \<Rightarrow> string \<Rightarrow> docker_config \<Rightarrow> docker_config \<times> error option" where
  "docker_UpdateDefaultRuntime name action c =
     (if action \<noteq> UpdateActionSet \<and> action \<noteq> UpdateActionUnset then (c, Some (Errorf ''invalid action''))
      else if action = UpdateActionSet then (AList.update ''default-runtime'' (JStr name) c, None)
      else docker_unsetDefault name c)"

definition docker_GetRuntimeConfig :: "docker_config \<Rightarrow> string \<Rightarrow> (string \<times> jval) list result" where
  "docker_GetRuntimeConfig c name =
     (case map_of c ''runtimes'' of
        None \<Rightarrow> Inr []
      | Some (JObj rs) \<Rightarrow>
          (case map_of rs name of
             None \<Rightarrow> Inr []
           | Some (JObj r) \<Rightarrow> Inr r
           | Some _ \<Rightarrow> Inl (Panic ''interface conversion''))
      | Some _ \<Rightarrow> Inl (Panic ''interface conversion''))"

text \<open>The text of a JSON document is a parameter; the document is an object.\<close>

record docker_env =
  de_Decode :: "string \<Rightarrow> docker_config result"
  de_Marshal :: "docker_config \<Rightarrow> string result"

definition docker_loadConfig ::
  "docker_env \<Rightarrow> conf_env \<Rightarrow> (string \<Rightarrow> string option) \<Rightarrow> string \<Rightarrow> docker_config result" where
  "docker_loadConfig de env files config =
     (case files config of
        None \<Rightarrow> Inr []
      | Some text \<Rightarrow>
          (case ce_readError env config of
             Some e \<Rightarrow> Inl (Wrap ''unable to read config'' e)
           | None \<Rightarrow> de_Decode de text))"

definition docker_New ::
  "docker_env \<Rightarrow> conf_env \<Rightarrow> (string \<Rightarrow> string option) \<Rightarrow> string \<Rightarrow> docker_config result" where
  "docker_New de env files path = (if path = [] then Inr [] else docker_loadConfig de env files path)"

definition docker_Save :: "docker_env \<Rightarrow> conf_env \<Rightarrow> docker_config \<Rightarrow> string \<Rightarrow> conf_host \<Rightarrow> nat result \<times> conf_host" where
  "docker_Save de env c path h =
     (case de_Marshal de c of
        Inl e \<Rightarrow> (Inl (Wrap ''unable to convert to JSON'' e), h)
      | Inr output \<Rightarrow> Raw_Write env path output h)"

subsection \<open>CRI-O (\<open>crio/crio.go\<close>)\<close>

definition crio_runtime :: "string \<Rightarrow> string list" where
  "crio_runtime name = [''crio'', ''runtime'', ''runtimes'', name]"

definition crio_default :: "string list" where
  "crio_default = [''crio'', ''runtime'', ''default_runtime'']"

definition toml_DefaultRuntime :: "string list \<Rightarrow> toml \<Rightarrow> string" where
  "toml_DefaultRuntime path t = (case toml_string t path of Some r \<Rightarrow> r | None \<Rightarrow> [])"

abbreviation crio_DefaultRuntime :: "toml \<Rightarrow> string" where
  "crio_DefaultRuntime \<equiv> toml_DefaultRuntime crio_default"

text \<open>The default is dropped if it is the given runtime.\<close>

definition unset_default :: "string list \<Rightarrow> string \<Rightarrow> toml \<Rightarrow> toml" where
  "unset_default path name t = (if toml_string t path = Some name then deleted t path else t)"

text \<open>
  The options of the first low-level runtime that has a table.  A copy that is nil is dereferenced as soon
  as it is put into a tree, so this is where the program panics.
\<close>

fun default_options :: "conf_env \<Rightarrow> (string \<Rightarrow> string list) \<Rightarrow> toml \<Rightarrow> string list \<Rightarrow> toml option result" where
  "default_options env path t [] = Inr None"
| "default_options env path t (r # rs) =
     (case GetSubtreeByPath t (path r) of
        Inl e \<Rightarrow> Inl e
      | Inr None \<Rightarrow> default_options env path t rs
      | Inr (Some options) \<Rightarrow>
          (case toml_Copy env options of
             None \<Rightarrow> Inl (Panic ''nil pointer dereference'')
           | Some copy \<Rightarrow> Inr (Some copy)))"

definition crio_GetDefaultRuntimeOptions :: "conf_env \<Rightarrow> toml \<Rightarrow> toml option result" where
  "crio_GetDefaultRuntimeOptions env t = default_options env crio_runtime t (GetLowLevelRuntimes (crio_DefaultRuntime t))"

definition set_options :: "string list \<Rightarrow> toml option \<Rightarrow> toml \<Rightarrow> toml" where
  "set_options path options t = (case options of None \<Rightarrow> t | Some o' \<Rightarrow> SetPath t path (Sub o'))"

definition crio_AddRuntimeWithOptions :: "string \<Rightarrow> string \<Rightarrow> bool \<Rightarrow> toml option \<Rightarrow> toml \<Rightarrow> toml" where
  "crio_AddRuntimeWithOptions name path setAsDefault options t =
     (let config = set_options (crio_runtime name) options t;
          config = SetPath config (crio_runtime name @ [''runtime_path'']) (Leaf (LString path));
          config = SetPath config (crio_runtime name @ [''runtime_type'']) (Leaf (LString ''oci'')) in
      if setAsDefault then SetPath config crio_default (Leaf (LString name))
      else unset_default crio_default name config)"

definition path_prefixes :: "string list \<Rightarrow> string list list" where
  "path_prefixes path = map (\<lambda>i. take (length path - i) path) [0..<length path]"

text \<open>Tables that became empty are removed, from the inside, up to the first one that is not empty.\<close>

fun crio_prune :: "toml \<Rightarrow> string list list \<Rightarrow> toml" where
  "crio_prune t [] = t"
| "crio_prune t (p # ps) =
     (case GetPath t p of
        Some (Sub entry) \<Rightarrow> if length (Keys entry) \<noteq> 0 then t else crio_prune (deleted t p) ps
      | _ \<Rightarrow> crio_prune t ps)"

definition crio_RemoveRuntime :: "string \<Rightarrow> toml \<Rightarrow> toml" where
  "crio_RemoveRuntime name t =
     (let config = unset_default crio_default name t;
          config = deleted config (crio_runtime name) in
      crio_prune config (path_prefixes (crio_runtime name)))"

definition toml_UpdateDefaultRuntime :: "string list \<Rightarrow> string \<Rightarrow> string \<Rightarrow> toml \<Rightarrow> toml \<times> error option" where
  "toml_UpdateDefaultRuntime path name action t =
     (if action \<noteq> UpdateActionSet \<and> action \<noteq> UpdateActionUnset then (t, Some (Errorf ''invalid action''))
      else if action = UpdateActionSet then (SetPath t path (Leaf (LString name)), None)
      else (unset_default path name t, None))"

abbreviation crio_UpdateDefaultRuntime :: "string \<Rightarrow> string \<Rightarrow> toml \<Rightarrow> toml \<times> error option" where
  "crio_UpdateDefaultRuntime \<equiv> toml_UpdateDefaultRuntime crio_default"

definition crio_GetBinaryPath :: "toml option \<Rightarrow> string" where
  "crio_GetBinaryPath tree =
     (case tree of None \<Rightarrow> [] | Some t \<Rightarrow> (case toml_string t [''runtime_path''] of Some p \<Rightarrow> p | None \<Rightarrow> []))"

definition crio_GetRuntimeConfig :: "toml \<Rightarrow> string \<Rightarrow> toml option result" where
  "crio_GetRuntimeConfig t name = GetSubtreeByPath t (crio_runtime name)"

definition chrootIfRequired :: "string \<Rightarrow> string list \<Rightarrow> string list" where
  "chrootIfRequired hostRoot commandLine =
     (if hostRoot = [] \<or> hostRoot = ''/'' then commandLine else [''chroot'', hostRoot] @ commandLine)"

definition crio_CommandLineSource :: "string \<Rightarrow> string \<Rightarrow> loader" where
  "crio_CommandLineSource hostRoot executablePath =
     (let executablePath = (if executablePath = [] then ''crio'' else executablePath) in
      LoadFirst [Some (FromCommandLine (chrootIfRequired hostRoot [executablePath, ''status'', ''config''])),
                 Some (FromCommandLine (chrootIfRequired hostRoot [''crio-status'', ''config'']))])"

text \<open>
  A configuration with a source and a destination (\<open>engine/config.go\<close>): the options of the runtime that is
  added and the queries come from the source, all changes go to the destination.  For CRI-O both are
  loaded on their own.
\<close>

record crio_engine =
  cr_source :: toml
  cr_destination :: toml

definition crio_New ::
  "conf_env \<Rightarrow> (string \<Rightarrow> string option) \<Rightarrow> string \<Rightarrow> loader option \<Rightarrow> loader option \<Rightarrow> crio_engine result" where
  "crio_New env files topLevelConfigPath configSource configDestination =
     (let source = (case configSource of None \<Rightarrow> FromFile topLevelConfigPath | Some l \<Rightarrow> l) in
      case loader_Load env files source of
        Inl e \<Rightarrow> Inl e
      | Inr None \<Rightarrow> Inl (Panic ''nil pointer dereference'')
      | Inr (Some s) \<Rightarrow>
          (case configDestination of
             None \<Rightarrow> Inr \<lparr>cr_source = s, cr_destination = NewEmpty\<rparr>
           | Some l \<Rightarrow>
               (case loader_Load env files l of
                  Inl e \<Rightarrow> Inl e
                | Inr None \<Rightarrow> Inl (Panic ''nil pointer dereference'')
                | Inr (Some d) \<Rightarrow> Inr \<lparr>cr_source = s, cr_destination = d\<rparr>)))"

definition crio_engine_AddRuntime ::
  "conf_env \<Rightarrow> string \<Rightarrow> string \<Rightarrow> bool \<Rightarrow> crio_engine \<Rightarrow> crio_engine \<times> error option" where
  "crio_engine_AddRuntime env name path setAsDefault c =
     (case crio_GetDefaultRuntimeOptions env (cr_source c) of
        Inl e \<Rightarrow> (c, Some e)
      | Inr options \<Rightarrow>
          (c\<lparr>cr_destination := crio_AddRuntimeWithOptions name path setAsDefault options (cr_destination c)\<rparr>, None))"

subsection \<open>containerd (\<open>containerd/*.go\<close>)\<close>

record containerd_options =
  cd_Version :: int
  cd_RuntimeType :: string
  cd_ContainerAnnotations :: "string list"
  cd_UseLegacyConfig :: bool
  cd_CRIRuntimePluginName :: string

abbreviation cd_plugin :: "containerd_options \<Rightarrow> string list" where
  "cd_plugin o' \<equiv> [''plugins'', cd_CRIRuntimePluginName o']"

definition cd_runtime :: "containerd_options \<Rightarrow> string \<Rightarrow> string list" where
  "cd_runtime o' name = cd_plugin o' @ [''containerd'', ''runtimes'', name]"

definition cd_default :: "containerd_options \<Rightarrow> string list" where
  "cd_default o' = cd_plugin o' @ [''containerd'', ''default_runtime_name'']"

definition fallback_options :: "containerd_options \<Rightarrow> toml" where
  "fallback_options o' = Tree
     [(''runtime_type'', Leaf (LString (cd_RuntimeType o'))), (''runtime_root'', Leaf (LString [])),
      (''runtime_engine'', Leaf (LString [])), (''privileged_without_host_devices'', Leaf (LBool False))]"

definition cd_DefaultRuntime :: "containerd_options \<Rightarrow> toml \<Rightarrow> string" where
  "cd_DefaultRuntime o' t = toml_DefaultRuntime (cd_default o') t"

definition cd_GetDefaultRuntimeOptions :: "conf_env \<Rightarrow> containerd_options \<Rightarrow> toml \<Rightarrow> toml result" where
  "cd_GetDefaultRuntimeOptions env o' t =
     bindR (default_options env (cd_runtime o') t (GetLowLevelRuntimes (cd_DefaultRuntime o' t))) (\<lambda>r.
       Inr (case r of None \<Rightarrow> fallback_options o' | Some options \<Rightarrow> options))"

fun leaf_strings :: "toml_leaf list \<Rightarrow> string list result" where
  "leaf_strings [] = Inr []"
| "leaf_strings (LString a # as) = bindR (leaf_strings as) (\<lambda>bs. Inr (a # bs))"
| "leaf_strings (_ # as) = Inl (Errorf ''invalid annotation'')"

definition getStringArrayValue :: "toml \<Rightarrow> string list \<Rightarrow> string list result" where
  "getStringArrayValue t path =
     (case GetPath t path of
        None \<Rightarrow> Inr []
      | Some (Leaf (LArray annotations)) \<Rightarrow> leaf_strings annotations
      | Some _ \<Rightarrow> Inl (Errorf ''invalid annotations''))"

definition cd_AddRuntimeWithOptions ::
  "containerd_options \<Rightarrow> string \<Rightarrow> string \<Rightarrow> bool \<Rightarrow> toml option \<Rightarrow> toml \<Rightarrow> toml \<times> error option" where
  "cd_AddRuntimeWithOptions o' name path setAsDefault options t =
     (let config = SetPath t [''version''] (Leaf (LInt (cd_Version o')));
          config = set_options (cd_runtime o' name) options config;
          annotated =
            (if length (cd_ContainerAnnotations o') > 0
             then (case getStringArrayValue config (cd_runtime o' name @ [''container_annotations'']) of
                     Inl e \<Rightarrow> Inl e
                   | Inr annotations \<Rightarrow>
                       Inr (SetPath config (cd_runtime o' name @ [''container_annotations''])
                             (Leaf (LStrings (cd_ContainerAnnotations o' @ annotations)))))
             else Inr config) in
      case annotated of
        Inl e \<Rightarrow> (config, Some e)
      | Inr config \<Rightarrow>
          let config = SetPath config (cd_runtime o' name @ [''options'', ''BinaryName'']) (Leaf (LString path)) in
          (if setAsDefault then SetPath config (cd_default o') (Leaf (LString name))
           else unset_default (cd_default o') name config, None))"

definition cd_AddRuntime ::
  "conf_env \<Rightarrow> containerd_options \<Rightarrow> string \<Rightarrow> string \<Rightarrow> bool \<Rightarrow> toml \<Rightarrow> toml \<times> error option" where
  "cd_AddRuntime env o' name path setAsDefault t =
     (case cd_GetDefaultRuntimeOptions env o' t of
        Inl e \<Rightarrow> (t, Some e)
      | Inr options \<Rightarrow> cd_AddRuntimeWithOptions o' name path setAsDefault (Some options) t)"

definition cd_EnableCDI :: "containerd_options \<Rightarrow> toml \<Rightarrow> toml" where
  "cd_EnableCDI o' t = SetPath t (cd_plugin o' @ [''enable_cdi'']) (Leaf (LBool True))"

text \<open>Every table of the path that is empty is removed.\<close>

fun cd_prune :: "toml \<Rightarrow> string list list \<Rightarrow> toml" where
  "cd_prune t [] = t"
| "cd_prune t (p # ps) =
     cd_prune (case GetPath t p of
        Some (Sub runtimes) \<Rightarrow> if length (Keys runtimes) = 0 then deleted t p else t
      | _ \<Rightarrow> t) ps"

definition drop_version :: "toml \<Rightarrow> toml" where
  "drop_version t = (if Keys t = [''version''] then deleted t [''version''] else t)"

definition cd_RemoveRuntime :: "containerd_options \<Rightarrow> string \<Rightarrow> toml \<Rightarrow> toml" where
  "cd_RemoveRuntime o' name t =
     (let config = deleted t (cd_runtime o' name);
          config = unset_default (cd_default o') name config in
      drop_version (cd_prune config (path_prefixes (cd_runtime o' name))))"

definition cd_GetBinaryPath :: "toml option \<Rightarrow> string" where
  "cd_GetBinaryPath tree =
     (case tree of None \<Rightarrow> []
      | Some t \<Rightarrow> (case toml_string t [''options'', ''BinaryName''] of Some p \<Rightarrow> p | None \<Rightarrow> []))"

definition cd_GetRuntimeConfig :: "containerd_options \<Rightarrow> toml \<Rightarrow> string \<Rightarrow> toml option result" where
  "cd_GetRuntimeConfig o' t name = GetSubtreeByPath t (cd_runtime o' name)"

paragraph \<open>Version 1 (\<open>config_v1.go\<close>)\<close>

abbreviation v1_cri :: "string list" where
  "v1_cri \<equiv> [''plugins'', ''cri'', ''containerd'']"

definition v1_AddRuntimeWithOptions ::
  "containerd_options \<Rightarrow> string \<Rightarrow> string \<Rightarrow> bool \<Rightarrow> toml option \<Rightarrow> toml \<Rightarrow> toml \<times> error option" where
  "v1_AddRuntimeWithOptions o' name path setAsDefault options t =
     (case cd_AddRuntimeWithOptions o' name path (setAsDefault \<and> \<not> cd_UseLegacyConfig o') options t of
        (t, Some e) \<Rightarrow> (t, Some e)
      | (t, None) \<Rightarrow>
          let config = SetPath t (v1_cri @ [''runtimes'', name, ''options'', ''Runtime'']) (Leaf (LString path)) in
          if \<not> cd_UseLegacyConfig o' \<or> \<not> setAsDefault then (config, None)
          else let dr = v1_cri @ [''default_runtime''];
                   config =
                     (if GetPath config dr = None
                      then let config = SetPath config (dr @ [''runtime_type'']) (Leaf (LString (cd_RuntimeType o')));
                               config = SetPath config (dr @ [''runtime_root'']) (Leaf (LString []));
                               config = SetPath config (dr @ [''runtime_engine'']) (Leaf (LString [])) in
                           SetPath config (dr @ [''privileged_without_host_devices'']) (Leaf (LBool False))
                      else config);
                   config = SetPath config (dr @ [''options'', ''BinaryName'']) (Leaf (LString path)) in
               (SetPath config (dr @ [''options'', ''Runtime'']) (Leaf (LString path)), None))"

definition v1_AddRuntime ::
  "conf_env \<Rightarrow> containerd_options \<Rightarrow> string \<Rightarrow> string \<Rightarrow> bool \<Rightarrow> toml \<Rightarrow> toml \<times> error option" where
  "v1_AddRuntime env o' name path setAsDefault t =
     (case cd_GetDefaultRuntimeOptions env o' t of
        Inl e \<Rightarrow> (t, Some e)
      | Inr options \<Rightarrow> v1_AddRuntimeWithOptions o' name path setAsDefault (Some options) t)"

definition v1_DefaultRuntime :: "toml \<Rightarrow> string" where
  "v1_DefaultRuntime t = toml_DefaultRuntime (v1_cri @ [''default_runtime_name'']) t"

definition v1_binary :: "toml \<Rightarrow> string list \<Rightarrow> string" where
  "v1_binary t path =
     (case toml_string t (path @ [''BinaryName'']) of
        Some p \<Rightarrow> if p \<noteq> [] then p else (case toml_string t (path @ [''Runtime'']) of Some q \<Rightarrow> q | None \<Rightarrow> [])
      | None \<Rightarrow> (case toml_string t (path @ [''Runtime'']) of Some q \<Rightarrow> q | None \<Rightarrow> []))"

definition v1_RemoveRuntime :: "string \<Rightarrow> toml \<Rightarrow> toml" where
  "v1_RemoveRuntime name t =
     (let runtimePath = v1_binary t (v1_cri @ [''runtimes'', name, ''options'']);
          defaultRuntimePath = v1_binary t (v1_cri @ [''default_runtime'', ''options'']);
          config = (if runtimePath \<noteq> [] \<and> defaultRuntimePath \<noteq> [] \<and> runtimePath = defaultRuntimePath
                    then deleted t (v1_cri @ [''default_runtime'']) else t);
          config = deleted config (v1_cri @ [''runtimes'', name]);
          config = unset_default (v1_cri @ [''default_runtime_name'']) name config in
      drop_version (cd_prune config (path_prefixes (v1_cri @ [''runtimes'', name]))))"

definition v1_UpdateDefaultRuntime :: "string \<Rightarrow> string \<Rightarrow> toml \<Rightarrow> toml \<times> error option" where
  "v1_UpdateDefaultRuntime name action t = (t, Some (Errorf ''this method is not implemented''))"

definition v1_GetRuntimeConfig :: "toml \<Rightarrow> string \<Rightarrow> toml option result" where
  "v1_GetRuntimeConfig t name = GetSubtreeByPath t (v1_cri @ [''runtimes'', name])"

definition v1_EnableCDI :: "toml \<Rightarrow> toml" where
  "v1_EnableCDI t = SetPath t (v1_cri @ [''enable_cdi'']) (Leaf (LBool True))"

paragraph \<open>Drop-in files (\<open>config_drop_in.go\<close>, \<open>containerd.go\<close>)\<close>

text \<open>
  The destination starts with the table of the CRI plugin of the source, which is not copied: as long as
  \<open>di_shared\<close> holds, both trees refer to the same table, and what is changed in the destination is changed
  in the source as well.  The table is only ever taken out of the destination once it is empty; from then
  on the two are separate.  The top-level tree is nil if its file cannot be read.
\<close>

record containerd_dropin =
  di_options :: containerd_options
  di_source :: toml
  di_destination :: toml
  di_shared :: bool
  di_top :: "toml option"
  di_topPath :: string
  di_pathMap :: "(string \<times> string) list"

definition getBaseDropInConfigTree :: "containerd_options \<Rightarrow> toml \<Rightarrow> (toml \<times> bool) result" where
  "getBaseDropInConfigTree o' source =
     bindR (GetSubtreeByPath source (cd_plugin o')) (\<lambda>criPlugin.
       Inr (case criPlugin of
              None \<Rightarrow> (NewEmpty, False)
            | Some p \<Rightarrow> (SetPath NewEmpty (cd_plugin o') (Sub p), True)))"

definition sync_shared :: "containerd_dropin \<Rightarrow> containerd_dropin" where
  "sync_shared d =
     (if \<not> di_shared d then d
      else case GetPath (di_destination d) (cd_plugin (di_options d)) of
             Some (Sub p) \<Rightarrow> d\<lparr>di_source := SetPath (di_source d) (cd_plugin (di_options d)) (Sub p)\<rparr>
           | _ \<Rightarrow> d\<lparr>di_source := SetPath (di_source d) (cd_plugin (di_options d)) (Sub NewEmpty), di_shared := False\<rparr>)"

definition on_destination :: "(toml \<Rightarrow> toml \<times> error option) \<Rightarrow> containerd_dropin \<Rightarrow> containerd_dropin \<times> error option" where
  "on_destination f d = (case f (di_destination d) of (t, e) \<Rightarrow> (sync_shared (d\<lparr>di_destination := t\<rparr>), e))"

definition dropin_AddRuntime ::
  "conf_env \<Rightarrow> string \<Rightarrow> string \<Rightarrow> bool \<Rightarrow> containerd_dropin \<Rightarrow> containerd_dropin \<times> error option" where
  "dropin_AddRuntime env name path setAsDefault d =
     (case cd_GetDefaultRuntimeOptions env (di_options d) (di_source d) of
        Inl e \<Rightarrow> (d, Some e)
      | Inr options \<Rightarrow>
          on_destination (cd_AddRuntimeWithOptions (di_options d) name path setAsDefault (Some options)) d)"

definition dropin_RemoveRuntime :: "string \<Rightarrow> containerd_dropin \<Rightarrow> containerd_dropin \<times> error option" where
  "dropin_RemoveRuntime name d =
     on_destination (\<lambda>t. (cd_RemoveRuntime (di_options d) name t, None))
       (d\<lparr>di_top := map_option (cd_RemoveRuntime (di_options d) name) (di_top d)\<rparr>)"

definition asHostPath :: "(string \<times> string) list \<Rightarrow> string \<Rightarrow> string" where
  "asHostPath pathMap path = (case map_of pathMap path of Some hostPath \<Rightarrow> hostPath | None \<Rightarrow> path)"

definition importPattern :: "(string \<times> string) list \<Rightarrow> string \<Rightarrow> string" where
  "importPattern pathMap dropInFilename =
     (if dropInFilename = [] then ''/etc/containerd/conf.d/*.toml''
      else asHostPath pathMap (Dir dropInFilename) @ ''/*.toml'')"

definition removeImports :: "(string \<times> string) list \<Rightarrow> string \<Rightarrow> toml \<Rightarrow> toml" where
  "removeImports pathMap dropInFilename t =
     (if length (Keys t) \<noteq> 2 then t
      else if GetPath t [''version''] = None \<or> GetPath t [''imports''] = None then t
      else if getStringArrayValue t [''imports''] = Inr [importPattern pathMap dropInFilename]
      then deleted t [''imports''] else t)"

definition removeVersion :: "toml \<Rightarrow> toml" where
  "removeVersion t =
     (if length (Keys t) > 1 then t
      else if GetPath t [''version''] = None then t
      else deleted t [''version''])"

definition simplify_top :: "(string \<times> string) list \<Rightarrow> string \<Rightarrow> toml \<Rightarrow> toml" where
  "simplify_top pathMap dropInFilename t = removeVersion (removeImports pathMap dropInFilename t)"

definition getCurrentImports :: "toml \<Rightarrow> string list" where
  "getCurrentImports t =
     (case GetPath t [''imports''] of
        Some (Leaf (LStrings ss)) \<Rightarrow> ss
      | Some (Leaf (LArray ls)) \<Rightarrow> List.map_filter (\<lambda>l. case l of LString s \<Rightarrow> Some s | _ \<Rightarrow> None) ls
      | _ \<Rightarrow> [])"

definition ensureImports :: "containerd_options \<Rightarrow> (string \<times> string) list \<Rightarrow> string \<Rightarrow> toml \<Rightarrow> toml" where
  "ensureImports o' pathMap dropInFilename t =
     (let currentImports = getCurrentImports t; requiredImport = importPattern pathMap dropInFilename in
      if requiredImport \<in> set currentImports then t
      else let t = (if length (Keys t) = 0 then SetPath t [''version''] (Leaf (LInt (cd_Version o'))) else t) in
           SetPath t [''imports''] (Leaf (LStrings (currentImports @ [requiredImport]))))"

definition dropin_Save ::
  "conf_env \<Rightarrow> string \<Rightarrow> containerd_dropin \<Rightarrow> conf_host \<Rightarrow> nat result \<times> containerd_dropin \<times> conf_host" where
  "dropin_Save env dropInPath d h =
     (case toml_Save env (di_destination d) dropInPath h of
        (Inl e, h) \<Rightarrow> (Inl e, d, h)
      | (Inr bytesWritten, h) \<Rightarrow>
          (case di_top d of
             None \<Rightarrow> (Inl (Panic ''nil pointer dereference''), d, h)
           | Some t \<Rightarrow>
               let t = (if bytesWritten = 0 then simplify_top (di_pathMap d) dropInPath t
                        else ensureImports (di_options d) (di_pathMap d) dropInPath t);
                   d = d\<lparr>di_top := Some t\<rparr> in
               (case toml_Save env t (if dropInPath = [] then [] else di_topPath d) h of
                  (Inl e, h) \<Rightarrow> (Inl (Wrap ''failed to save top-level config'' e), d, h)
                | (Inr _, h) \<Rightarrow> (Inr bytesWritten, d, h))))"

record cd_builder =
  cb_configSource :: "loader option"
  cb_configVersion :: int
  cb_useLegacyConfig :: bool
  cb_topLevelConfigPath :: string
  cb_runtimeType :: string
  cb_containerAnnotations :: "string list"
  cb_pathMap :: "(string \<times> string) list"

definition cd_new_builder :: cd_builder where
  "cd_new_builder = \<lparr>cb_configSource = None, cb_configVersion = 2, cb_useLegacyConfig = False, cb_topLevelConfigPath = [],
     cb_runtimeType = ''io.containerd.runc.v2'', cb_containerAnnotations = [], cb_pathMap = []\<rparr>"

definition WithContainerPathAsHostPath :: "string \<Rightarrow> string \<Rightarrow> cd_builder \<Rightarrow> cd_builder" where
  "WithContainerPathAsHostPath containerPath hostPath b =
     (if containerPath = [] \<or> hostPath = [] \<or> containerPath = hostPath then b
      else b\<lparr>cb_pathMap := AList.update containerPath hostPath (cb_pathMap b)\<rparr>)"

definition parseVersion :: "cd_builder \<Rightarrow> toml option \<Rightarrow> int result" where
  "parseVersion b c =
     (case c of
        None \<Rightarrow> Inr (if cb_useLegacyConfig b then 1 else cb_configVersion b)
      | Some t \<Rightarrow>
          if length (Keys t) = 0 then Inr (if cb_useLegacyConfig b then 1 else cb_configVersion b)
          else case GetPath t [''version''] of
                 None \<Rightarrow> Inr 1
               | Some (Leaf (LInt v)) \<Rightarrow> Inr v
               | Some _ \<Rightarrow> Inl (Errorf ''unsupported type for version field''))"

definition criRuntimePluginName :: "int \<Rightarrow> string" where
  "criRuntimePluginName configVersion =
     (if configVersion = 1 then ''cri''
      else if configVersion = 2 then ''io.containerd.grpc.v1.cri''
      else ''io.containerd.cri.v1.runtime'')"

definition containerd_CommandLineSource :: "string \<Rightarrow> string \<Rightarrow> loader" where
  "containerd_CommandLineSource hostRoot executablePath =
     (let executablePath = (if executablePath = [] then ''containerd'' else executablePath) in
      FromCommandLine (chrootIfRequired hostRoot [executablePath, ''config'', ''dump'']))"

datatype engine =
    Engine_docker docker_config
  | Engine_crio crio_engine
  | Engine_v1 containerd_options toml
  | Engine_dropin containerd_dropin

definition containerd_New :: "conf_env \<Rightarrow> (string \<Rightarrow> string option) \<Rightarrow> cd_builder \<Rightarrow> engine result" where
  "containerd_New env files b =
     (let source = (case cb_configSource b of None \<Rightarrow> FromFile (cb_topLevelConfigPath b) | Some l \<Rightarrow> l) in
      bindR (wrapR ''failed to load config'' (loader_Load env files source)) (\<lambda>sourceTree.
      bindR (wrapR ''failed to parse config version'' (parseVersion b sourceTree)) (\<lambda>version.
        let o' = \<lparr>cd_Version = version, cd_RuntimeType = cb_runtimeType b, cd_ContainerAnnotations = cb_containerAnnotations b,
                  cd_UseLegacyConfig = cb_useLegacyConfig b, cd_CRIRuntimePluginName = criRuntimePluginName version\<rparr> in
        case sourceTree of
          None \<Rightarrow> Inl (Panic ''nil pointer dereference'')
        | Some s \<Rightarrow>
            if version = 1 then Inr (Engine_v1 o' s)
            else bindR (getBaseDropInConfigTree o' s) (\<lambda>(base, shared).
              Inr (Engine_dropin
                \<lparr>di_options = o', di_source = s, di_destination = base, di_shared = shared,
                 di_top = (case loader_Load env files (FromFile (cb_topLevelConfigPath b)) of Inl _ \<Rightarrow> None | Inr t \<Rightarrow> t),
                 di_topPath = cb_topLevelConfigPath b, di_pathMap = cb_pathMap b\<rparr>)))))"

subsection \<open>The interface of all engines (\<open>api.go\<close>, \<open>config.go\<close>)\<close>

record engine_env =
  ee_conf :: conf_env
  ee_docker :: docker_env

definition engine_AddRuntime :: "engine_env \<Rightarrow> string \<Rightarrow> string \<Rightarrow> bool \<Rightarrow> engine \<Rightarrow> engine \<times> error option" where
  "engine_AddRuntime ee name path setAsDefault c =
     (case c of
        Engine_docker d \<Rightarrow> map_prod Engine_docker id (docker_AddRuntime name path setAsDefault d)
      | Engine_crio d \<Rightarrow> map_prod Engine_crio id (crio_engine_AddRuntime (ee_conf ee) name path setAsDefault d)
      | Engine_v1 o' t \<Rightarrow> map_prod (Engine_v1 o') id (v1_AddRuntime (ee_conf ee) o' name path setAsDefault t)
      | Engine_dropin d \<Rightarrow> map_prod Engine_dropin id (dropin_AddRuntime (ee_conf ee) name path setAsDefault d))"

definition engine_RemoveRuntime :: "string \<Rightarrow> engine \<Rightarrow> engine \<times> error option" where
  "engine_RemoveRuntime name c =
     (case c of
        Engine_docker d \<Rightarrow> map_prod Engine_docker id (docker_RemoveRuntime name d)
      | Engine_crio d \<Rightarrow> (Engine_crio (d\<lparr>cr_destination := crio_RemoveRuntime name (cr_destination d)\<rparr>), None)
      | Engine_v1 o' t \<Rightarrow> (Engine_v1 o' (v1_RemoveRuntime name t), None)
      | Engine_dropin d \<Rightarrow> map_prod Engine_dropin id (dropin_RemoveRuntime name d))"

definition engine_UpdateDefaultRuntime :: "string \<Rightarrow> string \<Rightarrow> engine \<Rightarrow> engine \<times> error option" where
  "engine_UpdateDefaultRuntime name action c =
     (case c of
        Engine_docker d \<Rightarrow> map_prod Engine_docker id (docker_UpdateDefaultRuntime name action d)
      | Engine_crio d \<Rightarrow>
          map_prod (\<lambda>t. Engine_crio (d\<lparr>cr_destination := t\<rparr>)) id (crio_UpdateDefaultRuntime name action (cr_destination d))
      | Engine_v1 o' t \<Rightarrow> map_prod (Engine_v1 o') id (v1_UpdateDefaultRuntime name action t)
      | Engine_dropin d \<Rightarrow>
          map_prod Engine_dropin id
            (on_destination (toml_UpdateDefaultRuntime (cd_default (di_options d)) name action) d))"

definition engine_EnableCDI :: "engine \<Rightarrow> engine" where
  "engine_EnableCDI c =
     (case c of
        Engine_docker d \<Rightarrow> Engine_docker (docker_EnableCDI d)
      | Engine_crio d \<Rightarrow> Engine_crio d
      | Engine_v1 o' t \<Rightarrow> Engine_v1 o' (v1_EnableCDI t)
      | Engine_dropin d \<Rightarrow> Engine_dropin (fst (on_destination (\<lambda>t. (cd_EnableCDI (di_options d) t, None)) d)))"

definition engine_DefaultRuntime :: "engine \<Rightarrow> string" where
  "engine_DefaultRuntime c =
     (case c of
        Engine_docker d \<Rightarrow> docker_DefaultRuntime d
      | Engine_crio d \<Rightarrow> crio_DefaultRuntime (cr_source d)
      | Engine_v1 o' t \<Rightarrow> v1_DefaultRuntime t
      | Engine_dropin d \<Rightarrow> cd_DefaultRuntime (di_options d) (di_source d))"

text \<open>The path of the binary in the configuration of a runtime (\<open>GetRuntimeConfig\<close>, then \<open>GetBinaryPath\<close>).\<close>

definition engine_binary :: "engine \<Rightarrow> string \<Rightarrow> string result" where
  "engine_binary c name =
     (case c of
        Engine_docker d \<Rightarrow> map_sum id docker_GetBinaryPath (docker_GetRuntimeConfig d name)
      | Engine_crio d \<Rightarrow> map_sum id crio_GetBinaryPath (crio_GetRuntimeConfig (cr_source d) name)
      | Engine_v1 o' t \<Rightarrow> map_sum id cd_GetBinaryPath (v1_GetRuntimeConfig t name)
      | Engine_dropin d \<Rightarrow> map_sum id cd_GetBinaryPath (cd_GetRuntimeConfig (di_options d) (di_source d) name))"

definition engine_Save :: "engine_env \<Rightarrow> string \<Rightarrow> engine \<Rightarrow> conf_host \<Rightarrow> nat result \<times> engine \<times> conf_host" where
  "engine_Save ee path c h =
     (case c of
        Engine_docker d \<Rightarrow> (case docker_Save (ee_docker ee) (ee_conf ee) d path h of (n, h) \<Rightarrow> (n, c, h))
      | Engine_crio d \<Rightarrow> (case toml_Save (ee_conf ee) (cr_destination d) path h of (n, h) \<Rightarrow> (n, c, h))
      | Engine_v1 o' t \<Rightarrow> (case toml_Save (ee_conf ee) t path h of (n, h) \<Rightarrow> (n, c, h))
      | Engine_dropin d \<Rightarrow> (case dropin_Save (ee_conf ee) path d h of (n, d, h) \<Rightarrow> (n, Engine_dropin d, h)))"

definition engine_lowlevel_paths :: "engine \<Rightarrow> string list result" where
  "engine_lowlevel_paths c = GetBinaryPathsForRuntimes (engine_DefaultRuntime c) (engine_binary c)"

end
