(* ===== verification/Engine_Correct.thy ===== *)
theory Engine_Correct
  imports Engine_Config
begin

text \<open>
  What the configurations of container engines guarantee.  The interface states what a client may rely on
  when it adds and removes runtimes; it is shared by Docker, CRI-O and both forms of containerd.
\<close>

subsection \<open>The interface\<close>

text \<open>
  \<open>add\<close> takes the options of the new runtime, its name, its path and whether it is to be the default;
  \<open>okopt\<close> are usable options and \<open>ok\<close> documents whose tables are where they are expected.
\<close>

locale runtime_store =
  fixes add :: "'o \<Rightarrow> string \<Rightarrow> string \<Rightarrow> bool \<Rightarrow> 'c \<Rightarrow> 'c \<times> error option"
    and remove :: "string \<Rightarrow> 'c \<Rightarrow> 'c \<times> error option"
    and dflt :: "'c \<Rightarrow> string"
    and binary :: "'c \<Rightarrow> string \<Rightarrow> string result"
    and fallback :: "'c \<Rightarrow> string"
    and ok :: "'c \<Rightarrow> bool"
    and okopt :: "'o \<Rightarrow> bool"
  assumes add_ok: "ok c \<Longrightarrow> okopt opts \<Longrightarrow> add opts n p d c = (c', None) \<Longrightarrow> ok c'"
    and add_binary: "ok c \<Longrightarrow> okopt opts \<Longrightarrow> add opts n p d c = (c', None) \<Longrightarrow>
      binary c' m = (if m = n then Inr p else binary c m)"
    and add_default: "ok c \<Longrightarrow> okopt opts \<Longrightarrow> add opts n p d c = (c', None) \<Longrightarrow> d \<or> dflt c \<noteq> n \<Longrightarrow>
      dflt c' = (if d then n else dflt c)"
    and remove_ok: "ok c \<Longrightarrow> remove n c = (c', None) \<Longrightarrow> ok c'"
    and remove_binary: "ok c \<Longrightarrow> remove n c = (c', None) \<Longrightarrow>
      binary c' m = (if m = n then Inr [] else binary c m)"
    and remove_default: "ok c \<Longrightarrow> n \<noteq> [] \<Longrightarrow> remove n c = (c', None) \<Longrightarrow>
      dflt c' = (if dflt c = n then fallback c else dflt c)"
    and remove_fallback: "ok c \<Longrightarrow> remove n c = (c', None) \<Longrightarrow> fallback c' = fallback c"
begin

fun add_all :: "('o \<times> string \<times> string \<times> bool) list \<Rightarrow> 'c \<Rightarrow> 'c \<times> error option" where
  "add_all [] c = (c, None)"
| "add_all ((opts, n, p, d) # rs) c =
     (case add opts n p d c of (c, Some e) \<Rightarrow> (c, Some e) | (c, None) \<Rightarrow> add_all rs c)"

fun remove_all :: "string list \<Rightarrow> 'c \<Rightarrow> 'c \<times> error option" where
  "remove_all [] c = (c, None)"
| "remove_all (n # ns) c = (case remove n c of (c, Some e) \<Rightarrow> (c, Some e) | (c, None) \<Rightarrow> remove_all ns c)"

lemma add_all_binary:
  assumes "ok c" "list_all (okopt \<circ> fst) rs" "add_all rs c = (c', None)" "distinct (map (fst \<circ> snd) rs)"
  shows "ok c' \<and> (\<forall>(opts, n, p, d) \<in> set rs. binary c' n = Inr p) \<and>
    (\<forall>m. m \<notin> fst ` snd ` set rs \<longrightarrow> binary c' m = binary c m)"
  using assms
proof (induction rs arbitrary: c)
  case (Cons r rs)
  obtain opts n p d where r: "r = (opts, n, p, d)" by (cases r) auto
  from Cons.prems obtain c1 where c1: "add opts n p d c = (c1, None)" and rest: "add_all rs c1 = (c', None)"
    by (auto simp: r split: prod.splits option.splits)
  have okr: "okopt opts" "list_all (okopt \<circ> fst) rs" "distinct (map (fst \<circ> snd) rs)" "n \<notin> fst ` snd ` set rs"
    using Cons.prems by (auto simp: r image_comp o_def)
  note IH = Cons.IH [OF add_ok [OF Cons.prems(1) okr(1) c1] okr(2) rest okr(3)]
  with add_binary [OF Cons.prems(1) okr(1) c1] okr(4) show ?case by (auto simp: r)
qed simp

text \<open>At most one runtime is the default; the others leave it alone if none of them was it before.\<close>

lemma add_all_default:
  assumes "ok c" "list_all (okopt \<circ> fst) rs" "add_all rs c = (c', None)" "distinct (map (fst \<circ> snd) rs)"
    and "dflt c \<notin> fst ` snd ` set rs" and "\<forall>r \<in> set rs. snd (snd (snd r)) \<longrightarrow> fst (snd r) = dn"
  shows "dflt c' = (if \<exists>r \<in> set rs. snd (snd (snd r)) then dn else dflt c)"
  using assms
proof (induction rs arbitrary: c)
  case (Cons r rs)
  obtain opts n p d where r: "r = (opts, n, p, d)" by (cases r) auto
  from Cons.prems obtain c1 where c1: "add opts n p d c = (c1, None)" and rest: "add_all rs c1 = (c', None)"
    by (auto simp: r split: prod.splits option.splits)
  have okr: "okopt opts" "list_all (okopt \<circ> fst) rs" "distinct (map (fst \<circ> snd) rs)" "n \<notin> fst ` snd ` set rs"
    "dflt c \<noteq> n" "dflt c \<notin> fst ` snd ` set rs" "d \<longrightarrow> n = dn" "\<forall>r \<in> set rs. snd (snd (snd r)) \<longrightarrow> fst (snd r) = dn"
    using Cons.prems by (auto simp: r image_comp o_def)
  have d1: "dflt c1 = (if d then n else dflt c)" using add_default [OF Cons.prems(1) okr(1) c1] okr(5) by blast
  with okr(4,6) have "dflt c1 \<notin> fst ` snd ` set rs" by (cases d) auto
  note IH = Cons.IH [OF add_ok [OF Cons.prems(1) okr(1) c1] okr(2) rest okr(3) this okr(8)]
  with d1 okr(7) show ?case by (auto simp: r)
qed simp

lemma remove_all_removes:
  assumes "ok c" "remove_all ns c = (c', None)" "[] \<notin> set ns" "fallback c \<notin> set ns"
  shows "ok c' \<and> (\<forall>m. binary c' m = (if m \<in> set ns then Inr [] else binary c m)) \<and>
    dflt c' = (if dflt c \<in> set ns then fallback c else dflt c)"
  using assms
proof (induction ns arbitrary: c)
  case (Cons n ns)
  then obtain c1 where c1: "remove n c = (c1, None)" and rest: "remove_all ns c1 = (c', None)"
    by (auto split: prod.splits option.splits)
  have "n \<noteq> []" using Cons.prems by auto
  with Cons.IH [OF remove_ok [OF Cons.prems(1) c1] rest] remove_binary [OF Cons.prems(1) c1]
    remove_default [OF Cons.prems(1) _ c1] remove_fallback [OF Cons.prems(1) c1] Cons.prems show ?case by auto
qed simp

end

subsection \<open>Docker\<close>

lemma docker_binary_add:
  assumes "docker_AddRuntime n p d c = (c', None)"
  shows "map_sum id docker_GetBinaryPath (docker_GetRuntimeConfig c' m) =
    (if m = n then Inr p else map_sum id docker_GetBinaryPath (docker_GetRuntimeConfig c m))"
  using assms
  by (cases "map_of c ''runtimes''"; cases "the (map_of c ''runtimes'')"; cases d)
    (auto simp: docker_AddRuntime_def docker_GetRuntimeConfig_def docker_GetBinaryPath_def update_conv' Let_def)

lemma clearjunk_delete_Nil: "AList.clearjunk (AList.delete n rs) = [] \<Longrightarrow> m \<noteq> n \<Longrightarrow> map_of rs m = None"
  by (metis delete_conv' fun_upd_other map_of.simps(1) map_of_clearjunk)

lemma docker_unsetDefault_simps:
  assumes "docker_unsetDefault n c = (c', None)"
  shows "docker_DefaultRuntime c' = (if docker_DefaultRuntime c = n \<and> map_of c ''default-runtime'' \<noteq> None then ''runc'' else docker_DefaultRuntime c)"
    "map_of c' ''runtimes'' = map_of c ''runtimes''"
  using assms by (cases "map_of c ''default-runtime''"; cases "the (map_of c ''default-runtime'')";
      auto simp: docker_unsetDefault_def docker_DefaultRuntime_def update_conv' split: if_splits)+

lemma docker_remove:
  assumes "docker_RemoveRuntime n c = (c', None)"
  shows "map_sum id docker_GetBinaryPath (docker_GetRuntimeConfig c' m) =
      (if m = n then Inr [] else map_sum id docker_GetBinaryPath (docker_GetRuntimeConfig c m))"
    and "n \<noteq> [] \<Longrightarrow> docker_DefaultRuntime c' = (if docker_DefaultRuntime c = n then ''runc'' else docker_DefaultRuntime c)"
proof -
  from assms obtain c1 where c1: "docker_unsetDefault n c = (c1, None)" and
    c': "(case map_of c1 ''runtimes'' of
             None \<Rightarrow> (c1, None)
           | Some (JObj rs) \<Rightarrow>
               let runtimes = AList.delete n rs in
               (if AList.clearjunk runtimes = [] then AList.delete ''runtimes'' c1
                else AList.update ''runtimes'' (JObj runtimes) c1, None)
           | Some _ \<Rightarrow> (c1, Some (Panic ''interface conversion''))) = (c', None)"
    by (auto simp: docker_RemoveRuntime_def split: prod.splits option.splits)
  note d = docker_unsetDefault_simps [OF c1]
  show "map_sum id docker_GetBinaryPath (docker_GetRuntimeConfig c' m) =
      (if m = n then Inr [] else map_sum id docker_GetBinaryPath (docker_GetRuntimeConfig c m))"
    using c' d(2)
    by (cases "map_of c ''runtimes''"; cases "the (map_of c ''runtimes'')")
      (auto simp: docker_GetRuntimeConfig_def docker_GetBinaryPath_def Let_def update_conv' delete_conv' clearjunk_delete_Nil
        split: if_splits)
  have "map_of c' ''default-runtime'' = map_of c1 ''default-runtime''"
    using c' by (cases "map_of c1 ''runtimes''"; cases "the (map_of c1 ''runtimes'')")
      (auto simp: Let_def update_conv' delete_conv' split: if_splits)
  then show "docker_DefaultRuntime c' = (if docker_DefaultRuntime c = n then ''runc'' else docker_DefaultRuntime c)" if "n \<noteq> []"
    using that d(1) by (auto simp: docker_DefaultRuntime_def split: option.splits if_splits)
qed

interpretation docker: runtime_store
  "\<lambda>_ :: unit. docker_AddRuntime" docker_RemoveRuntime docker_DefaultRuntime
  "\<lambda>c n. map_sum id docker_GetBinaryPath (docker_GetRuntimeConfig c n)" "\<lambda>_. ''runc''" "\<lambda>_. True" "\<lambda>_. True"
proof
  show "docker_DefaultRuntime c' = (if d then n else docker_DefaultRuntime c)"
    if "docker_AddRuntime n p d c = (c', None)" for n p d c c'
    using that by (cases "map_of c ''runtimes''"; cases "the (map_of c ''runtimes'')"; cases d)
      (auto simp: docker_AddRuntime_def docker_DefaultRuntime_def update_conv' Let_def)
qed (use docker_binary_add docker_remove in \<open>blast+\<close>)

subsection \<open>Tables of runtimes\<close>

lemma crio_prune_GetPath:
  "\<forall>p \<in> set ps. table_path t p \<and> \<not> prefix ls p \<Longrightarrow> GetPath (crio_prune t ps) ls = GetPath t ls"
  by (induction ps arbitrary: t) (auto simp: Keys_Nil GetPath_prune table_path_deleted split: option.splits toml_node.splits)

lemma crio_prune_table:
  "\<forall>p \<in> set ps. table_path t p \<Longrightarrow> table_path t qs \<Longrightarrow> table_path (crio_prune t ps) qs"
  by (induction ps arbitrary: t) (auto simp: table_path_deleted split: option.splits toml_node.splits)

lemma cd_prune_GetPath:
  "\<forall>p \<in> set ps. table_path t p \<and> \<not> prefix ls p \<Longrightarrow> GetPath (cd_prune t ps) ls = GetPath t ls"
proof (induction ps arbitrary: t)
  case (Cons p ps)
  let ?t = "case GetPath t p of Some (Sub runtimes) \<Rightarrow> if length (Keys runtimes) = 0 then deleted t p else t | _ \<Rightarrow> t"
  have "GetPath ?t ls = GetPath t ls" using Cons.prems by (auto simp: Keys_Nil GetPath_prune split: option.splits toml_node.splits)
  moreover have "\<forall>p \<in> set ps. table_path ?t p \<and> \<not> prefix ls p"
    using Cons.prems by (auto simp: table_path_deleted split: option.splits toml_node.splits)
  ultimately show ?case using Cons.IH by simp
qed simp

lemma cd_prune_table:
  "\<forall>p \<in> set ps. table_path t p \<Longrightarrow> table_path t qs \<Longrightarrow> table_path (cd_prune t ps) qs"
  by (induction ps arbitrary: t) (auto simp: table_path_deleted split: option.splits toml_node.splits)

text \<open>The string at a path, or the empty string.\<close>

abbreviation str_at :: "toml \<Rightarrow> string list \<Rightarrow> string" where
  "str_at t path \<equiv> toml_DefaultRuntime path t"

lemma str_at_cong: "GetPath t p = GetPath t' p \<Longrightarrow> str_at t p = str_at t' p"
  by (simp add: toml_DefaultRuntime_def)

lemma str_at_Leaf: "GetPath t p = Some (Leaf (LString s)) \<Longrightarrow> str_at t p = s"
  by (simp add: toml_DefaultRuntime_def)

lemma str_at_None: "GetPath t p = None \<Longrightarrow> str_at t p = []"
  by (simp add: toml_DefaultRuntime_def)

lemma table_entry: "table_path t (p @ [x]) \<Longrightarrow> GetPath t p = None \<or> (\<exists>s. GetPath t p = Some (Sub s))"
  by (induction t p rule: table_path.induct) (auto simp: table_path_Cons split: option.splits toml_node.splits)

lemma subtree_string:
  assumes "table_path t (p @ [x])" and "ks \<noteq> []"
  shows "map_sum id (\<lambda>tree. case tree of None \<Rightarrow> [] | Some s \<Rightarrow> (case toml_string s ks of Some b \<Rightarrow> b | None \<Rightarrow> []))
      (GetSubtreeByPath t p) = Inr (str_at t (p @ ks))"
proof -
  have p: "table_path t p" using assms(1) by (rule table_path_append1)
  from table_entry [OF assms(1)] show ?thesis
  proof
    assume none: "GetPath t p = None"
    moreover from p none have "GetPath t (p @ ks) = None"
      using assms(2) by (induction t p rule: table_path.induct) (auto simp: GetPath_Cons split: option.splits toml_node.splits)
    ultimately show ?thesis by (simp add: GetSubtreeByPath_def toml_DefaultRuntime_def)
  next
    assume "\<exists>s. GetPath t p = Some (Sub s)"
    with GetPath_append_Sub [OF p, of _ ks] show ?thesis by (auto simp: GetSubtreeByPath_def toml_DefaultRuntime_def)
  qed
qed

lemma unset_default_other:
  "table_path t d \<Longrightarrow> diverge d ls \<Longrightarrow> GetPath (unset_default d n t) ls = GetPath t ls"
  by (simp add: unset_default_def GetPath_deleted_other)

lemma unset_default_same:
  "table_path t d \<Longrightarrow> d \<noteq> [] \<Longrightarrow> n \<noteq> [] \<or> str_at t d \<noteq> n \<Longrightarrow>
   str_at (unset_default d n t) d = (if str_at t d = n then [] else str_at t d)"
  by (auto simp: unset_default_def toml_DefaultRuntime_def split: option.splits toml_node.splits toml_leaf.splits)

lemma unset_default_keep: "str_at t d \<noteq> n \<Longrightarrow> unset_default d n t = t"
  by (auto simp: unset_default_def toml_DefaultRuntime_def)

lemma table_path_unset: "table_path t d \<Longrightarrow> table_path t ls \<Longrightarrow> table_path (unset_default d n t) ls"
  by (simp add: unset_default_def table_path_deleted)

subsection \<open>CRI-O\<close>

definition crio_ok :: "toml \<Rightarrow> bool" where
  "crio_ok t \<longleftrightarrow> (\<forall>n x. table_path t (crio_runtime n @ [x]))"

lemma crio_okD:
  assumes "crio_ok t"
  shows "table_path t (crio_runtime n)" "table_path t (crio_runtime n @ [x])" "table_path t crio_default"
    "p \<in> set (path_prefixes (crio_runtime n)) \<Longrightarrow> table_path t p"
proof -
  show x: "table_path t (crio_runtime n @ [x])" for n x using assms by (simp add: crio_ok_def)
  then show n: "table_path t (crio_runtime n)" for n by (rule table_path_append1)
  from n [of "[]"] show "table_path t crio_default"
    by (auto simp: crio_runtime_def crio_default_def split: option.splits toml_node.splits)
  assume "p \<in> set (path_prefixes (crio_runtime n))"
  then have "prefix p (crio_runtime n)" by (auto simp: path_prefixes_def take_is_prefix)
  with n show "table_path t p" by (rule table_path_prefix)
qed

lemma crio_binary: "crio_ok t \<Longrightarrow>
  map_sum id crio_GetBinaryPath (crio_GetRuntimeConfig t n) = Inr (str_at t (crio_runtime n @ [''runtime_path'']))"
  unfolding crio_GetBinaryPath_def [abs_def] crio_GetRuntimeConfig_def
  by (rule subtree_string [OF crio_okD(2)]) simp_all

lemma crio_paths [simp]:
  "length (crio_runtime n) = 4" "crio_runtime n \<noteq> []" "crio_default \<noteq> []"
  "diverge (crio_runtime n) (crio_runtime m @ ks) \<longleftrightarrow> n \<noteq> m"
  "diverge (crio_runtime n @ ls) (crio_runtime m @ ks) \<longleftrightarrow> n \<noteq> m \<or> diverge ls ks"
  "diverge crio_default (crio_runtime m @ ks)" "diverge (crio_runtime m @ ks) crio_default"
  "diverge crio_default (crio_runtime m)" "diverge (crio_runtime m) crio_default"
  "strict_prefix (crio_runtime n) (crio_runtime m @ [x]) \<longleftrightarrow> n = m"
  "\<not> strict_prefix (crio_runtime n @ [y]) (crio_runtime m @ [x])"
  "\<not> strict_prefix crio_default (crio_runtime m @ [x])"
  by (auto simp: crio_runtime_def crio_default_def)

lemma crio_ok_SetPath:
  "crio_ok t \<Longrightarrow> table_path t p \<Longrightarrow> (\<And>m x. \<not> strict_prefix p (crio_runtime m @ [x])) \<Longrightarrow> crio_ok (SetPath t p v)"
  by (simp add: crio_ok_def table_path_SetPath)

lemma crio_ok_unset: "crio_ok t \<Longrightarrow> crio_ok (unset_default crio_default n t)"
  using crio_okD(3) by (auto simp: crio_ok_def intro: table_path_unset)

lemma crio_ok_set_options: "crio_ok t \<Longrightarrow> crio_ok (set_options (crio_runtime n) opts t)"
proof -
  assume ok: "crio_ok t"
  have "table_path (SetPath t (crio_runtime n) (Sub s)) (crio_runtime m @ [x])" for m x s
    using crio_okD(1,2) [OF ok] table_path_SetPath_below [of t "crio_runtime n" "[x]" s]
    by (cases "m = n") (auto intro: table_path_SetPath)
  with ok show ?thesis by (simp add: set_options_def crio_ok_def split: option.split)
qed

lemma crio_add:
  assumes "crio_ok t" and t': "t' = crio_AddRuntimeWithOptions n p d opts t"
  shows "crio_ok t'"
    and "str_at t' (crio_runtime m @ [''runtime_path'']) = (if m = n then p else str_at t (crio_runtime m @ [''runtime_path'']))"
    and "d \<or> str_at t crio_default \<noteq> n \<Longrightarrow> str_at t' crio_default = (if d then n else str_at t crio_default)"
proof -
  define a where "a = set_options (crio_runtime n) opts t"
  define b where "b = SetPath a (crio_runtime n @ [''runtime_path'']) (Leaf (LString p))"
  define c where "c = SetPath b (crio_runtime n @ [''runtime_type'']) (Leaf (LString ''oci''))"
  have a: "crio_ok a" unfolding a_def by (rule crio_ok_set_options [OF assms(1)])
  have b: "crio_ok b" unfolding b_def by (rule crio_ok_SetPath [OF a]) (simp_all add: crio_okD [OF a])
  have c: "crio_ok c" unfolding c_def by (rule crio_ok_SetPath [OF b]) (simp_all add: crio_okD [OF b])
  have t'c: "t' = (if d then SetPath c crio_default (Leaf (LString n)) else unset_default crio_default n c)"
    by (simp add: t' crio_AddRuntimeWithOptions_def a_def b_def c_def Let_def)
  show "crio_ok t'"
    unfolding t'c using crio_ok_unset [OF c] crio_ok_SetPath [OF c crio_okD(3) [OF c]] by auto
  have oth: "GetPath c ls = GetPath t ls"
    if "diverge (crio_runtime n) ls" "diverge (crio_runtime n @ [''runtime_path'']) ls" "diverge (crio_runtime n @ [''runtime_type'']) ls" for ls
    using that crio_okD(1,2) [OF a] crio_okD(1,2) [OF b] crio_okD(1) [OF assms(1)]
    by (simp add: c_def b_def a_def set_options_def GetPath_SetPath_other split: option.split)
  have "GetPath c (crio_runtime n @ [''runtime_path'']) = Some (Leaf (LString p))"
    using crio_okD(2) [OF a] crio_okD(2) [OF b] by (simp add: c_def b_def GetPath_SetPath_other)
  moreover have "GetPath t' (crio_runtime m @ ks) = GetPath c (crio_runtime m @ ks)" for ks
    using crio_okD(3) [OF c] by (simp add: t'c unset_default_other GetPath_SetPath_other)
  ultimately show "str_at t' (crio_runtime m @ [''runtime_path'']) = (if m = n then p else str_at t (crio_runtime m @ [''runtime_path'']))"
    using oth [of "crio_runtime m @ [''runtime_path'']"] by (auto simp: toml_DefaultRuntime_def)
  have "str_at c crio_default = str_at t crio_default" by (intro str_at_cong oth) simp_all
  then show "d \<or> str_at t crio_default \<noteq> n \<Longrightarrow> str_at t' crio_default = (if d then n else str_at t crio_default)"
    using unset_default_keep [where t = c and d = crio_default and n = n] crio_okD(3) [OF c] by (auto simp: t'c str_at_Leaf)
qed

lemma crio_remove:
  assumes "crio_ok t" and t': "t' = crio_RemoveRuntime n t"
  shows "crio_ok t'"
    and "str_at t' (crio_runtime m @ [''runtime_path'']) = (if m = n then [] else str_at t (crio_runtime m @ [''runtime_path'']))"
    and "n \<noteq> [] \<Longrightarrow> str_at t' crio_default = (if str_at t crio_default = n then [] else str_at t crio_default)"
proof -
  define a where "a = unset_default crio_default n t"
  define b where "b = deleted a (crio_runtime n)"
  have a: "crio_ok a" unfolding a_def by (rule crio_ok_unset [OF assms(1)])
  have b: "crio_ok b" using a crio_okD(1) [OF a] unfolding b_def by (simp add: crio_ok_def table_path_deleted)
  have t'b: "t' = crio_prune b (path_prefixes (crio_runtime n))"
    by (simp add: t' crio_RemoveRuntime_def a_def b_def Let_def)
  note tabs = crio_okD(4) [OF b, of _ n]
  show "crio_ok t'" using b crio_prune_table [OF ballI, OF tabs] unfolding t'b by (simp add: crio_ok_def)
  have pre: "\<not> prefix ls p" if "p \<in> set (path_prefixes (crio_runtime n))" "length ls > 4 \<or> diverge (crio_runtime n) ls" for p ls
  proof -
    have "prefix p (crio_runtime n)" using that(1) by (auto simp: path_prefixes_def take_is_prefix)
    then have "prefix ls p \<Longrightarrow> prefix ls (crio_runtime n)" by (rule prefix_order.trans [rotated])
    with that(2) show ?thesis using prefix_length_le [of ls "crio_runtime n"] by (auto simp: diverge_iff crio_runtime_def)
  qed
  have keep: "GetPath t' ls = GetPath b ls" if "length ls > 4 \<or> diverge (crio_runtime n) ls" for ls
    unfolding t'b by (rule crio_prune_GetPath) (use tabs pre that in blast)
  have "GetPath b (crio_runtime n @ [''runtime_path'']) = None"
    unfolding b_def by (rule GetPath_deleted_below [OF crio_okD(1) [OF a]]) simp
  moreover have "GetPath b ls = GetPath a ls" if "diverge (crio_runtime n) ls" for ls
    unfolding b_def by (rule GetPath_deleted_other [OF that crio_okD(1) [OF a]])
  moreover have "GetPath a (crio_runtime m @ ks) = GetPath t (crio_runtime m @ ks)" for ks
    unfolding a_def by (rule unset_default_other [OF crio_okD(3) [OF assms(1)]]) simp
  ultimately show "str_at t' (crio_runtime m @ [''runtime_path'']) = (if m = n then [] else str_at t (crio_runtime m @ [''runtime_path'']))"
    using keep [of "crio_runtime m @ [''runtime_path'']"] by (cases "m = n") (simp_all add: toml_DefaultRuntime_def)
  show "str_at t' crio_default = (if str_at t crio_default = n then [] else str_at t crio_default)" if "n \<noteq> []"
  proof -
    have "str_at t' crio_default = str_at a crio_default"
      using keep [of crio_default] by (intro str_at_cong) (simp add: b_def GetPath_deleted_other crio_okD [OF a])
    with unset_default_same [OF crio_okD(3) [OF assms(1)], of n] that show ?thesis by (simp add: a_def)
  qed
qed

interpretation crio: runtime_store
  "\<lambda>opts n p d t. (crio_AddRuntimeWithOptions n p d opts t, None)" "\<lambda>n t. (crio_RemoveRuntime n t, None)"
  crio_DefaultRuntime "\<lambda>t n. map_sum id crio_GetBinaryPath (crio_GetRuntimeConfig t n)" "\<lambda>_. []" crio_ok "\<lambda>_. True"
proof
  fix c c' :: toml and n p d m and opts :: "toml option"
  assume ok: "crio_ok c"
  show "crio_ok c'" if "(crio_AddRuntimeWithOptions n p d opts c, None) = (c', None)"
    using crio_add(1) [OF ok] that by blast
  show "crio_ok c'" if "(crio_RemoveRuntime n c, None) = (c', None)"
    using crio_remove(1) [OF ok] that by blast
  show "map_sum id crio_GetBinaryPath (crio_GetRuntimeConfig c' m) =
      (if m = n then Inr p else map_sum id crio_GetBinaryPath (crio_GetRuntimeConfig c m))"
    if "(crio_AddRuntimeWithOptions n p d opts c, None) = (c', None)"
    using crio_add(1,2) [OF ok refl, where n = n and p = p and d = d and opts = opts] that by (auto simp: crio_binary ok)
  show "map_sum id crio_GetBinaryPath (crio_GetRuntimeConfig c' m) =
      (if m = n then Inr [] else map_sum id crio_GetBinaryPath (crio_GetRuntimeConfig c m))"
    if "(crio_RemoveRuntime n c, None) = (c', None)"
    using crio_remove(1,2) [OF ok refl, where n = n] that by (auto simp: crio_binary ok)
  show "crio_DefaultRuntime c' = (if d then n else crio_DefaultRuntime c)"
    if "(crio_AddRuntimeWithOptions n p d opts c, None) = (c', None)" "d \<or> crio_DefaultRuntime c \<noteq> n"
    using crio_add(3) [OF ok _ that(2)] that(1) by blast
  show "crio_DefaultRuntime c' = (if crio_DefaultRuntime c = n then [] else crio_DefaultRuntime c)"
    if "n \<noteq> []" "(crio_RemoveRuntime n c, None) = (c', None)"
    using crio_remove(3) [OF ok _ that(1)] that(2) by blast
qed simp

subsection \<open>containerd\<close>

abbreviation cd_binary_path :: "containerd_options \<Rightarrow> string \<Rightarrow> string list" where
  "cd_binary_path o' n \<equiv> cd_runtime o' n @ [''options'', ''BinaryName'']"

definition cd_ok :: "containerd_options \<Rightarrow> toml \<Rightarrow> bool" where
  "cd_ok o' t \<longleftrightarrow> (\<forall>n x. table_path t (cd_runtime o' n @ [''options'', x]))"

definition cd_okopt :: "toml \<Rightarrow> bool" where
  "cd_okopt opts \<longleftrightarrow> (\<forall>x. table_path opts [''options'', x])"

lemma cd_paths [simp]:
  "length (cd_runtime o' n) = 5" "cd_runtime o' n \<noteq> []" "cd_default o' \<noteq> []"
  "diverge (cd_runtime o' n) (cd_runtime o' m @ ks) \<longleftrightarrow> n \<noteq> m"
  "diverge (cd_runtime o' n @ ls) (cd_runtime o' m @ ks) \<longleftrightarrow> n \<noteq> m \<or> diverge ls ks"
  "diverge (cd_default o') (cd_runtime o' m @ ks)" "diverge (cd_runtime o' m @ ks) (cd_default o')"
  "diverge (cd_default o') (cd_runtime o' m)" "diverge (cd_runtime o' m) (cd_default o')"
  "diverge [''version''] (cd_runtime o' m @ ks)" "diverge [''version''] (cd_default o')"
  "strict_prefix (cd_runtime o' n) (cd_runtime o' m @ [''options'', x]) \<longleftrightarrow> n = m"
  "\<not> strict_prefix (cd_runtime o' n @ [''container_annotations'']) (cd_runtime o' m @ [''options'', x])"
  "\<not> strict_prefix (cd_runtime o' n @ [''options'', y]) (cd_runtime o' m @ [''options'', x])"
  "\<not> strict_prefix (cd_default o') (cd_runtime o' m @ ks)" "\<not> strict_prefix [''version''] (cd_runtime o' m @ ks)"
  by (auto simp: cd_runtime_def cd_default_def)

lemma cd_okD:
  assumes "cd_ok o' t"
  shows "table_path t (cd_runtime o' n)" "table_path t (cd_runtime o' n @ [x])" "table_path t (cd_runtime o' n @ [''options'', x])"
    "table_path t (cd_default o')" "p \<in> set (path_prefixes (cd_runtime o' n)) \<Longrightarrow> table_path t p"
proof -
  show x: "table_path t (cd_runtime o' n @ [''options'', x])" for n x using assms by (simp add: cd_ok_def)
  then show n: "table_path t (cd_runtime o' n)" for n by (rule table_path_append1)
  have "table_path t (cd_runtime o' n @ [''options''])"
    by (rule table_path_append1 [where q = "[x]"]) (use x in simp)
  then show "table_path t (cd_runtime o' n @ [x])"
    using table_path_last by blast
  from n [of "[]"] show "table_path t (cd_default o')"
    by (auto simp: cd_runtime_def cd_default_def split: option.splits toml_node.splits)
  assume "p \<in> set (path_prefixes (cd_runtime o' n))"
  then have "prefix p (cd_runtime o' n)" by (auto simp: path_prefixes_def take_is_prefix)
  with n show "table_path t p" by (rule table_path_prefix)
qed

lemma cd_binary: "cd_ok o' t \<Longrightarrow>
  map_sum id cd_GetBinaryPath (cd_GetRuntimeConfig o' t n) = Inr (str_at t (cd_binary_path o' n))"
  unfolding cd_GetBinaryPath_def [abs_def] cd_GetRuntimeConfig_def
  by (rule subtree_string [OF cd_okD(2)]) simp_all

lemma cd_ok_SetPath:
  "cd_ok o' t \<Longrightarrow> table_path t p \<Longrightarrow> (\<And>m x. \<not> strict_prefix p (cd_runtime o' m @ [''options'', x])) \<Longrightarrow> cd_ok o' (SetPath t p v)"
  by (simp add: cd_ok_def table_path_SetPath)

lemma cd_ok_unset: "cd_ok o' t \<Longrightarrow> cd_ok o' (unset_default (cd_default o') n t)"
  using cd_okD(4) by (auto simp: cd_ok_def intro: table_path_unset)

lemma cd_ok_options:
  assumes "cd_ok o' t" "cd_okopt opts"
  shows "cd_ok o' (SetPath t (cd_runtime o' n) (Sub opts))"
proof -
  have "table_path (SetPath t (cd_runtime o' n) (Sub opts)) (cd_runtime o' m @ [''options'', x])" for m x
    using cd_okD(1,3) [OF assms(1)] assms(2) table_path_SetPath_below [of t "cd_runtime o' n" "[''options'', x]" opts]
    by (cases "m = n") (auto simp: cd_okopt_def intro: table_path_SetPath)
  then show ?thesis by (simp add: cd_ok_def)
qed

text \<open>The document after the table of the new runtime has been made, before the default is set.\<close>

lemma cd_AddRuntimeWithOptions_cases:
  assumes "cd_AddRuntimeWithOptions o' n p d (Some opts) t = (t', None)"
  obtains b where "b = SetPath (SetPath t [''version''] (Leaf (LInt (cd_Version o')))) (cd_runtime o' n) (Sub opts) \<or>
      (\<exists>v. b = SetPath (SetPath (SetPath t [''version''] (Leaf (LInt (cd_Version o')))) (cd_runtime o' n) (Sub opts))
             (cd_runtime o' n @ [''container_annotations'']) v)"
    and "t' = (let c = SetPath b (cd_binary_path o' n) (Leaf (LString p)) in
           if d then SetPath c (cd_default o') (Leaf (LString n)) else unset_default (cd_default o') n c)"
  using assms by (auto simp: cd_AddRuntimeWithOptions_def set_options_def Let_def split: sum.splits if_splits)

lemma cd_add:
  assumes ok: "cd_ok o' t" "cd_okopt opts" and add: "cd_AddRuntimeWithOptions o' n p d (Some opts) t = (t', None)"
  shows "cd_ok o' t'"
    and "str_at t' (cd_binary_path o' m) = (if m = n then p else str_at t (cd_binary_path o' m))"
    and "d \<or> str_at t (cd_default o') \<noteq> n \<Longrightarrow> str_at t' (cd_default o') = (if d then n else str_at t (cd_default o'))"
proof -
  define a where "a = SetPath (SetPath t [''version''] (Leaf (LInt (cd_Version o')))) (cd_runtime o' n) (Sub opts)"
  from add obtain b where b: "b = a \<or> (\<exists>v. b = SetPath a (cd_runtime o' n @ [''container_annotations'']) v)"
    and t': "t' = (let c = SetPath b (cd_binary_path o' n) (Leaf (LString p)) in
      if d then SetPath c (cd_default o') (Leaf (LString n)) else unset_default (cd_default o') n c)"
    unfolding a_def by (rule cd_AddRuntimeWithOptions_cases)
  define c where "c = SetPath b (cd_binary_path o' n) (Leaf (LString p))"
  have t'c: "t' = (if d then SetPath c (cd_default o') (Leaf (LString n)) else unset_default (cd_default o') n c)"
    unfolding t' c_def Let_def ..
  let ?v = "SetPath t [''version''] (Leaf (LInt (cd_Version o')))"
  have v: "cd_ok o' ?v" by (rule cd_ok_SetPath [OF ok(1)]) simp_all
  have a: "cd_ok o' a" unfolding a_def by (rule cd_ok_options [OF v ok(2)])
  have okb: "cd_ok o' b" using b a by (auto intro!: cd_ok_SetPath cd_okD(2))
  have c: "cd_ok o' c" unfolding c_def by (rule cd_ok_SetPath [OF okb cd_okD(3) [OF okb]]) simp
  show "cd_ok o' t'"
    unfolding t'c using cd_ok_unset [OF c] cd_ok_SetPath [OF c cd_okD(4) [OF c]] by auto
  have oth: "GetPath c ls = GetPath t ls"
    if "diverge [''version''] ls" "diverge (cd_runtime o' n) ls" "diverge (cd_binary_path o' n) ls" "diverge (cd_runtime o' n @ [''container_annotations'']) ls" for ls
  proof -
    have "GetPath a ls = GetPath t ls"
      using that(1,2) cd_okD(1) [OF v] by (simp add: a_def GetPath_SetPath_other GetPath_put_other)
    moreover have "GetPath b ls = GetPath a ls" using b that(4) cd_okD(2) [OF a] by (auto simp: GetPath_SetPath_other)
    ultimately show ?thesis using that(3) cd_okD(3) [OF okb] by (simp add: c_def GetPath_SetPath_other)
  qed
  have "GetPath c (cd_binary_path o' n) = Some (Leaf (LString p))" using cd_okD(3) [OF okb] by (simp add: c_def)
  moreover have "GetPath t' (cd_runtime o' m @ ks) = GetPath c (cd_runtime o' m @ ks)" for ks
    using cd_okD(4) [OF c] by (simp add: t'c unset_default_other GetPath_SetPath_other)
  ultimately show "str_at t' (cd_binary_path o' m) = (if m = n then p else str_at t (cd_binary_path o' m))"
    using oth [of "cd_binary_path o' m"] by (cases "m = n") (simp_all add: toml_DefaultRuntime_def)
  have "str_at c (cd_default o') = str_at t (cd_default o')" by (intro str_at_cong oth) simp_all
  then show "d \<or> str_at t (cd_default o') \<noteq> n \<Longrightarrow> str_at t' (cd_default o') = (if d then n else str_at t (cd_default o'))"
    using unset_default_keep [where t = c and d = "cd_default o'" and n = n] cd_okD(4) [OF c] by (auto simp: t'c str_at_Leaf)
qed

lemma drop_version_GetPath: "diverge [''version''] ls \<Longrightarrow> GetPath (drop_version t) ls = GetPath t ls"
  by (simp add: drop_version_def deleted_simps GetPath_remove_other)

lemma drop_version_table: "table_path t ls \<Longrightarrow> table_path (drop_version t) ls"
  by (simp add: drop_version_def table_path_deleted)

lemma path_prefixes_not:
  assumes "p \<in> set (path_prefixes rt)" and "length ls > length rt \<or> diverge rt ls"
  shows "\<not> prefix ls p"
proof -
  have "prefix p rt" using assms(1) by (auto simp: path_prefixes_def take_is_prefix)
  then have "prefix ls p \<Longrightarrow> prefix ls rt" by (rule prefix_order.trans [rotated])
  with assms(2) show ?thesis using prefix_length_le [of ls rt] by (auto simp: diverge_iff)
qed

text \<open>Both versions end in the same way: the table of a runtime is taken out, and empty tables and the version with it.\<close>

lemma cd_remove_tail:
  assumes ok: "cd_ok o' t"
    and t': "t' = drop_version (cd_prune (unset_default (cd_default o') n (deleted t (cd_runtime o' n))) (path_prefixes (cd_runtime o' n)))"
  shows "cd_ok o' t'"
    and "str_at t' (cd_binary_path o' m) = (if m = n then [] else str_at t (cd_binary_path o' m))"
    and "n \<noteq> [] \<Longrightarrow> str_at t' (cd_default o') = (if str_at t (cd_default o') = n then [] else str_at t (cd_default o'))"
proof -
  define a where "a = deleted t (cd_runtime o' n)"
  define b where "b = unset_default (cd_default o') n a"
  have a: "cd_ok o' a" using ok cd_okD(1) [OF ok] unfolding a_def by (simp add: cd_ok_def table_path_deleted)
  have b: "cd_ok o' b" unfolding b_def by (rule cd_ok_unset [OF a])
  have t'b: "t' = drop_version (cd_prune b (path_prefixes (cd_runtime o' n)))" by (simp add: t' a_def b_def)
  note tabs = cd_okD(5) [OF b, of _ n]
  show "cd_ok o' t'"
    using b cd_prune_table [OF ballI, OF tabs] unfolding t'b by (simp add: cd_ok_def drop_version_table)
  have keep: "GetPath t' ls = GetPath b ls"
    if "length ls > 5 \<or> diverge (cd_runtime o' n) ls" "diverge [''version''] ls" for ls
    unfolding t'b drop_version_GetPath [OF that(2)]
    by (rule cd_prune_GetPath) (use tabs path_prefixes_not that(1) in auto)
  have "GetPath a (cd_binary_path o' n) = None"
    unfolding a_def by (rule GetPath_deleted_below [OF cd_okD(1) [OF ok]]) simp
  moreover have "GetPath a ls = GetPath t ls" if "diverge (cd_runtime o' n) ls" for ls
    unfolding a_def by (rule GetPath_deleted_other [OF that cd_okD(1) [OF ok]])
  moreover have "GetPath b (cd_runtime o' m @ ks) = GetPath a (cd_runtime o' m @ ks)" for ks
    unfolding b_def by (rule unset_default_other [OF cd_okD(4) [OF a]]) simp
  ultimately show "str_at t' (cd_binary_path o' m) = (if m = n then [] else str_at t (cd_binary_path o' m))"
    using keep [of "cd_binary_path o' m"] by (cases "m = n") (simp_all add: toml_DefaultRuntime_def)
  show "str_at t' (cd_default o') = (if str_at t (cd_default o') = n then [] else str_at t (cd_default o'))" if "n \<noteq> []"
  proof -
    have "str_at t' (cd_default o') = str_at b (cd_default o')" using keep [of "cd_default o'"] by (intro str_at_cong) simp
    moreover have "str_at a (cd_default o') = str_at t (cd_default o')"
      unfolding a_def by (intro str_at_cong GetPath_deleted_other) (simp_all add: cd_okD [OF ok])
    ultimately show ?thesis using unset_default_same [OF cd_okD(4) [OF a], of n] that by (simp add: b_def)
  qed
qed

lemma cd_remove:
  assumes "cd_ok o' t" and "t' = cd_RemoveRuntime o' n t"
  shows "cd_ok o' t'"
    and "str_at t' (cd_binary_path o' m) = (if m = n then [] else str_at t (cd_binary_path o' m))"
    and "n \<noteq> [] \<Longrightarrow> str_at t' (cd_default o') = (if str_at t (cd_default o') = n then [] else str_at t (cd_default o'))"
  using cd_remove_tail [OF assms(1), of t' n] assms(2) by (simp_all add: cd_RemoveRuntime_def Let_def)

interpretation containerd: runtime_store
  "\<lambda>opts n p d. cd_AddRuntimeWithOptions o' n p d (Some opts)" "\<lambda>n t. (cd_RemoveRuntime o' n t, None)"
  "cd_DefaultRuntime o'" "\<lambda>t n. map_sum id cd_GetBinaryPath (cd_GetRuntimeConfig o' t n)" "\<lambda>_. []" "cd_ok o'" cd_okopt
  for o' :: containerd_options
proof
  fix c c' :: toml and n p d m and opts :: toml
  assume ok: "cd_ok o' c"
  show "cd_ok o' c'" if "cd_okopt opts" "cd_AddRuntimeWithOptions o' n p d (Some opts) c = (c', None)"
    by (rule cd_add(1) [OF ok that])
  show "cd_ok o' c'" if "(cd_RemoveRuntime o' n c, None) = (c', None)"
    using cd_remove(1) [OF ok refl] that by blast
  show "map_sum id cd_GetBinaryPath (cd_GetRuntimeConfig o' c' m) =
      (if m = n then Inr p else map_sum id cd_GetBinaryPath (cd_GetRuntimeConfig o' c m))"
    if "cd_okopt opts" "cd_AddRuntimeWithOptions o' n p d (Some opts) c = (c', None)"
    using cd_add(1,2) [OF ok that] by (auto simp: cd_binary ok)
  show "map_sum id cd_GetBinaryPath (cd_GetRuntimeConfig o' c' m) =
      (if m = n then Inr [] else map_sum id cd_GetBinaryPath (cd_GetRuntimeConfig o' c m))"
    if "(cd_RemoveRuntime o' n c, None) = (c', None)"
    using cd_remove(1,2) [OF ok refl, where n = n] that by (auto simp: cd_binary ok)
  show "cd_DefaultRuntime o' c' = (if d then n else cd_DefaultRuntime o' c)"
    if "cd_okopt opts" "cd_AddRuntimeWithOptions o' n p d (Some opts) c = (c', None)" "d \<or> cd_DefaultRuntime o' c \<noteq> n"
    using cd_add(3) [OF ok that(1,2)] that(3) by (simp add: cd_DefaultRuntime_def)
  show "cd_DefaultRuntime o' c' = (if cd_DefaultRuntime o' c = n then [] else cd_DefaultRuntime o' c)"
    if "n \<noteq> []" "(cd_RemoveRuntime o' n c, None) = (c', None)"
    using cd_remove(3) [OF ok _ that(1)] that(2) by (auto simp: cd_DefaultRuntime_def)
qed simp

paragraph \<open>Version 1, without the legacy form of the default\<close>

definition v1_options :: "containerd_options \<Rightarrow> containerd_options" where
  "v1_options o' = o'\<lparr>cd_UseLegacyConfig := False, cd_CRIRuntimePluginName := ''cri''\<rparr>"

lemma v1_paths:
  "cd_runtime (v1_options o') n = v1_cri @ [''runtimes'', n]" "cd_default (v1_options o') = v1_cri @ [''default_runtime_name'']"
  by (simp_all add: cd_runtime_def cd_default_def v1_options_def)

lemma v1_add_cases:
  assumes "v1_AddRuntimeWithOptions (v1_options o') n p d (Some opts) t = (t', None)"
  obtains c where "cd_AddRuntimeWithOptions (v1_options o') n p d (Some opts) t = (c, None)"
    and "t' = SetPath c (cd_runtime (v1_options o') n @ [''options'', ''Runtime'']) (Leaf (LString p))"
proof -
  have legacy: "\<not> cd_UseLegacyConfig (v1_options o')" by (simp add: v1_options_def)
  obtain c e where c: "cd_AddRuntimeWithOptions (v1_options o') n p d (Some opts) t = (c, e)"
    by (cases "cd_AddRuntimeWithOptions (v1_options o') n p d (Some opts) t")
  with assms legacy have "e = None" by (auto simp: v1_AddRuntimeWithOptions_def split: option.splits)
  with assms c legacy show thesis
    by (intro that [of c]) (auto simp: v1_AddRuntimeWithOptions_def v1_paths Let_def)
qed

lemma v1_add:
  assumes ok: "cd_ok (v1_options o') t" "cd_okopt opts" and add: "v1_AddRuntimeWithOptions (v1_options o') n p d (Some opts) t = (t', None)"
  shows "cd_ok (v1_options o') t'"
    and "str_at t' (cd_binary_path (v1_options o') m) = (if m = n then p else str_at t (cd_binary_path (v1_options o') m))"
    and "d \<or> str_at t (cd_default (v1_options o')) \<noteq> n \<Longrightarrow>
      str_at t' (cd_default (v1_options o')) = (if d then n else str_at t (cd_default (v1_options o')))"
proof -
  let ?o = "v1_options o'"
  from add obtain c where c: "cd_AddRuntimeWithOptions ?o n p d (Some opts) t = (c, None)"
    and t': "t' = SetPath c (cd_runtime ?o n @ [''options'', ''Runtime'']) (Leaf (LString p))"
    by (rule v1_add_cases)
  note cd = cd_add [OF ok c]
  have tab: "table_path c (cd_runtime ?o n @ [''options'', ''Runtime''])" by (rule cd_okD(3) [OF cd(1)])
  show "cd_ok ?o t'" unfolding t' by (rule cd_ok_SetPath [OF cd(1) tab]) simp
  have "GetPath t' (cd_binary_path ?o m) = GetPath c (cd_binary_path ?o m)"
    unfolding t' by (rule GetPath_SetPath_other [OF _ tab]) simp
  then show "str_at t' (cd_binary_path ?o m) = (if m = n then p else str_at t (cd_binary_path ?o m))"
    using cd(2) [of m] by (simp add: toml_DefaultRuntime_def)
  have "GetPath t' (cd_default ?o) = GetPath c (cd_default ?o)"
    unfolding t' by (rule GetPath_SetPath_other [OF _ tab]) simp
  then show "d \<or> str_at t (cd_default ?o) \<noteq> n \<Longrightarrow> str_at t' (cd_default ?o) = (if d then n else str_at t (cd_default ?o))"
    using cd(3) by (simp add: toml_DefaultRuntime_def)
qed

lemma v1_remove:
  assumes ok: "cd_ok (v1_options o') t" and t': "t' = v1_RemoveRuntime n t"
  shows "cd_ok (v1_options o') t'"
    and "str_at t' (cd_binary_path (v1_options o') m) = (if m = n then [] else str_at t (cd_binary_path (v1_options o') m))"
    and "n \<noteq> [] \<Longrightarrow> str_at t' (cd_default (v1_options o')) =
      (if str_at t (cd_default (v1_options o')) = n then [] else str_at t (cd_default (v1_options o')))"
proof -
  let ?o = "v1_options o'" and ?dr = "v1_cri @ [''default_runtime'']"
  define a where "a = (if v1_binary t (v1_cri @ [''runtimes'', n, ''options'']) \<noteq> [] \<and>
      v1_binary t (v1_cri @ [''default_runtime'', ''options'']) \<noteq> [] \<and>
      v1_binary t (v1_cri @ [''runtimes'', n, ''options'']) = v1_binary t (v1_cri @ [''default_runtime'', ''options''])
    then deleted t ?dr else t)"
  have tab: "table_path t ?dr" using cd_okD(4) [OF ok] table_path_last [of t v1_cri] by (simp add: v1_paths)
  have a: "cd_ok ?o a" using ok tab by (auto simp: a_def cd_ok_def intro: table_path_deleted)
  have div: "diverge ?dr (cd_runtime ?o m @ ks)" "diverge ?dr (cd_default ?o)" for ks by (simp_all add: v1_paths)
  have oth: "GetPath a ls = GetPath t ls" if "diverge ?dr ls" for ls
    using GetPath_deleted_other [OF that tab] by (simp add: a_def)
  have t'a: "t' = drop_version (cd_prune (unset_default (cd_default ?o) n (deleted a (cd_runtime ?o n))) (path_prefixes (cd_runtime ?o n)))"
    by (simp add: t' v1_RemoveRuntime_def a_def v1_paths Let_def)
  note tail = cd_remove_tail [OF a t'a]
  show "cd_ok ?o t'" by (rule tail(1))
  show "str_at t' (cd_binary_path ?o m) = (if m = n then [] else str_at t (cd_binary_path ?o m))"
    using tail(2) [of m] oth [OF div(1)] by (simp add: toml_DefaultRuntime_def)
  show "n \<noteq> [] \<Longrightarrow> str_at t' (cd_default ?o) = (if str_at t (cd_default ?o) = n then [] else str_at t (cd_default ?o))"
    using tail(3) oth [OF div(2)] by (simp add: toml_DefaultRuntime_def)
qed

interpretation containerd_v1: runtime_store
  "\<lambda>opts n p d. v1_AddRuntimeWithOptions (v1_options o') n p d (Some opts)" "\<lambda>n t. (v1_RemoveRuntime n t, None)"
  v1_DefaultRuntime "\<lambda>t n. map_sum id cd_GetBinaryPath (v1_GetRuntimeConfig t n)" "\<lambda>_. []" "cd_ok (v1_options o')" cd_okopt
  for o' :: containerd_options
proof
  let ?o = "v1_options o'"
  have dflt: "v1_DefaultRuntime t = str_at t (cd_default ?o)" for t by (simp add: v1_DefaultRuntime_def v1_paths)
  have bin: "cd_ok ?o t \<Longrightarrow> map_sum id cd_GetBinaryPath (v1_GetRuntimeConfig t n) = Inr (str_at t (cd_binary_path ?o n))" for t n
    using cd_binary [of ?o t n] by (simp add: v1_GetRuntimeConfig_def cd_GetRuntimeConfig_def v1_paths)
  fix c c' :: toml and n p d m and opts :: toml
  assume ok: "cd_ok ?o c"
  show "cd_ok ?o c'" if "cd_okopt opts" "v1_AddRuntimeWithOptions ?o n p d (Some opts) c = (c', None)"
    by (rule v1_add(1) [OF ok that])
  show "cd_ok ?o c'" if "(v1_RemoveRuntime n c, None) = (c', None)"
    using v1_remove(1) [OF ok refl] that by blast
  show "map_sum id cd_GetBinaryPath (v1_GetRuntimeConfig c' m) =
      (if m = n then Inr p else map_sum id cd_GetBinaryPath (v1_GetRuntimeConfig c m))"
    if "cd_okopt opts" "v1_AddRuntimeWithOptions ?o n p d (Some opts) c = (c', None)"
    using v1_add(1,2) [OF ok that] by (auto simp: bin ok)
  show "map_sum id cd_GetBinaryPath (v1_GetRuntimeConfig c' m) =
      (if m = n then Inr [] else map_sum id cd_GetBinaryPath (v1_GetRuntimeConfig c m))"
    if "(v1_RemoveRuntime n c, None) = (c', None)"
    using v1_remove(1,2) [OF ok refl, where n = n] that by (auto simp: bin ok)
  show "v1_DefaultRuntime c' = (if d then n else v1_DefaultRuntime c)"
    if "cd_okopt opts" "v1_AddRuntimeWithOptions ?o n p d (Some opts) c = (c', None)" "d \<or> v1_DefaultRuntime c \<noteq> n"
    using v1_add(3) [OF ok that(1,2)] that(3) by (simp add: dflt)
  show "v1_DefaultRuntime c' = (if v1_DefaultRuntime c = n then [] else v1_DefaultRuntime c)"
    if "n \<noteq> []" "(v1_RemoveRuntime n c, None) = (c', None)"
    using v1_remove(3) [OF ok _ that(1)] that(2) by (auto simp: dflt)
qed simp

subsection \<open>All engines\<close>

text \<open>What is written: the default and the binaries in the destination of a configuration.\<close>

definition written_default :: "engine \<Rightarrow> string" where
  "written_default c =
     (case c of
        Engine_docker d \<Rightarrow> docker_DefaultRuntime d
      | Engine_crio d \<Rightarrow> crio_DefaultRuntime (cr_destination d)
      | Engine_v1 o' t \<Rightarrow> v1_DefaultRuntime t
      | Engine_dropin d \<Rightarrow> cd_DefaultRuntime (di_options d) (di_destination d))"

definition written_binary :: "engine \<Rightarrow> string \<Rightarrow> string result" where
  "written_binary c n =
     (case c of
        Engine_docker d \<Rightarrow> map_sum id docker_GetBinaryPath (docker_GetRuntimeConfig d n)
      | Engine_crio d \<Rightarrow> map_sum id crio_GetBinaryPath (crio_GetRuntimeConfig (cr_destination d) n)
      | Engine_v1 o' t \<Rightarrow> map_sum id cd_GetBinaryPath (v1_GetRuntimeConfig t n)
      | Engine_dropin d \<Rightarrow> map_sum id cd_GetBinaryPath (cd_GetRuntimeConfig (di_options d) (di_destination d) n))"

definition engine_fallback :: "engine \<Rightarrow> string" where
  "engine_fallback c = (case c of Engine_docker _ \<Rightarrow> ''runc'' | _ \<Rightarrow> [])"

text \<open>The tables of a configuration are where they are expected; version 1 without its legacy form.\<close>

definition engine_ok :: "engine \<Rightarrow> bool" where
  "engine_ok c =
     (case c of
        Engine_docker d \<Rightarrow> True
      | Engine_crio d \<Rightarrow> crio_ok (cr_destination d)
      | Engine_v1 o' t \<Rightarrow> v1_options o' = o' \<and> cd_ok o' t
      | Engine_dropin d \<Rightarrow> cd_ok (di_options d) (di_source d) \<and> cd_ok (di_options d) (di_destination d))"

text \<open>A tree that is read back from its text has its tables in the same places.\<close>

definition copies_tables :: "conf_env \<Rightarrow> bool" where
  "copies_tables env \<longleftrightarrow> (\<forall>t t' ks. toml_Copy env t = Some t' \<and> table_path t ks \<longrightarrow> table_path t' ks)"

lemma default_options_okopt:
  assumes "copies_tables env" "cd_ok o' t" "default_options env (cd_runtime o') t rs = Inr (Some opts)"
  shows "cd_okopt opts"
  using assms(3)
proof (induction rs)
  case (Cons r rs)
  show ?case
  proof (cases "GetPath t (cd_runtime o' r)")
    case None
    with Cons show ?thesis by (simp add: GetSubtreeByPath_def)
  next
    case (Some v)
    with Cons.prems obtain s where s: "v = Sub s" "toml_Copy env s = Some opts"
      by (auto simp: GetSubtreeByPath_def split: toml_node.splits option.splits)
    have "table_path s [''options'', x]" for x
      using table_path_append_Sub [OF Some [unfolded s]] cd_okD(3) [OF assms(2)] by blast
    with assms(1) s(2) show ?thesis unfolding copies_tables_def cd_okopt_def by blast
  qed
qed simp

lemma default_options_cd_okopt:
  assumes "copies_tables env" "cd_ok o' t" "cd_GetDefaultRuntimeOptions env o' t = Inr opts"
  shows "cd_okopt opts"
proof -
  have "cd_okopt (fallback_options o')" by (simp add: cd_okopt_def fallback_options_def tree_get_def)
  with assms default_options_okopt [OF assms(1,2)] show ?thesis
    by (auto simp: cd_GetDefaultRuntimeOptions_def bindR_eq_Inr split: option.splits)
qed

lemma plugin_prefix: "cd_runtime o' n @ ks = cd_plugin o' @ ([''containerd'', ''runtimes'', n] @ ks)"
  by (simp add: cd_runtime_def)

lemma sync_shared_ok:
  assumes "cd_ok (di_options d) (di_source d)" "cd_ok (di_options d) (di_destination d)"
  shows "cd_ok (di_options (sync_shared d)) (di_source (sync_shared d))"
    "di_destination (sync_shared d) = di_destination d" "di_options (sync_shared d) = di_options d"
proof -
  let ?o = "di_options d"
  have src: "table_path (di_source d) (cd_plugin ?o)"
    using cd_okD(1) [OF assms(1)] table_path_append1 [of _ "cd_plugin ?o"] by (metis plugin_prefix append_Nil2)
  have "cd_ok ?o (SetPath (di_source d) (cd_plugin ?o) (Sub p))"
    if "p = NewEmpty \<or> GetPath (di_destination d) (cd_plugin ?o) = Some (Sub p)" for p
  proof -
    have "table_path p ([''containerd'', ''runtimes'', n] @ [''options'', x])" for n x
      using that table_path_append_Sub [of "di_destination d" "cd_plugin ?o" p] cd_okD(3) [OF assms(2)]
      by (metis plugin_prefix table_path_Empty)
    then show ?thesis
      using table_path_SetPath_below [OF src] unfolding cd_ok_def plugin_prefix by (metis append_is_Nil_conv list.distinct(1))
  qed
  with assms(1) show "cd_ok (di_options (sync_shared d)) (di_source (sync_shared d))"
    by (auto simp: sync_shared_def split: option.splits toml_node.splits)
qed (auto simp: sync_shared_def split: option.splits toml_node.splits)

lemma dropin_engine_add:
  assumes "cd_ok (di_options d) (di_source d)" "cd_ok (di_options d) (di_destination d)" "copies_tables env"
    and "dropin_AddRuntime env n p df d = (d', None)"
  obtains opts where "cd_okopt opts" "di_options d' = di_options d"
    "cd_AddRuntimeWithOptions (di_options d) n p df (Some opts) (di_destination d) = (di_destination d', None)"
    "cd_ok (di_options d) (di_source d')"
proof -
  from assms(4) obtain opts t where o: "cd_GetDefaultRuntimeOptions env (di_options d) (di_source d) = Inr opts"
    and t: "cd_AddRuntimeWithOptions (di_options d) n p df (Some opts) (di_destination d) = (t, None)"
    and d': "d' = sync_shared (d\<lparr>di_destination := t\<rparr>)"
    by (auto simp: dropin_AddRuntime_def on_destination_def split: sum.splits prod.splits)
  have ok: "cd_okopt opts" by (rule default_options_cd_okopt [OF assms(3,1) o])
  have "cd_ok (di_options d) t" by (rule cd_add(1) [OF assms(2) ok t])
  then have s: "cd_ok (di_options d') (di_source d')" "di_destination d' = t" "di_options d' = di_options d"
    using sync_shared_ok [of "d\<lparr>di_destination := t\<rparr>"] assms(1) by (simp_all add: d')
  show thesis by (rule that [OF ok s(3)]) (use t s in simp_all)
qed

lemma dropin_engine_remove:
  assumes "cd_ok (di_options d) (di_source d)" "cd_ok (di_options d) (di_destination d)"
    and "dropin_RemoveRuntime n d = (d', e)"
  shows "e = None" "di_options d' = di_options d" "di_destination d' = cd_RemoveRuntime (di_options d) n (di_destination d)"
    "cd_ok (di_options d) (di_source d')"
proof -
  let ?t = "cd_RemoveRuntime (di_options d) n (di_destination d)"
  let ?d = "d\<lparr>di_top := map_option (cd_RemoveRuntime (di_options d) n) (di_top d), di_destination := ?t\<rparr>"
  have d': "d' = sync_shared ?d" and e: "e = None" using assms(3) by (auto simp: dropin_RemoveRuntime_def on_destination_def)
  have "cd_ok (di_options d) ?t" by (rule cd_remove(1) [OF assms(2) refl])
  then show "e = None" "di_options d' = di_options d" "di_destination d' = ?t" "cd_ok (di_options d) (di_source d')"
    using sync_shared_ok [of ?d] assms(1) e by (simp_all add: d')
qed

lemma v1_engine_add:
  assumes "v1_options o' = o'" "cd_ok o' t" "copies_tables env" "v1_AddRuntime env o' n p d t = (t', None)"
  obtains opts where "cd_okopt opts" "v1_AddRuntimeWithOptions (v1_options o') n p d (Some opts) t = (t', None)"
  using assms default_options_cd_okopt [OF assms(3,2)]
  by (auto simp: v1_AddRuntime_def split: sum.splits)

lemma engine_add:
  assumes ok: "engine_ok c" "copies_tables (ee_conf ee)" and add: "engine_AddRuntime ee n p d c = (c', None)"
  shows "engine_ok c' \<and> written_binary c' m = (if m = n then Inr p else written_binary c m) \<and>
    (d \<or> written_default c \<noteq> n \<longrightarrow> written_default c' = (if d then n else written_default c))"
proof (cases c)
  case (Engine_docker x)
  with add obtain x' where x': "docker_AddRuntime n p d x = (x', None)" "c' = Engine_docker x'"
    by (auto simp: engine_AddRuntime_def map_prod_def split: prod.splits)
  with docker.add_binary [OF _ _ x'(1)] docker.add_default [OF _ _ x'(1)] Engine_docker show ?thesis
    by (simp add: engine_ok_def written_binary_def written_default_def)
next
  case (Engine_crio x)
  with add obtain opts where "c' = Engine_crio (x\<lparr>cr_destination := crio_AddRuntimeWithOptions n p d opts (cr_destination x)\<rparr>)"
    by (auto simp: engine_AddRuntime_def crio_engine_AddRuntime_def split: sum.splits)
  with ok(1) Engine_crio crio.add_ok [OF _ _ refl] crio.add_binary [OF _ _ refl] crio.add_default [OF _ _ refl] show ?thesis
    by (simp add: engine_ok_def written_binary_def written_default_def)
next
  case (Engine_v1 o' t)
  with ok(1) have o': "v1_options o' = o'" "cd_ok (v1_options o') t" by (simp_all add: engine_ok_def)
  from add Engine_v1 obtain t' where t': "v1_AddRuntime (ee_conf ee) o' n p d t = (t', None)" "c' = Engine_v1 o' t'"
    by (auto simp: engine_AddRuntime_def map_prod_def split: prod.splits)
  from v1_engine_add [OF o'(1) _ ok(2) t'(1)] o' obtain opts where
    opts: "cd_okopt opts" "v1_AddRuntimeWithOptions (v1_options o') n p d (Some opts) t = (t', None)" by metis
  with containerd_v1.add_ok [OF o'(2) opts] containerd_v1.add_binary [OF o'(2) opts] containerd_v1.add_default [OF o'(2) opts]
    Engine_v1 t'(2) o'(1) show ?thesis by (simp add: engine_ok_def written_binary_def written_default_def)
next
  case (Engine_dropin x)
  with ok(1) have o': "cd_ok (di_options x) (di_source x)" "cd_ok (di_options x) (di_destination x)" by (simp_all add: engine_ok_def)
  from add Engine_dropin obtain x' where x': "dropin_AddRuntime (ee_conf ee) n p d x = (x', None)" "c' = Engine_dropin x'"
    by (auto simp: engine_AddRuntime_def map_prod_def split: prod.splits)
  from dropin_engine_add [OF o' ok(2) x'(1)] obtain opts where opts: "cd_okopt opts" "di_options x' = di_options x"
    "cd_AddRuntimeWithOptions (di_options x) n p d (Some opts) (di_destination x) = (di_destination x', None)"
    "cd_ok (di_options x) (di_source x')" .
  with containerd.add_ok [OF o'(2) opts(1,3)] containerd.add_binary [OF o'(2) opts(1,3)] containerd.add_default [OF o'(2) opts(1,3)]
    Engine_dropin x'(2) show ?thesis by (simp add: engine_ok_def written_binary_def written_default_def)
qed

lemma engine_remove:
  assumes ok: "engine_ok c" and remove: "engine_RemoveRuntime n c = (c', None)"
  shows "engine_ok c' \<and> written_binary c' m = (if m = n then Inr [] else written_binary c m) \<and>
    engine_fallback c' = engine_fallback c \<and>
    (n \<noteq> [] \<longrightarrow> written_default c' = (if written_default c = n then engine_fallback c else written_default c))"
proof (cases c)
  case (Engine_docker x)
  with remove obtain x' where x': "docker_RemoveRuntime n x = (x', None)" "c' = Engine_docker x'"
    by (auto simp: engine_RemoveRuntime_def map_prod_def split: prod.splits)
  with docker.remove_binary [OF _ x'(1)] docker.remove_default [OF _ _ x'(1)] Engine_docker show ?thesis
    by (simp add: engine_ok_def written_binary_def written_default_def engine_fallback_def)
next
  case (Engine_crio x)
  with remove have "c' = Engine_crio (x\<lparr>cr_destination := crio_RemoveRuntime n (cr_destination x)\<rparr>)"
    by (auto simp: engine_RemoveRuntime_def)
  with ok Engine_crio crio.remove_ok [OF _ refl] crio.remove_binary [OF _ refl] crio.remove_default [OF _ _ refl] show ?thesis
    by (simp add: engine_ok_def written_binary_def written_default_def engine_fallback_def)
next
  case (Engine_v1 o' t)
  with ok have o': "v1_options o' = o'" "cd_ok (v1_options o') t" by (simp_all add: engine_ok_def)
  from remove Engine_v1 have "c' = Engine_v1 o' (v1_RemoveRuntime n t)" by (auto simp: engine_RemoveRuntime_def)
  with containerd_v1.remove_ok [OF o'(2) refl] containerd_v1.remove_binary [OF o'(2) refl] containerd_v1.remove_default [OF o'(2) _ refl]
    Engine_v1 o'(1) show ?thesis by (simp add: engine_ok_def written_binary_def written_default_def engine_fallback_def)
next
  case (Engine_dropin x)
  with ok have o': "cd_ok (di_options x) (di_source x)" "cd_ok (di_options x) (di_destination x)" by (simp_all add: engine_ok_def)
  from remove Engine_dropin obtain x' where x': "dropin_RemoveRuntime n x = (x', None)" "c' = Engine_dropin x'"
    by (auto simp: engine_RemoveRuntime_def map_prod_def split: prod.splits)
  with dropin_engine_remove [OF o' x'(1)] containerd.remove_ok [OF o'(2) refl] containerd.remove_binary [OF o'(2) refl]
    containerd.remove_default [OF o'(2) _ refl] Engine_dropin show ?thesis
    by (simp add: engine_ok_def written_binary_def written_default_def engine_fallback_def)
qed

interpretation engines: runtime_store
  engine_AddRuntime engine_RemoveRuntime written_default written_binary engine_fallback engine_ok "\<lambda>ee. copies_tables (ee_conf ee)"
  by unfold_locales (use engine_add engine_remove in blast)+

text \<open>
  Since the destination of a drop-in file shares its table with the source, a runtime that becomes the
  default also is the default that the options of the next runtime are taken from.  If its name starts with
  \<open>nvidia\<close>, these are the options of runc or crun, whatever the default of the engine was before.
\<close>

lemma path_table:
  assumes "table_path t (p @ q)" "GetPath t (p @ q) \<noteq> None" "q \<noteq> []"
  obtains s where "GetPath t p = Some (Sub s)"
proof -
  obtain x r where q: "q = x # r" using assms(3) by (cases q) auto
  then have x: "table_path t (p @ [x])" using assms(1) table_path_append1 [of t "p @ [x]" r] by simp
  have "GetPath t p \<noteq> None"
  proof
    assume "GetPath t p = None"
    with table_path_append1 [OF assms(1)] assms(3) have "GetPath t (p @ q) = None"
      by (induction t p rule: table_path.induct) (auto simp: GetPath_Cons split: option.splits toml_node.splits)
    with assms(2) show False ..
  qed
  with table_entry [OF x] that show thesis by auto
qed

lemma shared_default:
  assumes ok: "cd_ok (di_options d) (di_source d)" "cd_ok (di_options d) (di_destination d)" "copies_tables env"
    and add: "dropin_AddRuntime env n p True d = (d', None)" and n: "di_shared d" "HasPrefix n ''nvidia''"
  shows "cd_DefaultRuntime (di_options d) (di_source d') = n"
    "GetLowLevelRuntimes (cd_DefaultRuntime (di_options d) (di_source d')) = [''runc'', ''crun'']"
proof -
  let ?o = "di_options d" and ?q = "[''containerd'', ''default_runtime_name'']"
  from add obtain t opts where t: "cd_AddRuntimeWithOptions ?o n p True (Some opts) (di_destination d) = (t, None)"
    and opts: "cd_GetDefaultRuntimeOptions env ?o (di_source d) = Inr opts" and d': "d' = sync_shared (d\<lparr>di_destination := t\<rparr>)"
    by (auto simp: dropin_AddRuntime_def on_destination_def split: sum.splits prod.splits)
  have okopt: "cd_okopt opts" by (rule default_options_cd_okopt [OF ok(3,1) opts])
  note t' = cd_add [OF ok(2) okopt t]
  have dp: "cd_default ?o = cd_plugin ?o @ ?q" by (simp add: cd_default_def)
  have "n \<noteq> []" using n(2) by (auto simp: HasPrefix_def)
  with t'(3) have "GetPath t (cd_plugin ?o @ ?q) \<noteq> None" using str_at_None [of t "cd_default ?o"] unfolding dp by auto
  with cd_okD(4) [OF t'(1)] obtain s where s: "GetPath t (cd_plugin ?o) = Some (Sub s)"
    unfolding dp by (rule path_table) simp
  have src: "table_path (di_source d) (cd_plugin ?o)" using cd_okD(4) [OF ok(1)] unfolding dp by (rule table_path_append1)
  have "di_source d' = SetPath (di_source d) (cd_plugin ?o) (Sub s)" using n(1) s by (simp only: d' sync_shared_def) simp
  then have "GetPath (di_source d') (cd_default ?o) = GetPath t (cd_default ?o)"
    using GetPath_SetPath_below [OF src, of ?q s] GetPath_append_Sub [OF _ s, of ?q] cd_okD(4) [OF t'(1)]
      table_path_append1 [of t "cd_plugin ?o" ?q] unfolding dp by simp
  with t'(3) show "cd_DefaultRuntime ?o (di_source d') = n" by (simp add: cd_DefaultRuntime_def toml_DefaultRuntime_def)
  with n(2) show "GetLowLevelRuntimes (cd_DefaultRuntime ?o (di_source d')) = [''runc'', ''crun'']"
    by (simp add: GetLowLevelRuntimes_def isValidDefault_def)
qed

text \<open>The features of a document that was read are no \<open>map[string]bool\<close>, so that enabling CDI drops them all.\<close>

lemma docker_cdi_drops_features:
  "map_of c ''features'' = Some (JObj fs) \<Longrightarrow> map_of (docker_EnableCDI c) ''features'' = Some (GoBools [(''cdi'', True)])"
  by (simp add: docker_EnableCDI_def update_conv' Let_def)

subsection \<open>Saving a drop-in file\<close>

lemma ensureImports_imports: "importPattern pm path \<in> set (getCurrentImports (ensureImports o' pm path t))"
  by (simp add: ensureImports_def Let_def getCurrentImports_def)

lemma ensureImports_keeps:
  "k \<noteq> ''version'' \<Longrightarrow> k \<noteq> ''imports'' \<Longrightarrow> tree_get (ensureImports o' pm path t) k = tree_get t k"
  by (simp add: ensureImports_def Let_def)

lemma ensureImports_idem: "ensureImports o' pm path (ensureImports o' pm path t) = ensureImports o' pm path t"
  using ensureImports_imports [of pm path o' t] unfolding ensureImports_def [of o' pm path "ensureImports o' pm path t"]
  by (simp add: Let_def)

lemma Raw_Write_Inr:
  assumes "Raw_Write env path out h = (Inr n, h')" "path \<noteq> []"
  shows "n = length out \<and> ch_files h' = (ch_files h)(path := (if out = [] then None else Some out))"
  using assms by (auto simp: Raw_Write_def split: if_splits option.splits)

text \<open>What the installer leaves in the top-level file of an engine that had none, read back from its text, is removed again.\<close>

lemma top_level_restored:
  "simplify_top pm path (Tree [(''version'', Leaf (LInt v)), (''imports'', Leaf (LArray [LString (importPattern pm path)]))]) = NewEmpty"
  by (simp add: simplify_top_def removeImports_def removeVersion_def Keys_def tree_get_def getStringArrayValue_def
      deleted_simps tree_remove_def NewEmpty_def)

text \<open>
  (C40) What is on the disk once a containerd configuration has been saved.  The top-level file imports the
  folder of the drop-in file and is otherwise unchanged apart from its version.  The drop-in file holds the
  new configuration, unless it is the top-level file itself: that file is written last, with the top-level
  document only, and the new configuration is lost.
\<close>

theorem dropin_saved:
  assumes "dropin_Save env path d h = (Inr n, d', h')" and "path \<noteq> []" "di_topPath d \<noteq> []" "n \<noteq> 0"
  shows "\<exists>old top out doc. di_top d = Some old \<and> di_top d' = Some top \<and>
    importPattern (di_pathMap d) path \<in> set (getCurrentImports top) \<and>
    (\<forall>k. k \<notin> {''version'', ''imports''} \<longrightarrow> tree_get top k = tree_get old k) \<and>
    ce_Marshal env top = Inr out \<and> ce_Marshal env (di_destination d) = Inr doc \<and>
    ch_files h' (di_topPath d) = (if out = [] then None else Some out) \<and>
    ch_files h' path = (if path \<noteq> di_topPath d then Some doc else if out = [] then None else Some out)"
proof -
  from assms obtain h1 old m where h1: "toml_Save env (di_destination d) path h = (Inr n, h1)" and old: "di_top d = Some old"
    and d': "d' = d\<lparr>di_top := Some (ensureImports (di_options d) (di_pathMap d) path old)\<rparr>"
    and m: "toml_Save env (ensureImports (di_options d) (di_pathMap d) path old) (di_topPath d) h1 = (Inr m, h')"
    by (auto simp: dropin_Save_def Let_def split: prod.splits sum.splits option.splits if_splits)
  let ?top = "ensureImports (di_options d) (di_pathMap d) path old"
  from h1 obtain doc where doc: "ce_Marshal env (di_destination d) = Inr doc" "Raw_Write env path doc h = (Inr n, h1)"
    by (auto simp: toml_Save_def split: sum.splits)
  from m obtain out where out: "ce_Marshal env ?top = Inr out" "Raw_Write env (di_topPath d) out h1 = (Inr m, h')"
    by (auto simp: toml_Save_def split: sum.splits)
  have "doc \<noteq> []" "ch_files h1 = (ch_files h)(path \<mapsto> doc)" "ch_files h' = (ch_files h1)(di_topPath d := (if out = [] then None else Some out))"
    using Raw_Write_Inr [OF doc(2) assms(2)] Raw_Write_Inr [OF out(2) assms(3)] assms(4) by auto
  with old d' doc(1) out(1) assms(4) ensureImports_imports ensureImports_keeps show ?thesis
    by (intro exI [of _ old] exI [of _ ?top] exI [of _ out] exI [of _ doc]) auto
qed

text \<open>A host with a top-level file, saved to a file of its own.\<close>

definition saved_env :: conf_env where
  "saved_env = \<lparr>ce_Load = (\<lambda>_. Inr NewEmpty), ce_Marshal = (\<lambda>t. Inr (if t = NewEmpty then [] else ''text'')), ce_command = (\<lambda>_ _. Inr []),
     ce_readError = (\<lambda>_. None), ce_mkdirError = (\<lambda>_. None), ce_createError = (\<lambda>_. None), ce_removeError = (\<lambda>_. None)\<rparr>"

definition saved_dropin :: containerd_dropin where
  "saved_dropin =
     (let opts = \<lparr>cd_Version = 2, cd_RuntimeType = ''io.containerd.runc.v2'', cd_ContainerAnnotations = [], cd_UseLegacyConfig = False,
                  cd_CRIRuntimePluginName = criRuntimePluginName 2\<rparr> in
      \<lparr>di_options = opts, di_source = NewEmpty, di_destination = SetPath NewEmpty (cd_default opts) (Leaf (LString ''nvidia'')),
       di_shared = False, di_top = Some NewEmpty, di_topPath = ''/etc/containerd/config.toml'', di_pathMap = []\<rparr>)"

theorem dropin_saved_witness:
  "\<exists>d' h' top. dropin_Save saved_env ''/etc/containerd/conf.d/99-nvidia.toml'' saved_dropin \<lparr>ch_files = Map.empty, ch_stdout = []\<rparr> = (Inr 4, d', h') \<and>
     ch_files h' ''/etc/containerd/conf.d/99-nvidia.toml'' = Some ''text'' \<and> di_top d' = Some top \<and>
     ''/etc/containerd/conf.d/*.toml'' \<in> set (getCurrentImports top)"
proof -
  let ?p = "''/etc/containerd/conf.d/99-nvidia.toml''"
  have "fst (dropin_Save saved_env ?p saved_dropin \<lparr>ch_files = Map.empty, ch_stdout = []\<rparr>) = Inr 4" by code_simp
  then obtain d' h' where s: "dropin_Save saved_env ?p saved_dropin \<lparr>ch_files = Map.empty, ch_stdout = []\<rparr> = (Inr 4, d', h')"
    by (metis prod.collapse)
  have p: "di_topPath saved_dropin = ''/etc/containerd/config.toml''" "di_pathMap saved_dropin = []"
    "ce_Marshal saved_env (di_destination saved_dropin) = Inr ''text''" "importPattern [] ?p = ''/etc/containerd/conf.d/*.toml''"
    by code_simp+
  from dropin_saved [OF s] obtain top doc where "di_top d' = Some top" "importPattern (di_pathMap saved_dropin) ?p \<in> set (getCurrentImports top)"
    "ce_Marshal saved_env (di_destination saved_dropin) = Inr doc" "?p \<noteq> di_topPath saved_dropin \<longrightarrow> ch_files h' ?p = Some doc"
    by (auto simp: p(1))
  with s p show ?thesis by auto
qed

subsection \<open>Low-level runtimes\<close>

lemma binary_paths_loop_spec:
  assumes "binary_paths_loop cfg seen rs = Inr bs"
  shows "distinct bs \<and> set bs = {b. b \<noteq> [] \<and> b \<notin> set seen \<and> (\<exists>r \<in> set rs. cfg r = Inr b)}"
  using assms
proof (induction rs arbitrary: seen bs)
  case (Cons r rs)
  show ?case
  proof (cases "cfg r")
    case (Inl e)
    with Cons show ?thesis by (cases e) auto
  next
    case (Inr b)
    show ?thesis
    proof (cases "b = [] \<or> b \<in> set seen")
      case True
      with Cons Inr show ?thesis by auto
    next
      case False
      with Cons.prems Inr obtain bs' where bs': "binary_paths_loop cfg (b # seen) rs = Inr bs'" "bs = b # bs'"
        by (auto simp: bindR_eq_Inr)
      with Cons.IH [OF bs'(1)] Inr False show ?thesis by auto
    qed
  qed
qed simp

text \<open>An engine whose default is an NVIDIA runtime reports the binaries of runc and crun only.\<close>

lemma lowlevel_not_nvidia:
  assumes "engine_lowlevel_paths c = Inr bs"
  shows "distinct bs \<and> set bs = {b. b \<noteq> [] \<and> (\<exists>r \<in> {''runc'', ''crun''} \<union>
    (if isValidDefault (engine_DefaultRuntime c) then {engine_DefaultRuntime c} else {}). engine_binary c r = Inr b)}"
  using binary_paths_loop_spec [OF assms [unfolded engine_lowlevel_paths_def GetBinaryPathsForRuntimes_def]]
  by (auto simp: GetLowLevelRuntimes_def split: if_splits)

end
