(* ===== verification/Engine_Install.thy ===== *)
theory Engine_Install
  imports Engine_Correct
begin

text \<open>
  Configuring container engines: the runtimes that the installer adds (\<open>cmd/nvidia-ctk-installer/container\<close>)
  and the command \<open>nvidia-ctk runtime configure\<close>.
\<close>

subsection \<open>The runtimes (\<open>operator/operator.go\<close>)\<close>

record operator_Runtime =
  rt_name :: string
  rt_Path :: string
  rt_SetAsDefault :: bool

record operator_config =
  oc_root :: string
  oc_nvidiaRuntimeName :: string
  oc_setAsDefault :: bool

definition newRuntime :: "operator_config \<Rightarrow> string \<Rightarrow> string \<Rightarrow> operator_Runtime" where
  "newRuntime c name binary =
     \<lparr>rt_name = name, rt_Path = FJoin [oc_root c, binary],
      rt_SetAsDefault = oc_setAsDefault c \<and> name = oc_nvidiaRuntimeName c\<rparr>"

definition nvidiaRuntime :: "operator_config \<Rightarrow> operator_Runtime" where
  "nvidiaRuntime c =
     (let name = oc_nvidiaRuntimeName c;
          name = (if name \<in> {''nvidia-cdi'', ''nvidia-legacy''} then ''nvidia'' else name) in
      newRuntime c name ''nvidia-container-runtime'')"

definition modeRuntime :: "operator_config \<Rightarrow> string \<Rightarrow> operator_Runtime" where
  "modeRuntime c mode = newRuntime c (''nvidia-'' @ mode) (''nvidia-container-runtime.'' @ mode)"

text \<open>The set of runtimes is a map by name; its elements are listed in the order in which they were added.\<close>

definition runtimes_add :: "operator_Runtime list \<Rightarrow> operator_Runtime \<Rightarrow> operator_Runtime list" where
  "runtimes_add rs r =
     (if list_ex (\<lambda>x. rt_name x = rt_name r) rs then map (\<lambda>x. if rt_name x = rt_name r then r else x) rs else rs @ [r])"

definition GetRuntimes :: "string \<Rightarrow> bool \<Rightarrow> string \<Rightarrow> operator_Runtime list" where
  "GetRuntimes name setAsDefault root =
     (let c = \<lparr>oc_root = root, oc_nvidiaRuntimeName = (if name = [] then ''nvidia'' else name), oc_setAsDefault = setAsDefault\<rparr> in
      foldl (\<lambda>rs mode. runtimes_add rs (modeRuntime c mode)) (runtimes_add [] (nvidiaRuntime c)) [''cdi'', ''legacy''])"

subsection \<open>Configuring an engine (\<open>container.go\<close>)\<close>

record container_Options =
  co_DropInConfig :: string
  co_DropInConfigHostPath :: string
  co_TopLevelConfigPath :: string
  co_Socket :: string
  co_ExecutablePath :: string
  co_EnableCDI :: bool
  co_RuntimeName :: string
  co_RuntimeDir :: string
  co_SetAsDefault :: bool
  co_RestartMode :: string
  co_HostRootMount :: string
  co_ConfigSources :: "string list"

text \<open>A returned error is wrapped; a panic unwinds past the caller as it is.\<close>

definition wrapE :: "string \<Rightarrow> error \<Rightarrow> error" where
  "wrapE msg e = (case e of Panic p \<Rightarrow> Panic p | _ \<Rightarrow> Wrap msg e)"

text \<open>A map of Go is visited in any order: \<open>order\<close> is the order of one run.\<close>

fun add_runtimes :: "engine_env \<Rightarrow> operator_Runtime list \<Rightarrow> engine \<Rightarrow> engine \<times> error option" where
  "add_runtimes ee [] cfg = (cfg, None)"
| "add_runtimes ee (r # rs) cfg =
     (case engine_AddRuntime ee (rt_name r) (rt_Path r) (rt_SetAsDefault r) cfg of
        (cfg, Some e) \<Rightarrow> (cfg, Some (wrapE ''failed to update runtime'' e))
      | (cfg, None) \<Rightarrow> add_runtimes ee rs cfg)"

fun remove_runtimes :: "operator_Runtime list \<Rightarrow> engine \<Rightarrow> engine \<times> error option" where
  "remove_runtimes [] cfg = (cfg, None)"
| "remove_runtimes (r # rs) cfg =
     (case engine_RemoveRuntime (rt_name r) cfg of
        (cfg, Some e) \<Rightarrow> (cfg, Some (wrapE ''failed to remove runtime'' e))
      | (cfg, None) \<Rightarrow> remove_runtimes rs cfg)"

record install_env =
  ie_engine :: engine_env
  ie_order :: "operator_Runtime list \<Rightarrow> operator_Runtime list"
  ie_run :: "string list \<Rightarrow> error option"
  ie_signal :: "string \<Rightarrow> nat \<Rightarrow> error option"

definition UpdateConfig :: "install_env \<Rightarrow> container_Options \<Rightarrow> engine \<Rightarrow> engine \<times> error option" where
  "UpdateConfig ie opts cfg =
     (let runtimes = GetRuntimes (co_RuntimeName opts) (co_SetAsDefault opts) (co_RuntimeDir opts) in
      case add_runtimes (ie_engine ie) (ie_order ie runtimes) cfg of
        (cfg, Some e) \<Rightarrow> (cfg, Some e)
      | (cfg, None) \<Rightarrow> (if co_EnableCDI opts then engine_EnableCDI cfg else cfg, None))"

definition RevertConfig :: "install_env \<Rightarrow> container_Options \<Rightarrow> engine \<Rightarrow> engine \<times> error option" where
  "RevertConfig ie opts cfg =
     remove_runtimes (ie_order ie (GetRuntimes (co_RuntimeName opts) (co_SetAsDefault opts) (co_RuntimeDir opts))) cfg"

definition Flush :: "install_env \<Rightarrow> container_Options \<Rightarrow> engine \<Rightarrow> conf_host \<Rightarrow> error option \<times> conf_host" where
  "Flush ie opts cfg h =
     (let path = (if co_DropInConfig opts = [] then co_TopLevelConfigPath opts else co_DropInConfig opts) in
      case engine_Save (ie_engine ie) path cfg h of
        (Inl e, _, h) \<Rightarrow> (Some (wrapE ''unable to flush config'' e), h)
      | (Inr _, _, h) \<Rightarrow> (None, h))"

definition Configure :: "install_env \<Rightarrow> container_Options \<Rightarrow> engine \<Rightarrow> conf_host \<Rightarrow> error option \<times> conf_host" where
  "Configure ie opts cfg h =
     (case UpdateConfig ie opts cfg of
        (cfg, Some e) \<Rightarrow> (Some (wrapE ''unable to update config'' e), h)
      | (cfg, None) \<Rightarrow> Flush ie opts cfg h)"

definition Unconfigure :: "install_env \<Rightarrow> container_Options \<Rightarrow> engine \<Rightarrow> conf_host \<Rightarrow> error option \<times> conf_host" where
  "Unconfigure ie opts cfg h =
     (case RevertConfig ie opts cfg of
        (cfg, Some e) \<Rightarrow> (Some (wrapE ''unable to update config'' e), h)
      | (cfg, None) \<Rightarrow>
          (case Flush ie opts cfg h of
             (Some e, h) \<Rightarrow> (Some e, h)
           | (None, h) \<Rightarrow>
               if co_DropInConfig opts = [] then (None, h)
               else if ch_files h (co_DropInConfig opts) = None then (None, h)
               else case ce_removeError (ee_conf (ie_engine ie)) (co_DropInConfig opts) of
                      Some e \<Rightarrow> (Some (wrapE ''failed to remove drop-in config file'' e), h)
                    | None \<Rightarrow> (None, h\<lparr>ch_files := (ch_files h)(co_DropInConfig opts := None)\<rparr>)))"

definition SystemdRestart_args :: "container_Options \<Rightarrow> string \<Rightarrow> string list" where
  "SystemdRestart_args opts service =
     (if co_HostRootMount opts \<noteq> [] then [''chroot'', co_HostRootMount opts] else []) @ [''systemctl'', ''restart'', service]"

text \<open>The calls are the commands that are run and the sockets whose daemons get a signal.\<close>

datatype restart_call = Run_command "string list" | Signal_daemon string

definition SystemdRestart :: "install_env \<Rightarrow> container_Options \<Rightarrow> string \<Rightarrow> restart_call list \<times> error option" where
  "SystemdRestart ie opts service =
     (let args = SystemdRestart_args opts service in
      ([Run_command args], map_option (wrapE ''error restarting using systemd'') (ie_run ie args)))"

definition Restart ::
  "install_env \<Rightarrow> container_Options \<Rightarrow> string \<Rightarrow> (string \<Rightarrow> restart_call list \<times> error option) \<Rightarrow> restart_call list \<times> error option" where
  "Restart ie opts service withSignal =
     (if co_RestartMode opts = ''none'' then ([], None)
      else if co_RestartMode opts = ''signal'' then withSignal (co_Socket opts)
      else if co_RestartMode opts = ''systemd'' then SystemdRestart ie opts service
      else ([], Some (Errorf ''invalid restart mode specified'')))"

text \<open>The daemon is signalled again after a failure, at most six times in all.\<close>

definition maxReloadAttempts :: nat where
  "maxReloadAttempts = 6"

fun signal_loop :: "(nat \<Rightarrow> error option) \<Rightarrow> string \<Rightarrow> nat \<Rightarrow> nat \<Rightarrow> restart_call list \<times> error option" where
  "signal_loop attempt socket i 0 = ([], None)"
| "signal_loop attempt socket i (Suc k) =
     (case attempt i of
        None \<Rightarrow> ([Signal_daemon socket], None)
      | Some e \<Rightarrow>
          if k = 0 then ([Signal_daemon socket], Some e)
          else map_prod (Cons (Signal_daemon socket)) id (signal_loop attempt socket (i + 1) k))"

definition SignalContainerd :: "install_env \<Rightarrow> string \<Rightarrow> restart_call list \<times> error option" where
  "SignalContainerd ie socket = signal_loop (ie_signal ie socket) socket 0 maxReloadAttempts"

fun config_loaders :: "container_Options \<Rightarrow> (string \<Rightarrow> string \<Rightarrow> loader) option \<Rightarrow> string list \<Rightarrow> loader list result" where
  "config_loaders opts commandSourceFunc [] = Inr []"
| "config_loaders opts commandSourceFunc (configSource # rest) =
     (let parts = SplitN2 configSource ''=''; source = TrimSpace (hd parts) in
      bindR (if source = ''file''
             then Inr (FromFile (if length parts > 1 then TrimSpace (parts ! 1) else co_TopLevelConfigPath opts))
             else if source = ''command''
             then (case commandSourceFunc of
                     None \<Rightarrow> Inl (Panic ''nil pointer dereference'')
                   | Some f \<Rightarrow> Inr (f (co_HostRootMount opts) (co_ExecutablePath opts)))
             else Inl (Errorf ''unsupported config source'')) (\<lambda>l.
      bindR (config_loaders opts commandSourceFunc rest) (\<lambda>ls. Inr (l # ls))))"

definition GetConfigLoaders :: "container_Options \<Rightarrow> (string \<Rightarrow> string \<Rightarrow> loader) option \<Rightarrow> loader list result" where
  "GetConfigLoaders opts commandSourceFunc =
     (if length (co_ConfigSources opts) = 0 then Inr [Loader_empty]
      else config_loaders opts commandSourceFunc (co_ConfigSources opts))"

subsection \<open>Hook files (\<open>pkg/config/ocihook\<close>)\<close>

record podmanHook =
  ph_Version :: string
  ph_Stages :: "string list"
  ph_Path :: string
  ph_Args :: "string list"
  ph_Env :: "string list"
  ph_Always :: bool
  ph_Commands :: "string list"

definition generateOciHook :: "string \<Rightarrow> podmanHook" where
  "generateOciHook executablePath =
     (let pathParts = [''/usr/local/sbin'', ''/usr/local/bin'', ''/usr/sbin'', ''/usr/bin'', ''/sbin'', ''/bin''];
          dir = Dir executablePath;
          pathParts = (if dir \<in> set pathParts then pathParts else pathParts @ [dir]) in
      \<lparr>ph_Version = ''1.0.0'', ph_Stages = [''prestart''], ph_Path = executablePath,
       ph_Args = [Base executablePath, ''prestart''], ph_Env = [''PATH='' @ StrJoin pathParts '':''],
       ph_Always = True, ph_Commands = [''.*'']\<rparr>)"

text \<open>The JSON text of a hook is a parameter.\<close>

definition CreateHook :: "conf_env \<Rightarrow> (podmanHook \<Rightarrow> string result) \<Rightarrow> string \<Rightarrow> string \<Rightarrow> conf_host \<Rightarrow> error option \<times> conf_host" where
  "CreateHook env encode hookFilePath executablePath h =
     (let opened =
        (if hookFilePath = [] then None
         else case ce_mkdirError env (Dir hookFilePath) of
                Some e \<Rightarrow> Some (wrapE ''error creating hooks directory'' e)
              | None \<Rightarrow> map_option (wrapE ''error creating hook file'') (ce_createError env hookFilePath)) in
      case opened of
        Some e \<Rightarrow> (Some e, h)
      | None \<Rightarrow>
          (case encode (generateOciHook executablePath) of
             Inl e \<Rightarrow> (Some (wrapE ''error writing hook file'' e),
                       if hookFilePath = [] then h else h\<lparr>ch_files := (ch_files h)(hookFilePath \<mapsto> [])\<rparr>)
           | Inr text \<Rightarrow>
               (None, if hookFilePath = [] then h\<lparr>ch_stdout := ch_stdout h @ [text]\<rparr>
                      else h\<lparr>ch_files := (ch_files h)(hookFilePath \<mapsto> text)\<rparr>)))"

subsection \<open>The engines (\<open>runtime/containerd\<close>, \<open>runtime/crio\<close>, \<open>runtime/docker\<close>)\<close>

record installer_state =
  is_host :: conf_host
  is_restarts :: "restart_call list"

text \<open>Load, update and flush, then restart; each step only if the one before succeeded.\<close>

definition reconfigure ::
  "string \<Rightarrow> string \<Rightarrow> engine result \<Rightarrow> (engine \<Rightarrow> conf_host \<Rightarrow> error option \<times> conf_host) \<Rightarrow> restart_call list \<times> error option \<Rightarrow>
   installer_state \<Rightarrow> error option \<times> installer_state" where
  "reconfigure what restartWhat cfg update restart s =
     (case cfg of
        Inl e \<Rightarrow> (Some (wrapE ''unable to load config'' e), s)
      | Inr cfg \<Rightarrow>
          (case update cfg (is_host s) of
             (Some e, h) \<Rightarrow> (Some (wrapE what e), s\<lparr>is_host := h\<rparr>)
           | (None, h) \<Rightarrow>
               (case restart of
                  (calls, e) \<Rightarrow>
                    (map_option (wrapE restartWhat) e, s\<lparr>is_host := h, is_restarts := is_restarts s @ calls\<rparr>))))"

record cd_Options =
  cdo_useLegacyConfig :: bool
  cdo_runtimeType :: string
  cdo_prefixes :: "string list"

definition containerAnnotationsFromCDIPrefixes :: "cd_Options \<Rightarrow> string list" where
  "containerAnnotationsFromCDIPrefixes co = map (\<lambda>prefix. prefix @ ''*'') (cdo_prefixes co)"

definition containerd_getRuntimeConfig ::
  "conf_env \<Rightarrow> (string \<Rightarrow> string option) \<Rightarrow> container_Options \<Rightarrow> cd_Options \<Rightarrow> engine result" where
  "containerd_getRuntimeConfig env files opts co =
     bindR (GetConfigLoaders opts (Some containerd_CommandLineSource)) (\<lambda>loaders.
       let b = cd_new_builder\<lparr>cb_topLevelConfigPath := co_TopLevelConfigPath opts,
                              cb_configSource := Some (LoadFirst (map Some loaders)),
                              cb_runtimeType := cdo_runtimeType co, cb_useLegacyConfig := cdo_useLegacyConfig co,
                              cb_containerAnnotations := containerAnnotationsFromCDIPrefixes co\<rparr>;
           b = (if co_DropInConfigHostPath opts \<noteq> [] \<and> co_DropInConfig opts \<noteq> []
                then WithContainerPathAsHostPath (Dir (co_DropInConfig opts)) (Dir (co_DropInConfigHostPath opts)) b else b) in
       containerd_New env files b)"

definition RestartContainerd :: "install_env \<Rightarrow> container_Options \<Rightarrow> restart_call list \<times> error option" where
  "RestartContainerd ie opts = Restart ie opts ''containerd'' (SignalContainerd ie)"

definition containerd_Setup ::
  "install_env \<Rightarrow> container_Options \<Rightarrow> cd_Options \<Rightarrow> installer_state \<Rightarrow> error option \<times> installer_state" where
  "containerd_Setup ie opts co s =
     reconfigure ''unable to configure containerd'' ''unable to restart containerd''
       (containerd_getRuntimeConfig (ee_conf (ie_engine ie)) (ch_files (is_host s)) opts co)
       (Configure ie opts) (RestartContainerd ie opts) s"

definition containerd_Cleanup ::
  "install_env \<Rightarrow> container_Options \<Rightarrow> cd_Options \<Rightarrow> installer_state \<Rightarrow> error option \<times> installer_state" where
  "containerd_Cleanup ie opts co s =
     reconfigure ''unable to unconfigure containerd'' ''unable to restart containerd''
       (containerd_getRuntimeConfig (ee_conf (ie_engine ie)) (ch_files (is_host s)) opts co)
       (Unconfigure ie opts) (RestartContainerd ie opts) s"

definition docker_getRuntimeConfig :: "engine_env \<Rightarrow> (string \<Rightarrow> string option) \<Rightarrow> container_Options \<Rightarrow> engine result" where
  "docker_getRuntimeConfig ee files opts =
     map_sum id Engine_docker (docker_New (ee_docker ee) (ee_conf ee) files (co_TopLevelConfigPath opts))"

definition RestartDocker :: "install_env \<Rightarrow> container_Options \<Rightarrow> restart_call list \<times> error option" where
  "RestartDocker ie opts =
     Restart ie opts ''docker'' (\<lambda>socket. signal_loop (ie_signal ie socket) socket 0 maxReloadAttempts)"

definition docker_Setup :: "install_env \<Rightarrow> container_Options \<Rightarrow> installer_state \<Rightarrow> error option \<times> installer_state" where
  "docker_Setup ie opts s =
     reconfigure ''unable to configure docker'' ''unable to restart docker''
       (docker_getRuntimeConfig (ie_engine ie) (ch_files (is_host s)) opts) (Configure ie opts) (RestartDocker ie opts) s"

definition docker_Cleanup :: "install_env \<Rightarrow> container_Options \<Rightarrow> installer_state \<Rightarrow> error option \<times> installer_state" where
  "docker_Cleanup ie opts s =
     reconfigure ''unable to unconfigure docker'' ''unable to signal docker''
       (docker_getRuntimeConfig (ie_engine ie) (ch_files (is_host s)) opts) (Unconfigure ie opts) (RestartDocker ie opts) s"

record crio_Options =
  cro_configMode :: string
  cro_hooksDir :: string
  cro_hookFilename :: string

definition crio_getRuntimeConfig ::
  "conf_env \<Rightarrow> (string \<Rightarrow> string option) \<Rightarrow> container_Options \<Rightarrow> bool \<Rightarrow> engine result" where
  "crio_getRuntimeConfig env files opts loadDestinationConfig =
     bindR (GetConfigLoaders opts (Some crio_CommandLineSource)) (\<lambda>loaders.
       let destination =
         (if loadDestinationConfig
          then Some (FromFile (if co_DropInConfig opts \<noteq> [] then co_DropInConfig opts else co_TopLevelConfigPath opts))
          else None) in
       map_sum id Engine_crio
         (crio_New env files (co_TopLevelConfigPath opts) (Some (LoadFirst (map Some loaders))) destination))"

definition RestartCrio :: "install_env \<Rightarrow> container_Options \<Rightarrow> restart_call list \<times> error option" where
  "RestartCrio ie opts =
     Restart ie opts ''crio'' (\<lambda>_. ([], Some (Errorf ''supporting crio via signal is unsupported'')))"

definition crio_setupHook ::
  "conf_env \<Rightarrow> (podmanHook \<Rightarrow> string result) \<Rightarrow> container_Options \<Rightarrow> crio_Options \<Rightarrow> installer_state \<Rightarrow> error option \<times> installer_state" where
  "crio_setupHook env encode opts co s =
     (case CreateHook env encode (FJoin [cro_hooksDir co, cro_hookFilename co])
             (FJoin [co_RuntimeDir opts, ''nvidia-container-runtime-hook'']) (is_host s) of
        (e, h) \<Rightarrow> (map_option (wrapE ''error creating hook'') e, s\<lparr>is_host := h\<rparr>))"

definition crio_Setup ::
  "install_env \<Rightarrow> (podmanHook \<Rightarrow> string result) \<Rightarrow> container_Options \<Rightarrow> crio_Options \<Rightarrow> installer_state \<Rightarrow> error option \<times> installer_state" where
  "crio_Setup ie encode opts co s =
     (if cro_configMode co = ''hook'' then crio_setupHook (ee_conf (ie_engine ie)) encode opts co s
      else if cro_configMode co = ''config''
      then reconfigure ''unable to configure cri-o'' ''unable to restart crio''
             (crio_getRuntimeConfig (ee_conf (ie_engine ie)) (ch_files (is_host s)) opts False)
             (Configure ie opts) (RestartCrio ie opts) s
      else (Some (Errorf ''invalid config-mode''), s))"

definition crio_cleanupHook :: "conf_env \<Rightarrow> crio_Options \<Rightarrow> installer_state \<Rightarrow> error option \<times> installer_state" where
  "crio_cleanupHook env co s =
     (let path = FJoin [cro_hooksDir co, cro_hookFilename co]; h = is_host s in
      case (if ch_files h path = None then Some (Errorf ''no such file or directory'') else ce_removeError env path) of
        Some e \<Rightarrow> (Some (wrapE ''error removing hook'' e), s)
      | None \<Rightarrow> (None, s\<lparr>is_host := h\<lparr>ch_files := (ch_files h)(path := None)\<rparr>\<rparr>))"

text \<open>The default is unset and the configuration flushed; the error of the flush is returned as it is.\<close>

definition crio_cleanupConfig :: "install_env \<Rightarrow> container_Options \<Rightarrow> installer_state \<Rightarrow> error option \<times> installer_state" where
  "crio_cleanupConfig ie opts s =
     (if \<not> co_SetAsDefault opts then (None, s)
      else case crio_getRuntimeConfig (ee_conf (ie_engine ie)) (ch_files (is_host s)) opts True of
             Inl e \<Rightarrow> (Some (wrapE ''unable to load config'' e), s)
           | Inr cfg \<Rightarrow>
               (case engine_UpdateDefaultRuntime (co_RuntimeName opts) UpdateActionUnset cfg of
                  (cfg, Some e) \<Rightarrow> (Some (wrapE ''failed to unset as the default runtime'' e), s)
                | (cfg, None) \<Rightarrow>
                    (case Flush ie opts cfg (is_host s) of
                       (Some e, h) \<Rightarrow> (Some e, s\<lparr>is_host := h\<rparr>)
                     | (None, h) \<Rightarrow>
                         (case RestartCrio ie opts of
                            (calls, e) \<Rightarrow>
                              (map_option (wrapE ''unable to restart crio'') e,
                               s\<lparr>is_host := h, is_restarts := is_restarts s @ calls\<rparr>)))))"

definition crio_Cleanup :: "install_env \<Rightarrow> container_Options \<Rightarrow> crio_Options \<Rightarrow> installer_state \<Rightarrow> error option \<times> installer_state" where
  "crio_Cleanup ie opts co s =
     (if cro_configMode co = ''hook'' then crio_cleanupHook (ee_conf (ie_engine ie)) co s
      else if cro_configMode co = ''config'' then crio_cleanupConfig ie opts s
      else (Some (Errorf ''invalid config-mode''), s))"

subsection \<open>Selecting the engine (\<open>runtime/runtime.go\<close>)\<close>

record runtime_Options =
  ro_Options :: container_Options
  ro_containerd :: cd_Options
  ro_crio :: crio_Options

definition runtimeSpecificDefault :: string where
  "runtimeSpecificDefault = ''RUNTIME_SPECIFIC_DEFAULT''"

definition crio_Validate :: "crio_Options \<Rightarrow> error option" where
  "crio_Validate co =
     (if cro_configMode co \<noteq> ''config'' \<and> cro_configMode co \<noteq> ''hook'' then Some (Errorf ''invalid cri-o config mode'') else None)"

text \<open>Options that were not given are replaced by the values of the engine.\<close>

definition specific_defaults :: "string \<Rightarrow> string \<Rightarrow> string \<Rightarrow> string \<Rightarrow> container_Options \<Rightarrow> container_Options" where
  "specific_defaults config dropIn socket restartMode opts =
     (let or_default = (\<lambda>v d. if v = runtimeSpecificDefault then d else v) in
      opts\<lparr>co_TopLevelConfigPath := or_default (co_TopLevelConfigPath opts) config,
           co_DropInConfig := or_default (co_DropInConfig opts) dropIn,
           co_Socket := or_default (co_Socket opts) socket,
           co_RestartMode := or_default (co_RestartMode opts) restartMode\<rparr>)"

definition runtime_Validate ::
  "string \<Rightarrow> string \<Rightarrow> bool \<Rightarrow> bool \<Rightarrow> runtime_Options \<Rightarrow> runtime_Options result" where
  "runtime_Validate runtime toolkitRoot enableCDISet toolkitCDIEnabled ro =
     (if runtime \<notin> {''containerd'', ''crio'', ''docker''} then Inl (Errorf ''invalid runtime'')
      else let opts = (ro_Options ro)\<lparr>co_RuntimeDir := toolkitRoot\<rparr>;
               opts = (if enableCDISet then opts else opts\<lparr>co_EnableCDI := toolkitCDIEnabled\<rparr>) in
        if runtime = ''docker''
        then let opts = opts\<lparr>co_ExecutablePath := [], co_ConfigSources := [''file'']\<rparr>;
                 opts = (if co_DropInConfig opts \<noteq> [] \<and> co_DropInConfig opts \<noteq> runtimeSpecificDefault
                         then opts\<lparr>co_DropInConfig := []\<rparr> else opts) in
             Inr (ro\<lparr>ro_Options := specific_defaults ''/etc/docker/daemon.json'' [] ''/var/run/docker.sock'' ''signal'' opts\<rparr>)
        else if runtime = ''containerd''
        then Inr (ro\<lparr>ro_Options := specific_defaults ''/etc/containerd/config.toml'' ''/etc/containerd/conf.d/99-nvidia.toml''
                    ''/run/containerd/containerd.sock'' ''signal'' opts\<rparr>)
        else case crio_Validate (ro_crio ro) of
               Some e \<Rightarrow> Inl (Wrap ''invalid cri-o config'' e)
             | None \<Rightarrow>
                 Inr (ro\<lparr>ro_Options := specific_defaults ''/etc/crio/crio.conf'' ''/etc/crio/conf.d/99-nvidia.toml''
                        ''/var/run/crio/crio.sock'' ''systemd'' opts\<rparr>))"

datatype configurer = Noop_configurer | Runtime_configurer string

definition NewConfigurer :: "string \<Rightarrow> bool \<Rightarrow> bool \<Rightarrow> configurer" where
  "NewConfigurer name noConfigureRuntime nriEnabled =
     (if noConfigureRuntime \<or> nriEnabled then Noop_configurer else Runtime_configurer name)"

definition configurer_Setup ::
  "install_env \<Rightarrow> (podmanHook \<Rightarrow> string result) \<Rightarrow> configurer \<Rightarrow> runtime_Options \<Rightarrow> installer_state \<Rightarrow> error option \<times> installer_state" where
  "configurer_Setup ie encode c ro s =
     (case c of
        Noop_configurer \<Rightarrow> (None, s)
      | Runtime_configurer r \<Rightarrow>
          if r = ''containerd'' then containerd_Setup ie (ro_Options ro) (ro_containerd ro) s
          else if r = ''crio'' then crio_Setup ie encode (ro_Options ro) (ro_crio ro) s
          else if r = ''docker'' then docker_Setup ie (ro_Options ro) s
          else (Some (Errorf ''undefined runtime''), s))"

definition configurer_Cleanup ::
  "install_env \<Rightarrow> configurer \<Rightarrow> runtime_Options \<Rightarrow> installer_state \<Rightarrow> error option \<times> installer_state" where
  "configurer_Cleanup ie c ro s =
     (case c of
        Noop_configurer \<Rightarrow> (None, s)
      | Runtime_configurer r \<Rightarrow>
          if r = ''containerd'' then containerd_Cleanup ie (ro_Options ro) (ro_containerd ro) s
          else if r = ''crio'' then crio_Cleanup ie (ro_Options ro) (ro_crio ro) s
          else if r = ''docker'' then docker_Cleanup ie (ro_Options ro) s
          else (Some (Errorf ''undefined runtime''), s))"

definition configurer_GetLowlevelRuntimePaths ::
  "install_env \<Rightarrow> configurer \<Rightarrow> runtime_Options \<Rightarrow> installer_state \<Rightarrow> string list result" where
  "configurer_GetLowlevelRuntimePaths ie c ro s =
     (let ee = ie_engine ie; files = ch_files (is_host s) in
      case c of
        Noop_configurer \<Rightarrow> Inr []
      | Runtime_configurer r \<Rightarrow>
          if r = ''containerd''
          then bindR (wrapR ''unable to load containerd config'' (containerd_getRuntimeConfig (ee_conf ee) files (ro_Options ro) (ro_containerd ro)))
                 engine_lowlevel_paths
          else if r = ''crio''
          then bindR (wrapR ''unable to load crio config'' (crio_getRuntimeConfig (ee_conf ee) files (ro_Options ro) False)) engine_lowlevel_paths
          else if r = ''docker''
          then bindR (wrapR ''unable to load docker config'' (docker_getRuntimeConfig ee files (ro_Options ro))) engine_lowlevel_paths
          else Inl (Errorf ''undefined runtime''))"

subsection \<open>nvidia-ctk runtime configure (\<open>configure.go\<close>)\<close>

record configure_config =
  cc_dryRun :: bool
  cc_runtime :: string
  cc_configFilePath :: string
  cc_dropInConfigPath :: string
  cc_executablePath :: string
  cc_configSource :: string
  cc_mode :: string
  cc_hookFilePath :: string
  cc_name :: string
  cc_path :: string
  cc_hookPath :: string
  cc_setAsDefault :: bool
  cc_cdiEnabled :: bool

definition configure_validateFlags :: "configure_config \<Rightarrow> configure_config result" where
  "configure_validateFlags c =
     (if cc_mode c = ''oci-hook'' \<or> cc_mode c = ''hook''
      then if IsAbs (cc_hookPath c) then Inr c else Inl (Errorf ''the NVIDIA runtime hook path is not an absolute path'')
      else let c = c\<lparr>cc_mode := ''config-file''\<rparr> in
      if cc_runtime c \<notin> {''containerd'', ''crio'', ''docker''} then Inl (Errorf ''unrecognized runtime'')
      else let c = (if cc_runtime c \<noteq> ''docker'' \<and> cc_path c = ''nvidia-container-runtime''
                    then c\<lparr>cc_path := ''/usr/bin/nvidia-container-runtime''\<rparr> else c) in
      if cc_runtime c \<noteq> ''docker'' \<and> \<not> IsAbs (cc_path c) then Inl (Errorf ''the NVIDIA runtime path is not an absolute path'')
      else let c = (if cc_runtime c \<noteq> ''containerd'' \<and> cc_runtime c \<noteq> ''docker'' then c\<lparr>cc_cdiEnabled := False\<rparr> else c);
               c = (if cc_executablePath c \<noteq> [] \<and> cc_runtime c = ''docker'' then c\<lparr>cc_executablePath := []\<rparr> else c) in
      if cc_configSource c \<noteq> ''command'' \<and> cc_configSource c \<noteq> ''file'' then Inl (Errorf ''unrecognized Config Source'')
      else let c = (if cc_runtime c = ''docker'' then c\<lparr>cc_configSource := ''file''\<rparr> else c);
               c = (if cc_configFilePath c = []
                    then c\<lparr>cc_configFilePath := (if cc_runtime c = ''containerd'' then ''/etc/containerd/config.toml''
                                                 else if cc_runtime c = ''crio'' then ''/etc/crio/crio.conf''
                                                 else ''/etc/docker/daemon.json'')\<rparr> else c);
               c = (if cc_dropInConfigPath c = runtimeSpecificDefault
                    then c\<lparr>cc_dropInConfigPath := (if cc_runtime c = ''containerd'' then ''/etc/containerd/conf.d/99-nvidia.toml''
                                                   else if cc_runtime c = ''crio'' then ''/etc/crio/conf.d/99-nvidia.toml''
                                                   else [])\<rparr> else c) in
      if cc_dropInConfigPath c \<noteq> [] \<and> cc_runtime c = ''docker'' then Inl (Errorf ''runtime does not support drop-in configs'')
      else if cc_dropInConfigPath c \<noteq> [] \<and> \<not> IsAbs (cc_dropInConfigPath c)
      then Inl (Errorf ''the drop-in-config path is not an absolute path'')
      else Inr c)"

definition getCommandConfigSource :: "configure_config \<Rightarrow> loader" where
  "getCommandConfigSource c =
     (if cc_runtime c = ''containerd'' then containerd_CommandLineSource [] (cc_executablePath c)
      else if cc_runtime c = ''crio'' then crio_CommandLineSource [] (cc_executablePath c)
      else Loader_empty)"

definition resolveConfigSource :: "configure_config \<Rightarrow> loader result" where
  "resolveConfigSource c =
     (if cc_configSource c = ''command'' then Inr (getCommandConfigSource c)
      else if cc_configSource c = ''file'' then Inr (FromFile (cc_configFilePath c))
      else Inl (Errorf ''unrecognized config source''))"

definition getOutputConfigPath :: "configure_config \<Rightarrow> string" where
  "getOutputConfigPath c =
     (if cc_dryRun c then [] else if cc_dropInConfigPath c \<noteq> [] then cc_dropInConfigPath c else cc_configFilePath c)"

definition configure_engine :: "engine_env \<Rightarrow> (string \<Rightarrow> string option) \<Rightarrow> configure_config \<Rightarrow> loader \<Rightarrow> engine result" where
  "configure_engine ee files c configSource =
     (if cc_runtime c = ''containerd''
      then containerd_New (ee_conf ee) files
             (cd_new_builder\<lparr>cb_topLevelConfigPath := cc_configFilePath c, cb_configSource := Some configSource\<rparr>)
      else if cc_runtime c = ''crio''
      then map_sum id Engine_crio (crio_New (ee_conf ee) files (cc_configFilePath c) (Some configSource) None)
      else if cc_runtime c = ''docker''
      then map_sum id Engine_docker (docker_New (ee_docker ee) (ee_conf ee) files (cc_configFilePath c))
      else Inl (Errorf ''unrecognized runtime''))"

definition configureConfigFile :: "engine_env \<Rightarrow> configure_config \<Rightarrow> conf_host \<Rightarrow> error option \<times> conf_host" where
  "configureConfigFile ee c h =
     (case bindR (resolveConfigSource c) (\<lambda>source.
             wrapR ''unable to load config for runtime'' (configure_engine ee (ch_files h) c source)) of
        Inl e \<Rightarrow> (Some e, h)
      | Inr cfg \<Rightarrow>
          (case engine_AddRuntime ee (cc_name c) (cc_path c) (cc_setAsDefault c) cfg of
             (cfg, Some e) \<Rightarrow> (Some (wrapE ''unable to update config'' e), h)
           | (cfg, None) \<Rightarrow>
               (let cfg = (if cc_cdiEnabled c then engine_EnableCDI cfg else cfg) in
                case engine_Save ee (getOutputConfigPath c) cfg h of
                  (Inl e, _, h) \<Rightarrow> (Some (wrapE ''unable to flush config'' e), h)
                | (Inr _, _, h) \<Rightarrow> (None, h))))"

definition configureOCIHook ::
  "conf_env \<Rightarrow> (podmanHook \<Rightarrow> string result) \<Rightarrow> configure_config \<Rightarrow> conf_host \<Rightarrow> error option \<times> conf_host" where
  "configureOCIHook env encode c h =
     (case CreateHook env encode (cc_hookFilePath c) (cc_hookPath c) h of
        (e, h) \<Rightarrow> (map_option (wrapE ''error creating OCI hook'') e, h))"

definition configureWrapper ::
  "engine_env \<Rightarrow> (podmanHook \<Rightarrow> string result) \<Rightarrow> configure_config \<Rightarrow> conf_host \<Rightarrow> error option \<times> conf_host" where
  "configureWrapper ee encode c h =
     (if cc_mode c = ''oci-hook'' \<or> cc_mode c = ''hook'' then configureOCIHook (ee_conf ee) encode c h
      else if cc_mode c = ''config-file'' \<or> cc_mode c = ''config'' then configureConfigFile ee c h
      else (Some (Errorf ''unsupported config-mode''), h))"

subsection \<open>Installing and uninstalling\<close>

definition runtime_names :: "container_Options \<Rightarrow> string list" where
  "runtime_names opts = map rt_name (GetRuntimes (co_RuntimeName opts) (co_SetAsDefault opts) (co_RuntimeDir opts))"

definition default_name :: "container_Options \<Rightarrow> string" where
  "default_name opts = (if co_RuntimeName opts = [] then ''nvidia'' else co_RuntimeName opts)"

lemma GetRuntimes_eq:
  "GetRuntimes name setAsDefault root =
    (let n = (if name = [] then ''nvidia'' else name); c = \<lparr>oc_root = root, oc_nvidiaRuntimeName = n, oc_setAsDefault = setAsDefault\<rparr> in
     [nvidiaRuntime c, modeRuntime c ''cdi'', modeRuntime c ''legacy''])"
  by (simp add: GetRuntimes_def runtimes_add_def nvidiaRuntime_def modeRuntime_def newRuntime_def Let_def)

lemma GetRuntimes_names:
  "distinct (map rt_name (GetRuntimes name setAsDefault root))" "[] \<notin> rt_name ` set (GetRuntimes name setAsDefault root)"
  by (auto simp: GetRuntimes_eq nvidiaRuntime_def modeRuntime_def newRuntime_def Let_def)

lemma GetRuntimes_default:
  "\<forall>r \<in> set (GetRuntimes name setAsDefault root). rt_SetAsDefault r \<longrightarrow> rt_name r = (if name = [] then ''nvidia'' else name)"
  "(\<exists>r \<in> set (GetRuntimes name setAsDefault root). rt_SetAsDefault r) \<longleftrightarrow> setAsDefault"
  by (auto simp: GetRuntimes_eq nvidiaRuntime_def modeRuntime_def newRuntime_def Let_def)

abbreviation store_args :: "engine_env \<Rightarrow> operator_Runtime \<Rightarrow> engine_env \<times> string \<times> string \<times> bool" where
  "store_args ee r \<equiv> (ee, rt_name r, rt_Path r, rt_SetAsDefault r)"

lemma add_runtimes_add_all:
  "add_runtimes ee rs cfg = (cfg', None) \<longleftrightarrow> engines.add_all (map (store_args ee) rs) cfg = (cfg', None)"
  by (induction rs arbitrary: cfg) (auto split: prod.splits option.splits)

lemma remove_runtimes_remove_all:
  "remove_runtimes rs cfg = (cfg', None) \<longleftrightarrow> engines.remove_all (map rt_name rs) cfg = (cfg', None)"
  by (induction rs arbitrary: cfg) (auto split: prod.splits option.splits)

text \<open>Enabling CDI leaves the runtimes and the default alone.\<close>

lemma SetPath_elsewhere:
  assumes "cd_ok o' t" "table_path t p" "diverge p (cd_default o')"
    and "\<And>m. diverge p (cd_binary_path o' m)" "\<And>m x. \<not> strict_prefix p (cd_runtime o' m @ [''options'', x])"
  shows "cd_ok o' (SetPath t p v)" "str_at (SetPath t p v) (cd_binary_path o' n) = str_at t (cd_binary_path o' n)"
    "str_at (SetPath t p v) (cd_default o') = str_at t (cd_default o')"
  using assms by (auto intro!: cd_ok_SetPath str_at_cong GetPath_SetPath_other)

lemma cdi_paths:
  "diverge (cd_plugin o' @ [''enable_cdi'']) (cd_default o')" "diverge (cd_plugin o' @ [''enable_cdi'']) (cd_binary_path o' m)"
  "\<not> strict_prefix (cd_plugin o' @ [''enable_cdi'']) (cd_runtime o' m @ [''options'', x])"
  "diverge (cd_plugin o' @ [''containerd'', ''enable_cdi'']) (cd_default o')"
  "diverge (cd_plugin o' @ [''containerd'', ''enable_cdi'']) (cd_binary_path o' m)"
  "\<not> strict_prefix (cd_plugin o' @ [''containerd'', ''enable_cdi'']) (cd_runtime o' m @ [''options'', x])"
  by (auto simp: cd_runtime_def cd_default_def)

lemma plugin_tables:
  assumes "cd_ok o' t"
  shows "table_path t (cd_plugin o' @ [''enable_cdi''])" "table_path t (cd_plugin o' @ [''containerd'', ''enable_cdi''])"
  using cd_okD(4) [OF assms]
  by (auto simp: cd_default_def split: option.splits toml_node.splits)

lemma engine_EnableCDI_keeps:
  assumes "engine_ok c"
  shows "written_binary (engine_EnableCDI c) n = written_binary c n \<and> written_default (engine_EnableCDI c) = written_default c"
proof (cases c)
  case (Engine_docker x)
  then show ?thesis
    by (simp add: engine_EnableCDI_def written_binary_def written_default_def docker_EnableCDI_def docker_GetRuntimeConfig_def
        docker_DefaultRuntime_def update_conv' Let_def)
next
  case (Engine_crio x)
  then show ?thesis by (simp add: engine_EnableCDI_def)
next
  case (Engine_v1 o' t)
  with assms have o': "v1_options o' = o'" "cd_ok o' t" by (simp_all add: engine_ok_def)
  have "cd_CRIRuntimePluginName o' = ''cri''" by (subst o'(1) [symmetric]) (simp add: v1_options_def)
  then have e: "SetPath t (cd_plugin o' @ [''containerd'', ''enable_cdi'']) (Leaf (LBool True)) = v1_EnableCDI t"
    by (simp add: v1_EnableCDI_def)
  have p: "v1_GetRuntimeConfig t n = cd_GetRuntimeConfig o' t n" "v1_DefaultRuntime t = str_at t (cd_default o')" for t n
    using o'(1) v1_paths [of o'] by (auto simp: v1_GetRuntimeConfig_def cd_GetRuntimeConfig_def v1_DefaultRuntime_def)
  note k = SetPath_elsewhere [OF o'(2) plugin_tables(2) [OF o'(2)] cdi_paths(4-6), where v = "Leaf (LBool True)", unfolded e]
  with Engine_v1 o'(2) show ?thesis
    by (simp add: engine_EnableCDI_def written_binary_def written_default_def cd_binary p)
next
  case (Engine_dropin x)
  with assms have o': "cd_ok (di_options x) (di_source x)" "cd_ok (di_options x) (di_destination x)" by (simp_all add: engine_ok_def)
  note k = SetPath_elsewhere [OF o'(2) plugin_tables(1) [OF o'(2)] cdi_paths(1-3), where v = "Leaf (LBool True)", folded cd_EnableCDI_def]
  have s: "di_destination (sync_shared d) = di_destination d" "di_options (sync_shared d) = di_options d" for d
    by (auto simp: sync_shared_def split: option.splits toml_node.splits)
  from k Engine_dropin o' show ?thesis
    by (simp add: engine_EnableCDI_def on_destination_def written_binary_def written_default_def s cd_binary cd_DefaultRuntime_def)
qed

lemma engine_EnableCDI_ok: "engine_ok c \<Longrightarrow> engine_ok (engine_EnableCDI c)"
proof (cases c)
  case (Engine_v1 o' t)
  assume "engine_ok c"
  with Engine_v1 have o': "v1_options o' = o'" "cd_ok o' t" by (simp_all add: engine_ok_def)
  have "cd_CRIRuntimePluginName o' = ''cri''" by (subst o'(1) [symmetric]) (simp add: v1_options_def)
  then have "v1_EnableCDI t = SetPath t (cd_plugin o' @ [''containerd'', ''enable_cdi'']) (Leaf (LBool True))"
    by (simp add: v1_EnableCDI_def)
  with SetPath_elsewhere(1) [OF o'(2) plugin_tables(2) [OF o'(2)] cdi_paths(4-6)] Engine_v1 o' show ?thesis
    by (simp only: engine_EnableCDI_def engine_ok_def engine.case)
next
  case (Engine_dropin x)
  assume "engine_ok c"
  with Engine_dropin have o': "cd_ok (di_options x) (di_source x)" "cd_ok (di_options x) (di_destination x)" by (simp_all add: engine_ok_def)
  let ?x = "x\<lparr>di_destination := cd_EnableCDI (di_options x) (di_destination x)\<rparr>"
  have "cd_ok (di_options x) (di_destination ?x)"
    using SetPath_elsewhere(1) [OF o'(2) plugin_tables(1) [OF o'(2)] cdi_paths(1-3), where v = "Leaf (LBool True)", folded cd_EnableCDI_def] by simp
  with sync_shared_ok [of ?x] o'(1) Engine_dropin show ?thesis by (simp add: engine_EnableCDI_def on_destination_def engine_ok_def)
qed (simp_all add: engine_EnableCDI_def engine_ok_def)

lemma engine_fallback_add: "engine_AddRuntime ee n p d c = (c', e) \<Longrightarrow> engine_fallback c' = engine_fallback c"
  by (cases c) (auto simp: engine_AddRuntime_def engine_fallback_def map_prod_def split: prod.splits)

lemma engine_fallback_update:
  "add_runtimes ee rs c = (c', e) \<Longrightarrow> engine_fallback c' = engine_fallback c"
  by (induction rs arbitrary: c) (auto dest: engine_fallback_add split: prod.splits option.splits)

lemma engine_fallback_EnableCDI: "engine_fallback (engine_EnableCDI c) = engine_fallback c"
  by (cases c) (simp_all add: engine_EnableCDI_def engine_fallback_def)

lemma install_facts:
  assumes "engine_ok cfg" and "copies_tables (ee_conf (ie_engine ie))"
    and "\<forall>rs. mset (ie_order ie rs) = mset rs"
    and "UpdateConfig ie opts cfg = (cfg', None)" and "written_default cfg \<notin> set (runtime_names opts)"
  shows "(\<forall>r \<in> set (GetRuntimes (co_RuntimeName opts) (co_SetAsDefault opts) (co_RuntimeDir opts)).
        written_binary cfg' (rt_name r) = Inr (rt_Path r)) \<and>
    (\<forall>m. m \<notin> set (runtime_names opts) \<longrightarrow> written_binary cfg' m = written_binary cfg m) \<and>
    written_default cfg' = (if co_SetAsDefault opts then default_name opts else written_default cfg)"
    and "engine_ok cfg' \<and> engine_fallback cfg' = engine_fallback cfg"
proof -
  let ?rs = "GetRuntimes (co_RuntimeName opts) (co_SetAsDefault opts) (co_RuntimeDir opts)"
  let ?args = "map (store_args (ie_engine ie)) (ie_order ie ?rs)"
  from assms(4) obtain c where add: "add_runtimes (ie_engine ie) (ie_order ie ?rs) cfg = (c, None)"
    and cfg': "cfg' = (if co_EnableCDI opts then engine_EnableCDI c else c)"
    by (auto simp: UpdateConfig_def Let_def split: prod.splits option.splits)
  have ord: "mset (ie_order ie ?rs) = mset ?rs" using assms(3) by blast
  then have set: "set (ie_order ie ?rs) = set ?rs" by (rule mset_eq_setD)
  have dist: "distinct (map (fst \<circ> snd) ?args)"
    using ord GetRuntimes_names(1) [of "co_RuntimeName opts" "co_SetAsDefault opts" "co_RuntimeDir opts"]
    by (simp add: o_def) (metis mset_eq_imp_distinct_iff mset_map)
  have okopt: "list_all ((\<lambda>ee. copies_tables (ee_conf ee)) \<circ> fst) ?args" using assms(2) by (auto simp: list_all_iff)
  note all = add [unfolded add_runtimes_add_all]
  have names: "fst ` snd ` set ?args = set (runtime_names opts)" by (auto simp: runtime_names_def set image_image)
  note bin = engines.add_all_binary [OF assms(1) okopt all dist, unfolded names]
  have dflt: "written_default c = (if co_SetAsDefault opts then default_name opts else written_default cfg)"
    using engines.add_all_default [OF assms(1) okopt all dist, of "default_name opts"] assms(5)
      GetRuntimes_default [of "co_RuntimeName opts" "co_SetAsDefault opts" "co_RuntimeDir opts"]
    unfolding names by (simp add: set default_name_def)
  have "written_binary c (rt_name r) = Inr (rt_Path r)" if "r \<in> set ?rs" for r
    using bin that by (force simp: set)
  with bin dflt engine_EnableCDI_keeps [of c] cfg' show "(\<forall>r \<in> set ?rs. written_binary cfg' (rt_name r) = Inr (rt_Path r)) \<and>
    (\<forall>m. m \<notin> set (runtime_names opts) \<longrightarrow> written_binary cfg' m = written_binary cfg m) \<and>
    written_default cfg' = (if co_SetAsDefault opts then default_name opts else written_default cfg)" by auto
  show "engine_ok cfg' \<and> engine_fallback cfg' = engine_fallback cfg"
    using bin cfg' engine_EnableCDI_ok engine_fallback_EnableCDI engine_fallback_update [OF add] by simp
qed


text \<open>CRI-O with one low-level runtime; trees are read back as the empty tree.\<close>

definition example_conf_env :: conf_env where
  "example_conf_env = \<lparr>ce_Load = (\<lambda>_. Inr NewEmpty), ce_Marshal = (\<lambda>_. Inr ''text''), ce_command = (\<lambda>_ _. Inr []),
     ce_readError = (\<lambda>_. None), ce_mkdirError = (\<lambda>_. None), ce_createError = (\<lambda>_. None), ce_removeError = (\<lambda>_. None)\<rparr>"

definition example_install_env :: install_env where
  "example_install_env = \<lparr>ie_engine = \<lparr>ee_conf = example_conf_env, ee_docker = \<lparr>de_Decode = (\<lambda>_. Inr []), de_Marshal = (\<lambda>_. Inr [])\<rparr>\<rparr>,
     ie_order = (\<lambda>rs. rs), ie_run = (\<lambda>_. None), ie_signal = (\<lambda>_ _. None)\<rparr>"

definition example_install_options :: container_Options where
  "example_install_options = \<lparr>co_DropInConfig = ''/etc/crio/conf.d/99-nvidia.toml'', co_DropInConfigHostPath = [],
     co_TopLevelConfigPath = ''/etc/crio/crio.conf'', co_Socket = [], co_ExecutablePath = [], co_EnableCDI = True,
     co_RuntimeName = ''nvidia'', co_RuntimeDir = ''/usr/local/nvidia/toolkit'', co_SetAsDefault = True,
     co_RestartMode = ''none'', co_HostRootMount = [], co_ConfigSources = []\<rparr>"

definition example_crio :: engine where
  "example_crio = Engine_crio
     \<lparr>cr_source = SetPath NewEmpty (crio_runtime ''runc'' @ [''runtime_path'']) (Leaf (LString ''/usr/bin/runc'')), cr_destination = NewEmpty\<rparr>"

lemma example_install:
  "copies_tables (ee_conf (ie_engine example_install_env))" "\<forall>rs. mset (ie_order example_install_env rs) = mset rs"
  "engine_ok example_crio" "written_default example_crio = []" "engine_fallback example_crio = []"
  "written_binary example_crio n = Inr []" "runtime_names example_install_options = [''nvidia'', ''nvidia-cdi'', ''nvidia-legacy'']"
proof -
  show "copies_tables (ee_conf (ie_engine example_install_env))"
    by (simp add: copies_tables_def example_install_env_def example_conf_env_def toml_Copy_def)
  show "\<forall>rs. mset (ie_order example_install_env rs) = mset rs" by (simp add: example_install_env_def)
  show "engine_ok example_crio" by (simp add: engine_ok_def example_crio_def crio_ok_def)
  show "written_default example_crio = []" "engine_fallback example_crio = []" by code_simp+
  show "written_binary example_crio n = Inr []"
    by (simp add: written_binary_def example_crio_def crio_GetRuntimeConfig_def GetSubtreeByPath_def crio_GetBinaryPath_def)
  show "runtime_names example_install_options = [''nvidia'', ''nvidia-cdi'', ''nvidia-legacy'']" by code_simp
qed

lemma example_UpdateConfig:
  "snd (UpdateConfig example_install_env example_install_options example_crio) = None"
  by code_simp




end
